(* ===== verification/Go_Prelude.thy ===== *)
theory Go_Prelude
  imports Main "HOL-Library.AList" "HOL-Library.Char_ord" "HOL-Library.List_Lexorder"
    "HOL-Library.Product_Lexorder" "HOL-Library.Signed_Division" "HOL-Library.Sublist"
begin

text \<open>
  Shared vocabulary of the development: Go's fixed-width arithmetic on mathematical
  integers, association lists as Go maps (a Go map's iteration order is unspecified; the
  order of the list stands for one possible order), and the generic list facts that the
  component theories share.  The collection \<open>go_simps\<close> gathers the rewrite rules
  that almost every component proof wants.
\<close>

named_theorems go_simps \<open>rewrite rules shared by the component theories\<close>

section \<open>Fixed-width integers\<close>

text \<open>
  Go's \<open>int\<close> and \<open>int64\<close> are 64 bit two's complement.  Counters and
  byte lengths that cannot reach the limits are kept as plain \<open>int\<close> or \<open>nat\<close>; where an
  operation can leave the range, \<open>wrap64\<close> or \<open>saturate64\<close> is applied as
  the source (or the standard library it calls) does.
\<close>

definition min_int64 :: int where
  "min_int64 = - (2 ^ 63)"

definition max_int64 :: int where
  "max_int64 = 2 ^ 63 - 1"

definition max_uint64 :: nat where
  "max_uint64 = 2 ^ 64 - 1"

definition wrap64 :: "int \<Rightarrow> int" where
  "wrap64 x = (x + 2 ^ 63) mod 2 ^ 64 - 2 ^ 63"

definition saturate64 :: "int \<Rightarrow> int" where
  "saturate64 x = max min_int64 (min max_int64 x)"

lemma wrap64_id: "min_int64 \<le> x \<Longrightarrow> x \<le> max_int64 \<Longrightarrow> wrap64 x = x"
  by (simp add: wrap64_def min_int64_def max_int64_def)

lemma saturate64_id: "min_int64 \<le> x \<Longrightarrow> x \<le> max_int64 \<Longrightarrow> saturate64 x = x"
  by (simp add: saturate64_def)

text \<open>
  A \<open>time.Time\<close> is the number of nanoseconds since the Unix epoch; the zero time is
  0001-01-01T00:00:00Z.
\<close>

definition zero_time :: int where
  "zero_time = - 62135596800000000000"

section \<open>Association lists as Go maps\<close>

type_synonym ('k, 'v) gomap = "('k \<times> 'v) list"

definition keys_distinct :: "('k, 'v) gomap \<Rightarrow> bool" where
  "keys_distinct m \<longleftrightarrow> distinct (map fst m)"

lemma keys_distinct_Nil [simp]: "keys_distinct []"
  by (simp add: keys_distinct_def)

lemma keys_distinct_update [simp]: "keys_distinct m \<Longrightarrow> keys_distinct (AList.update k v m)"
  by (simp add: keys_distinct_def distinct_update)

lemma keys_distinct_delete [simp]: "keys_distinct m \<Longrightarrow> keys_distinct (AList.delete k m)"
  by (simp add: keys_distinct_def distinct_delete)

lemma keys_distinct_filter [simp]: "keys_distinct m \<Longrightarrow> keys_distinct (filter P m)"
  by (simp add: keys_distinct_def distinct_map_filter)

lemma keys_distinct_map_values:
  "keys_distinct (map (\<lambda>(k, v). (k, f k v)) m) = keys_distinct m"
  by (simp add: keys_distinct_def comp_def case_prod_unfold)

lemma gomap_filter:
  "keys_distinct m \<Longrightarrow>
   map_of (filter P m) k = (case map_of m k of None \<Rightarrow> None | Some v \<Rightarrow> if P (k, v) then Some v else None)"
  by (induction m) (force simp: keys_distinct_def split: option.splits dest: map_of_SomeD)+

lemma set_update_subset: "set (AList.update k v m) \<subseteq> insert (k, v) (set m)"
  by (induction m) auto

lemma gomap_length_update:
  "length (AList.update k v m) = (case map_of m k of None \<Rightarrow> Suc (length m) | Some _ \<Rightarrow> length m)"
  by (induction m) (auto split: option.splits)

lemma gomap_length_delete_le: "length (AList.delete k m) \<le> length m"
  by (simp add: AList.delete_eq)

lemma gomap_length_delete_less: "k \<in> fst ` set m \<Longrightarrow> length (AList.delete k m) < length m"
  by (auto simp: AList.delete_eq intro: length_filter_less)

lemma set_delete_subset: "set (AList.delete k m) \<subseteq> set m"
  by (auto simp: AList.delete_eq)

lemma map_of_in_set: "map_of m k = Some v \<Longrightarrow> (k, v) \<in> set m"
  by (rule map_of_SomeD)

lemma map_of_key: "map_of m k = Some v \<Longrightarrow> k \<in> fst ` set m"
  by (force dest: map_of_SomeD)

lemma map_of_value: "map_of m k = Some v \<Longrightarrow> v \<in> snd ` set m"
  by (force dest: map_of_SomeD)

lemma map_of_set_eq: "keys_distinct m \<Longrightarrow> (k, v) \<in> set m \<longleftrightarrow> map_of m k = Some v"
  by (simp add: keys_distinct_def map_of_eq_Some_iff)

lemma gomap_set_update:
  "keys_distinct m \<Longrightarrow> set (AList.update k v m) = insert (k, v) {(k', v') \<in> set m. k' \<noteq> k}"
  by (induction m) (force simp: keys_distinct_def)+

lemma map_of_map_values:
  "map_of (map (\<lambda>(k, v). (k, f k v)) m) k = map_option (f k) (map_of m k)"
  by (induction m) auto

lemmas gomap_simps = update_conv' delete_conv'

declare gomap_simps [go_simps]

section \<open>Lists\<close>

text \<open>A strictly increasing list is determined by its elements.\<close>

lemma strict_sorted_upto_eq:
  fixes xs :: "int list"
  assumes "sorted_wrt (<) xs" and "set xs = {a..b}"
  shows "xs = [a..b]"
proof -
  have "sorted_wrt (<) [a..b]"
    by (simp add: strict_sorted_iff)
  then show ?thesis
    using assms by (intro strict_sorted_equal) simp_all
qed

lemma sorted_wrt_filter': "sorted_wrt R xs \<Longrightarrow> sorted_wrt R (filter P xs)"
  by (rule sorted_wrt_filter)

lemma sum_list_nonneg_int: "(\<And>x. x \<in> set xs \<Longrightarrow> 0 \<le> f x) \<Longrightarrow> (0::int) \<le> sum_list (map f xs)"
  by (induction xs) auto

lemma find_SomeD: "find P xs = Some x \<Longrightarrow> P x \<and> x \<in> set xs"
  by (induction xs) (auto split: if_splits)

lemma take_is_prefix: "prefix (take n xs) xs"
  by (rule Sublist.take_is_prefix)

text \<open>A suffix of a list that starts with an element.\<close>

lemma drop_Cons_step:
  assumes "drop i xs = y # ys"
  shows "i < length xs" "xs ! i = y" "drop (i + 1) xs = ys"
proof -
  show i: "i < length xs" using assms by (metis drop_eq_Nil leI list.distinct(1))
  then have "xs ! i # drop (Suc i) xs = y # ys" using assms by (simp add: Cons_nth_drop_Suc)
  then show "xs ! i = y" "drop (i + 1) xs = ys" by simp_all
qed

end
