(* ===== verification/Go_Text.thy ===== *)
theory Go_Text
  imports Go_Prelude
begin

text \<open>
  Go strings as byte strings, and the parts of \<open>strings\<close>, \<open>unicode/utf8\<close> and
  \<open>strconv\<close> that the modelled code uses: \<open>TrimSpace\<close>, \<open>ToLower\<close> (exact on ASCII
  strings, with the Unicode case table of the standard library as a parameter otherwise),
  UTF-8 validity and rune iteration by Go's acceptance table, decimal printing, and the
  truncation helpers of internal/chat that keep a byte-bounded string valid UTF-8.
\<close>

section \<open>TrimSpace and friends\<close>

text \<open>The UTF-8 encodings of the runes for which \<open>unicode.IsSpace\<close> holds.\<close>

definition space_codes :: "string list" where
  "space_codes =
     [[CHR 0x09], [CHR 0x0A], [CHR 0x0B], [CHR 0x0C], [CHR 0x0D], [CHR 0x20],
      [CHR 0xC2, CHR 0x85], [CHR 0xC2, CHR 0xA0], [CHR 0xE1, CHR 0x9A, CHR 0x80]] @
     map (\<lambda>n. [CHR 0xE2, CHR 0x80, char_of n]) [0x80..<(0x8B::nat)] @
     [[CHR 0xE2, CHR 0x80, CHR 0xA8], [CHR 0xE2, CHR 0x80, CHR 0xA9],
      [CHR 0xE2, CHR 0x80, CHR 0xAF], [CHR 0xE2, CHR 0x81, CHR 0x9F],
      [CHR 0xE3, CHR 0x80, CHR 0x80]]"

definition lead_code :: "string list \<Rightarrow> string \<Rightarrow> nat" where
  "lead_code cs s = (case find (\<lambda>c. take (length c) s = c) cs of None \<Rightarrow> 0 | Some c \<Rightarrow> length c)"

function strip :: "string list \<Rightarrow> string \<Rightarrow> string" where
  "strip cs s = (if s = [] \<or> lead_code cs s = 0 then s else strip cs (drop (lead_code cs s) s))"
  by pat_completeness auto
termination
  by (relation "measure (\<lambda>(cs, s). length s)") auto

declare strip.simps [simp del]

definition trim_space :: "string \<Rightarrow> string" where
  "trim_space s = rev (strip (map rev space_codes) (rev (strip space_codes s)))"

lemma strip_suffix: "suffix (strip cs s) s"
proof (induction cs s rule: strip.induct)
  case (1 cs s)
  show ?case
  proof (cases "s = [] \<or> lead_code cs s = 0")
    case True
    then show ?thesis by (simp add: strip.simps [of cs s])
  next
    case False
    with 1 have "suffix (strip cs (drop (lead_code cs s) s)) (drop (lead_code cs s) s)" by blast
    then have "suffix (strip cs (drop (lead_code cs s) s)) s"
      using suffix_drop suffix_order.trans by blast
    with False show ?thesis by (simp add: strip.simps [of cs s])
  qed
qed

lemma strip_Nil [simp]: "strip cs [] = []"
  by (simp add: strip.simps [of cs])

lemma trim_space_Nil [simp]: "trim_space [] = []"
  by (simp add: trim_space_def)

lemma length_trim_space_le: "length (trim_space s) \<le> length s"
proof -
  have "length (strip (map rev space_codes) (rev (strip space_codes s))) \<le> length (strip space_codes s)"
    using suffix_length_le [OF strip_suffix] by (metis length_rev)
  also have "\<dots> \<le> length s"
    by (rule suffix_length_le [OF strip_suffix])
  finally show ?thesis by (simp add: trim_space_def)
qed

lemma strip_done: "strip cs s = [] \<or> lead_code cs (strip cs s) = 0"
proof (induction cs s rule: strip.induct)
  case (1 cs s)
  show ?case
  proof (cases "s = [] \<or> lead_code cs s = 0")
    case True
    then show ?thesis by (auto simp: strip.simps [of cs s])
  next
    case False
    with 1 show ?thesis by (simp add: strip.simps [of cs s])
  qed
qed

lemma strip_fixed: "s = [] \<or> lead_code cs s = 0 \<Longrightarrow> strip cs s = s"
  by (auto simp: strip.simps [of cs s])

lemma lead_code_prefix:
  assumes "lead_code cs s = 0" "[] \<notin> set cs" "prefix t s"
  shows "lead_code cs t = 0"
proof -
  have none: "\<forall>c \<in> set cs. take (length c) s \<noteq> c"
  proof (cases "find (\<lambda>c. take (length c) s = c) cs")
    case None
    then show ?thesis by (simp add: find_None_iff)
  next
    case (Some d)
    have "d = []" using assms(1) Some by (simp add: lead_code_def)
    moreover have "d \<in> set cs" using Some by (auto simp: find_Some_iff)
    ultimately show ?thesis using assms(2) by simp
  qed
  have "take (length c) t \<noteq> c" if "c \<in> set cs" for c
  proof
    assume eq: "take (length c) t = c"
    then have "length c \<le> length t" by (metis length_take min.cobounded1 min_def nle_le)
    with assms(3) eq have "take (length c) s = c"
      by (auto simp: prefix_def)
    with none that show False by blast
  qed
  then show ?thesis
    by (auto simp: lead_code_def find_None_iff find_Some_iff split: option.splits)
qed

lemma Nil_notin_space_codes: "[] \<notin> set space_codes"
  by (auto simp: space_codes_def)

lemma trim_space_idem [simp]: "trim_space (trim_space s) = trim_space s"
proof -
  let ?l = "strip space_codes s" and ?R = "map rev space_codes"
  let ?r = "strip ?R (rev ?l)"
  have t: "trim_space s = rev ?r" by (simp add: trim_space_def)
  have pre: "prefix (rev ?r) ?l"
    using strip_suffix [of ?R "rev ?l"] by (simp add: suffix_to_prefix)
  have "strip space_codes (rev ?r) = rev ?r"
  proof (rule strip_fixed)
    have "?l = [] \<or> lead_code space_codes ?l = 0" by (rule strip_done)
    then show "rev ?r = [] \<or> lead_code space_codes (rev ?r) = 0"
      using pre lead_code_prefix [OF _ Nil_notin_space_codes] by auto
  qed
  moreover have "strip ?R ?r = ?r"
    by (rule strip_fixed) (rule strip_done)
  ultimately show ?thesis by (simp add: t trim_space_def)
qed

text \<open>A fast rule for text that begins and ends with printable ASCII.\<close>

definition printable :: "char \<Rightarrow> bool" where
  "printable c \<longleftrightarrow> 0x21 \<le> (of_char c :: nat) \<and> (of_char c :: nat) \<le> 0x7E"

lemma lead_code_printable:
  assumes "s \<noteq> []" "printable (hd s)" "list_all (\<lambda>c. c \<noteq> [] \<and> \<not> printable (hd c)) cs"
  shows "lead_code cs s = 0"
proof -
  have "find (\<lambda>c. take (length c) s = c) cs = None"
    using assms by (auto simp: find_None_iff list_all_iff) (metis hd_take length_greater_0_conv)
  then show ?thesis by (simp add: lead_code_def)
qed

lemma space_codes_unprintable:
  "list_all (\<lambda>c. c \<noteq> [] \<and> \<not> printable (hd c)) space_codes"
  "list_all (\<lambda>c. c \<noteq> [] \<and> \<not> printable (hd c)) (map rev space_codes)"
  by code_simp+

lemma trim_space_printable:
  assumes "s \<noteq> []" "printable (hd s)" "printable (last s)"
  shows "trim_space s = s"
proof -
  have "strip space_codes s = s"
    using lead_code_printable [OF assms(1,2) space_codes_unprintable(1)] by (intro strip_fixed) simp
  moreover have "strip (map rev space_codes) (rev s) = rev s"
    using lead_code_printable [of "rev s", OF _ _ space_codes_unprintable(2)] assms
    by (intro strip_fixed) (simp add: hd_rev)
  ultimately show ?thesis by (simp add: trim_space_def)
qed

lemma trim_space_ident_empty [go_simps]: "trim_space s = [] \<Longrightarrow> trim_space (trim_space s) = []"
  by simp

section \<open>Case folding, identifiers, decimal printing\<close>

definition is_ascii :: "string \<Rightarrow> bool" where
  "is_ascii s = list_all (\<lambda>c. of_char c < (0x80::nat)) s"

definition ascii_lower :: "char \<Rightarrow> char" where
  "ascii_lower c = (let n = of_char c :: nat in if 0x41 \<le> n \<and> n \<le> 0x5A then char_of (n + 0x20) else c)"

text \<open>\<open>strings.ToLower\<close>: the ASCII fast path; \<open>u\<close> is the library's Unicode path.\<close>

definition to_lower :: "(string \<Rightarrow> string) \<Rightarrow> string \<Rightarrow> string" where
  "to_lower u s = (if is_ascii s then map ascii_lower s else u s)"

definition is_hex :: "char \<Rightarrow> bool" where
  "is_hex c = (let n = of_char c :: nat in
     (0x30 \<le> n \<and> n \<le> 0x39) \<or> (0x61 \<le> n \<and> n \<le> 0x66) \<or> (0x41 \<le> n \<and> n \<le> 0x46))"

definition is_uuid :: "string \<Rightarrow> bool" where
  "is_uuid s \<longleftrightarrow> length s = 36 \<and>
     list_all (\<lambda>(i, c). if i \<in> {8, 13, 18, 23} then c = CHR ''-'' else is_hex c)
       (zip [0..<(36::nat)] s)"

lemma is_uuid_nonempty: "is_uuid s \<Longrightarrow> s \<noteq> []"
  by (auto simp: is_uuid_def)

fun nat_digits :: "nat \<Rightarrow> string" where
  "nat_digits n = (if n < 10 then [char_of (48 + n)] else nat_digits (n div 10) @ [char_of (48 + n mod 10)])"

declare nat_digits.simps [simp del]

definition itoa :: "int \<Rightarrow> string" where
  "itoa i = (if i < 0 then CHR ''-'' # nat_digits (nat (- i)) else nat_digits (nat i))"

lemma nat_digits_nonempty: "nat_digits n \<noteq> []"
  by (subst nat_digits.simps) simp

lemma is_ascii_append [simp]: "is_ascii (s @ t) \<longleftrightarrow> is_ascii s \<and> is_ascii t"
  by (simp add: is_ascii_def)

section \<open>UTF-8\<close>

text \<open>
  \<open>rune_width s\<close> is the width of the first rune of \<open>s\<close> when the bytes are a valid
  encoding (Go's \<open>first\<close>/\<open>acceptRanges\<close> tables), and \<open>None\<close> when decoding
  yields \<open>RuneError\<close>, which consumes one byte.
\<close>

definition byte_in :: "nat \<Rightarrow> nat \<Rightarrow> char \<Rightarrow> bool" where
  "byte_in lo hi c = (lo \<le> of_char c \<and> of_char c \<le> hi)"

definition rune_shape :: "nat \<Rightarrow> (nat \<times> nat \<times> nat) option" where
  "rune_shape b =
     (if b < 0x80 then Some (1, 0, 0)
      else if b < 0xC2 then None
      else if b < 0xE0 then Some (2, 0x80, 0xBF)
      else if b = 0xE0 then Some (3, 0xA0, 0xBF)
      else if b = 0xED then Some (3, 0x80, 0x9F)
      else if b < 0xF0 then Some (3, 0x80, 0xBF)
      else if b = 0xF0 then Some (4, 0x90, 0xBF)
      else if b < 0xF4 then Some (4, 0x80, 0xBF)
      else if b = 0xF4 then Some (4, 0x80, 0x8F)
      else None)"

definition rune_width :: "string \<Rightarrow> nat option" where
  "rune_width s =
     (case s of [] \<Rightarrow> None
      | a # _ \<Rightarrow>
        (case rune_shape (of_char a) of None \<Rightarrow> None
         | Some (w, lo, hi) \<Rightarrow>
             if w \<le> length s \<and> (1 < w \<longrightarrow> byte_in lo hi (s ! 1)) \<and>
                list_all (\<lambda>i. byte_in 0x80 0xBF (s ! i)) [2..<w]
             then Some w else None))"

lemma rune_shape_width: "rune_shape b = Some (w, lo, hi) \<Longrightarrow> 1 \<le> w \<and> w \<le> 4"
  by (auto simp: rune_shape_def split: if_splits)

definition next_width :: "string \<Rightarrow> nat" where
  "next_width s = (case rune_width s of None \<Rightarrow> 1 | Some w \<Rightarrow> w)"

lemma rune_width_bounds: "rune_width s = Some w \<Longrightarrow> 1 \<le> w \<and> w \<le> 4 \<and> w \<le> length s"
  by (auto simp: rune_width_def split: list.splits option.splits if_splits dest: rune_shape_width)

lemma rune_width_Nil [simp]: "rune_width [] = None"
  by (simp add: rune_width_def)

lemma next_width_pos [simp]: "0 < next_width s"
  using rune_width_bounds [of s] by (auto simp: next_width_def split: option.splits)

lemma rune_width_take:
  "rune_width s = Some w \<Longrightarrow> w \<le> n \<Longrightarrow> rune_width (take n s) = Some w"
  by (cases s; cases n)
    (auto simp: rune_width_def list_all_iff split: option.splits if_splits dest: rune_shape_width)

lemma rune_width_append: "rune_width s = Some w \<Longrightarrow> rune_width (s @ t) = Some w"
  by (cases s)
    (auto simp: rune_width_def list_all_iff nth_append nth_Cons' split: option.splits if_splits)

text \<open>Iterating over a string (\<open>for _, r := range s\<close>): its runes as byte chunks.\<close>

function go_runes :: "string \<Rightarrow> string list" where
  "go_runes s = (if s = [] then [] else take (next_width s) s # go_runes (drop (next_width s) s))"
  by pat_completeness auto
termination
  by (relation "measure length") auto

declare go_runes.simps [simp del]

function valid_utf8 :: "string \<Rightarrow> bool" where
  "valid_utf8 s = (s = [] \<or> (case rune_width s of None \<Rightarrow> False | Some w \<Rightarrow> valid_utf8 (drop w s)))"
  by pat_completeness auto
termination
  by (relation "measure length") (auto dest: rune_width_bounds)

declare valid_utf8.simps [simp del]

lemma valid_utf8_Nil [simp]: "valid_utf8 []"
  by (simp add: valid_utf8.simps [of "[]"])

lemma valid_utf8_step:
  "s \<noteq> [] \<Longrightarrow> valid_utf8 s \<longleftrightarrow> (\<exists>w. rune_width s = Some w \<and> valid_utf8 (drop w s))"
  by (subst valid_utf8.simps) (auto split: option.splits)

lemma rune_width_ascii: "of_char c < (0x80::nat) \<Longrightarrow> rune_width (c # s) = Some 1"
  by (simp add: rune_width_def rune_shape_def)

lemma valid_utf8_Cons_ascii: "of_char c < (0x80::nat) \<Longrightarrow> valid_utf8 (c # s) = valid_utf8 s"
  by (simp add: valid_utf8_step rune_width_ascii)

lemma valid_utf8_ascii: "is_ascii s \<Longrightarrow> valid_utf8 s"
  by (induction s) (simp_all add: is_ascii_def valid_utf8_Cons_ascii)

lemma valid_utf8_append: "valid_utf8 s \<Longrightarrow> valid_utf8 (s @ t) = valid_utf8 t"
proof (induction s rule: valid_utf8.induct)
  case (1 s)
  show ?case
  proof (cases "s = []")
    case False
    with "1.prems" obtain w where w: "rune_width s = Some w" and v: "valid_utf8 (drop w s)"
      by (auto simp: valid_utf8_step)
    from w have "w \<le> length s" by (simp add: rune_width_bounds)
    then have "valid_utf8 (s @ t) = valid_utf8 (drop w s @ t)"
      using False rune_width_append [OF w, of t] by (simp add: valid_utf8_step [of "s @ t"])
    with "1.IH" [OF w v] False show ?thesis by simp
  qed simp
qed

text \<open>Every cut of a valid string is at most three bytes behind a rune boundary.\<close>

lemma utf8_boundary_below:
  "valid_utf8 s \<Longrightarrow> n \<le> length s \<Longrightarrow> \<exists>m \<le> n. n \<le> m + 3 \<and> valid_utf8 (take m s)"
proof (induction s arbitrary: n rule: valid_utf8.induct)
  case (1 s)
  show ?case
  proof (cases "s = []")
    case False
    with "1.prems" obtain w where w: "rune_width s = Some w" and v: "valid_utf8 (drop w s)"
      by (auto simp: valid_utf8_step)
    note wb = rune_width_bounds [OF w]
    show ?thesis
    proof (cases "n < w")
      case True
      then show ?thesis using wb by (intro exI [of _ 0]) auto
    next
      case wn: False
      with "1.prems"(2) have "n - w \<le> length (drop w s)" by simp
      from "1.IH" [OF w v this] obtain m where
        m: "m \<le> n - w" "n - w \<le> m + 3" "valid_utf8 (take m (drop w s))" by blast
      have eq: "take (w + m) s = take w s @ take m (drop w s)" by (simp add: take_add)
      have "valid_utf8 (take w s)"
        using rune_width_take [OF w, of w] wb False
        by (simp add: valid_utf8_step [of "take w s"])
      with m(3) have "valid_utf8 (take (w + m) s)" by (simp add: eq valid_utf8_append)
      with m(1,2) wn show ?thesis by (intro exI [of _ "w + m"]) auto
    qed
  next
    case True
    with "1.prems" show ?thesis by auto
  qed
qed

lemma utf8_boundary_above:
  "valid_utf8 s \<Longrightarrow> n \<le> length s \<Longrightarrow> \<exists>m \<ge> n. m \<le> n + 3 \<and> m \<le> length s \<and> valid_utf8 (drop m s)"
proof (induction s arbitrary: n rule: valid_utf8.induct)
  case (1 s)
  show ?case
  proof (cases "s = [] \<or> n = 0")
    case True
    then show ?thesis using "1.prems" by (intro exI [of _ n]) auto
  next
    case False
    with "1.prems" obtain w where w: "rune_width s = Some w" and v: "valid_utf8 (drop w s)"
      by (auto simp: valid_utf8_step)
    note wb = rune_width_bounds [OF w]
    show ?thesis
    proof (cases "n < w")
      case True
      then show ?thesis using wb v False by (intro exI [of _ w]) auto
    next
      case wn: False
      with "1.prems"(2) have "n - w \<le> length (drop w s)" by simp
      from "1.IH" [OF w v this] obtain m where
        m: "n - w \<le> m" "m \<le> n - w + 3" "m \<le> length (drop w s)" "valid_utf8 (drop m (drop w s))"
        by blast
      with wn wb show ?thesis
        by (intro exI [of _ "m + w"]) (auto simp: add.commute)
    qed
  qed
qed

section \<open>Prefixes, suffixes and substrings\<close>

definition has_prefix :: "string \<Rightarrow> string \<Rightarrow> bool" where
  "has_prefix s p = (take (length p) s = p)"

definition has_suffix :: "string \<Rightarrow> string \<Rightarrow> bool" where
  "has_suffix s p = has_prefix (rev s) (rev p)"

fun contains :: "string \<Rightarrow> string \<Rightarrow> bool" where
  "contains [] p = (p = [])"
| "contains (c # s) p = (has_prefix (c # s) p \<or> contains s p)"

definition trim_prefix :: "string \<Rightarrow> string \<Rightarrow> string" where
  "trim_prefix s p = (if has_prefix s p then drop (length p) s else s)"

definition trim_suffix :: "string \<Rightarrow> string \<Rightarrow> string" where
  "trim_suffix s p = (if has_suffix s p then take (length s - length p) s else s)"

lemma has_prefix_append [simp]: "has_prefix (p @ s) p"
  by (simp add: has_prefix_def)

end
