(* ===== verification/Run_Stream.thy ===== *)
theory Run_Stream
  imports Go_Text
begin

text \<open>
  internal/chat/active_run_stream.go: the in-memory replay buffer of one streaming run.  A
  publisher appends server-sent-event frames; a browser that reconnects subscribes with the
  last sequence number it has seen and gets a replay, a gap marker when frames it misses were
  dropped, and a channel of further frames.  A Go channel is its queue of buffered values;
  a channel that has been closed keeps its queue for the receiver, and is kept in
  \<open>st_detached\<close> after the stream has forgotten it.
\<close>

section \<open>Data\<close>

definition activeRunStreamMaxFrames :: int where
  "activeRunStreamMaxFrames = 1024"

definition activeRunStreamMaxBytes :: int where
  "activeRunStreamMaxBytes = 4194304"

definition activeRunStreamSubscriberQueue :: int where
  "activeRunStreamSubscriberQueue = 64"

definition activeRunStreamMaxSubscribers :: int where
  "activeRunStreamMaxSubscribers = 16"

lemmas stream_limits = activeRunStreamMaxFrames_def activeRunStreamMaxBytes_def
  activeRunStreamSubscriberQueue_def activeRunStreamMaxSubscribers_def

record run_frame =
  fr_sequence :: int
  fr_bytes :: string

record run_gap =
  gap_after :: int
  gap_oldest :: int
  gap_latest :: int

record run_subscription =
  sub_replay :: "run_frame list"
  sub_gap :: "run_gap option"
  sub_updates :: "nat option"
  sub_closed :: bool

record run_stream =
  st_runID :: string
  st_conversationID :: string
  st_messageID :: string
  st_frames :: "run_frame list"
  st_retainedBytes :: int
  st_latest :: int
  st_droppedThrough :: int
  st_subscribers :: "(nat, run_frame list) gomap"
  st_nextSubscriber :: nat
  st_closed :: bool
  st_detached :: "(nat, run_frame list) gomap"

definition newActiveRunStream :: "string \<Rightarrow> string \<Rightarrow> string \<Rightarrow> run_stream" where
  "newActiveRunStream runID conversationID messageID =
     \<lparr>st_runID = runID, st_conversationID = conversationID, st_messageID = messageID,
      st_frames = [], st_retainedBytes = 0, st_latest = 0, st_droppedThrough = 0,
      st_subscribers = [], st_nextSubscriber = 0, st_closed = False, st_detached = []\<rparr>"

section \<open>Operations\<close>

text \<open>
  \<open>unmarshal\<close> is \<open>json.Unmarshal\<close> into the two-field envelope: the run id and the
  sequence, or nothing when the payload does not parse.
\<close>

definition streamEventIdentity ::
  "(string \<Rightarrow> (string \<times> int) option) \<Rightarrow> string \<Rightarrow> int \<times> string \<times> bool" where
  "streamEventIdentity unmarshal payload =
     (case unmarshal payload of
        None \<Rightarrow> (0, [], False)
      | Some (runID, sequence) \<Rightarrow>
          if runID = [] \<or> sequence < 1 then (0, [], False) else (sequence, runID, True))"

definition formatSSEFrame :: "string \<Rightarrow> string \<Rightarrow> int \<Rightarrow> string" where
  "formatSSEFrame event payload sequence =
     (let newline = [CHR 0x0A];
          prefix = (if sequence > 0 then ''id: '' @ itoa sequence @ newline else [])
      in prefix @ ''event: '' @ event @ newline @ ''data: '' @ payload @ newline @ newline)"

text \<open>Drop the oldest frames while the buffer is over one of its two limits.\<close>

fun trim_frames :: "run_frame list \<Rightarrow> int \<Rightarrow> int \<Rightarrow> run_frame list \<times> int \<times> int" where
  "trim_frames [] retained dropped = ([], retained, dropped)"
| "trim_frames (f # fs) retained dropped =
     (if int (length (f # fs)) > activeRunStreamMaxFrames \<or> retained > activeRunStreamMaxBytes
      then trim_frames fs (retained - int (length (fr_bytes f))) (max dropped (fr_sequence f))
      else (f # fs, retained, dropped))"

text \<open>A subscriber whose queue is full is closed and forgotten.\<close>

definition deliver :: "run_frame \<Rightarrow> run_stream \<Rightarrow> run_stream" where
  "deliver frame s =
     (let room = (\<lambda>(sid, queue). int (length queue) < activeRunStreamSubscriberQueue)
      in s\<lparr>st_subscribers := map (\<lambda>(sid, queue). (sid, queue @ [frame])) (filter room (st_subscribers s)),
           st_detached := filter (\<lambda>x. \<not> room x) (st_subscribers s) @ st_detached s\<rparr>)"

definition publish_locked :: "run_frame \<Rightarrow> run_stream \<Rightarrow> run_stream" where
  "publish_locked frame s =
     (if st_closed s \<or> fr_sequence frame \<le> st_latest s then s
      else
        let s1 = (if fr_sequence frame > st_latest s + 1
                  then s\<lparr>st_droppedThrough := max (st_droppedThrough s) (fr_sequence frame - 1)\<rparr> else s);
            s2 = s1\<lparr>st_latest := fr_sequence frame\<rparr>;
            s3 = (if int (length (fr_bytes frame)) \<le> activeRunStreamMaxBytes
                  then (let (fs, retained, dropped) =
                              trim_frames (st_frames s2 @ [frame])
                                (st_retainedBytes s2 + int (length (fr_bytes frame))) (st_droppedThrough s2)
                        in s2\<lparr>st_frames := fs, st_retainedBytes := retained, st_droppedThrough := dropped\<rparr>)
                  else s2\<lparr>st_droppedThrough := max (st_droppedThrough s2) (fr_sequence frame)\<rparr>)
        in deliver frame s3)"

definition publish ::
  "(string \<Rightarrow> (string \<times> int) option) \<Rightarrow> string \<Rightarrow> string \<Rightarrow> run_stream \<Rightarrow> string \<times> run_stream" where
  "publish unmarshal event payload s =
     (let (sequence, runID, ok) = streamEventIdentity unmarshal payload;
          frameBytes = formatSSEFrame event payload sequence
      in if \<not> ok \<or> runID \<noteq> st_runID s then (frameBytes, s)
         else (frameBytes, publish_locked \<lparr>fr_sequence = sequence, fr_bytes = frameBytes\<rparr> s))"

definition subscribe :: "int \<Rightarrow> run_stream \<Rightarrow> run_subscription \<times> run_stream" where
  "subscribe after s =
     (let replay = filter (\<lambda>f. fr_sequence f > after) (st_frames s);
          gap = (if after < st_droppedThrough s
                 then Some \<lparr>gap_after = after,
                        gap_oldest = (case find (\<lambda>f. fr_sequence f > after) (st_frames s) of
                                        None \<Rightarrow> st_latest s + 1 | Some f \<Rightarrow> fr_sequence f),
                        gap_latest = st_latest s\<rparr>
                 else None);
          refused = (\<lparr>sub_replay = replay, sub_gap = gap, sub_updates = None, sub_closed = True\<rparr>, s)
      in if st_closed s then refused
         else if int (length (st_subscribers s)) \<ge> activeRunStreamMaxSubscribers then refused
         else
           let sid = st_nextSubscriber s + 1
           in (\<lparr>sub_replay = replay, sub_gap = gap, sub_updates = Some sid, sub_closed = False\<rparr>,
               s\<lparr>st_nextSubscriber := sid, st_subscribers := AList.update sid [] (st_subscribers s)\<rparr>))"

definition unsubscribe :: "nat \<Rightarrow> run_stream \<Rightarrow> run_stream" where
  "unsubscribe sid s =
     (case map_of (st_subscribers s) sid of
        None \<Rightarrow> s
      | Some queue \<Rightarrow> s\<lparr>st_subscribers := AList.delete sid (st_subscribers s),
                       st_detached := (sid, queue) # st_detached s\<rparr>)"

definition close_stream :: "run_stream \<Rightarrow> run_stream" where
  "close_stream s =
     (if st_closed s then s
      else s\<lparr>st_closed := True, st_subscribers := [], st_detached := st_subscribers s @ st_detached s\<rparr>)"

text \<open>The receive operation of the Go runtime on a subscription's channel.\<close>

definition receive :: "nat \<Rightarrow> run_stream \<Rightarrow> run_frame list \<times> run_stream" where
  "receive sid s =
     (case map_of (st_subscribers s) sid of
        Some (f # queue) \<Rightarrow> ([f], s\<lparr>st_subscribers := AList.update sid queue (st_subscribers s)\<rparr>)
      | Some [] \<Rightarrow> ([], s)
      | None \<Rightarrow>
         (case map_of (st_detached s) sid of
            Some (f # queue) \<Rightarrow> ([f], s\<lparr>st_detached := AList.update sid queue (st_detached s)\<rparr>)
          | _ \<Rightarrow> ([], s)))"

section \<open>The stream invariant\<close>

definition frames_ok :: "run_stream \<Rightarrow> bool" where
  "frames_ok s \<longleftrightarrow>
     sorted_wrt (<) (map fr_sequence (st_frames s)) \<and>
     (\<forall>f \<in> set (st_frames s). fr_sequence f \<le> st_latest s) \<and>
     st_droppedThrough s \<le> st_latest s \<and>
     {st_droppedThrough s + 1 .. st_latest s} \<subseteq> fr_sequence ` set (st_frames s)"

definition sizes_ok :: "run_stream \<Rightarrow> bool" where
  "sizes_ok s \<longleftrightarrow>
     st_retainedBytes s = sum_list (map (\<lambda>f. int (length (fr_bytes f))) (st_frames s)) \<and>
     st_retainedBytes s \<le> activeRunStreamMaxBytes \<and>
     int (length (st_frames s)) \<le> activeRunStreamMaxFrames"

definition queues_ok :: "nat \<Rightarrow> (nat \<times> run_frame list) set \<Rightarrow> bool" where
  "queues_ok n xs \<longleftrightarrow>
     (\<forall>x \<in> xs. fst x \<le> n \<and> int (length (snd x)) \<le> activeRunStreamSubscriberQueue)"

definition channels_ok :: "run_stream \<Rightarrow> bool" where
  "channels_ok s \<longleftrightarrow>
     keys_distinct (st_subscribers s @ st_detached s) \<and>
     queues_ok (st_nextSubscriber s) (set (st_subscribers s)) \<and>
     queues_ok (st_nextSubscriber s) (set (st_detached s)) \<and>
     int (length (st_subscribers s)) \<le> activeRunStreamMaxSubscribers \<and>
     (st_closed s \<longrightarrow> st_subscribers s = [])"

definition stream_ok :: "run_stream \<Rightarrow> bool" where
  "stream_ok s \<longleftrightarrow> frames_ok s \<and> sizes_ok s \<and> channels_ok s"

lemma queues_ok_empty [simp]: "queues_ok n {}"
  by (simp add: queues_ok_def)

lemma queues_ok_insert [simp]:
  "queues_ok n (insert x xs) \<longleftrightarrow>
     fst x \<le> n \<and> int (length (snd x)) \<le> activeRunStreamSubscriberQueue \<and> queues_ok n xs"
  by (auto simp: queues_ok_def)

lemma queues_ok_Un [simp]: "queues_ok n (xs \<union> ys) \<longleftrightarrow> queues_ok n xs \<and> queues_ok n ys"
  by (auto simp: queues_ok_def)

lemma queues_ok_mono: "queues_ok n ys \<Longrightarrow> xs \<subseteq> ys \<Longrightarrow> n \<le> m \<Longrightarrow> queues_ok m xs"
  by (fastforce simp: queues_ok_def)

lemma queues_ok_Suc: "queues_ok n xs \<Longrightarrow> queues_ok (Suc n) xs"
  by (rule queues_ok_mono) auto

lemma queues_okD:
  "queues_ok n xs \<Longrightarrow> (sid, queue) \<in> xs \<Longrightarrow>
     sid \<le> n \<and> int (length queue) \<le> activeRunStreamSubscriberQueue"
  by (force simp: queues_ok_def)

lemma stream_ok_new: "stream_ok (newActiveRunStream r c m)"
  by (simp add: stream_ok_def frames_ok_def sizes_ok_def channels_ok_def newActiveRunStream_def stream_limits)

lemma trim_frames_drop:
  "\<exists>n. fst (trim_frames fs r d) = drop n fs \<and>
     fst (snd (trim_frames fs r d)) = r - sum_list (map (\<lambda>f. int (length (fr_bytes f))) (take n fs)) \<and>
     snd (snd (trim_frames fs r d)) = fold max (map fr_sequence (take n fs)) d"
proof (induction fs r d rule: trim_frames.induct)
  case (2 f fs r d)
  show ?case
  proof (cases "int (length (f # fs)) > activeRunStreamMaxFrames \<or> r > activeRunStreamMaxBytes")
    case True
    then obtain n where "fst (trim_frames fs (r - int (length (fr_bytes f))) (max d (fr_sequence f))) = drop n fs"
      "fst (snd (trim_frames fs (r - int (length (fr_bytes f))) (max d (fr_sequence f)))) =
        r - int (length (fr_bytes f)) - sum_list (map (\<lambda>f. int (length (fr_bytes f))) (take n fs))"
      "snd (snd (trim_frames fs (r - int (length (fr_bytes f))) (max d (fr_sequence f)))) =
        fold max (map fr_sequence (take n fs)) (max d (fr_sequence f))"
      using "2.IH" by blast
    then show ?thesis using True by (intro exI [of _ "Suc n"]) (auto simp: max.commute)
  next
    case False
    then show ?thesis by (intro exI [of _ 0]) simp
  qed
qed simp

lemma trim_frames_limits:
  assumes "r = sum_list (map (\<lambda>f. int (length (fr_bytes f))) fs)"
  shows "int (length (fst (trim_frames fs r d))) \<le> activeRunStreamMaxFrames"
    "fst (snd (trim_frames fs r d)) \<le> activeRunStreamMaxBytes"
    "fst (snd (trim_frames fs r d)) =
       sum_list (map (\<lambda>f. int (length (fr_bytes f))) (fst (trim_frames fs r d)))"
  using assms by (induction fs r d rule: trim_frames.induct) (auto simp: stream_limits)

lemma fold_max_le: "(\<And>x. x \<in> set xs \<Longrightarrow> x \<le> b) \<Longrightarrow> d \<le> b \<Longrightarrow> fold max xs d \<le> (b::int)"
  by (induction xs arbitrary: d) auto

lemma fold_max_ge: "x \<in> insert d (set xs) \<Longrightarrow> x \<le> (fold max xs d :: int)"
proof (induction xs arbitrary: d x)
  case (Cons y ys)
  have "max y d \<le> fold max ys (max y d)" by (rule Cons.IH) simp
  then have "y \<le> fold max ys (max y d)" "d \<le> fold max ys (max y d)" by simp_all
  moreover have "x \<le> fold max ys (max y d)" if "x \<in> set ys" using that by (intro Cons.IH) simp
  ultimately show ?case using Cons.prems by auto
qed simp

lemma frames_ok_trim:
  assumes "frames_ok s"
  shows "frames_ok (case trim_frames (st_frames s) r (st_droppedThrough s) of
    (fs, r', d) \<Rightarrow> s\<lparr>st_frames := fs, st_retainedBytes := r', st_droppedThrough := d\<rparr>)"
proof -
  obtain n where n: "fst (trim_frames (st_frames s) r (st_droppedThrough s)) = drop n (st_frames s)"
    "snd (snd (trim_frames (st_frames s) r (st_droppedThrough s))) =
       fold max (map fr_sequence (take n (st_frames s))) (st_droppedThrough s)" (is "_ = ?d")
    using trim_frames_drop [of "st_frames s" r "st_droppedThrough s"] by blast
  have d: "?d \<le> st_latest s"
    by (rule fold_max_le) (use assms in \<open>auto simp: frames_ok_def dest: in_set_takeD\<close>)
  have "x \<in> fr_sequence ` set (drop n (st_frames s))" if "?d < x" "x \<le> st_latest s" for x
  proof -
    have "st_droppedThrough s \<le> ?d" by (rule fold_max_ge) simp
    then have "x \<in> fr_sequence ` set (st_frames s)" using assms that by (auto simp: frames_ok_def)
    moreover have "x \<notin> fr_sequence ` set (take n (st_frames s))"
    proof
      assume "x \<in> fr_sequence ` set (take n (st_frames s))"
      then have "x \<le> ?d" by (intro fold_max_ge) simp
      with that show False by simp
    qed
    ultimately show ?thesis
      by (metis append_take_drop_id image_Un set_append Un_iff)
  qed
  moreover have "sorted_wrt (<) (map fr_sequence (drop n (st_frames s)))"
    using assms by (simp add: frames_ok_def sorted_wrt_drop flip: drop_map)
  ultimately show ?thesis
    using assms n d
    by (auto simp: frames_ok_def case_prod_unfold dest: in_set_dropD)
qed


lemma frames_ok_channels [simp]:
  "frames_ok (s\<lparr>st_subscribers := subs\<rparr>) = frames_ok s"
  "frames_ok (s\<lparr>st_detached := det\<rparr>) = frames_ok s"
  "frames_ok (s\<lparr>st_nextSubscriber := n\<rparr>) = frames_ok s"
  "frames_ok (s\<lparr>st_closed := c\<rparr>) = frames_ok s"
  by (simp_all add: frames_ok_def)

lemma sizes_ok_channels [simp]:
  "sizes_ok (s\<lparr>st_subscribers := subs\<rparr>) = sizes_ok s"
  "sizes_ok (s\<lparr>st_detached := det\<rparr>) = sizes_ok s"
  "sizes_ok (s\<lparr>st_nextSubscriber := n\<rparr>) = sizes_ok s"
  "sizes_ok (s\<lparr>st_closed := c\<rparr>) = sizes_ok s"
  by (simp_all add: sizes_ok_def)

text \<open>The buffer part of \<open>publish_locked\<close>, before delivery to the subscribers.\<close>

definition retain :: "run_frame \<Rightarrow> run_stream \<Rightarrow> run_stream" where
  "retain frame s =
     (let s1 = (if fr_sequence frame > st_latest s + 1
                then s\<lparr>st_droppedThrough := max (st_droppedThrough s) (fr_sequence frame - 1)\<rparr> else s);
          s2 = s1\<lparr>st_latest := fr_sequence frame\<rparr>
      in if int (length (fr_bytes frame)) \<le> activeRunStreamMaxBytes
         then (let (fs, retained, dropped) =
                     trim_frames (st_frames s2 @ [frame])
                       (st_retainedBytes s2 + int (length (fr_bytes frame))) (st_droppedThrough s2)
               in s2\<lparr>st_frames := fs, st_retainedBytes := retained, st_droppedThrough := dropped\<rparr>)
         else s2\<lparr>st_droppedThrough := max (st_droppedThrough s2) (fr_sequence frame)\<rparr>)"

lemma publish_locked_retain:
  "publish_locked frame s =
     (if st_closed s \<or> fr_sequence frame \<le> st_latest s then s else deliver frame (retain frame s))"
  by (simp add: publish_locked_def retain_def Let_def)

lemma retain_channels [simp]:
  "st_subscribers (retain frame s) = st_subscribers s" "st_detached (retain frame s) = st_detached s"
  "st_nextSubscriber (retain frame s) = st_nextSubscriber s" "st_closed (retain frame s) = st_closed s"
  "st_latest (retain frame s) = fr_sequence frame" "st_runID (retain frame s) = st_runID s"
  by (simp_all add: retain_def Let_def split: prod.split)

lemma frames_ok_retain:
  assumes "frames_ok s" "st_latest s < fr_sequence frame"
  shows "frames_ok (retain frame s)"
proof -
  let ?d = "if fr_sequence frame > st_latest s + 1
            then max (st_droppedThrough s) (fr_sequence frame - 1) else st_droppedThrough s"
  let ?s = "s\<lparr>st_latest := fr_sequence frame, st_frames := st_frames s @ [frame], st_droppedThrough := ?d\<rparr>"
  have "frames_ok ?s"
    using assms by (fastforce simp: frames_ok_def sorted_wrt_append max_def subset_iff)
  from frames_ok_trim [OF this, of "st_retainedBytes s + int (length (fr_bytes frame))"]
  have small: "frames_ok (retain frame s)" if "int (length (fr_bytes frame)) \<le> activeRunStreamMaxBytes"
    using that by (simp add: retain_def Let_def frames_ok_def split: prod.splits if_splits)
  have "frames_ok (retain frame s)" if "\<not> int (length (fr_bytes frame)) \<le> activeRunStreamMaxBytes"
    using that assms by (fastforce simp: retain_def Let_def frames_ok_def max_def)
  with small show ?thesis by blast
qed

lemma sizes_ok_retain:
  assumes "sizes_ok s"
  shows "sizes_ok (retain frame s)"
  using assms
    trim_frames_limits [of "st_retainedBytes s + int (length (fr_bytes frame))" "st_frames s @ [frame]"]
  by (auto simp: sizes_ok_def retain_def Let_def case_prod_unfold)

lemma fst_deliver_map:
  "map fst (map (\<lambda>(sid, queue). (sid, queue @ [frame])) xs) = map fst xs"
  by (simp add: comp_def case_prod_unfold)

lemma distinct_split_filter:
  "distinct (map f (xs @ ys)) \<Longrightarrow> distinct (map f (filter P xs @ filter (\<lambda>x. \<not> P x) xs @ ys))"
  by (induction xs) auto

lemma channels_ok_deliver:
  assumes "channels_ok s"
  shows "channels_ok (deliver frame s)"
proof -
  let ?room = "\<lambda>(sid::nat, queue::run_frame list). int (length queue) < activeRunStreamSubscriberQueue"
  have "length (filter ?room (st_subscribers s)) \<le> length (st_subscribers s)" by simp
  then have "int (length (filter ?room (st_subscribers s))) \<le> activeRunStreamMaxSubscribers"
    using assms unfolding channels_ok_def by linarith
  note few = this
  have "distinct (map fst (filter ?room (st_subscribers s) @
      filter (\<lambda>x. \<not> ?room x) (st_subscribers s) @ st_detached s))"
    by (rule distinct_split_filter) (use assms in \<open>simp add: channels_ok_def keys_distinct_def\<close>)
  then have "keys_distinct (map (\<lambda>(sid, queue). (sid, queue @ [frame])) (filter ?room (st_subscribers s)) @
      filter (\<lambda>x. \<not> ?room x) (st_subscribers s) @ st_detached s)"
    by (simp only: keys_distinct_def map_append fst_deliver_map)
  moreover have "queues_ok (st_nextSubscriber s)
      ((\<lambda>(sid, queue). (sid, queue @ [frame])) ` set (filter ?room (st_subscribers s)))"
    using assms by (auto simp: channels_ok_def queues_ok_def)
  moreover have "queues_ok (st_nextSubscriber s) (set (filter (\<lambda>x. \<not> ?room x) (st_subscribers s)))"
    using assms by (auto simp: channels_ok_def intro: queues_ok_mono)
  ultimately show ?thesis
    using assms few
    by (simp add: channels_ok_def deliver_def Let_def del: set_filter)
qed

lemma channels_ok_retain [simp]: "channels_ok (retain frame s) = channels_ok s"
  by (simp add: channels_ok_def)

lemma deliver_buffer [simp]:
  "frames_ok (deliver frame s) = frames_ok s" "sizes_ok (deliver frame s) = sizes_ok s"
  "st_latest (deliver frame s) = st_latest s" "st_closed (deliver frame s) = st_closed s"
  "st_nextSubscriber (deliver frame s) = st_nextSubscriber s"
  by (simp_all add: deliver_def Let_def)

lemma stream_ok_publish_locked: "stream_ok s \<Longrightarrow> stream_ok (publish_locked frame s)"
  by (simp add: stream_ok_def publish_locked_retain frames_ok_retain sizes_ok_retain channels_ok_deliver)

lemma stream_ok_publish: "stream_ok s \<Longrightarrow> stream_ok (snd (publish u event payload s))"
  by (simp add: publish_def stream_ok_publish_locked Let_def split: prod.split)

lemma fresh_update: "k \<notin> fst ` set m \<Longrightarrow> AList.update k v m = m @ [(k, v)]"
  by (induction m) auto

lemma fresh_subscriber:
  assumes "channels_ok s"
  shows "Suc (st_nextSubscriber s) \<notin> fst ` set (st_subscribers s)"
    "Suc (st_nextSubscriber s) \<notin> fst ` set (st_detached s)"
  using assms by (auto simp: channels_ok_def dest!: queues_okD)

lemma stream_ok_subscribe:
  assumes "stream_ok s"
  shows "stream_ok (snd (subscribe after s))"
proof -
  let ?s = "s\<lparr>st_nextSubscriber := Suc (st_nextSubscriber s),
    st_subscribers := st_subscribers s @ [(Suc (st_nextSubscriber s), [])]\<rparr>"
  have ok: "channels_ok s" using assms by (simp add: stream_ok_def)
  have "channels_ok ?s"
    if "\<not> st_closed s" "int (length (st_subscribers s)) < activeRunStreamMaxSubscribers"
  proof -
    have "keys_distinct (st_subscribers ?s @ st_detached ?s)"
      using ok fresh_subscriber [OF ok] by (simp add: channels_ok_def keys_distinct_def)
    moreover have "queues_ok (Suc (st_nextSubscriber s)) (set (st_subscribers s))"
      "queues_ok (Suc (st_nextSubscriber s)) (set (st_detached s))"
      using ok by (simp_all add: channels_ok_def queues_ok_Suc)
    ultimately show ?thesis using that by (simp add: channels_ok_def stream_limits)
  qed
  then show ?thesis
    using assms fresh_subscriber [OF ok]
    by (auto simp: subscribe_def Let_def stream_ok_def fresh_update)
qed

lemma distinct_move:
  "keys_distinct (xs @ ys) \<Longrightarrow> map_of xs k = Some v \<Longrightarrow> keys_distinct (AList.delete k xs @ (k, v) # ys)"
  by (force simp: keys_distinct_def AList.delete_eq distinct_map_filter dest: map_of_SomeD)

lemma stream_ok_unsubscribe:
  assumes "stream_ok s"
  shows "stream_ok (unsubscribe sid s)"
proof (cases "map_of (st_subscribers s) sid")
  case (Some queue)
  have ok: "channels_ok s" using assms by (simp add: stream_ok_def)
  have "length (AList.delete sid (st_subscribers s)) \<le> length (st_subscribers s)"
    by (rule gomap_length_delete_le)
  moreover have "queues_ok (st_nextSubscriber s) (set (AList.delete sid (st_subscribers s)))"
    using ok by (auto simp: channels_ok_def intro: queues_ok_mono [OF _ set_delete_subset])
  moreover have "keys_distinct (AList.delete sid (st_subscribers s) @ (sid, queue) # st_detached s)"
    using ok Some by (intro distinct_move) (simp_all add: channels_ok_def)
  moreover have "sid \<le> st_nextSubscriber s \<and> int (length queue) \<le> activeRunStreamSubscriberQueue"
    using ok map_of_SomeD [OF Some] by (intro queues_okD) (auto simp: channels_ok_def)
  ultimately show ?thesis
    using assms Some by (auto simp: unsubscribe_def stream_ok_def channels_ok_def)
qed (simp add: unsubscribe_def assms)

lemma stream_ok_close: "stream_ok s \<Longrightarrow> stream_ok (close_stream s)"
  by (auto simp: close_stream_def stream_ok_def channels_ok_def stream_limits)

lemma keys_distinct_append_update:
  "keys_distinct (xs @ ys) \<Longrightarrow> k \<in> fst ` set xs \<Longrightarrow> keys_distinct (AList.update k v xs @ ys)"
  "keys_distinct (xs @ ys) \<Longrightarrow> k \<in> fst ` set ys \<Longrightarrow> keys_distinct (xs @ AList.update k v ys)"
  by (auto simp: keys_distinct_def distinct_update dom_update update_keys)

lemma stream_ok_receive:
  assumes "stream_ok s"
  shows "stream_ok (snd (receive sid s))"
proof -
  have ok: "channels_ok s" using assms by (simp add: stream_ok_def)
  have upd: "keys_distinct (AList.update sid queue (st_subscribers s) @ st_detached s) \<and>
      queues_ok (st_nextSubscriber s) (set (AList.update sid queue (st_subscribers s))) \<and>
      length (AList.update sid queue (st_subscribers s)) = length (st_subscribers s)"
    if "map_of (st_subscribers s) sid = Some (f # queue)" for f queue
    using ok that keys_distinct_append_update(1) [of "st_subscribers s" "st_detached s" sid queue]
      queues_okD [of "st_nextSubscriber s" "set (st_subscribers s)" sid "f # queue"]
      queues_ok_mono [OF _ set_update_subset [of sid queue "st_subscribers s"] order_refl]
    by (force simp: channels_ok_def gomap_length_update dest: map_of_SomeD)
  have det: "keys_distinct (st_subscribers s @ AList.update sid queue (st_detached s)) \<and>
      queues_ok (st_nextSubscriber s) (set (AList.update sid queue (st_detached s)))"
    if "map_of (st_detached s) sid = Some (f # queue)" for f queue
    using ok that keys_distinct_append_update(2) [of "st_subscribers s" "st_detached s" sid queue]
      queues_okD [of "st_nextSubscriber s" "set (st_detached s)" sid "f # queue"]
      queues_ok_mono [OF _ set_update_subset [of sid queue "st_detached s"] order_refl]
    by (force simp: channels_ok_def dest: map_of_SomeD)
  show ?thesis
    using assms ok upd det
    by (auto simp: receive_def stream_ok_def channels_ok_def split: option.splits list.splits)
qed

section \<open>Histories\<close>

datatype stream_op =
    Publish string string
  | Subscribe int
  | Unsubscribe nat
  | Receive nat
  | Close

definition stream_step :: "(string \<Rightarrow> (string \<times> int) option) \<Rightarrow> stream_op \<Rightarrow> run_stream \<Rightarrow> run_stream" where
  "stream_step u op s =
     (case op of
        Publish event payload \<Rightarrow> snd (publish u event payload s)
      | Subscribe after \<Rightarrow> snd (subscribe after s)
      | Unsubscribe sid \<Rightarrow> unsubscribe sid s
      | Receive sid \<Rightarrow> snd (receive sid s)
      | Close \<Rightarrow> close_stream s)"

fun stream_run :: "(string \<Rightarrow> (string \<times> int) option) \<Rightarrow> stream_op list \<Rightarrow> run_stream \<Rightarrow> run_stream" where
  "stream_run u [] s = s"
| "stream_run u (op # ops) s = stream_run u ops (stream_step u op s)"

text \<open>The frame that an operation adds to the stream, and what one subscription reads.\<close>

definition accepted_by :: "(string \<Rightarrow> (string \<times> int) option) \<Rightarrow> stream_op \<Rightarrow> run_stream \<Rightarrow> run_frame list" where
  "accepted_by u op s =
     (case op of
        Publish event payload \<Rightarrow>
          (let (sequence, runID, ok) = streamEventIdentity u payload
           in if ok \<and> runID = st_runID s \<and> \<not> st_closed s \<and> st_latest s < sequence
              then [\<lparr>fr_sequence = sequence, fr_bytes = formatSSEFrame event payload sequence\<rparr>] else [])
      | _ \<Rightarrow> [])"

definition received_by :: "nat \<Rightarrow> stream_op \<Rightarrow> run_stream \<Rightarrow> run_frame list" where
  "received_by sid op s = (case op of Receive i \<Rightarrow> if i = sid then fst (receive i s) else [] | _ \<Rightarrow> [])"

fun accepted :: "(string \<Rightarrow> (string \<times> int) option) \<Rightarrow> stream_op list \<Rightarrow> run_stream \<Rightarrow> run_frame list" where
  "accepted u [] s = []"
| "accepted u (op # ops) s = accepted_by u op s @ accepted u ops (stream_step u op s)"

fun received ::
  "(string \<Rightarrow> (string \<times> int) option) \<Rightarrow> nat \<Rightarrow> stream_op list \<Rightarrow> run_stream \<Rightarrow> run_frame list" where
  "received u sid [] s = []"
| "received u sid (op # ops) s = received_by sid op s @ received u sid ops (stream_step u op s)"

definition pending :: "nat \<Rightarrow> run_stream \<Rightarrow> run_frame list" where
  "pending sid s = (case map_of (st_subscribers s @ st_detached s) sid of None \<Rightarrow> [] | Some queue \<Rightarrow> queue)"

definition subscribed :: "nat \<Rightarrow> run_stream \<Rightarrow> bool" where
  "subscribed sid s \<longleftrightarrow> sid \<in> fst ` set (st_subscribers s)"

lemma stream_ok_step: "stream_ok s \<Longrightarrow> stream_ok (stream_step u op s)"
  by (cases op) (simp_all add: stream_step_def stream_ok_publish stream_ok_subscribe
      stream_ok_unsubscribe stream_ok_receive stream_ok_close)

lemma stream_ok_run: "stream_ok s \<Longrightarrow> stream_ok (stream_run u ops s)"
  by (induction ops arbitrary: s) (simp_all add: stream_ok_step)

section \<open>A subscription loses nothing silently\<close>

lemma distinct_append_map_of:
  assumes "keys_distinct (xs @ ys)" "map_of xs k = Some v"
  shows "map_of ys k = None"
proof -
  have "k \<in> fst ` set xs" using map_of_SomeD [OF assms(2)] by force
  with assms(1) have "k \<notin> fst ` set ys" by (auto simp: keys_distinct_def)
  then show ?thesis by (simp add: map_of_eq_None_iff)
qed

lemma subscribed_map_of: "subscribed sid s \<longleftrightarrow> map_of (st_subscribers s) sid \<noteq> None"
  by (simp add: subscribed_def map_of_eq_None_iff)

lemma keys_distinct_appendD: "keys_distinct (xs @ ys) \<Longrightarrow> keys_distinct xs \<and> keys_distinct ys"
  by (simp add: keys_distinct_def)

lemma map_of_split_deliver:
  assumes "keys_distinct (xs @ ys)"
  shows "map_of (map (\<lambda>(k, q). (k, q @ [f])) (filter P xs) @ filter (\<lambda>x. \<not> P x) xs @ ys) k =
    (case map_of xs k of Some q \<Rightarrow> Some (if P (k, q) then q @ [f] else q) | None \<Rightarrow> map_of ys k)"
  using keys_distinct_appendD [OF assms] distinct_append_map_of [OF assms]
  by (auto simp: map_of_map_values [where f = "\<lambda>_ q. q @ [f]"] gomap_filter map_add_def split: option.splits)

lemma pending_deliver:
  assumes "channels_ok s"
  shows "pending sid (deliver frame s) =
      (if subscribed sid (deliver frame s) then pending sid s @ [frame] else pending sid s)"
    "subscribed sid (deliver frame s) \<Longrightarrow> subscribed sid s"
proof -
  let ?room = "\<lambda>(sid::nat, queue::run_frame list). int (length queue) < activeRunStreamSubscriberQueue"
  have d: "keys_distinct (st_subscribers s @ st_detached s)"
    using assms by (simp add: channels_ok_def)
  have sub: "subscribed sid (deliver frame s) \<longleftrightarrow>
      (\<exists>q. map_of (st_subscribers s) sid = Some q \<and> ?room (sid, q))"
    using keys_distinct_appendD [OF d]
    by (auto simp: subscribed_map_of deliver_def Let_def map_of_map_values [where f = "\<lambda>_ q. q @ [frame]"]
        gomap_filter split: option.splits)
  have pen: "pending sid (deliver frame s) =
      (case map_of (st_subscribers s) sid of Some q \<Rightarrow> if ?room (sid, q) then q @ [frame] else q
       | None \<Rightarrow> (case map_of (st_detached s) sid of Some q \<Rightarrow> q | None \<Rightarrow> []))"
    using map_of_split_deliver [OF d, of frame ?room sid]
    by (simp add: pending_def deliver_def Let_def split: option.splits)
  show "pending sid (deliver frame s) =
      (if subscribed sid (deliver frame s) then pending sid s @ [frame] else pending sid s)"
    unfolding pen sub using distinct_append_map_of [OF d]
    by (auto simp: pending_def map_add_def split: option.splits)
  show "subscribed sid (deliver frame s) \<Longrightarrow> subscribed sid s"
    unfolding sub by (auto simp: subscribed_map_of)
qed

lemma pending_retain [simp]: "pending sid (retain frame s) = pending sid s"
  "subscribed sid (retain frame s) = subscribed sid s"
  by (simp_all add: pending_def subscribed_def)

lemma publish_step:
  "stream_step u (Publish event payload) s =
     (case accepted_by u (Publish event payload) s of [] \<Rightarrow> s | f # _ \<Rightarrow> deliver f (retain f s))"
  by (auto simp: stream_step_def publish_def accepted_by_def Let_def publish_locked_retain split: prod.split)

lemma accepted_by_other [simp]:
  "accepted_by u (Subscribe n) s = []" "accepted_by u (Unsubscribe i) s = []"
  "accepted_by u (Receive i) s = []" "accepted_by u Close s = []"
  by (simp_all add: accepted_by_def)

lemma accepted_by_Publish_cases:
  "accepted_by u (Publish e p) s = [] \<or> (\<exists>f. accepted_by u (Publish e p) s = [f])"
  by (auto simp: accepted_by_def split: prod.split)

text \<open>
  The channel law of one step: what has been read plus what is still queued grows by exactly
  the accepted frames while the subscription is open, and is frozen once it is closed.
\<close>

definition channel_law :: "nat \<Rightarrow> run_frame list \<Rightarrow> run_frame list \<Rightarrow> run_stream \<Rightarrow> run_stream \<Rightarrow> bool" where
  "channel_law sid got acc s s' \<longleftrightarrow>
     (subscribed sid s' \<longrightarrow> subscribed sid s \<and> got @ pending sid s' = pending sid s @ acc) \<and>
     (\<not> subscribed sid s' \<longrightarrow> got @ pending sid s' = pending sid s)"

lemma law_publish:
  assumes "stream_ok s"
  shows "channel_law sid [] (accepted_by u (Publish e p) s) s (stream_step u (Publish e p) s)"
proof (cases "accepted_by u (Publish e p) s")
  case Nil
  then show ?thesis by (simp add: channel_law_def publish_step)
next
  case (Cons f fs)
  then have f: "accepted_by u (Publish e p) s = [f]"
    using accepted_by_Publish_cases [of u e p s] by auto
  have "channels_ok (retain f s)" using assms by (simp add: stream_ok_def)
  from pending_deliver [OF this, of sid f] show ?thesis
    by (simp add: channel_law_def publish_step f)
qed

lemma law_subscribe:
  assumes "stream_ok s" "sid \<le> st_nextSubscriber s"
  shows "channel_law sid [] [] s (stream_step u (Subscribe after) s)"
  using assms fresh_subscriber [of s]
  by (auto simp: channel_law_def stream_step_def subscribe_def Let_def pending_def subscribed_def
      stream_ok_def fresh_update map_add_def split: option.splits)

lemma law_unsubscribe:
  assumes "stream_ok s"
  shows "channel_law sid [] [] s (unsubscribe i s)"
proof -
  have d: "keys_distinct (st_subscribers s @ st_detached s)"
    using assms by (simp add: stream_ok_def channels_ok_def)
  show ?thesis
    using distinct_append_map_of [OF d]
    by (auto simp: channel_law_def unsubscribe_def pending_def subscribed_map_of delete_conv' map_add_def
        split: option.splits)
qed

lemma law_close: "stream_ok s \<Longrightarrow> channel_law sid [] [] s (close_stream s)"
  by (auto simp: channel_law_def close_stream_def pending_def subscribed_def)

lemma law_receive:
  shows "channel_law sid (received_by sid (Receive i) s) [] s (snd (receive i s))"
proof -
  show ?thesis
  proof (cases "map_of (st_subscribers s) i")
    case None
    then show ?thesis
      by (cases "map_of (st_detached s) i"; cases "map_of (st_subscribers s) sid")
        (auto simp: channel_law_def receive_def received_by_def pending_def subscribed_map_of
          update_conv' map_add_def split: list.splits)
  next
    case (Some queue)
    then show ?thesis
      by (cases queue; cases "map_of (st_subscribers s) sid")
        (auto simp: channel_law_def receive_def received_by_def pending_def subscribed_map_of
          update_conv' map_add_def)
  qed
qed

lemma channel_law_step:
  "stream_ok s \<Longrightarrow> sid \<le> st_nextSubscriber s \<Longrightarrow>
   channel_law sid (received_by sid op s) (accepted_by u op s) s (stream_step u op s)"
  using law_publish [of s sid u] law_subscribe [of s sid u] law_unsubscribe [of s sid] law_close [of s sid]
    law_receive [of sid _ s]
  by (cases op) (simp_all add: received_by_def stream_step_def)

lemma next_mono_step: "st_nextSubscriber s \<le> st_nextSubscriber (stream_step u op s)"
  by (cases op)
    (auto simp: publish_step unsubscribe_def close_stream_def receive_def subscribe_def Let_def
      stream_step_def [of u "Subscribe _"] stream_step_def [of u "Unsubscribe _"]
      stream_step_def [of u Close] stream_step_def [of u "Receive _"]
      split: list.splits option.splits)

lemma closed_channel_frozen:
  "stream_ok s \<Longrightarrow> sid \<le> st_nextSubscriber s \<Longrightarrow> \<not> subscribed sid s \<Longrightarrow>
   received u sid ops s @ pending sid (stream_run u ops s) = pending sid s
   \<and> \<not> subscribed sid (stream_run u ops s)"
proof (induction ops arbitrary: s)
  case (Cons op ops)
  have "channel_law sid (received_by sid op s) (accepted_by u op s) s (stream_step u op s)"
    by (rule channel_law_step) (use Cons.prems in auto)
  then show ?case
    using Cons.IH [OF stream_ok_step [OF Cons.prems(1)]] Cons.prems next_mono_step [of s u op]
    by (auto simp: channel_law_def)
qed simp

lemma channel_history:
  "stream_ok s \<Longrightarrow> sid \<le> st_nextSubscriber s \<Longrightarrow>
   prefix (received u sid ops s @ pending sid (stream_run u ops s)) (pending sid s @ accepted u ops s) \<and>
   (subscribed sid (stream_run u ops s) \<longrightarrow>
      received u sid ops s @ pending sid (stream_run u ops s) = pending sid s @ accepted u ops s)"
proof (induction ops arbitrary: s)
  case (Cons op ops)
  let ?s = "stream_step u op s"
  have law: "channel_law sid (received_by sid op s) (accepted_by u op s) s ?s"
    by (rule channel_law_step) (use Cons.prems in auto)
  have ok: "stream_ok ?s" "sid \<le> st_nextSubscriber ?s"
    using Cons.prems next_mono_step [of s u op] stream_ok_step by auto
  show ?case
  proof (cases "subscribed sid ?s")
    case True
    then have "received_by sid op s @ pending sid ?s = pending sid s @ accepted_by u op s"
      using law by (simp add: channel_law_def)
    then show ?thesis
      using Cons.IH [OF ok]
      by (simp only: accepted.simps received.simps stream_run.simps append.assoc)
        (metis append.assoc same_prefix_prefix)
  next
    case False
    then show ?thesis
      using law closed_channel_frozen [OF ok False, of u ops] by (auto simp: channel_law_def)
  qed
qed simp

lemma replay_without_gap:
  assumes "frames_ok s" "st_droppedThrough s \<le> after"
  shows "map fr_sequence (filter (\<lambda>f. fr_sequence f > after) (st_frames s)) = [after + 1 .. st_latest s]"
proof (rule strict_sorted_upto_eq)
  have m: "map fr_sequence (filter (\<lambda>f. fr_sequence f > after) (st_frames s)) =
      filter (\<lambda>n. n > after) (map fr_sequence (st_frames s))"
    by (simp add: filter_map comp_def)
  show "sorted_wrt (<) (map fr_sequence (filter (\<lambda>f. fr_sequence f > after) (st_frames s)))"
    using assms(1) unfolding m by (intro sorted_wrt_filter') (simp add: frames_ok_def)
  have "set (map fr_sequence (st_frames s)) \<supseteq> {after + 1 .. st_latest s}"
    using assms by (force simp: frames_ok_def)
  moreover have "set (map fr_sequence (st_frames s)) \<subseteq> {.. st_latest s}"
    using assms(1) by (auto simp: frames_ok_def)
  ultimately show "set (map fr_sequence (filter (\<lambda>f. fr_sequence f > after) (st_frames s))) =
      {after + 1 .. st_latest s}"
    unfolding m by auto
qed

section \<open>Properties\<close>

text \<open>
  C3: no history of publishing, subscribing, reading and closing makes the buffer exceed
  1024 frames or 4 MiB, the subscribers exceed 16 or a subscriber's queue exceed 64 frames,
  and the byte counter is always the sum of the retained frames.
\<close>

theorem run_stream_bounded:
  "let s = stream_run u ops (newActiveRunStream r c m) in
     length (st_frames s) \<le> 1024 \<and>
     st_retainedBytes s = sum_list (map (\<lambda>f. int (length (fr_bytes f))) (st_frames s)) \<and>
     st_retainedBytes s \<le> 4194304 \<and>
     length (st_subscribers s) \<le> 16 \<and> keys_distinct (st_subscribers s) \<and>
     queues_ok (st_nextSubscriber s) (set (st_subscribers s))"
proof -
  have "stream_ok (stream_run u ops (newActiveRunStream r c m))"
    by (rule stream_ok_run [OF stream_ok_new])
  then show ?thesis
    by (auto simp: Let_def stream_ok_def sizes_ok_def channels_ok_def stream_limits
        dest: keys_distinct_appendD)
qed

text \<open>
  C4: a reconnect that is told of no gap replays exactly the sequence numbers after the one
  the browser has seen, in order, up to the latest published one.
\<close>

theorem run_stream_replay_complete:
  assumes "s = stream_run u ops (newActiveRunStream r c m)"
    and "sub_gap (fst (subscribe after s)) = None"
  shows "map fr_sequence (sub_replay (fst (subscribe after s))) = [after + 1 .. st_latest s]"
proof -
  have "frames_ok s"
    using stream_ok_run [OF stream_ok_new] assms(1) by (simp add: stream_ok_def)
  moreover have "st_droppedThrough s \<le> after"
    using assms(2) by (auto simp: subscribe_def Let_def split: if_splits)
  ultimately show ?thesis
    using replay_without_gap by (simp add: subscribe_def Let_def)
qed

definition example_envelope :: "string \<Rightarrow> (string \<times> int) option" where
  "example_envelope payload = Some (''r'', int (length payload))"

definition example_ops :: "stream_op list" where
  "example_ops = [Publish ''e'' ''x'', Publish ''e'' ''xx'', Publish ''e'' ''xxx'']"

theorem run_stream_replay_complete_witness:
  "map fr_sequence (sub_replay (fst (subscribe 1
     (stream_run example_envelope example_ops (newActiveRunStream ''r'' ''c'' ''m''))))) =
   [2 .. st_latest (stream_run example_envelope example_ops (newActiveRunStream ''r'' ''c'' ''m''))]"
proof -
  have "sub_gap (fst (subscribe 1
     (stream_run example_envelope example_ops (newActiveRunStream ''r'' ''c'' ''m'')))) = None"
    by code_simp
  from run_stream_replay_complete [OF refl this] show ?thesis by simp
qed

text \<open>
  C5: what a subscription delivers (frames read, then frames still queued) is always a prefix
  of the frames accepted after it was made, in order and without loss; while the channel is
  open it is all of them.  A slow reader is cut off by a closed channel, never by a hole.
\<close>

theorem run_stream_delivery:
  assumes "s = stream_run u before (newActiveRunStream r c m)"
    and "subscribe after s = (sub, s1)" and "sub_updates sub = Some sid"
  shows "prefix (received u sid ops s1 @ pending sid (stream_run u ops s1)) (accepted u ops s1) \<and>
    (subscribed sid (stream_run u ops s1) \<longrightarrow>
       received u sid ops s1 @ pending sid (stream_run u ops s1) = accepted u ops s1)"
proof -
  have ok: "stream_ok s" using stream_ok_run [OF stream_ok_new] assms(1) by simp
  have ok1: "stream_ok s1" using stream_ok_subscribe [OF ok, of after] assms(2) by simp
  have "map_of (st_subscribers s) (Suc (st_nextSubscriber s)) = None"
    using fresh_subscriber [of s] ok by (simp add: map_of_eq_None_iff stream_ok_def)
  then have "sid = st_nextSubscriber s1 \<and> pending sid s1 = []"
    using assms(2,3) fresh_subscriber [of s] ok
    by (auto simp: subscribe_def Let_def pending_def stream_ok_def fresh_update map_add_def
        split: if_splits option.splits)
  then have "sid \<le> st_nextSubscriber s1" and empty: "pending sid s1 = []" by auto
  from channel_history [OF ok1 this(1), of u ops] show ?thesis unfolding empty by simp
qed

theorem run_stream_delivery_witness:
  "let s1 = snd (subscribe 0 (stream_run example_envelope [] (newActiveRunStream ''r'' ''c'' ''m''))) in
   received example_envelope 1 (example_ops @ [Receive 1]) s1 @
     pending 1 (stream_run example_envelope (example_ops @ [Receive 1]) s1) =
   accepted example_envelope (example_ops @ [Receive 1]) s1"
proof -
  let ?s = "stream_run example_envelope [] (newActiveRunStream ''r'' ''c'' ''m'')"
  have "sub_updates (fst (subscribe 0 ?s)) = Some 1" by code_simp
  moreover have "subscribed 1 (stream_run example_envelope (example_ops @ [Receive 1]) (snd (subscribe 0 ?s)))"
    by code_simp
  ultimately show ?thesis
    using run_stream_delivery [OF refl, of 0 example_envelope "[]" "''r''" "''c''" "''m''"
        "fst (subscribe 0 ?s)" "snd (subscribe 0 ?s)" 1 "example_ops @ [Receive 1]"]
    by (simp add: Let_def)
qed

end
