(* ===== verification/Run_Registry.thy ===== *)
theory Run_Registry
  imports Run_Stream
begin

text \<open>
  internal/chat/active_runs.go: which run is active in which conversation.  Entries and
  streams are shared by pointer in the code, so an entry carries its address \<open>en_ref\<close>
  and streams live in a small heap addressed by numbers; a cancel function is a number, and
  calling it is recorded in \<open>rg_cancelled\<close>.  A \<open>time.AfterFunc\<close> that has been scheduled is
  an element of \<open>rg_timers\<close>; \<open>expire\<close> is its body.
\<close>

section \<open>State\<close>

definition activeRunStreamRetention :: int where
  "activeRunStreamRetention = 30 * 1000000000"

definition maxFinishedRunStreams :: int where
  "maxFinishedRunStreams = 64"

record run_entry =
  en_ref :: nat
  en_cancel :: "nat option"
  en_userID :: string
  en_conversationID :: string
  en_messageID :: string
  en_stream :: "nat option"
  en_finishedAt :: int

record conversation_run =
  cr_runID :: string
  cr_conversationID :: string
  cr_messageID :: string
  cr_status :: string

record run_registry =
  rg_entries :: "(string, run_entry) gomap"
  rg_streams :: "(nat, run_stream) gomap"
  rg_nextRef :: nat
  rg_timers :: "(string \<times> nat) list"
  rg_cancelled :: "nat list"

definition newActiveRunRegistry :: "(nat, run_stream) gomap \<Rightarrow> run_registry" where
  "newActiveRunRegistry streams =
     \<lparr>rg_entries = [], rg_streams = streams, rg_nextRef = 0, rg_timers = [], rg_cancelled = []\<rparr>"

definition unfinished :: "run_entry \<Rightarrow> bool" where
  "unfinished entry \<longleftrightarrow> en_finishedAt entry = zero_time"

section \<open>Operations\<close>

definition reserve ::
  "string \<Rightarrow> string \<Rightarrow> string \<Rightarrow> string \<Rightarrow> run_registry \<Rightarrow> bool \<times> run_registry" where
  "reserve runID userID conversationID messageID r =
     (if runID = [] \<or> userID = [] \<or> conversationID = [] then (False, r)
      else if list_ex (\<lambda>(_, entry). en_userID entry = userID \<and> en_conversationID entry = conversationID \<and>
                 unfinished entry) (rg_entries r)
      then (False, r)
      else (True, r\<lparr>rg_entries := AList.update runID
               \<lparr>en_ref = rg_nextRef r, en_cancel = None, en_userID = userID,
                en_conversationID = conversationID, en_messageID = messageID,
                en_stream = None, en_finishedAt = zero_time\<rparr> (rg_entries r),
             rg_nextRef := rg_nextRef r + 1\<rparr>))"

definition attach :: "string \<Rightarrow> nat option \<Rightarrow> nat option \<Rightarrow> run_registry \<Rightarrow> bool \<times> run_registry" where
  "attach runID cancel stream r =
     (if runID = [] \<or> cancel = None then (False, r)
      else (case map_of (rg_entries r) runID of
              None \<Rightarrow> (False, r)
            | Some entry \<Rightarrow>
                if \<not> unfinished entry then (False, r)
                else (True, r\<lparr>rg_entries :=
                       AList.update runID (entry\<lparr>en_cancel := cancel, en_stream := stream\<rparr>) (rg_entries r)\<rparr>)))"

definition activeForUser :: "string \<Rightarrow> run_registry \<Rightarrow> conversation_run list" where
  "activeForUser userID r =
     (if userID = [] then []
      else sort_key (\<lambda>run. (cr_conversationID run, cr_runID run))
             (map (\<lambda>(runID, entry).
                     \<lparr>cr_runID = runID, cr_conversationID = en_conversationID entry,
                      cr_messageID = en_messageID entry,
                      cr_status = (if en_cancel entry \<noteq> None then ''streaming'' else ''pending'')\<rparr>)
                (filter (\<lambda>(runID, entry). \<not> (en_userID entry \<noteq> userID \<or> en_conversationID entry = [] \<or>
                                            \<not> unfinished entry))
                   (rg_entries r))))"

definition registerStream ::
  "string \<Rightarrow> nat option \<Rightarrow> string \<Rightarrow> string \<Rightarrow> nat option \<Rightarrow> run_registry \<Rightarrow> run_registry" where
  "registerStream runID cancel userID conversationID stream r =
     (if runID = [] \<or> cancel = None then r
      else r\<lparr>rg_entries := AList.update runID
               \<lparr>en_ref = rg_nextRef r, en_cancel = cancel, en_userID = userID,
                en_conversationID = conversationID,
                en_messageID = (case stream of None \<Rightarrow> []
                                | Some addr \<Rightarrow> (case map_of (rg_streams r) addr of
                                                 None \<Rightarrow> [] | Some s \<Rightarrow> st_messageID s)),
                en_stream = stream, en_finishedAt = zero_time\<rparr> (rg_entries r),
             rg_nextRef := rg_nextRef r + 1\<rparr>)"

definition cancel_run :: "string \<Rightarrow> run_registry \<Rightarrow> bool \<times> run_registry" where
  "cancel_run runID r =
     (if runID = [] then (False, r)
      else (case map_of (rg_entries r) runID of
              None \<Rightarrow> (False, r)
            | Some entry \<Rightarrow>
                (case en_cancel entry of
                   None \<Rightarrow> (False, r)
                 | Some f \<Rightarrow> (True, r\<lparr>rg_cancelled := rg_cancelled r @ [f]\<rparr>))))"

definition streamForUser :: "string \<Rightarrow> string \<Rightarrow> run_registry \<Rightarrow> (nat \<times> string) option" where
  "streamForUser runID userID r =
     (if runID = [] \<or> userID = [] then None
      else (case map_of (rg_entries r) runID of
              None \<Rightarrow> None
            | Some entry \<Rightarrow>
                if en_userID entry \<noteq> userID then None
                else (case en_stream entry of
                        None \<Rightarrow> None
                      | Some addr \<Rightarrow> Some (addr, en_conversationID entry))))"

text \<open>How many entries are finished, and the first of the oldest ones.\<close>

definition scan_finished :: "(string, run_entry) gomap \<Rightarrow> int \<times> string \<times> int" where
  "scan_finished entries =
     fold (\<lambda>(runID, entry) (finishedCount, oldestRunID, oldest).
             if unfinished entry then (finishedCount, oldestRunID, oldest)
             else if oldestRunID = [] \<or> en_finishedAt entry < oldest
             then (finishedCount + 1, runID, en_finishedAt entry)
             else (finishedCount + 1, oldestRunID, oldest))
       entries (0, [], zero_time)"

lemma scan_key:
  "fst (snd (scan_finished entries)) \<noteq> [] \<Longrightarrow> fst (snd (scan_finished entries)) \<in> fst ` set entries"
proof -
  have "fst (snd (fold (\<lambda>(runID, entry) (finishedCount, oldestRunID, oldest).
             if unfinished entry then (finishedCount, oldestRunID, oldest)
             else if oldestRunID = [] \<or> en_finishedAt entry < oldest
             then (finishedCount + 1, runID, en_finishedAt entry)
             else (finishedCount + 1, oldestRunID, oldest)) entries (n::int, k, t))) \<in> {k} \<union> fst ` set entries"
    for n k t
  proof (induction entries arbitrary: n k t)
    case (Cons x xs)
    show ?case
      using Cons.IH [of n k t] Cons.IH [of "n + 1" k t] Cons.IH [of "n + 1" "fst x" "en_finishedAt (snd x)"]
      by (cases x) auto
  qed simp
  from this [of 0 "[]" zero_time]
  show "fst (snd (scan_finished entries)) \<noteq> [] \<Longrightarrow> fst (snd (scan_finished entries)) \<in> fst ` set entries"
    by (auto simp: scan_finished_def)
qed

function pruneFinishedLocked :: "(string, run_entry) gomap \<Rightarrow> (string, run_entry) gomap" where
  "pruneFinishedLocked entries =
     (let (finishedCount, oldestRunID, _) = scan_finished entries
      in if finishedCount \<le> maxFinishedRunStreams \<or> oldestRunID = [] then entries
         else pruneFinishedLocked (AList.delete oldestRunID entries))"
  by auto
termination
proof (relation "measure length")
  fix entries x finishedCount y oldestRunID z
  assume "x = scan_finished entries" "(finishedCount, y) = x" "(oldestRunID, z) = y"
    "\<not> (finishedCount \<le> maxFinishedRunStreams \<or> oldestRunID = [])"
  then have "oldestRunID \<in> fst ` set entries" using scan_key [of entries] by (metis fst_conv snd_conv)
  then show "(AList.delete oldestRunID entries, entries) \<in> measure length"
    using gomap_length_delete_less by simp
qed simp

declare pruneFinishedLocked.simps [simp del]

definition finish :: "string \<Rightarrow> nat option \<Rightarrow> int \<Rightarrow> run_registry \<Rightarrow> run_registry" where
  "finish runID stream now r =
     (if runID = [] then r
      else (case map_of (rg_entries r) runID of
              None \<Rightarrow> r
            | Some entry \<Rightarrow>
                if stream \<noteq> None \<and> en_stream entry \<noteq> stream then r
                else if \<not> unfinished entry then r
                else (case en_stream entry of
                        None \<Rightarrow> r\<lparr>rg_entries := AList.delete runID (rg_entries r)\<rparr>
                      | Some addr \<Rightarrow>
                          let streams = (case map_of (rg_streams r) addr of
                                           None \<Rightarrow> rg_streams r
                                         | Some s \<Rightarrow> AList.update addr (close_stream s) (rg_streams r));
                              entries = AList.update runID (entry\<lparr>en_cancel := None, en_finishedAt := now\<rparr>)
                                          (rg_entries r)
                          in r\<lparr>rg_streams := streams, rg_entries := pruneFinishedLocked entries,
                               rg_timers := rg_timers r @ [(runID, en_ref entry)]\<rparr>)))"

text \<open>The timer that finish scheduled for the entry at address \<open>ref\<close>.\<close>

definition expire :: "string \<Rightarrow> nat \<Rightarrow> int \<Rightarrow> run_registry \<Rightarrow> run_registry" where
  "expire runID ref now r =
     (case map_of (rg_entries r) runID of
        None \<Rightarrow> r
      | Some current \<Rightarrow>
          if en_ref current = ref \<and> \<not> unfinished current \<and>
             now - en_finishedAt current \<ge> activeRunStreamRetention
          then r\<lparr>rg_entries := AList.delete runID (rg_entries r)\<rparr> else r)"

section \<open>Pruning keeps the newest finished runs\<close>

definition finished_entries :: "(string, run_entry) gomap \<Rightarrow> (string, run_entry) gomap" where
  "finished_entries entries = filter (\<lambda>(_, entry). \<not> unfinished entry) entries"

definition named :: "(string, run_entry) gomap \<Rightarrow> bool" where
  "named entries \<longleftrightarrow> [] \<notin> fst ` set entries"

lemma scan_correct:
  assumes "named entries"
  shows "fst (scan_finished entries) = int (length (finished_entries entries)) \<and>
    (finished_entries entries \<noteq> [] \<longrightarrow>
      (\<exists>e. (fst (snd (scan_finished entries)), e) \<in> set (finished_entries entries) \<and>
           snd (snd (scan_finished entries)) = en_finishedAt e) \<and>
      (\<forall>x \<in> set (finished_entries entries). snd (snd (scan_finished entries)) \<le> en_finishedAt (snd x))) \<and>
    (finished_entries entries = [] \<longrightarrow> fst (snd (scan_finished entries)) = [])"
  using assms
proof (induction entries rule: rev_induct)
  case Nil
  then show ?case by (simp add: scan_finished_def finished_entries_def)
next
  case (snoc x xs)
  obtain k e where x: "x = (k, e)" by (cases x)
  obtain n old t where r: "scan_finished xs = (n, old, t)" by (cases "scan_finished xs")
  have named: "named xs" "k \<noteq> []" using snoc.prems by (auto simp: named_def x)
  have step: "scan_finished (xs @ [x]) =
     (if unfinished e then (n, old, t)
      else if old = [] \<or> en_finishedAt e < t then (n + 1, k, en_finishedAt e) else (n + 1, old, t))"
    using r by (simp add: scan_finished_def x)
  have ne: "old \<noteq> []" if "finished_entries xs \<noteq> []"
    using snoc.IH [OF named(1)] named(1) that by (force simp: r named_def finished_entries_def)
  have fe: "finished_entries (xs @ [x]) = finished_entries xs @ (if unfinished e then [] else [(k, e)])"
    by (simp add: finished_entries_def x)
  note IH = snoc.IH [OF named(1), unfolded r fst_conv snd_conv]
  consider "unfinished e" | "\<not> unfinished e" "finished_entries xs = []"
    | "\<not> unfinished e" "finished_entries xs \<noteq> []" by blast
  then show ?case
  proof cases
    case 1
    then show ?thesis using IH unfolding fe step by simp
  next
    case 2
    then show ?thesis using IH unfolding fe step by simp
  next
    case 3
    then obtain e' where e': "(old, e') \<in> set (finished_entries xs)" "t = en_finishedAt e'"
      using IH by blast
    have least: "t \<le> en_finishedAt (snd x)" if "x \<in> set (finished_entries xs)" for x
      using IH 3 that by blast
    show ?thesis
    proof (cases "en_finishedAt e < t")
      case True
      then show ?thesis using IH 3 least unfolding fe step by (auto dest!: least)
    next
      case False
      then show ?thesis using IH 3 ne e' unfolding fe step by (auto simp del: split_paired_Ex)
    qed
  qed
qed

lemma scan_oldest:
  assumes "named entries" "finished_entries entries \<noteq> []"
  obtains e where "(fst (snd (scan_finished entries)), e) \<in> set (finished_entries entries)"
    "\<And>x. x \<in> set (finished_entries entries) \<Longrightarrow> en_finishedAt e \<le> en_finishedAt (snd x)"
  using scan_correct [OF assms(1)] assms(2) by force

lemma finished_delete: "finished_entries (AList.delete k m) = AList.delete k (finished_entries m)"
  by (simp add: finished_entries_def AList.delete_eq conj_commute)

lemma named_delete: "named m \<Longrightarrow> named (AList.delete k m)"
  using set_delete_subset [of k m] by (auto simp: named_def)

text \<open>
  What the pruning loop leaves of a map: nothing unfinished is lost, at most 64 finished
  entries stay, and whatever was dropped finished no later than whatever stayed.
\<close>

definition pruned :: "(string, run_entry) gomap \<Rightarrow> (string, run_entry) gomap \<Rightarrow> bool" where
  "pruned m m' \<longleftrightarrow>
     set m' \<subseteq> set m \<and> keys_distinct m' \<and>
     (\<forall>x \<in> set m. unfinished (snd x) \<longrightarrow> x \<in> set m') \<and>
     int (length (finished_entries m')) \<le> maxFinishedRunStreams \<and>
     (\<forall>x \<in> set m - set m'. \<forall>y \<in> set (finished_entries m'). en_finishedAt (snd x) \<le> en_finishedAt (snd y))"

lemma prune_pruned: "named m \<Longrightarrow> keys_distinct m \<Longrightarrow> pruned m (pruneFinishedLocked m)"
proof (induction m rule: pruneFinishedLocked.induct)
  case (1 m)
  obtain n k t where scan: "scan_finished m = (n, k, t)" by (cases "scan_finished m")
  have count: "n = int (length (finished_entries m))"
    using scan_correct [OF "1.prems"(1)] scan by simp
  show ?case
  proof (cases "n \<le> maxFinishedRunStreams \<or> k = []")
    case True
    moreover have "k = [] \<Longrightarrow> finished_entries m = []"
      using scan_correct [OF "1.prems"(1)] scan "1.prems"(1)
      by (force simp: named_def finished_entries_def)
    ultimately have "int (length (finished_entries m)) \<le> maxFinishedRunStreams"
      using count by (auto simp: maxFinishedRunStreams_def)
    with True show ?thesis
      using "1.prems" by (subst pruneFinishedLocked.simps) (auto simp: scan pruned_def)
  next
    case False
    let ?d = "AList.delete k m"
    have eq: "pruneFinishedLocked m = pruneFinishedLocked ?d"
      using False by (subst pruneFinishedLocked.simps) (simp add: scan)
    have IH: "pruned ?d (pruneFinishedLocked ?d)"
      using False "1.prems" scan by (intro "1.IH" [of "(n, k, t)" n "(k, t)" k t]) (auto simp: named_delete)
    have "finished_entries m \<noteq> []" using False count by (auto simp: maxFinishedRunStreams_def)
    from scan_oldest [OF "1.prems"(1) this] obtain e where e: "(k, e) \<in> set (finished_entries m)"
      and least: "\<And>x. x \<in> set (finished_entries m) \<Longrightarrow> en_finishedAt e \<le> en_finishedAt (snd x)"
      using scan by auto
    have only: "x = (k, e)" if "x \<in> set m" "x \<notin> set ?d" for x
      using e that "1.prems"(2)
      by (cases x) (auto simp: AList.delete_eq finished_entries_def keys_distinct_def dest: eq_key_imp_eq_value)
    have sub: "set ?d \<subseteq> set m" by (rule set_delete_subset)
    have fin: "\<not> unfinished e" using e by (simp add: finished_entries_def)
    show ?thesis
      unfolding eq pruned_def
    proof (intro conjI ballI impI)
      show "set (pruneFinishedLocked ?d) \<subseteq> set m" "keys_distinct (pruneFinishedLocked ?d)"
        "int (length (finished_entries (pruneFinishedLocked ?d))) \<le> maxFinishedRunStreams"
        using IH sub by (auto simp: pruned_def)
      show "x \<in> set (pruneFinishedLocked ?d)" if "x \<in> set m" "unfinished (snd x)" for x
        using IH only [OF that(1)] that fin by (cases "x \<in> set ?d") (auto simp: pruned_def)
      show "en_finishedAt (snd x) \<le> en_finishedAt (snd y)"
        if "x \<in> set m - set (pruneFinishedLocked ?d)" "y \<in> set (finished_entries (pruneFinishedLocked ?d))"
        for x y
      proof (cases "x \<in> set ?d")
        case True
        with IH that show ?thesis by (simp add: pruned_def)
      next
        case False
        with only that have "x = (k, e)" by blast
        moreover have "y \<in> set (finished_entries m)"
          using that(2) IH sub by (auto simp: finished_entries_def pruned_def)
        ultimately show ?thesis using least by simp
      qed
    qed
  qed
qed

section \<open>The registry invariant\<close>

definition one_active :: "(string, run_entry) gomap \<Rightarrow> bool" where
  "one_active m \<longleftrightarrow>
     (\<forall>x \<in> set m. \<forall>y \<in> set m. unfinished (snd x) \<and> unfinished (snd y) \<and>
        en_userID (snd x) = en_userID (snd y) \<and> en_conversationID (snd x) = en_conversationID (snd y)
        \<longrightarrow> fst x = fst y)"

definition registry_ok :: "run_registry \<Rightarrow> bool" where
  "registry_ok r \<longleftrightarrow>
     keys_distinct (rg_entries r) \<and> named (rg_entries r) \<and> one_active (rg_entries r) \<and>
     int (length (finished_entries (rg_entries r))) \<le> maxFinishedRunStreams"

datatype registry_op =
    Reserve string string string string
  | Attach string "nat option" "nat option"
  | CancelRun string
  | Finish string "nat option" int
  | Expire string nat int

definition registry_step :: "registry_op \<Rightarrow> run_registry \<Rightarrow> run_registry" where
  "registry_step op r =
     (case op of
        Reserve runID userID conversationID messageID \<Rightarrow> snd (reserve runID userID conversationID messageID r)
      | Attach runID cancel stream \<Rightarrow> snd (attach runID cancel stream r)
      | CancelRun runID \<Rightarrow> snd (cancel_run runID r)
      | Finish runID stream now \<Rightarrow> finish runID stream now r
      | Expire runID ref now \<Rightarrow> expire runID ref now r)"

fun registry_run :: "registry_op list \<Rightarrow> run_registry \<Rightarrow> run_registry" where
  "registry_run [] r = r"
| "registry_run (op # ops) r = registry_run ops (registry_step op r)"

lemma named_update: "named m \<Longrightarrow> k \<noteq> [] \<Longrightarrow> named (AList.update k v m)"
  using set_update_subset [of k v m] by (force simp: named_def)

lemma one_active_subset: "one_active m \<Longrightarrow> set m' \<subseteq> set m \<Longrightarrow> one_active m'"
  by (auto simp: one_active_def subset_iff)

lemma finished_subset_length:
  assumes "keys_distinct m" "set (finished_entries m') \<subseteq> set (finished_entries m)" "keys_distinct m'"
  shows "length (finished_entries m') \<le> length (finished_entries m)"
proof -
  have "distinct (finished_entries m')"
    using assms(3) by (simp add: finished_entries_def keys_distinct_def distinct_map)
  then show ?thesis
    using assms(2) by (metis card_mono card_length distinct_card finite_set order_trans)
qed

lemma one_active_reserve:
  assumes "keys_distinct m" "one_active m" "\<not> list_ex (\<lambda>(_, e). en_userID e = en_userID e' \<and>
      en_conversationID e = en_conversationID e' \<and> unfinished e) m"
  shows "one_active (AList.update k e' m)"
  using assms by (fastforce simp: one_active_def gomap_set_update list_ex_iff)

lemma one_active_replace:
  assumes "keys_distinct m" "one_active m" "(k, e) \<in> set m"
    and "en_userID e' = en_userID e" "en_conversationID e' = en_conversationID e"
    and "unfinished e' \<Longrightarrow> unfinished e"
  shows "one_active (AList.update k e' m)"
  unfolding one_active_def gomap_set_update [OF assms(1)]
proof (intro ballI impI)
  fix x y
  assume "x \<in> insert (k, e') {(k', v'). (k', v') \<in> set m \<and> k' \<noteq> k}"
    and "y \<in> insert (k, e') {(k', v'). (k', v') \<in> set m \<and> k' \<noteq> k}"
    and same: "unfinished (snd x) \<and> unfinished (snd y) \<and>
      en_userID (snd x) = en_userID (snd y) \<and> en_conversationID (snd x) = en_conversationID (snd y)"
  then have x: "x = (k, e') \<or> x \<in> set m" and y: "y = (k, e') \<or> y \<in> set m" by auto
  have *: "fst a = k" if "a \<in> set m" "unfinished (snd a)" "unfinished e'"
    "en_userID (snd a) = en_userID e'" "en_conversationID (snd a) = en_conversationID e'" for a
    using assms(2-6) that unfolding one_active_def by (metis fst_conv snd_conv)
  consider "x \<in> set m" "y \<in> set m" | "x = (k, e')" "y = (k, e')"
    | "x = (k, e')" "y \<in> set m" | "x \<in> set m" "y = (k, e')"
    using x y by blast
  then show "fst x = fst y"
  proof cases
    case 1
    then show ?thesis using same assms(2) unfolding one_active_def by blast
  next
    case 3
    then have "fst y = k" using same by (intro *) simp_all
    then show ?thesis using 3 by simp
  next
    case 4
    then have "fst x = k" using same by (intro *) simp_all
    then show ?thesis using 4 by simp
  qed simp
qed

lemma finished_update_unfinished:
  "keys_distinct m \<Longrightarrow> unfinished e \<Longrightarrow>
   set (finished_entries (AList.update k e m)) \<subseteq> set (finished_entries m)"
  by (auto simp: finished_entries_def gomap_set_update)

lemma registry_ok_update:
  assumes "registry_ok r" "k \<noteq> []" "unfinished e" "one_active (AList.update k e (rg_entries r))"
    and "rg_entries r' = AList.update k e (rg_entries r)"
  shows "registry_ok r'"
proof -
  have k: "keys_distinct (rg_entries r)" using assms(1) by (simp add: registry_ok_def)
  have "length (finished_entries (AList.update k e (rg_entries r))) \<le> length (finished_entries (rg_entries r))"
    by (rule finished_subset_length [OF k finished_update_unfinished [OF k assms(3)] keys_distinct_update [OF k]])
  then show ?thesis
    using assms by (auto simp: registry_ok_def named_update)
qed

lemma registry_ok_reserve:
  assumes "registry_ok r"
  shows "registry_ok (snd (reserve k u c m r))"
proof -
  let ?e = "\<lparr>en_ref = rg_nextRef r, en_cancel = None, en_userID = u, en_conversationID = c,
    en_messageID = m, en_stream = None, en_finishedAt = zero_time\<rparr>"
  have "one_active (AList.update k ?e (rg_entries r))"
    if "\<not> list_ex (\<lambda>(_, e). en_userID e = u \<and> en_conversationID e = c \<and> unfinished e) (rg_entries r)"
    using assms that by (intro one_active_reserve) (auto simp: registry_ok_def)
  moreover have "unfinished ?e" by (simp add: unfinished_def)
  ultimately show ?thesis
    using registry_ok_update [OF assms, of k ?e] assms by (auto simp: reserve_def)
qed

lemma registry_ok_entries: "registry_ok r \<Longrightarrow> rg_entries r' = rg_entries r \<Longrightarrow> registry_ok r'"
  by (simp add: registry_ok_def)

lemma registry_ok_attach:
  assumes "registry_ok r"
  shows "registry_ok (snd (attach k f s r))"
proof (cases "map_of (rg_entries r) k")
  case (Some e)
  have "one_active (AList.update k (e\<lparr>en_cancel := f, en_stream := s\<rparr>) (rg_entries r))"
    if "unfinished e"
    using assms map_of_SomeD [OF Some] that by (intro one_active_replace [of _ k e]) (auto simp: registry_ok_def)
  then show ?thesis
    using registry_ok_update [OF assms, of k "e\<lparr>en_cancel := f, en_stream := s\<rparr>"] assms Some
    by (auto simp: attach_def unfinished_def)
qed (simp add: attach_def assms)

lemma registry_ok_cancel: "registry_ok r \<Longrightarrow> registry_ok (snd (cancel_run k r))"
  by (auto simp: cancel_run_def registry_ok_def split: option.split)

lemma registry_ok_delete:
  assumes "registry_ok r" "rg_entries r' = AList.delete k (rg_entries r)"
  shows "registry_ok r'"
proof -
  have "length (finished_entries (AList.delete k (rg_entries r))) \<le> length (finished_entries (rg_entries r))"
    by (simp add: finished_delete gomap_length_delete_le)
  then show ?thesis
    using assms one_active_subset [OF _ set_delete_subset [of k "rg_entries r"]]
    by (auto simp: registry_ok_def named_delete)
qed

lemma registry_ok_expire: "registry_ok r \<Longrightarrow> registry_ok (expire k ref now r)"
  by (auto simp: expire_def intro: registry_ok_delete split: option.split)

lemma registry_ok_finish:
  assumes "registry_ok r"
  shows "registry_ok (finish k s now r)"
proof (cases "map_of (rg_entries r) k")
  case (Some e)
  let ?m = "AList.update k (e\<lparr>en_cancel := None, en_finishedAt := now\<rparr>) (rg_entries r)"
  have "registry_ok (r'\<lparr>rg_entries := pruneFinishedLocked ?m\<rparr>)" if "unfinished e" "k \<noteq> []" for r'
  proof -
    have "one_active ?m"
      using assms map_of_SomeD [OF Some] that by (intro one_active_replace [of _ k e]) (auto simp: registry_ok_def)
    moreover have "pruned ?m (pruneFinishedLocked ?m)"
      using assms that by (intro prune_pruned) (auto simp: registry_ok_def named_update)
    moreover have "named ?m" using assms that by (simp add: registry_ok_def named_update)
    ultimately show ?thesis
      by (auto simp: registry_ok_def pruned_def named_def intro: one_active_subset)
  qed
  note finished = registry_ok_entries [OF this [of r]]
  show ?thesis
  proof (cases "en_stream e")
    case None
    then show ?thesis
      using assms Some by (auto simp: finish_def intro: registry_ok_delete)
  next
    case (Some addr)
    then show ?thesis
      using assms \<open>map_of (rg_entries r) k = Some e\<close> by (auto simp: finish_def Let_def intro!: finished)
  qed
qed (simp add: finish_def assms)

lemma registry_ok_step: "registry_ok r \<Longrightarrow> registry_ok (registry_step op r)"
  by (cases op) (simp_all add: registry_step_def registry_ok_reserve registry_ok_attach registry_ok_cancel
      registry_ok_finish registry_ok_expire)

lemma registry_ok_run: "registry_ok r \<Longrightarrow> registry_ok (registry_run ops r)"
  by (induction ops arbitrary: r) (simp_all add: registry_ok_step)

lemma registry_ok_new: "registry_ok (newActiveRunRegistry streams)"
  by (simp add: registry_ok_def newActiveRunRegistry_def named_def one_active_def finished_entries_def
      maxFinishedRunStreams_def)

section \<open>Listing and releasing\<close>

definition run_view :: "string \<times> run_entry \<Rightarrow> conversation_run" where
  "run_view x = \<lparr>cr_runID = fst x, cr_conversationID = en_conversationID (snd x),
     cr_messageID = en_messageID (snd x),
     cr_status = (if en_cancel (snd x) \<noteq> None then ''streaming'' else ''pending'')\<rparr>"

definition active_for :: "string \<Rightarrow> (string, run_entry) gomap \<Rightarrow> (string, run_entry) gomap" where
  "active_for u m = filter (\<lambda>x. en_userID (snd x) = u \<and> en_conversationID (snd x) \<noteq> [] \<and> unfinished (snd x)) m"

lemma activeForUser_view:
  "activeForUser u r = (if u = [] then [] else
     sort_key (\<lambda>run. (cr_conversationID run, cr_runID run)) (map run_view (active_for u (rg_entries r))))"
  by (simp add: activeForUser_def run_view_def [abs_def] active_for_def case_prod_unfold)

lemma distinct_active_conversations:
  assumes "keys_distinct m" "one_active m"
  shows "distinct (map cr_conversationID (map run_view (active_for u m)))"
proof -
  have "inj_on (\<lambda>x. en_conversationID (snd x)) (set (active_for u m))"
  proof (rule inj_onI)
    fix x y
    assume *: "x \<in> set (active_for u m)" "y \<in> set (active_for u m)"
      "en_conversationID (snd x) = en_conversationID (snd y)"
    then have "fst x = fst y" "x \<in> set m" "y \<in> set m"
      using assms(2) by (auto simp: active_for_def one_active_def)
    then show "x = y" using assms(1) by (metis keys_distinct_def eq_key_imp_eq_value prod.collapse)
  qed
  moreover have "distinct (active_for u m)"
    using assms(1) by (simp add: active_for_def keys_distinct_def distinct_map)
  ultimately show ?thesis by (simp add: comp_def run_view_def distinct_map)
qed

lemma sorted_conversations:
  assumes "distinct (map cr_conversationID runs)"
  shows "sorted_wrt (<) (map cr_conversationID (sort_key (\<lambda>run. (cr_conversationID run, cr_runID run)) runs))"
proof -
  let ?k = "\<lambda>run. (cr_conversationID run, cr_runID run)"
  have le: "sorted_wrt (\<lambda>a b. cr_conversationID a \<le> cr_conversationID b) (sort_key ?k runs)"
    by (rule sorted_wrt_mono_rel [of _ "\<lambda>a b. ?k a \<le> ?k b"])
      (use sorted_sort_key [of ?k runs] in \<open>auto simp: sorted_map less_eq_prod_def less_imp_le\<close>)
  have "distinct (map cr_conversationID (sort_key ?k runs))"
    using assms by (simp add: distinct_map)
  with le show ?thesis by (simp add: strict_sorted_iff sorted_map)
qed

section \<open>Properties\<close>

text \<open>
  C6: whatever sequence of reservations, attachments, cancellations, completions and timers
  runs, a user has at most one unfinished run in a conversation, and at most 64 finished
  runs are retained for late reconnects.
\<close>

theorem registry_one_active:
  "card {k. \<exists>e. (k, e) \<in> set (rg_entries (registry_run ops (newActiveRunRegistry streams))) \<and>
        unfinished e \<and> en_userID e = u \<and> en_conversationID e = c} \<le> 1 \<and>
   length (filter (\<lambda>x. \<not> unfinished (snd x))
     (rg_entries (registry_run ops (newActiveRunRegistry streams)))) \<le> 64"
proof -
  let ?m = "rg_entries (registry_run ops (newActiveRunRegistry streams))"
  let ?K = "{k. \<exists>e. (k, e) \<in> set ?m \<and> unfinished e \<and> en_userID e = u \<and> en_conversationID e = c}"
  have ok: "registry_ok (registry_run ops (newActiveRunRegistry streams))"
    by (rule registry_ok_run [OF registry_ok_new])
  have "?K \<subseteq> {k}" if "k \<in> ?K" for k
  proof
    fix k' assume "k' \<in> ?K"
    with that ok show "k' \<in> {k}" by (force simp: registry_ok_def one_active_def)
  qed
  then have "card ?K \<le> 1"
    by (metis (no_types, lifting) card.empty card_mono card_1_singleton_iff finite.emptyI finite.insertI
        is_singletonI is_singleton_def le_numeral_extra(3) subsetI ex_in_conv zero_le_one One_nat_def)
  with ok show ?thesis
    by (simp add: registry_ok_def finished_entries_def maxFinishedRunStreams_def case_prod_unfold)
qed

text \<open>
  The list of a user's active runs holds exactly the unfinished entries of that user in
  named conversations, in strictly increasing order of the conversation: no conversation is
  listed twice, whatever order the Go map is iterated in.
\<close>

theorem registry_active_listing:
  "let r = registry_run ops (newActiveRunRegistry streams) in
   sorted_wrt (<) (map cr_conversationID (activeForUser u r)) \<and>
   set (activeForUser u r) =
     run_view ` {x. x \<in> set (rg_entries r) \<and> unfinished (snd x) \<and> u \<noteq> [] \<and>
        en_userID (snd x) = u \<and> en_conversationID (snd x) \<noteq> []}"
proof -
  let ?r = "registry_run ops (newActiveRunRegistry streams)"
  have ok: "registry_ok ?r" by (rule registry_ok_run [OF registry_ok_new])
  have "sorted_wrt (<) (map cr_conversationID (activeForUser u ?r))"
    using sorted_conversations [OF distinct_active_conversations, of "rg_entries ?r" u] ok
    by (simp add: activeForUser_view registry_ok_def)
  moreover have "set (activeForUser u ?r) =
     run_view ` {x. x \<in> set (rg_entries ?r) \<and> unfinished (snd x) \<and> u \<noteq> [] \<and>
        en_userID (snd x) = u \<and> en_conversationID (snd x) \<noteq> []}"
    by (auto simp: activeForUser_view active_for_def)
  ultimately show ?thesis by (simp add: Let_def)
qed

text \<open>
  C7: finishing a run gives its conversation back: the next reservation for the same user
  and conversation succeeds.
\<close>

theorem registry_slot_released:
  assumes "r = registry_run ops (newActiveRunRegistry streams)"
    and "map_of (rg_entries r) k = Some e" "unfinished e" "now \<noteq> zero_time"
    and "k' \<noteq> []" "en_userID e \<noteq> []" "en_conversationID e \<noteq> []"
  shows "fst (reserve k' (en_userID e) (en_conversationID e) m (finish k None now r))"
proof -
  have ok: "registry_ok r" using registry_ok_run [OF registry_ok_new] assms(1) by simp
  let ?e = "e\<lparr>en_cancel := None, en_finishedAt := now\<rparr>"
  let ?m = "AList.update k ?e (rg_entries r)"
  have e: "(k, e) \<in> set (rg_entries r)" using assms(2) by (rule map_of_SomeD)
  have k: "k \<noteq> []" using ok e by (force simp: registry_ok_def named_def)
  have "pruned ?m (pruneFinishedLocked ?m)"
    using ok k by (intro prune_pruned) (auto simp: registry_ok_def named_update)
  then have sub: "set (rg_entries (finish k None now r)) \<subseteq>
      insert (k, ?e) {x \<in> set (rg_entries r). fst x \<noteq> k}"
    using assms(2,3) k ok
    by (auto simp: finish_def Let_def pruned_def registry_ok_def gomap_set_update AList.delete_eq
        split: option.splits)
  have "\<not> (en_userID (snd x) = en_userID e \<and> en_conversationID (snd x) = en_conversationID e \<and> unfinished (snd x))"
    if "x \<in> set (rg_entries (finish k None now r))" for x
  proof -
    from that sub have "x = (k, ?e) \<or> x \<in> set (rg_entries r) \<and> fst x \<noteq> k" by blast
    then show ?thesis
    proof
      assume "x = (k, ?e)"
      then show ?thesis using assms(4) by (simp add: unfinished_def)
    next
      assume "x \<in> set (rg_entries r) \<and> fst x \<noteq> k"
      then show ?thesis using ok e assms(3) unfolding registry_ok_def one_active_def by (metis fst_conv snd_conv)
    qed
  qed
  then have "\<not> list_ex (\<lambda>(_, entry). en_userID entry = en_userID e \<and>
      en_conversationID entry = en_conversationID e \<and> unfinished entry) (rg_entries (finish k None now r))"
    by (force simp: list_ex_iff)
  then show ?thesis using assms(5-7) by (simp add: reserve_def)
qed

definition example_registry :: run_registry where
  "example_registry = registry_run
     [Reserve ''r1'' ''u'' ''c'' ''m'', Attach ''r1'' (Some 7) (Some 0), CancelRun ''r1'']
     (newActiveRunRegistry [(0, newActiveRunStream ''r1'' ''c'' ''m'')])"

theorem registry_slot_released_witness:
  "fst (reserve ''r2'' ''u'' ''c'' ''m2'' (finish ''r1'' None 99 example_registry))"
proof -
  obtain e where e: "map_of (rg_entries example_registry) ''r1'' = Some e"
    "unfinished e" "en_userID e = ''u''" "en_conversationID e = ''c''"
    by (simp add: example_registry_def registry_step_def reserve_def attach_def cancel_run_def
        newActiveRunRegistry_def unfinished_def)
  have "(99::int) \<noteq> zero_time" by (simp add: zero_time_def)
  then show ?thesis
    using registry_slot_released [OF example_registry_def e(1,2), of 99 "''r2''" "''m2''"] e(3,4) by simp
qed

end
