(* ===== verification/Rate_Limit.thy ===== *)
theory Rate_Limit
  imports Go_Text
begin

text \<open>
  internal/ratelimit: the bounded, process-local fixed-window store (memory.go, store.go).
  The state is the \<open>MemoryStore\<close> with its map of entries; \<open>Allow\<close> returns the
  decision (or the error) and the new store.  The lemmas show the capacity bound, the
  arithmetic of the window, that a failed or cancelled call changes nothing, and the point of
  the component: no fixed window admits more than its limit.
\<close>

section \<open>State and results\<close>

record rate_result =
  rr_allowed :: bool
  rr_limit :: int
  rr_remaining :: int
  rr_retryAfter :: int
  rr_resetAt :: int

record memory_entry =
  me_window :: int
  me_bucket :: int
  me_count :: nat
  me_resetAt :: int

record memory_store =
  ms_maxEntries :: int
  ms_entries :: "(string, memory_entry) gomap"

datatype rate_error =
    ContextRequired
  | ContextDone string
  | KeyRequired
  | LimitNotPositive
  | WindowNotPositive
  | StoreNotInitialized

text \<open>
  A context is what \<open>ctx.Err()\<close> returns at the two places that ask: before the store's
  lock is taken and under it.  \<open>None\<close> is the nil context.
\<close>

record go_ctx =
  ctx_err :: "string option"
  ctx_err_locked :: "string option"

definition NewMemoryStore :: "int \<Rightarrow> memory_store" where
  "NewMemoryStore maxEntries =
     \<lparr>ms_maxEntries = (if maxEntries < 0 then 0 else maxEntries), ms_entries = []\<rparr>"

section \<open>Operations\<close>

definition memoryWindow :: "int \<Rightarrow> int \<Rightarrow> int \<times> int" where
  "memoryWindow now window =
     (let windowNanos = window;
          unixNanos = wrap64 now;
          bucket = unixNanos sdiv windowNanos;
          remainder = unixNanos smod windowNanos;
          bucket = (if unixNanos < 0 \<and> remainder \<noteq> 0 then bucket - 1 else bucket);
          untilReset = (if remainder > 0 then windowNanos - remainder
                        else if remainder < 0 then - remainder
                        else windowNanos)
      in (bucket, now + untilReset))"

definition retryAfter :: "int \<Rightarrow> int \<Rightarrow> int" where
  "retryAfter now resetAt =
     (let retry = saturate64 (resetAt - now) in if retry < 0 then 0 else retry)"

definition blockedResult :: "int \<Rightarrow> int \<Rightarrow> int \<Rightarrow> rate_result" where
  "blockedResult limit now resetAt =
     \<lparr>rr_allowed = False, rr_limit = limit, rr_remaining = 0,
      rr_retryAfter = retryAfter now resetAt, rr_resetAt = resetAt\<rparr>"

definition deleteExpired :: "int \<Rightarrow> (string, memory_entry) gomap \<Rightarrow> (string, memory_entry) gomap" where
  "deleteExpired now entries = filter (\<lambda>(key, entry). now < me_resetAt entry) entries"

definition nextExpiry :: "(string, memory_entry) gomap \<Rightarrow> int \<Rightarrow> int" where
  "nextExpiry entries fallback =
     (let earliest =
        fold (\<lambda>(key, entry) earliest.
                if earliest = zero_time \<or> me_resetAt entry < earliest then me_resetAt entry else earliest)
             entries zero_time
      in if earliest = zero_time then fallback else earliest)"

text \<open>The counter update of an admitted key.\<close>

definition record_attempt ::
  "string \<Rightarrow> int \<Rightarrow> int \<Rightarrow> int \<Rightarrow> memory_store \<Rightarrow> rate_result \<times> memory_store" where
  "record_attempt key limit window now s =
     (let (bucket, resetAt) = memoryWindow now window;
          fresh = \<lparr>me_window = window, me_bucket = bucket, me_count = 0, me_resetAt = resetAt\<rparr>;
          entry = (case map_of (ms_entries s) key of
                     None \<Rightarrow> fresh
                   | Some e \<Rightarrow> if me_window e \<noteq> window \<or> me_bucket e \<noteq> bucket then fresh else e);
          entry = (if me_count entry < max_uint64 then entry\<lparr>me_count := me_count entry + 1\<rparr> else entry);
          s = s\<lparr>ms_entries := AList.update key entry (ms_entries s)\<rparr>;
          allowed = int (me_count entry) \<le> limit;
          remaining = (if int (me_count entry) < limit then limit - int (me_count entry) else 0)
      in (\<lparr>rr_allowed = allowed, rr_limit = limit, rr_remaining = remaining,
           rr_retryAfter = retryAfter now resetAt, rr_resetAt = resetAt\<rparr>, s))"

text \<open>The decision under the lock.\<close>

definition allow_locked ::
  "string \<Rightarrow> int \<Rightarrow> int \<Rightarrow> int \<Rightarrow> memory_store \<Rightarrow> rate_result \<times> memory_store" where
  "allow_locked key limit window now s =
     (case map_of (ms_entries s) key of
        Some _ \<Rightarrow> record_attempt key limit window now s
      | None \<Rightarrow>
          (let s = s\<lparr>ms_entries := deleteExpired now (ms_entries s)\<rparr>
           in if int (length (ms_entries s)) \<ge> ms_maxEntries s
              then (blockedResult limit now (nextExpiry (ms_entries s) (snd (memoryWindow now window))), s)
              else record_attempt key limit window now s))"

definition Allow ::
  "go_ctx option \<Rightarrow> string \<Rightarrow> int \<Rightarrow> int \<Rightarrow> int \<Rightarrow> memory_store option
   \<Rightarrow> (rate_error + rate_result) \<times> memory_store option" where
  "Allow ctx key limit window now store =
     (case ctx of None \<Rightarrow> (Inl ContextRequired, store)
      | Some c \<Rightarrow>
        (case ctx_err c of Some e \<Rightarrow> (Inl (ContextDone e), store)
         | None \<Rightarrow>
           (let key = trim_space key in
            if key = [] then (Inl KeyRequired, store)
            else if limit \<le> 0 then (Inl LimitNotPositive, store)
            else if window \<le> 0 then (Inl WindowNotPositive, store)
            else (case store of None \<Rightarrow> (Inl StoreNotInitialized, store)
                  | Some s \<Rightarrow>
                    (case ctx_err_locked c of Some e \<Rightarrow> (Inl (ContextDone e), store)
                     | None \<Rightarrow>
                        (let (r, s') = allow_locked key limit window now s in (Inr r, Some s')))))))"

section \<open>The arithmetic of a window\<close>

lemma sdiv_smod_nonneg:
  fixes x w :: int
  assumes "0 < w" "0 \<le> x"
  shows "x sdiv w = x div w" "x smod w = x mod w"
  using assms by (auto simp: signed_divide_int_def signed_modulo_int_def sgn_if)

lemma sdiv_smod_neg:
  fixes x w :: int
  assumes "0 < w" "x < 0"
  shows "x sdiv w = - ((- x) div w)" "x smod w = - ((- x) mod w)"
  using assms by (auto simp: signed_divide_int_def signed_modulo_int_def sgn_if)

lemma memoryWindow_eq:
  assumes "0 < window" "min_int64 \<le> now" "now \<le> max_int64"
  shows "memoryWindow now window = (now div window, (now div window + 1) * window)"
proof -
  have w: "wrap64 now = now" using assms wrap64_id by blast
  show ?thesis
  proof (cases "0 \<le> now")
    case True
    have "now mod window = now - now div window * window"
      by (simp add: minus_div_mult_eq_mod)
    moreover have "0 \<le> now mod window" using assms(1) by simp
    ultimately show ?thesis using True
      by (auto simp: memoryWindow_def Let_def w sdiv_smod_nonneg [OF assms(1) True] algebra_simps)
  next
    case False
    then have neg: "now < 0" by simp
    have pos: "0 \<le> (- now) mod window" using assms(1) by simp
    have q: "now div window =
        (if (- now) mod window = 0 then - ((- now) div window) else - ((- now) div window) - 1)"
      using zdiv_zminus1_eq_if [of window "- now"] assms(1) by simp
    have e: "- now = (- now) div window * window + (- now) mod window"
      by (rule div_mult_mod_eq [symmetric])
    show ?thesis
    proof (cases "(- now) mod window = 0")
      case True
      with q e have "now div window * window = now" by simp
      with True neg q show ?thesis
        by (simp add: memoryWindow_def Let_def w sdiv_smod_neg [OF assms(1) neg] algebra_simps)
    next
      case F: False
      have r: "now + (- now) mod window = - ((- now) div window * window)"
        using e by linarith
      show ?thesis using F pos neg q
        by (simp add: memoryWindow_def Let_def w sdiv_smod_neg [OF assms(1) neg] r)
    qed
  qed
qed


lemma window_end_bounds:
  assumes "(0::int) < window"
  shows "now < (now div window + 1) * window" "(now div window + 1) * window \<le> now + window"
    "now div window * window \<le> now"
proof -
  have "now = now div window * window + now mod window" by simp
  moreover have "0 \<le> now mod window" "now mod window < window" using assms by simp_all
  ultimately show "now < (now div window + 1) * window"
    "(now div window + 1) * window \<le> now + window" "now div window * window \<le> now"
    by (simp_all only: distrib_right mult_1)
qed

lemma bucket_eqI:
  assumes "(0::int) < window" "b * window \<le> now" "now < (b + 1) * window"
  shows "now div window = b"
proof -
  show ?thesis
    by (rule int_div_pos_eq [of _ _ _ "now - b * window"])
      (use assms in \<open>simp_all add: algebra_simps\<close>)
qed

section \<open>The store invariant\<close>

definition store_ok :: "memory_store \<Rightarrow> bool" where
  "store_ok s \<longleftrightarrow> 0 \<le> ms_maxEntries s \<and> keys_distinct (ms_entries s) \<and>
     int (length (ms_entries s)) \<le> ms_maxEntries s \<and>
     (\<forall>(k, e) \<in> set (ms_entries s). 1 \<le> me_count e \<and> me_count e \<le> max_uint64)"

lemma store_ok_New: "store_ok (NewMemoryStore n)"
  by (simp add: store_ok_def NewMemoryStore_def)

lemma deleteExpired_subset: "set (deleteExpired now m) \<subseteq> set m"
  by (auto simp: deleteExpired_def)

lemma deleteExpired_distinct: "keys_distinct m \<Longrightarrow> keys_distinct (deleteExpired now m)"
  by (simp add: deleteExpired_def)

lemma map_of_deleteExpired:
  "keys_distinct m \<Longrightarrow> map_of (deleteExpired now m) k =
     (case map_of m k of None \<Rightarrow> None | Some e \<Rightarrow> if now < me_resetAt e then Some e else None)"
  by (simp add: deleteExpired_def gomap_filter split: option.split)

lemma store_ok_deleteExpired: "store_ok s \<Longrightarrow> store_ok (s\<lparr>ms_entries := deleteExpired now (ms_entries s)\<rparr>)"
proof -
  assume ok: "store_ok s"
  have "length (deleteExpired now (ms_entries s)) \<le> length (ms_entries s)"
    by (simp add: deleteExpired_def)
  moreover have "int (length (ms_entries s)) \<le> ms_maxEntries s" using ok by (simp add: store_ok_def)
  ultimately have "int (length (deleteExpired now (ms_entries s))) \<le> ms_maxEntries s" by linarith
  then show "store_ok (s\<lparr>ms_entries := deleteExpired now (ms_entries s)\<rparr>)"
    using ok deleteExpired_subset [of now "ms_entries s"]
    by (auto simp: store_ok_def deleteExpired_distinct)
qed

text \<open>The entry that \<open>record_attempt\<close> leaves for the key it counts.\<close>

definition counted_entry :: "string \<Rightarrow> int \<Rightarrow> int \<Rightarrow> memory_store \<Rightarrow> memory_entry" where
  "counted_entry key window now s =
     (let (bucket, resetAt) = memoryWindow now window;
          fresh = \<lparr>me_window = window, me_bucket = bucket, me_count = 0, me_resetAt = resetAt\<rparr>;
          e = (case map_of (ms_entries s) key of
                 None \<Rightarrow> fresh
               | Some e \<Rightarrow> if me_window e \<noteq> window \<or> me_bucket e \<noteq> bucket then fresh else e)
      in if me_count e < max_uint64 then e\<lparr>me_count := me_count e + 1\<rparr> else e)"

lemma record_attempt_store:
  "snd (record_attempt key limit window now s) =
     s\<lparr>ms_entries := AList.update key (counted_entry key window now s) (ms_entries s)\<rparr>"
  by (simp add: record_attempt_def counted_entry_def Let_def split: prod.split)

lemma record_attempt_allowed:
  "rr_allowed (fst (record_attempt key limit window now s)) \<longleftrightarrow>
     int (me_count (counted_entry key window now s)) \<le> limit"
  by (simp add: record_attempt_def counted_entry_def Let_def split: prod.split)

lemma counted_entry_count:
  "store_ok s \<Longrightarrow> 1 \<le> me_count (counted_entry key window now s) \<and>
     me_count (counted_entry key window now s) \<le> max_uint64"
  by (auto simp: counted_entry_def Let_def store_ok_def max_uint64_def
      split: prod.split option.split dest!: map_of_SomeD)

lemma store_ok_record_attempt:
  assumes "store_ok s" "map_of (ms_entries s) key \<noteq> None \<or> int (length (ms_entries s)) < ms_maxEntries s"
  shows "store_ok (snd (record_attempt key limit window now s))"
proof -
  have "int (length (AList.update key e (ms_entries s))) \<le> ms_maxEntries s" for e
    using assms by (auto simp: gomap_length_update store_ok_def split: option.split)
  then show ?thesis
    using assms(1) counted_entry_count [OF assms(1), of key window now] set_update_subset
    unfolding record_attempt_store store_ok_def by fastforce
qed

lemma store_ok_allow_locked: "store_ok s \<Longrightarrow> store_ok (snd (allow_locked key limit window now s))"
  using store_ok_deleteExpired [of s now]
  by (auto simp: allow_locked_def Let_def not_le intro: store_ok_record_attempt split: option.split)

section \<open>Runs\<close>

record rate_request =
  rq_ctx :: "go_ctx option"
  rq_key :: string
  rq_limit :: int
  rq_window :: int
  rq_now :: int

definition serve :: "rate_request \<Rightarrow> memory_store \<Rightarrow> (rate_error + rate_result) \<times> memory_store" where
  "serve r s =
     (case Allow (rq_ctx r) (rq_key r) (rq_limit r) (rq_window r) (rq_now r) (Some s) of
        (res, store) \<Rightarrow> (res, (case store of None \<Rightarrow> s | Some s' \<Rightarrow> s')))"

fun serve_all :: "rate_request list \<Rightarrow> memory_store \<Rightarrow> memory_store" where
  "serve_all [] s = s"
| "serve_all (r # rs) s = serve_all rs (snd (serve r s))"

definition admitted :: "rate_request \<Rightarrow> memory_store \<Rightarrow> bool" where
  "admitted r s = (case fst (serve r s) of Inl _ \<Rightarrow> False | Inr res \<Rightarrow> rr_allowed res)"

text \<open>How many requests for key \<open>k\<close> in bucket \<open>b\<close> of its windows of length \<open>w\<close> a run admits.\<close>

fun admitted_in :: "string \<Rightarrow> int \<Rightarrow> int \<Rightarrow> rate_request list \<Rightarrow> memory_store \<Rightarrow> int" where
  "admitted_in k w b [] s = 0"
| "admitted_in k w b (r # rs) s =
     (if trim_space (rq_key r) = k \<and> rq_now r div w = b \<and> admitted r s then 1 else 0)
     + admitted_in k w b rs (snd (serve r s))"

lemma serve_cases:
  "(\<exists>e. serve r s = (Inl e, s)) \<or>
   (trim_space (rq_key r) \<noteq> [] \<and> 0 < rq_limit r \<and> 0 < rq_window r \<and>
    serve r s = (Inr (fst (allow_locked (trim_space (rq_key r)) (rq_limit r) (rq_window r) (rq_now r) s)),
                 snd (allow_locked (trim_space (rq_key r)) (rq_limit r) (rq_window r) (rq_now r) s)))"
  by (auto simp: serve_def Allow_def Let_def split: option.split prod.split)

lemma store_ok_serve: "store_ok s \<Longrightarrow> store_ok (snd (serve r s))"
  using serve_cases [of r s] store_ok_allow_locked by auto

lemma store_ok_serve_all: "store_ok s \<Longrightarrow> store_ok (serve_all rs s)"
  by (induction rs arbitrary: s) (auto intro: store_ok_serve)

lemma ms_maxEntries_serve [simp]: "ms_maxEntries (snd (serve r s)) = ms_maxEntries s"
  using serve_cases [of r s]
  by (auto simp: allow_locked_def Let_def record_attempt_store split: option.splits)

lemma ms_maxEntries_serve_all [simp]: "ms_maxEntries (serve_all rs s) = ms_maxEntries s"
  by (induction rs arbitrary: s) auto

text \<open>
  What ties an entry to the clock: it resets where its window ends, and its window had
  started by the time \<open>t\<close> of the last call.
\<close>

definition entries_timed :: "int \<Rightarrow> memory_store \<Rightarrow> bool" where
  "entries_timed t s \<longleftrightarrow>
     (\<forall>(k, e) \<in> set (ms_entries s). 0 < me_window e \<and>
        me_resetAt e = (me_bucket e + 1) * me_window e \<and> me_bucket e * me_window e \<le> t)"

definition in_clock_range :: "int \<Rightarrow> bool" where
  "in_clock_range t \<longleftrightarrow> min_int64 \<le> t \<and> t \<le> max_int64"

text \<open>The count that the store holds against window \<open>b\<close> of key \<open>k\<close>.\<close>

definition used :: "string \<Rightarrow> int \<Rightarrow> int \<Rightarrow> memory_store \<Rightarrow> int" where
  "used k w b s =
     (case map_of (ms_entries s) k of None \<Rightarrow> 0
      | Some e \<Rightarrow> if me_window e = w \<and> me_bucket e = b then int (me_count e) else 0)"

lemma entries_timed_mono: "entries_timed t s \<Longrightarrow> t \<le> t' \<Longrightarrow> entries_timed t' s"
  by (fastforce simp: entries_timed_def)

lemma counted_entry_timed:
  assumes "entries_timed t s" "t \<le> now" "0 < window" "in_clock_range now"
  shows "0 < me_window (counted_entry key window now s) \<and>
    me_resetAt (counted_entry key window now s) =
      (me_bucket (counted_entry key window now s) + 1) * me_window (counted_entry key window now s) \<and>
    me_bucket (counted_entry key window now s) * me_window (counted_entry key window now s) \<le> now"
proof -
  have w: "memoryWindow now window = (now div window, (now div window + 1) * window)"
    using memoryWindow_eq assms(3,4) by (simp add: in_clock_range_def)
  have "\<And>e. map_of (ms_entries s) key = Some e \<Longrightarrow>
      0 < me_window e \<and> me_resetAt e = (me_bucket e + 1) * me_window e \<and> me_bucket e * me_window e \<le> now"
    using entries_timed_mono [OF assms(1,2)] by (fastforce simp: entries_timed_def dest: map_of_SomeD)
  then show ?thesis
    using window_end_bounds(3) [OF assms(3), of now] assms(3)
    by (auto simp: counted_entry_def w Let_def split: option.split)
qed

lemma entries_timed_update:
  assumes "entries_timed t s" "t \<le> now" "0 < window" "in_clock_range now"
  shows "entries_timed now (snd (record_attempt key limit window now s))"
  using entries_timed_mono [OF assms(1,2)] counted_entry_timed [OF assms, of key] set_update_subset
  unfolding record_attempt_store entries_timed_def by fastforce

lemma entries_timed_deleteExpired:
  "entries_timed t s \<Longrightarrow> entries_timed t (s\<lparr>ms_entries := deleteExpired now (ms_entries s)\<rparr>)"
  using deleteExpired_subset [of now "ms_entries s"] by (fastforce simp: entries_timed_def)

lemma entries_timed_serve:
  assumes "entries_timed t s" "t \<le> rq_now r" "in_clock_range (rq_now r)"
  shows "entries_timed (rq_now r) (snd (serve r s))"
proof -
  have "entries_timed (rq_now r) (snd (allow_locked key limit (rq_window r) (rq_now r) s))"
    if "0 < rq_window r" for key limit
    using entries_timed_update [OF assms(1,2) that assms(3)] entries_timed_mono
      entries_timed_update [OF entries_timed_deleteExpired [OF assms(1)] assms(2) that assms(3)]
      entries_timed_mono [OF entries_timed_deleteExpired [OF assms(1)] assms(2)]
    by (auto simp: allow_locked_def Let_def split: option.split)
  then show ?thesis
    using serve_cases [of r s] entries_timed_mono [OF assms(1,2)] by auto
qed

section \<open>No window admits more than its limit\<close>

lemma used_nonneg: "0 \<le> used k w b s"
  by (simp add: used_def split: option.split)

lemma used_deleteExpired:
  assumes "store_ok s" "entries_timed t s" "now < (b + 1) * w"
  shows "used k w b (s\<lparr>ms_entries := deleteExpired now (ms_entries s)\<rparr>) = used k w b s"
  using assms
  by (fastforce simp: used_def store_ok_def map_of_deleteExpired entries_timed_def
      split: option.split dest: map_of_SomeD)

lemma used_record_other:
  "key \<noteq> k \<Longrightarrow> used k w b (snd (record_attempt key limit window now s)) = used k w b s"
  by (simp add: used_def record_attempt_store update_conv')

lemma used_record_same:
  assumes "0 < w" "in_clock_range now" "now div w = b"
  shows "used k w b (snd (record_attempt k limit w now s)) =
    (if used k w b s < int max_uint64 then used k w b s + 1 else used k w b s)"
    "int (me_count (counted_entry k w now s)) = used k w b (snd (record_attempt k limit w now s))"
proof -
  have m: "memoryWindow now w = (b, (b + 1) * w)"
    using memoryWindow_eq assms by (simp add: in_clock_range_def)
  show "used k w b (snd (record_attempt k limit w now s)) =
    (if used k w b s < int max_uint64 then used k w b s + 1 else used k w b s)"
    by (auto simp: used_def record_attempt_store counted_entry_def Let_def m update_conv' max_uint64_def split: option.split)
  show "int (me_count (counted_entry k w now s)) = used k w b (snd (record_attempt k limit w now s))"
    by (auto simp: used_def record_attempt_store counted_entry_def Let_def m update_conv' split: option.split)
qed

lemma used_earlier_bucket:
  assumes "entries_timed t s" "t \<le> now" "0 < w" "now < b * w"
  shows "used k w b s = 0"
  using assms by (fastforce simp: used_def entries_timed_def split: option.split dest: map_of_SomeD)

text \<open>One attempt for \<open>k\<close>: what it admits is charged to the stored count.\<close>

lemma record_gain:
  assumes "entries_timed t s" "t \<le> now" "0 < w" "in_clock_range now" "now < (b + 1) * w"
    and "0 < l" "l \<le> max_int64"
  shows "(if now div w = b \<and> rr_allowed (fst (record_attempt k l w now s)) then 1 else 0)
      + min l (used k w b s) \<le> min l (used k w b (snd (record_attempt k l w now s)))"
proof (cases "now div w = b")
  case True
  have "l < int max_uint64" using assms(7) by (simp add: max_int64_def max_uint64_def)
  then show ?thesis
    using used_record_same [OF assms(3,4) True, where k = k and limit = l and s = s] True
    by (auto simp: record_attempt_allowed split: if_splits)
next
  case False
  have "now < b * w"
  proof (rule ccontr)
    assume "\<not> now < b * w"
    with assms(3,5) have "now div w = b" by (intro bucket_eqI) auto
    with False show False by simp
  qed
  from used_earlier_bucket [OF assms(1-3) this] False assms(6)
  show ?thesis using used_nonneg by simp
qed

lemma serve_gain:
  assumes "store_ok s" "entries_timed t s" "t \<le> rq_now r" "in_clock_range (rq_now r)"
    and "0 < w" "rq_now r < (b + 1) * w" "0 < l" "l \<le> max_int64"
    and "trim_space (rq_key r) = k \<Longrightarrow> rq_limit r = l \<and> rq_window r = w"
  shows "(if trim_space (rq_key r) = k \<and> rq_now r div w = b \<and> admitted r s then 1 else 0)
      + min l (used k w b s) \<le> min l (used k w b (snd (serve r s)))"
proof -
  let ?key = "trim_space (rq_key r)" and ?n = "rq_now r"
  let ?d = "s\<lparr>ms_entries := deleteExpired ?n (ms_entries s)\<rparr>"
  consider e where "serve r s = (Inl e, s)"
    | "serve r s = (Inr (fst (allow_locked ?key (rq_limit r) (rq_window r) ?n s)),
                    snd (allow_locked ?key (rq_limit r) (rq_window r) ?n s))"
    using serve_cases [of r s] by auto
  then show ?thesis
  proof cases
    case 1
    then show ?thesis by (simp add: admitted_def)
  next
    case 2
    have ud: "used k w b ?d = used k w b s"
      by (rule used_deleteExpired [OF assms(1,2,6)])
    show ?thesis
    proof (cases "?key = k")
      case True
      then have lw: "rq_limit r = l" "rq_window r = w" using assms(9) by auto
      show ?thesis
        using record_gain [OF assms(2,3,5,4,6,7,8), of k] ud
          record_gain [OF entries_timed_deleteExpired [OF assms(2), of ?n] assms(3,5,4,6,7,8), of k]
        by (auto simp: admitted_def 2 lw True allow_locked_def Let_def blockedResult_def
            split: option.splits)
    next
      case False
      then show ?thesis using ud
        by (auto simp: 2 allow_locked_def Let_def used_record_other split: option.splits)
    qed
  qed
qed

lemma admitted_in_late:
  "0 < w \<Longrightarrow> (\<And>r. r \<in> set rs \<Longrightarrow> (b + 1) * w \<le> rq_now r) \<Longrightarrow> admitted_in k w b rs s = 0"
proof (induction rs arbitrary: s)
  case (Cons r rs)
  have "(b + 1) * w \<le> rq_now r" using Cons.prems(2) by simp
  then have "rq_now r div w \<noteq> b"
    using window_end_bounds(1) [OF Cons.prems(1), of "rq_now r"] by auto
  with Cons show ?case by simp
qed simp

definition clocked :: "rate_request list \<Rightarrow> bool" where
  "clocked rs \<longleftrightarrow> sorted (map rq_now rs) \<and> list_all (\<lambda>r. in_clock_range (rq_now r)) rs"

definition uniform_for :: "string \<Rightarrow> int \<Rightarrow> int \<Rightarrow> rate_request list \<Rightarrow> bool" where
  "uniform_for k l w rs \<longleftrightarrow>
     list_all (\<lambda>r. trim_space (rq_key r) = k \<longrightarrow> rq_limit r = l \<and> rq_window r = w) rs"

lemma admitted_in_bound:
  assumes "0 < w" "0 < l" "l \<le> max_int64"
  shows "store_ok s \<Longrightarrow> entries_timed t s \<Longrightarrow> clocked rs \<Longrightarrow> (\<And>r. r \<in> set rs \<Longrightarrow> t \<le> rq_now r) \<Longrightarrow>
    uniform_for k l w rs \<Longrightarrow> admitted_in k w b rs s + min l (used k w b s) \<le> l"
proof (induction rs arbitrary: s t)
  case (Cons r rs)
  have late: "rq_now r \<le> rq_now r'" if "r' \<in> set rs" for r'
    using Cons.prems(3) that by (auto simp: clocked_def)
  show ?case
  proof (cases "rq_now r < (b + 1) * w")
    case True
    have range: "in_clock_range (rq_now r)" and t: "t \<le> rq_now r"
      using Cons.prems(3,4) by (auto simp: clocked_def)
    have "admitted_in k w b rs (snd (serve r s)) + min l (used k w b (snd (serve r s))) \<le> l"
      using Cons.prems late
      by (intro Cons.IH [OF store_ok_serve entries_timed_serve [OF _ t range]])
        (auto simp: clocked_def uniform_for_def)
    moreover have "(if trim_space (rq_key r) = k \<and> rq_now r div w = b \<and> admitted r s then 1 else 0)
      + min l (used k w b s) \<le> min l (used k w b (snd (serve r s)))"
      using Cons.prems(5) by (intro serve_gain [OF Cons.prems(1,2) t range assms(1) True assms(2,3)])
        (auto simp: uniform_for_def)
    moreover have "admitted_in k w b (r # rs) s =
        (if trim_space (rq_key r) = k \<and> rq_now r div w = b \<and> admitted r s then 1 else 0)
        + admitted_in k w b rs (snd (serve r s))"
      by (rule admitted_in.simps(2))
    ultimately show ?thesis by linarith
  next
    case False
    then have "(b + 1) * w \<le> rq_now r'" if "r' \<in> set (r # rs)" for r'
      using late [of r'] that by auto
    then have "admitted_in k w b (r # rs) s = 0" by (rule admitted_in_late [OF assms(1)])
    then show ?thesis by simp
  qed
qed simp

section \<open>Properties\<close>

text \<open>
  C1: the store never holds more entries than its capacity, its keys stay distinct and its
  counters stay inside \<open>uint64\<close>, whatever sequence of calls is served.
\<close>

theorem rate_store_bounded:
  "store_ok (serve_all rs (NewMemoryStore n)) \<and>
   int (length (ms_entries (serve_all rs (NewMemoryStore n)))) \<le> max 0 n"
proof -
  have ok: "store_ok (serve_all rs (NewMemoryStore n))"
    by (rule store_ok_serve_all [OF store_ok_New])
  then have "int (length (ms_entries (serve_all rs (NewMemoryStore n)))) \<le> ms_maxEntries (NewMemoryStore n)"
    by (simp add: store_ok_def)
  with ok show ?thesis by (simp add: NewMemoryStore_def max_def split: if_splits)
qed

text \<open>
  C2: a fixed window of a key admits at most its limit.  The requests may interleave with
  those of any other keys (which evict expired entries and compete for capacity); the clock
  does not run backwards and the key is always asked with the same limit and window.
\<close>

theorem rate_window_cap:
  assumes "0 < w" "0 < l" "l \<le> max_int64" "clocked rs" "uniform_for k l w rs"
  shows "admitted_in k w b rs (NewMemoryStore n) \<le> l"
proof -
  have "\<exists>t. \<forall>r \<in> set rs. t \<le> rq_now r"
    using assms(4) by (intro exI [of _ min_int64]) (auto simp: clocked_def list_all_iff in_clock_range_def)
  then obtain t where t: "\<And>r. r \<in> set rs \<Longrightarrow> t \<le> rq_now r" by blast
  have "entries_timed t (NewMemoryStore n)" by (simp add: entries_timed_def NewMemoryStore_def)
  from admitted_in_bound [OF assms(1-3) store_ok_New this assms(4) t assms(5), of b]
  show ?thesis using used_nonneg [of k w b "NewMemoryStore n"] assms(2) by linarith
qed

definition example_request :: "int \<Rightarrow> rate_request" where
  "example_request now = \<lparr>rq_ctx = Some \<lparr>ctx_err = None, ctx_err_locked = None\<rparr>, rq_key = '' k '',
     rq_limit = 2, rq_window = 10, rq_now = now\<rparr>"

theorem rate_window_cap_witness:
  "admitted_in ''k'' 10 0 (map example_request [1, 2, 3, 12]) (NewMemoryStore 4) \<le> 2"
  by (rule rate_window_cap)
    (code_simp | simp add: max_int64_def)+

text \<open>
  The bucket is the floored quotient of the clock, and the reset time is the first
  instant of the next bucket: after \<open>now\<close>, at most one window away, for times on both
  sides of the epoch.
\<close>

theorem memoryWindow_correct:
  assumes "0 < window" "min_int64 \<le> now" "now \<le> max_int64"
  shows "fst (memoryWindow now window) = now div window \<and>
     snd (memoryWindow now window) = (now div window + 1) * window \<and>
     now < snd (memoryWindow now window) \<and> snd (memoryWindow now window) \<le> now + window"
  using window_end_bounds [OF assms(1), of now] by (simp add: memoryWindow_eq [OF assms])

text \<open>
  A call that reports an error, cancellation while waiting for the lock included,
  leaves the store exactly as it was.
\<close>

theorem rate_error_no_change:
  assumes "fst (Allow ctx key limit window now store) = Inl e"
  shows "snd (Allow ctx key limit window now store) = store"
  using assms by (auto simp: Allow_def Let_def split: option.splits if_splits prod.splits)


end
