(* ===== verification/Text_Bounds.thy ===== *)
theory Text_Bounds
  imports Go_Text
begin

text \<open>
  The byte-bounding helpers of internal/chat: \<open>utf8Prefix\<close>, \<open>utf8Suffix\<close>
  (chat_turn_compaction.go), \<open>truncateChatAgentUTF8\<close> (chat_agent_events.go),
  \<open>truncateProcessUTF8\<close> (process_trace.go), \<open>normalizedToolName\<close>
  (web_tool_loop.go) and the token estimators of conversation_context_summary.go.
  The lemmas say that a truncated string is valid UTF-8, within its bound, and at most
  three bytes shorter than the bound when the input was valid.
\<close>

lemma not_valid_nonempty: "\<not> valid_utf8 s \<Longrightarrow> 0 < length s"
  by (cases s) auto

section \<open>Cutting back to a rune boundary\<close>

text \<open>\<open>for !utf8.ValidString(value) { value = value[:len(value)-1] }\<close>\<close>

function shrink_right :: "string \<Rightarrow> string" where
  "shrink_right s = (if valid_utf8 s then s else shrink_right (butlast s))"
  by pat_completeness auto
termination
  by (relation "measure length") (auto intro!: diff_less simp: length_greater_0_conv simp del: length_0_conv dest: not_valid_nonempty)

declare shrink_right.simps [simp del]

text \<open>\<open>for !utf8.ValidString(value) { value = value[1:] }\<close>\<close>

function shrink_left :: "string \<Rightarrow> string" where
  "shrink_left s = (if valid_utf8 s then s else shrink_left (tl s))"
  by pat_completeness auto
termination
  by (relation "measure length") (auto intro!: diff_less simp: length_greater_0_conv simp del: length_0_conv dest: not_valid_nonempty)

declare shrink_left.simps [simp del]

definition utf8Prefix :: "string \<Rightarrow> int \<Rightarrow> string" where
  "utf8Prefix value maximum =
     (if maximum \<le> 0 then []
      else if int (length value) \<le> maximum then value
      else shrink_right (take (nat maximum) value))"

definition utf8Suffix :: "string \<Rightarrow> int \<Rightarrow> string" where
  "utf8Suffix value maximum =
     (if maximum \<le> 0 then []
      else if int (length value) \<le> maximum then value
      else shrink_left (drop (length value - nat maximum) value))"

definition truncateChatAgentUTF8 :: "string \<Rightarrow> int \<Rightarrow> string" where
  "truncateChatAgentUTF8 value maxBytes =
     (if maxBytes \<le> 0 \<or> int (length value) \<le> maxBytes then value
      else shrink_right (take (nat maxBytes) value))"

definition truncateProcessUTF8 :: "string \<Rightarrow> int \<Rightarrow> string" where
  "truncateProcessUTF8 value maxBytes =
     (if maxBytes \<le> 0 \<or> int (length value) \<le> maxBytes then value
      else shrink_right (take (nat maxBytes) value))"

lemma shrink_right_valid: "valid_utf8 (shrink_right s)"
proof (induction s rule: shrink_right.induct)
  case (1 s)
  then show ?case by (subst shrink_right.simps) simp
qed

lemma shrink_left_valid: "valid_utf8 (shrink_left s)"
proof (induction s rule: shrink_left.induct)
  case (1 s)
  then show ?case by (subst shrink_left.simps) simp
qed

lemma shrink_right_prefix: "prefix (shrink_right s) s"
proof (induction s rule: shrink_right.induct)
  case (1 s)
  show ?case
  proof (cases "valid_utf8 s")
    case False
    with 1 have "prefix (shrink_right (butlast s)) (butlast s)" by simp
    then have "prefix (shrink_right (butlast s)) s"
      using prefixeq_butlast prefix_order.trans by blast
    with False show ?thesis by (subst shrink_right.simps) simp
  qed (subst shrink_right.simps, simp)
qed

lemma shrink_left_suffix: "suffix (shrink_left s) s"
proof (induction s rule: shrink_left.induct)
  case (1 s)
  show ?case
  proof (cases "valid_utf8 s")
    case False
    with 1 have "suffix (shrink_left (tl s)) (tl s)" by simp
    then have "suffix (shrink_left (tl s)) s"
      using suffix_tl suffix_order.trans by blast
    with False show ?thesis by (subst shrink_left.simps) simp
  qed (subst shrink_left.simps, simp)
qed

text \<open>The loops stop at the longest valid prefix (suffix): every valid one is below it.\<close>

lemma shrink_right_longest: "valid_utf8 (take m s) \<Longrightarrow> min m (length s) \<le> length (shrink_right s)"
proof (induction s rule: shrink_right.induct)
  case (1 s)
  show ?case
  proof (cases "valid_utf8 s")
    case True
    then show ?thesis by (subst shrink_right.simps) simp
  next
    case False
    with "1.prems" have m: "m < length s" by (metis linorder_not_le take_all)
    then have "take m (butlast s) = take m s" by (simp add: take_butlast)
    with "1.IH" [OF False] "1.prems" have "min m (length (butlast s)) \<le> length (shrink_right (butlast s))"
      by simp
    with m False show ?thesis by (subst shrink_right.simps) simp
  qed
qed

lemma shrink_left_longest: "valid_utf8 (drop m s) \<Longrightarrow> length s - m \<le> length (shrink_left s)"
proof (induction s arbitrary: m rule: shrink_left.induct)
  case (1 s)
  show ?case
  proof (cases "valid_utf8 s")
    case True
    then show ?thesis by (subst shrink_left.simps) simp
  next
    case False
    with "1.prems" obtain k where k: "m = Suc k" by (cases m) auto
    then have "drop k (tl s) = drop m s" by (simp add: drop_Suc)
    with "1.IH" [OF False, of k] "1.prems" have "length (tl s) - k \<le> length (shrink_left (tl s))"
      by simp
    with k False show ?thesis by (subst shrink_left.simps) simp
  qed
qed

lemma shrink_right_near:
  assumes "valid_utf8 s" "n \<le> length s"
  shows "n \<le> length (shrink_right (take n s)) + 3"
proof -
  obtain m where m: "m \<le> n" "n \<le> m + 3" "valid_utf8 (take m s)"
    using utf8_boundary_below [OF assms] by blast
  then have "valid_utf8 (take m (take n s))" by (simp add: min_absorb1)
  from shrink_right_longest [OF this] m assms(2) show ?thesis by simp
qed

lemma shrink_left_near:
  assumes "valid_utf8 s" "n \<le> length s"
  shows "n \<le> length (shrink_left (drop (length s - n) s)) + 3"
proof -
  obtain m where m: "length s - n \<le> m" "m \<le> length s - n + 3" "m \<le> length s" "valid_utf8 (drop m s)"
    using utf8_boundary_above [OF assms(1), of "length s - n"] assms(2) by auto
  define k where "k = m - (length s - n)"
  have "drop k (drop (length s - n) s) = drop m s"
    using m(1) by (simp add: k_def)
  with m(4) have "valid_utf8 (drop k (drop (length s - n) s))" by simp
  from shrink_left_longest [OF this] m assms(2) show ?thesis by (simp add: k_def)
qed

lemma length_utf8Prefix_le: "int (length (utf8Prefix s n)) \<le> max 0 n"
  using prefix_length_le [OF shrink_right_prefix [of "take (nat n) s"]]
  by (auto simp: utf8Prefix_def)

lemma utf8Prefix_prefix: "prefix (utf8Prefix s n) s"
  using shrink_right_prefix [of "take (nat n) s"] take_is_prefix [of "nat n" s]
  by (auto simp: utf8Prefix_def intro: prefix_order.trans)

lemma length_utf8Prefix_le_length: "length (utf8Prefix s n) \<le> length s"
  by (rule prefix_length_le [OF utf8Prefix_prefix])

lemma length_utf8Suffix_le: "int (length (utf8Suffix s n)) \<le> max 0 n"
  using suffix_length_le [OF shrink_left_suffix [of "drop (length s - nat n) s"]]
  by (auto simp: utf8Suffix_def)

lemma utf8Suffix_suffix: "suffix (utf8Suffix s n) s"
  using shrink_left_suffix [of "drop (length s - nat n) s"] suffix_drop [of "length s - nat n" s]
  by (auto simp: utf8Suffix_def intro: suffix_order.trans)

lemma length_utf8Suffix_le_length: "length (utf8Suffix s n) \<le> length s"
  by (rule suffix_length_le [OF utf8Suffix_suffix])

lemma utf8Prefix_valid: "valid_utf8 s \<Longrightarrow> valid_utf8 (utf8Prefix s n)"
  by (simp add: utf8Prefix_def shrink_right_valid)

lemma utf8Suffix_valid: "valid_utf8 s \<Longrightarrow> valid_utf8 (utf8Suffix s n)"
  by (simp add: utf8Suffix_def shrink_left_valid)

lemma utf8Prefix_near:
  "valid_utf8 s \<Longrightarrow> 0 \<le> n \<Longrightarrow> min n (int (length s)) \<le> int (length (utf8Prefix s n)) + 3"
  using shrink_right_near [of s "nat n"] by (auto simp: utf8Prefix_def nat_le_iff)

lemma utf8Suffix_near:
  "valid_utf8 s \<Longrightarrow> 0 \<le> n \<Longrightarrow> min n (int (length s)) \<le> int (length (utf8Suffix s n)) + 3"
  using shrink_left_near [of s "nat n"] by (auto simp: utf8Suffix_def nat_le_iff)

lemma truncateChatAgentUTF8_bound:
  "0 < n \<Longrightarrow> int (length (truncateChatAgentUTF8 s n)) \<le> n"
  using prefix_length_le [OF shrink_right_prefix [of "take (nat n) s"]]
  by (auto simp: truncateChatAgentUTF8_def)

lemma truncateProcessUTF8_bound:
  "0 < n \<Longrightarrow> int (length (truncateProcessUTF8 s n)) \<le> n"
  using prefix_length_le [OF shrink_right_prefix [of "take (nat n) s"]]
  by (auto simp: truncateProcessUTF8_def)

section \<open>Tool names\<close>

definition maxToolNameBytes :: int where
  "maxToolNameBytes = 128"

definition normalizedToolName :: "string \<Rightarrow> string" where
  "normalizedToolName value =
     (let value = trim_space value in
      if value = [] then ''unknown'' else truncateProcessUTF8 value maxToolNameBytes)"

section \<open>Token estimates\<close>

text \<open>
  A rune is ASCII exactly when its first byte is below \<open>0x80\<close>; an invalid byte decodes
  to \<open>RuneError\<close>, which is not ASCII.
\<close>

definition rune_ascii :: "string \<Rightarrow> bool" where
  "rune_ascii r = (case r of [] \<Rightarrow> False | c # _ \<Rightarrow> of_char c < (0x80::nat))"

definition estimateProviderTextTokens :: "string \<Rightarrow> int" where
  "estimateProviderTextTokens value =
     (if value = [] then 0
      else (let rs = go_runes value;
                ascii = int (length (filter rune_ascii rs));
                nonASCII = int (length (filter (\<lambda>r. \<not> rune_ascii r) rs))
            in (ascii + 3) div 4 + nonASCII * 2))"

lemma estimateProviderTextTokens_nonneg [simp]: "0 \<le> estimateProviderTextTokens s"
  by (simp add: estimateProviderTextTokens_def Let_def)

end
