(* ===== verification/Chat_Types.thy ===== *)
theory Chat_Types
  imports Text_Bounds
begin

text \<open>
  The data that the chat components exchange: decoded JSON values, stored messages and the
  messages of a provider request (internal/chat/types.go, provider.go).
\<close>

text \<open>
  A decoded JSON value (Go's \<open>any\<close>).  \<open>AnyInt\<close> is an \<open>int\<close> or \<open>int64\<close>;
  \<open>AnyFloat m e\<close> is the \<open>float64\<close> with the exact value \<open>m * 2 ^ e\<close>.
\<close>

datatype any_value =
    AnyNil
  | AnyBool bool
  | AnyInt int
  | AnyFloat int int
  | AnyString string
  | AnyList "any_value list"
  | AnyMap "(string \<times> any_value) list"

type_synonym any_map = "(string, any_value) gomap"

text \<open>Indexing a Go map of strings: a missing key reads as the empty string.\<close>

definition lookup_str :: "(string, string) gomap \<Rightarrow> string \<Rightarrow> string" where
  "lookup_str m k = (case map_of m k of None \<Rightarrow> [] | Some v \<Rightarrow> v)"

lemma lookup_str_update [simp]:
  "lookup_str (AList.update k v m) k' = (if k' = k then v else lookup_str m k')"
  by (simp add: lookup_str_def update_conv')

lemma lookup_str_Nil [simp]: "lookup_str [] k = []"
  by (simp add: lookup_str_def)

record provider_attachment =
  pa_FileID :: string
  pa_FileName :: string
  pa_MimeType :: string
  pa_Size :: int
  pa_SHA256 :: string
  pa_Purpose :: string
  pa_Data :: string

record provider_message =
  pm_MessageID :: string
  pm_Role :: string
  pm_Content :: string
  pm_Attachments :: "provider_attachment list"

text \<open>The fields of a stored message that the modelled components read.\<close>

record chat_message =
  msg_ID :: string
  msg_ParentMessageID :: string
  msg_Role :: string
  msg_Content :: string
  msg_Metadata :: any_map

record context_summary =
  cs_ConversationID :: string
  cs_Version :: int
  cs_ModelProvider :: string
  cs_ModelID :: string
  cs_SourceFirstMessageID :: string
  cs_SourceLastMessageID :: string
  cs_SourceMessageCount :: int
  cs_SourceDigest :: string
  cs_Summary :: string
  cs_EstimatedSourceTokens :: int
  cs_EstimatedSummaryTokens :: int

record upsert_summary_input =
  us_ModelProvider :: string
  us_ModelID :: string
  us_SourceFirstMessageID :: string
  us_SourceLastMessageID :: string
  us_SourceMessageCount :: int
  us_SourceDigest :: string
  us_Summary :: string
  us_EstimatedSourceTokens :: int
  us_EstimatedSummaryTokens :: int

text \<open>provider_tool_round.go: the calls, results and exchanges of an agent turn.\<close>

record tool_call =
  tc_ChoiceIndex :: int
  tc_CallIndex :: int
  tc_ID :: string
  tc_SyntheticID :: bool
  tc_Name :: string
  tc_Arguments :: string
  tc_FailureCategory :: string

record tool_result =
  tr_CallID :: string
  tr_Name :: string
  tr_Content :: string
  tr_IsError :: bool

record tool_exchange =
  tx_AssistantContent :: string
  tx_AssistantReasoning :: string
  tx_Calls :: "tool_call list"
  tx_Results :: "tool_result list"
  tx_ProviderState :: "any_value option"
  tx_FollowupPrompt :: string
  tx_Checkpoint :: string

end
