(* ===== verification/Conversation_Tree.thy ===== *)
theory Conversation_Tree
  imports Chat_Types
begin

text \<open>
  internal/chat/conversation_context.go: which branch of a conversation a provider sees.  The
  parent of every message is computed in one pass over the stored rows; the branch is the walk
  from the anchor to a root.  Both walks of the code carry a set of visited ids; the lemmas show
  that, with distinct ids, the walk never meets one twice and that the branch keeps the stored
  order.
\<close>

definition treeParentMessageIDMetadataKey :: string where
  "treeParentMessageIDMetadataKey = ''treeParentMessageId''"

definition explicitTreeParent :: "any_map \<Rightarrow> string \<times> bool" where
  "explicitTreeParent metadata =
     (case map_of metadata treeParentMessageIDMetadataKey of
        None \<Rightarrow> ([], False)
      | Some AnyNil \<Rightarrow> ([], True)
      | Some (AnyString parentID) \<Rightarrow>
          if trim_space parentID = [] then ([], False) else (trim_space parentID, True)
      | Some _ \<Rightarrow> ([], False))"

text \<open>The loop of \<open>activeConversationLeaf\<close> with its set of visited ids.\<close>

function leaf_from :: "string list \<Rightarrow> string \<Rightarrow> (string, string) gomap \<Rightarrow> string" where
  "leaf_from visited current children =
     (if current = [] then []
      else if current \<in> set visited then []
      else let succ = lookup_str children current
           in if succ = [] then current else leaf_from (current # visited) succ children)"
  by auto
termination
proof (relation "measure (\<lambda>(visited, current, children). card (fst ` set children - set visited))")
  fix visited current children succ
  assume "(current::string) \<notin> set visited" "succ = lookup_str children current" "succ \<noteq> []"
  then have "current \<in> fst ` set children"
    by (auto simp: lookup_str_def split: option.splits dest: map_of_key)
  then have "fst ` set children - set (current # visited) \<subset> fst ` set children - set visited"
    using \<open>current \<notin> set visited\<close> by auto
  then show "((current # visited, succ, children), visited, current, children) \<in>
      measure (\<lambda>(visited, current, children). card (fst ` set children - set visited))"
    by (simp add: psubset_card_mono)
qed simp

declare leaf_from.simps [simp del]

definition activeConversationLeaf :: "string \<Rightarrow> (string, string) gomap \<Rightarrow> string" where
  "activeConversationLeaf root activeChildren = leaf_from [] root activeChildren"

record tree_pass =
  tp_parents :: "(string, string) gomap"
  tp_known :: "string list"
  tp_children :: "(string, string) gomap"
  tp_root :: string

text \<open>The body of the pass over the messages.\<close>

definition parent_step :: "chat_message \<Rightarrow> tree_pass \<Rightarrow> tree_pass" where
  "parent_step message s =
     (let messageID = trim_space (msg_ID message)
      in if messageID = [] then s
         else
           let (parentID, explicit) = explicitTreeParent (msg_Metadata message);
               (parentID, explicit) =
                 (if \<not> explicit
                  then (trim_space (msg_ParentMessageID message), trim_space (msg_ParentMessageID message) \<noteq> [])
                  else (parentID, explicit));
               parentID =
                 (if explicit
                  then (if parentID = [] \<or> parentID \<notin> set (tp_known s) then [] else parentID)
                  else activeConversationLeaf (tp_root s) (tp_children s));
               s = s\<lparr>tp_parents := AList.update messageID parentID (tp_parents s),
                     tp_known := List.insert messageID (tp_known s)\<rparr>
           in if parentID = [] then s\<lparr>tp_root := messageID\<rparr>
              else s\<lparr>tp_children := AList.update parentID messageID (tp_children s)\<rparr>)"

definition parent_pass :: "chat_message list \<Rightarrow> tree_pass" where
  "parent_pass messages =
     fold parent_step messages \<lparr>tp_parents = [], tp_known = [], tp_children = [], tp_root = []\<rparr>"

definition effectiveConversationParents :: "chat_message list \<Rightarrow> (string, string) gomap" where
  "effectiveConversationParents messages = tp_parents (parent_pass messages)"

text \<open>The walk from the anchor to its root.\<close>

function path_from ::
  "string list \<Rightarrow> string \<Rightarrow> (string, string) gomap \<Rightarrow> (string, chat_message) gomap \<Rightarrow> chat_message list" where
  "path_from visited messageID parents byID =
     (if messageID = [] then []
      else if messageID \<in> set visited then []
      else (case map_of byID messageID of
              None \<Rightarrow> []
            | Some message \<Rightarrow>
                message # path_from (messageID # visited) (lookup_str parents messageID) parents byID))"
  by auto
termination
proof (relation "measure (\<lambda>(visited, messageID, parents, byID). card (fst ` set byID - set visited))")
  fix visited messageID parents byID and message :: chat_message
  assume "(messageID::string) \<notin> set visited" "map_of byID messageID = Some message"
  then have "fst ` set byID - set (messageID # visited) \<subset> fst ` set byID - set visited"
    using map_of_key [of byID messageID message] by auto
  then show "((messageID # visited, lookup_str parents messageID, parents, byID),
      visited, messageID, parents, byID) \<in>
      measure (\<lambda>(visited, messageID, parents, byID). card (fst ` set byID - set visited))"
    by (simp add: psubset_card_mono)
qed simp

declare path_from.simps [simp del]

definition messages_by_id :: "chat_message list \<Rightarrow> (string, chat_message) gomap" where
  "messages_by_id messages = fold (\<lambda>message m. AList.update (msg_ID message) message m) messages []"

definition conversation_path :: "chat_message list \<Rightarrow> string \<Rightarrow> chat_message list" where
  "conversation_path messages anchorMessageID =
     path_from [] (trim_space anchorMessageID) (effectiveConversationParents messages) (messages_by_id messages)"

text \<open>
  \<open>stripMarkers\<close> is \<open>stripReservedSourceMarkers\<close>, a regular-expression
  replacement by Go's \<open>regexp\<close> package.
\<close>

definition provider_view ::
  "(string \<Rightarrow> string) \<Rightarrow> string \<Rightarrow> string \<Rightarrow> provider_attachment list \<Rightarrow> chat_message \<Rightarrow> provider_message list" where
  "provider_view stripMarkers anchorMessageID currentPrompt currentAttachments message =
     (if msg_Role message \<noteq> ''user'' \<and> msg_Role message \<noteq> ''assistant'' then []
      else
        let (content, attachments) =
              (if msg_ID message = anchorMessageID then (currentPrompt, currentAttachments)
               else if msg_Role message = ''assistant'' then (stripMarkers (msg_Content message), [])
               else (msg_Content message, []))
        in if trim_space content = [] \<and> attachments = [] then []
           else [\<lparr>pm_MessageID = msg_ID message, pm_Role = msg_Role message,
                  pm_Content = content, pm_Attachments = attachments\<rparr>])"

definition buildProviderConversationMessages ::
  "(string \<Rightarrow> string) \<Rightarrow> chat_message list \<Rightarrow> string \<Rightarrow> string \<Rightarrow> provider_attachment list
   \<Rightarrow> provider_message list" where
  "buildProviderConversationMessages stripMarkers messages anchorMessageID currentPrompt currentAttachments =
     concat (map (provider_view stripMarkers anchorMessageID currentPrompt currentAttachments)
               (rev (conversation_path messages anchorMessageID)))"

section \<open>Parents are earlier messages\<close>

definition ids_ok :: "chat_message list \<Rightarrow> bool" where
  "ids_ok messages \<longleftrightarrow> distinct (map msg_ID messages) \<and>
     list_all (\<lambda>m. msg_ID m \<noteq> [] \<and> trim_space (msg_ID m) = msg_ID m) messages"

lemma leaf_from_range:
  "leaf_from visited current children \<in> insert [] (insert current (snd ` set children))"
proof (induction visited current children rule: leaf_from.induct)
  case (1 visited current children)
  define S where "S = snd ` set children"
  let ?succ = "lookup_str children current"
  have succ: "?succ \<noteq> [] \<Longrightarrow> ?succ \<in> S"
    by (auto simp: S_def lookup_str_def split: option.splits dest: map_of_value)
  show ?case
  proof (cases "current = [] \<or> current \<in> set visited \<or> ?succ = []")
    case True
    then show ?thesis by (subst leaf_from.simps) (auto simp: Let_def)
  next
    case False
    then have "leaf_from visited current children = leaf_from (current # visited) ?succ children"
      by (subst leaf_from.simps) (simp add: Let_def)
    then show ?thesis using 1 False succ unfolding S_def [symmetric] by auto
  qed
qed

definition pass_ok :: "string list \<Rightarrow> tree_pass \<Rightarrow> bool" where
  "pass_ok ids s \<longleftrightarrow> set (tp_known s) = set ids \<and> tp_root s \<in> insert [] (set ids) \<and>
     snd ` set (tp_children s) \<subseteq> set ids"

lemma snd_update: "snd ` set (AList.update k v m) \<subseteq> insert v (snd ` set m)"
  using set_update_subset [of k v m] by auto

lemma parent_step_ok:
  assumes "pass_ok ids s" "msg_ID m \<noteq> []" "trim_space (msg_ID m) = msg_ID m"
  shows "pass_ok (ids @ [msg_ID m]) (parent_step m s) \<and>
    (\<exists>p \<in> insert [] (set ids). tp_parents (parent_step m s) = AList.update (msg_ID m) p (tp_parents s))"
proof -
  have leaf: "activeConversationLeaf (tp_root s) (tp_children s) \<in> insert [] (set ids)"
    using leaf_from_range [of "[]" "tp_root s" "tp_children s"] assms(1)
    by (auto simp: activeConversationLeaf_def pass_ok_def)
  obtain pe x where e: "explicitTreeParent (msg_Metadata m) = (pe, x)" by fastforce
  define p where "p = (if x then (if pe = [] \<or> pe \<notin> set (tp_known s) then [] else pe)
     else if trim_space (msg_ParentMessageID m) \<noteq> []
     then (if trim_space (msg_ParentMessageID m) \<notin> set (tp_known s) then [] else trim_space (msg_ParentMessageID m))
     else activeConversationLeaf (tp_root s) (tp_children s))"
  have p: "p \<in> insert [] (set ids)"
    using leaf assms(1) by (auto simp: p_def pass_ok_def)
  have step: "parent_step m s =
     (let t = s\<lparr>tp_parents := AList.update (msg_ID m) p (tp_parents s),
                tp_known := List.insert (msg_ID m) (tp_known s)\<rparr>
      in if p = [] then t\<lparr>tp_root := msg_ID m\<rparr> else t\<lparr>tp_children := AList.update p (msg_ID m) (tp_children s)\<rparr>)"
    using assms(2,3) by (simp add: parent_step_def e p_def Let_def)
  show ?thesis
    using assms(1) p snd_update [of p "msg_ID m" "tp_children s"]
    by (auto simp: step pass_ok_def Let_def)
qed

lemma parent_pass_ok:
  assumes "ids_ok ms"
  shows "pass_ok (map msg_ID ms) (parent_pass ms)"
  using assms
proof (induction ms rule: rev_induct)
  case (snoc m ms)
  then have "pass_ok (map msg_ID ms) (parent_pass ms)" by (simp add: ids_ok_def)
  then show ?case
    using parent_step_ok snoc.prems by (simp add: parent_pass_def ids_ok_def)
qed (simp add: parent_pass_def pass_ok_def)

lemma parents_snoc:
  assumes "ids_ok (ms @ [m])"
  obtains p where "p \<in> insert [] (set (map msg_ID ms))"
    "tp_parents (parent_pass (ms @ [m])) = AList.update (msg_ID m) p (tp_parents (parent_pass ms))"
proof -
  have "ids_ok ms" using assms by (simp add: ids_ok_def)
  from parent_step_ok [OF parent_pass_ok [OF this], of m] that show thesis
    using assms by (auto simp: ids_ok_def parent_pass_def)
qed

lemma parent_earlier:
  "ids_ok (xs @ m # ys) \<Longrightarrow>
   lookup_str (effectiveConversationParents (xs @ m # ys)) (msg_ID m) \<in> insert [] (set (map msg_ID xs))"
proof (induction ys rule: rev_induct)
  case Nil
  then show ?case
    by (auto simp: effectiveConversationParents_def elim: parents_snoc)
next
  case (snoc y ys)
  then have "ids_ok ((xs @ m # ys) @ [y])" "msg_ID y \<noteq> msg_ID m" by (auto simp: ids_ok_def)
  moreover have "ids_ok (xs @ m # ys)" using snoc.prems by (simp add: ids_ok_def)
  moreover from calculation(1) obtain p where
    "tp_parents (parent_pass ((xs @ m # ys) @ [y])) = AList.update (msg_ID y) p (tp_parents (parent_pass (xs @ m # ys)))"
    by (rule parents_snoc)
  ultimately show ?case
    using snoc.IH by (simp add: effectiveConversationParents_def)
qed

lemma messages_by_id_lookup:
  "distinct (map msg_ID ms) \<Longrightarrow> m \<in> set ms \<Longrightarrow> map_of (messages_by_id ms) (msg_ID m) = Some m"
  by (induction ms rule: rev_induct) (auto simp: messages_by_id_def update_conv' image_iff)

section \<open>The branch\<close>

text \<open>
  The walk from the message between \<open>xs\<close> and \<open>ys\<close>: it stays among the messages up to it,
  in stored order, and stops at a root, for any set of visited ids that it does not meet.
\<close>

lemma path_from_subseq:
  assumes "ids_ok messages"
  shows "messages = xs @ m # ys \<Longrightarrow> set vis \<inter> msg_ID ` set (xs @ [m]) = {} \<Longrightarrow>
    (let p = path_from vis (msg_ID m) (effectiveConversationParents messages) (messages_by_id messages)
     in subseq (rev p) (xs @ [m]) \<and> p \<noteq> [] \<and> hd p = m \<and>
        lookup_str (effectiveConversationParents messages) (msg_ID (last p)) = [])"
proof (induction "length xs" arbitrary: xs m ys vis rule: less_induct)
  case less
  let ?par = "effectiveConversationParents messages" and ?by = "messages_by_id messages"
  let ?q = "lookup_str ?par (msg_ID m)"
  have m: "m \<in> set messages" "msg_ID m \<noteq> []" "msg_ID m \<notin> set vis"
    using less.prems assms by (auto simp: ids_ok_def)
  then have unfold: "path_from vis (msg_ID m) ?par ?by = m # path_from (msg_ID m # vis) ?q ?par ?by"
    using messages_by_id_lookup [of messages m] assms
    by (subst path_from.simps) (simp add: ids_ok_def)
  have "?q = [] \<or> ?q \<in> msg_ID ` set xs"
    using parent_earlier [of xs m ys] assms less.prems(1) by auto
  then show ?case
  proof
    assume "?q = []"
    then show ?thesis
      by (simp add: unfold Let_def path_from.simps [of _ "[]"] subseq_singleton_left)
  next
    assume "?q \<in> msg_ID ` set xs"
    then obtain m' us vs where m': "?q = msg_ID m'" "xs = us @ m' # vs"
      by (metis imageE split_list)
    have "msg_ID m \<notin> msg_ID ` set (us @ [m'])"
      using assms less.prems(1) m'(2) by (auto simp: ids_ok_def)
    then have "set (msg_ID m # vis) \<inter> msg_ID ` set (us @ [m']) = {}"
      using less.prems(2) m'(2) by auto
    moreover have "length us < length xs" "messages = us @ m' # (vs @ m # ys)"
      using m'(2) less.prems(1) by simp_all
    ultimately have "let p = path_from (msg_ID m # vis) (msg_ID m') ?par ?by
      in subseq (rev p) (us @ [m']) \<and> p \<noteq> [] \<and> hd p = m' \<and> lookup_str ?par (msg_ID (last p)) = []"
      by (intro less.hyps [of us m' "vs @ m # ys"])
    then have IH: "let p = path_from (msg_ID m # vis) ?q ?par ?by
      in subseq (rev p) (us @ [m']) \<and> p \<noteq> [] \<and> hd p = m' \<and> lookup_str ?par (msg_ID (last p)) = []"
      by (simp only: m'(1))
    define p where "p = path_from (msg_ID m # vis) ?q ?par ?by"
    have "subseq (rev p) (us @ [m'])" "p \<noteq> []" "lookup_str ?par (msg_ID (last p)) = []"
      using IH by (simp_all add: p_def Let_def)
    moreover have "subseq (rev p @ [m]) (((us @ [m']) @ vs) @ [m])"
      by (rule list_emb_append_mono [OF list_emb_prefix [OF calculation(1)]]) simp
    ultimately show ?thesis
      unfolding unfold p_def [symmetric] Let_def by (simp add: m'(2))
  qed
qed

lemma conversation_path_branch:
  assumes "ids_ok messages" "m \<in> set messages"
  shows "subseq (rev (conversation_path messages (msg_ID m))) messages"
    "conversation_path messages (msg_ID m) \<noteq> []" "hd (conversation_path messages (msg_ID m)) = m"
    "lookup_str (effectiveConversationParents messages) (msg_ID (last (conversation_path messages (msg_ID m)))) = []"
proof -
  obtain xs ys where split: "messages = xs @ m # ys" using assms(2) by (meson split_list)
  have t: "trim_space (msg_ID m) = msg_ID m" using assms by (auto simp: ids_ok_def list_all_iff)
  note b = path_from_subseq [OF assms(1) split, of "[]", unfolded Let_def, simplified]
  have "subseq (xs @ [m]) messages"
    by (rule prefix_imp_subseq) (simp add: split)
  with b show "subseq (rev (conversation_path messages (msg_ID m))) messages"
    by (auto simp: conversation_path_def t intro: subseq_order.trans)
  from b show "conversation_path messages (msg_ID m) \<noteq> []" "hd (conversation_path messages (msg_ID m)) = m"
    "lookup_str (effectiveConversationParents messages) (msg_ID (last (conversation_path messages (msg_ID m)))) = []"
    by (simp_all add: conversation_path_def t)
qed

lemma provider_view_ids:
  "map pm_MessageID (provider_view f a p at m) = [] \<or> map pm_MessageID (provider_view f a p at m) = [msg_ID m]"
  by (auto simp: provider_view_def Let_def)

lemma view_ids_subseq:
  "subseq (map pm_MessageID (concat (map (provider_view f a p at) ms))) (map msg_ID ms)"
proof (induction ms)
  case (Cons m ms)
  then show ?case using provider_view_ids [of f a p at m] by auto
qed simp

section \<open>Legacy rows without parent ids\<close>

definition unparented :: "chat_message list \<Rightarrow> bool" where
  "unparented messages \<longleftrightarrow>
     list_all (\<lambda>m. \<not> snd (explicitTreeParent (msg_Metadata m)) \<and> trim_space (msg_ParentMessageID m) = []) messages"

text \<open>The chain of children that a list of ids gives.\<close>

fun chained :: "string list \<Rightarrow> (string, string) gomap \<Rightarrow> bool" where
  "chained [] m \<longleftrightarrow> True"
| "chained [x] m \<longleftrightarrow> lookup_str m x = []"
| "chained (x # y # zs) m \<longleftrightarrow> lookup_str m x = y \<and> chained (y # zs) m"

lemma leaf_from_chained:
  "chained ids m \<Longrightarrow> ids \<noteq> [] \<Longrightarrow> distinct ids \<Longrightarrow> [] \<notin> set ids \<Longrightarrow> set vis \<inter> set ids = {} \<Longrightarrow>
   leaf_from vis (hd ids) m = last ids"
proof (induction ids m arbitrary: vis rule: chained.induct)
  case (2 x m)
  then show ?case by (subst leaf_from.simps) simp
next
  case (3 x y zs m)
  then show ?case by (subst leaf_from.simps) auto
qed simp

lemma chained_snoc:
  "chained ids m \<Longrightarrow> ids \<noteq> [] \<Longrightarrow> distinct ids \<Longrightarrow> x \<notin> set ids \<Longrightarrow> lookup_str m x = [] \<Longrightarrow>
   chained (ids @ [x]) (AList.update (last ids) x m)"
proof (induction ids m rule: chained.induct)
  case (3 a b zs m)
  then show ?case by (cases zs) auto
qed auto

definition linear_pass :: "string list \<Rightarrow> tree_pass \<Rightarrow> bool" where
  "linear_pass ids s \<longleftrightarrow> chained ids (tp_children s) \<and> tp_root s = (if ids = [] then [] else hd ids) \<and>
     fst ` set (tp_children s) \<subseteq> set ids"

lemma parent_step_linear:
  assumes "linear_pass ids s" "distinct (ids @ [msg_ID m])" "[] \<notin> set (ids @ [msg_ID m])"
    and "trim_space (msg_ID m) = msg_ID m" "unparented [m]"
  shows "linear_pass (ids @ [msg_ID m]) (parent_step m s) \<and>
    tp_parents (parent_step m s) =
      AList.update (msg_ID m) (if ids = [] then [] else last ids) (tp_parents s)"
proof -
  obtain pe where e: "explicitTreeParent (msg_Metadata m) = (pe, False)"
    using assms(5) by (cases "explicitTreeParent (msg_Metadata m)") (simp add: unparented_def)
  have leaf: "activeConversationLeaf (tp_root s) (tp_children s) = (if ids = [] then [] else last ids)"
    using leaf_from_chained [of ids "tp_children s" "[]"] assms(1-3)
    by (simp add: activeConversationLeaf_def linear_pass_def leaf_from.simps [of _ "[]"])
  have fresh: "lookup_str (tp_children s) (msg_ID m) = []"
    using assms(1,2) map_of_eq_None_iff [of "tp_children s" "msg_ID m"]
    by (auto simp: linear_pass_def lookup_str_def)
  let ?t = "s\<lparr>tp_parents := AList.update (msg_ID m) (if ids = [] then [] else last ids) (tp_parents s),
    tp_known := List.insert (msg_ID m) (tp_known s)\<rparr>"
  have ne: "ids \<noteq> [] \<Longrightarrow> last ids \<noteq> []" using assms(3) by (metis last_in_set UnI1 set_append)
  then have step: "parent_step m s = (if ids = [] then ?t\<lparr>tp_root := msg_ID m\<rparr>
      else ?t\<lparr>tp_children := AList.update (last ids) (msg_ID m) (tp_children s)\<rparr>)"
    using assms(3-5) by (auto simp: parent_step_def Let_def e leaf unparented_def)
  show ?thesis
  proof (cases "ids = []")
    case True
    then show ?thesis
      using assms(1) by (simp add: step linear_pass_def)
  next
    case False
    have "fst ` set (AList.update (last ids) (msg_ID m) (tp_children s)) \<subseteq> set ids"
      using assms(1) False last_in_set [OF False]
      by (simp add: linear_pass_def dom_update)
    then show ?thesis
      using assms(1,2) False chained_snoc [of ids "tp_children s" "msg_ID m"] fresh
      by (auto simp: step linear_pass_def)
  qed
qed

lemma ids_ok_nonblank: "ids_ok ms \<Longrightarrow> [] \<notin> set (map msg_ID ms)"
  by (force simp: ids_ok_def list_all_iff)

lemma unparented_pass:
  assumes "ids_ok ms" "unparented ms"
  shows "linear_pass (map msg_ID ms) (parent_pass ms)"
  using assms
proof (induction ms rule: rev_induct)
  case Nil
  then show ?case by (simp add: parent_pass_def linear_pass_def)
next
  case (snoc m ms)
  then have "linear_pass (map msg_ID ms) (parent_pass ms)" by (simp add: ids_ok_def unparented_def)
  from parent_step_linear [OF this, of m] show ?case
    using snoc.prems ids_ok_nonblank [OF snoc.prems(1)]
    by (auto simp: parent_pass_def ids_ok_def unparented_def)
qed

lemma unparented_parent:
  "ids_ok (xs @ m # ys) \<Longrightarrow> unparented (xs @ m # ys) \<Longrightarrow>
   lookup_str (effectiveConversationParents (xs @ m # ys)) (msg_ID m) = (if xs = [] then [] else msg_ID (last xs))"
proof (induction ys rule: rev_induct)
  case Nil
  have "linear_pass (map msg_ID xs) (parent_pass xs)"
    using Nil by (intro unparented_pass) (auto simp: ids_ok_def unparented_def)
  from parent_step_linear [OF this, of m] show ?case
    using Nil ids_ok_nonblank [OF Nil(1)]
    by (auto simp: effectiveConversationParents_def parent_pass_def ids_ok_def unparented_def last_map)
next
  case (snoc y ys)
  then have "ids_ok ((xs @ m # ys) @ [y])" "msg_ID y \<noteq> msg_ID m" by (auto simp: ids_ok_def)
  moreover from calculation(1) obtain p where
    "tp_parents (parent_pass ((xs @ m # ys) @ [y])) = AList.update (msg_ID y) p (tp_parents (parent_pass (xs @ m # ys)))"
    by (rule parents_snoc)
  ultimately show ?case
    using snoc by (simp add: effectiveConversationParents_def ids_ok_def unparented_def)
qed

lemma unparented_path:
  assumes "ids_ok messages" "unparented messages"
  shows "messages = xs @ ys \<Longrightarrow> xs \<noteq> [] \<Longrightarrow> set vis \<inter> msg_ID ` set xs = {} \<Longrightarrow>
    path_from vis (msg_ID (last xs)) (effectiveConversationParents messages) (messages_by_id messages) = rev xs"
proof (induction xs arbitrary: ys vis rule: rev_induct)
  case (snoc m xs)
  let ?par = "effectiveConversationParents messages" and ?by = "messages_by_id messages"
  have m: "m \<in> set messages" "msg_ID m \<noteq> []" "msg_ID m \<notin> set vis"
    using snoc.prems assms by (auto simp: ids_ok_def)
  have q: "lookup_str ?par (msg_ID m) = (if xs = [] then [] else msg_ID (last xs))"
    using unparented_parent [of xs m ys] assms snoc.prems(1) by simp
  have unfold: "path_from vis (msg_ID m) ?par ?by =
      m # path_from (msg_ID m # vis) (lookup_str ?par (msg_ID m)) ?par ?by"
    using m messages_by_id_lookup [of messages m] assms
    by (subst path_from.simps) (simp add: ids_ok_def)
  have "msg_ID m \<notin> msg_ID ` set xs" using assms snoc.prems(1) by (auto simp: ids_ok_def)
  then have "xs \<noteq> [] \<Longrightarrow> path_from (msg_ID m # vis) (msg_ID (last xs)) ?par ?by = rev xs"
    using snoc.prems by (intro snoc.IH [of "m # ys" "msg_ID m # vis"]) auto
  then show ?case
    by (cases "xs = []") (simp_all add: unfold q path_from.simps [of _ "[]"])
qed simp

section \<open>Properties\<close>

text \<open>
  C8: with distinct ids, the branch sent to the provider is a subsequence of the stored
  conversation in stored order, it ends with the anchor and starts at a root: no cycle in the
  stored parent links cuts it short, and no message is repeated.
\<close>

theorem conversation_branch_acyclic:
  assumes "ids_ok messages" "m \<in> set messages"
  shows "let path = rev (conversation_path messages (msg_ID m)) in
    subseq path messages \<and> path \<noteq> [] \<and> last path = m \<and>
    lookup_str (effectiveConversationParents messages) (msg_ID (hd path)) = [] \<and>
    subseq (map pm_MessageID (buildProviderConversationMessages f messages (msg_ID m) prompt atts))
      (map msg_ID messages)"
proof -
  note b = conversation_path_branch [OF assms]
  have "subseq (map msg_ID (rev (conversation_path messages (msg_ID m)))) (map msg_ID messages)"
    using b(1) by (rule subseq_map)
  then have "subseq (map pm_MessageID (buildProviderConversationMessages f messages (msg_ID m) prompt atts))
      (map msg_ID messages)"
    unfolding buildProviderConversationMessages_def by (rule subseq_order.trans [OF view_ids_subseq])
  with b show ?thesis by (simp add: Let_def last_rev hd_rev)
qed

definition example_messages :: "chat_message list" where
  "example_messages =
     [\<lparr>msg_ID = ''a'', msg_ParentMessageID = [], msg_Role = ''user'', msg_Content = ''hi'', msg_Metadata = []\<rparr>,
      \<lparr>msg_ID = ''b'', msg_ParentMessageID = ''a'', msg_Role = ''assistant'', msg_Content = ''yo'', msg_Metadata = []\<rparr>,
      \<lparr>msg_ID = ''c'', msg_ParentMessageID = [], msg_Role = ''user'', msg_Content = ''so'',
       msg_Metadata = [(''treeParentMessageId'', AnyString ''a'')]\<rparr>]"

lemma example_messages_ok:
  "ids_ok example_messages"
  "ids_ok (map (\<lambda>m. m\<lparr>msg_ParentMessageID := [], msg_Metadata := []\<rparr>) example_messages)"
  by (simp_all add: ids_ok_def example_messages_def trim_space_printable printable_def)

theorem conversation_branch_acyclic_witness:
  "subseq (map pm_MessageID (buildProviderConversationMessages (\<lambda>x. x) example_messages ''c'' ''so'' []))
     (map msg_ID example_messages)"
proof -
  have "ids_ok example_messages" by (rule example_messages_ok)
  moreover have "example_messages ! 2 \<in> set example_messages" by (simp add: example_messages_def)
  moreover have "msg_ID (example_messages ! 2) = ''c''" by (simp add: example_messages_def)
  ultimately show ?thesis
    using conversation_branch_acyclic [of example_messages "example_messages ! 2" "\<lambda>x. x" "''so''" "[]"]
    by (simp add: Let_def)
qed

text \<open>
  Rows stored before parent ids existed stay usable: when no message names a parent, the
  branch of the last message is the whole conversation in stored order.
\<close>

theorem legacy_rows_linear:
  assumes "ids_ok messages" "unparented messages" "messages \<noteq> []"
  shows "rev (conversation_path messages (msg_ID (last messages))) = messages"
proof -
  have "trim_space (msg_ID (last messages)) = msg_ID (last messages)"
    using assms by (simp add: ids_ok_def list_all_iff)
  then show ?thesis
    using unparented_path [OF assms(1,2), of messages "[]" "[]"] assms(3)
    by (simp add: conversation_path_def)
qed


end
