(* ===== verification/Retrieval_Budget.thy ===== *)
theory Retrieval_Budget
  imports Context_Budget
begin

text \<open>
  internal/chat/retrieval_context_budget.go: how many tokens of server-authored evidence
  (knowledge base, web, memory) one turn may add to the prompt.  The budget is split into three
  lanes when the turn starts and each lane is drawn down as evidence is admitted.
\<close>

definition retrievalContextMaxInputPercent :: int where
  "retrievalContextMaxInputPercent = 40"

definition retrievalContextEnvelopeReserve :: int where
  "retrievalContextEnvelopeReserve = 512"

definition retrievalKnowledgeSharePercent :: int where
  "retrievalKnowledgeSharePercent = 60"

definition minimumRetrievalContextBudgetTokens :: int where
  "minimumRetrievalContextBudgetTokens = 256"

definition retrievalMemoryMaximumTokens :: int where
  "retrievalMemoryMaximumTokens = 900"

lemmas retrieval_limits = retrievalContextMaxInputPercent_def retrievalContextEnvelopeReserve_def
  retrievalKnowledgeSharePercent_def minimumRetrievalContextBudgetTokens_def retrievalMemoryMaximumTokens_def

datatype evidence_lane = EvidenceKnowledge | EvidenceWeb | EvidenceMemory | EvidenceOther string

text \<open>The fields of a provider request that the budget reads.\<close>

record provider_request =
  pr_Prompt :: string
  pr_SystemPrompt :: string
  pr_Messages :: "provider_message list"
  pr_ModelID :: string

record retrieval_budget =
  rb_totalTokens :: int
  rb_knowledgeTokens :: int
  rb_webTokens :: int
  rb_memoryTokens :: int
  rb_knowledgeConsumed :: int
  rb_webConsumed :: int
  rb_memoryConsumed :: int

definition providerMessagesContainPrompt :: "provider_message list \<Rightarrow> string \<Rightarrow> bool" where
  "providerMessagesContainPrompt messages prompt =
     (case find (\<lambda>m. pm_Role m = ''user'') (rev messages) of
        None \<Rightarrow> False | Some m \<Rightarrow> trim_space (pm_Content m) = prompt)"

text \<open>What the prompt takes before any evidence.\<close>

definition retrieval_base_tokens :: "provider_request \<Rightarrow> int" where
  "retrieval_base_tokens request =
     (let baseTokens = estimateProviderInputTokens (pr_SystemPrompt request) (pr_Messages request);
          prompt = trim_space (pr_Prompt request)
      in if prompt \<noteq> [] \<and> \<not> providerMessagesContainPrompt (pr_Messages request) prompt
         then baseTokens + estimateProviderTextTokens prompt + 6 else baseTokens)"

definition newRetrievalContextBudget ::
  "(string \<Rightarrow> string) \<Rightarrow> provider_request \<Rightarrow> bool \<Rightarrow> bool \<Rightarrow> bool \<Rightarrow> retrieval_budget" where
  "newRetrievalContextBudget u request knowledgeAvailable webAvailable memoryAvailable =
     (let inputBudget = snd (inputBudgetTokens u defaultContextBudgetPolicy (pr_ModelID request));
          available = inputBudget - retrieval_base_tokens request - retrievalContextEnvelopeReserve;
          maximum = inputBudget * retrievalContextMaxInputPercent div 100;
          total = min available maximum;
          total = (if total < minimumRetrievalContextBudgetTokens then 0 else total);
          memory = (if memoryAvailable then min total retrievalMemoryMaximumTokens else 0);
          remaining = total - memory;
          knowledge = (if knowledgeAvailable \<and> webAvailable
                       then remaining * retrievalKnowledgeSharePercent div 100
                       else if knowledgeAvailable then remaining else 0);
          web = (if knowledgeAvailable \<and> webAvailable then remaining - knowledge
                 else if knowledgeAvailable then 0
                 else if webAvailable then remaining else 0)
      in \<lparr>rb_totalTokens = total, rb_knowledgeTokens = knowledge, rb_webTokens = web,
          rb_memoryTokens = memory, rb_knowledgeConsumed = 0, rb_webConsumed = 0, rb_memoryConsumed = 0\<rparr>)"

definition budget_limit :: "evidence_lane \<Rightarrow> retrieval_budget option \<Rightarrow> int" where
  "budget_limit lane budget =
     (case budget of None \<Rightarrow> 0
      | Some b \<Rightarrow> (case lane of EvidenceKnowledge \<Rightarrow> rb_knowledgeTokens b | EvidenceWeb \<Rightarrow> rb_webTokens b
                  | EvidenceMemory \<Rightarrow> rb_memoryTokens b | EvidenceOther _ \<Rightarrow> 0))"

definition budget_remaining :: "evidence_lane \<Rightarrow> retrieval_budget option \<Rightarrow> int" where
  "budget_remaining lane budget =
     (case budget of None \<Rightarrow> 0
      | Some b \<Rightarrow> max (case lane of
                     EvidenceKnowledge \<Rightarrow> rb_knowledgeTokens b - rb_knowledgeConsumed b
                   | EvidenceWeb \<Rightarrow> rb_webTokens b - rb_webConsumed b
                   | EvidenceMemory \<Rightarrow> rb_memoryTokens b - rb_memoryConsumed b
                   | EvidenceOther _ \<Rightarrow> 0) 0)"

definition budget_consume :: "evidence_lane \<Rightarrow> int \<Rightarrow> retrieval_budget option \<Rightarrow> retrieval_budget option" where
  "budget_consume lane tokens budget =
     (case budget of None \<Rightarrow> None
      | Some b \<Rightarrow>
          if tokens \<le> 0 then Some b
          else let tokens = min tokens (budget_remaining lane budget)
               in Some (case lane of
                    EvidenceKnowledge \<Rightarrow> b\<lparr>rb_knowledgeConsumed := rb_knowledgeConsumed b + tokens\<rparr>
                  | EvidenceWeb \<Rightarrow> b\<lparr>rb_webConsumed := rb_webConsumed b + tokens\<rparr>
                  | EvidenceMemory \<Rightarrow> b\<lparr>rb_memoryConsumed := rb_memoryConsumed b + tokens\<rparr>
                  | EvidenceOther _ \<Rightarrow> b))"

definition lane_consumed :: "evidence_lane \<Rightarrow> retrieval_budget \<Rightarrow> int" where
  "lane_consumed lane b =
     (case lane of EvidenceKnowledge \<Rightarrow> rb_knowledgeConsumed b | EvidenceWeb \<Rightarrow> rb_webConsumed b
      | EvidenceMemory \<Rightarrow> rb_memoryConsumed b | EvidenceOther _ \<Rightarrow> 0)"

fun consume_all :: "(evidence_lane \<times> int) list \<Rightarrow> retrieval_budget option \<Rightarrow> retrieval_budget option" where
  "consume_all [] b = b"
| "consume_all ((lane, tokens) # rest) b = consume_all rest (budget_consume lane tokens b)"

text \<open>Lanes are drawn down within their limits and the limits do not change.\<close>

definition lanes_ok :: "retrieval_budget \<Rightarrow> retrieval_budget \<Rightarrow> bool" where
  "lanes_ok b0 b \<longleftrightarrow>
     rb_totalTokens b = rb_totalTokens b0 \<and> rb_knowledgeTokens b = rb_knowledgeTokens b0 \<and>
     rb_webTokens b = rb_webTokens b0 \<and> rb_memoryTokens b = rb_memoryTokens b0 \<and>
     0 \<le> rb_knowledgeConsumed b \<and> rb_knowledgeConsumed b \<le> rb_knowledgeTokens b \<and>
     0 \<le> rb_webConsumed b \<and> rb_webConsumed b \<le> rb_webTokens b \<and>
     0 \<le> rb_memoryConsumed b \<and> rb_memoryConsumed b \<le> rb_memoryTokens b"

lemma consume_lanes_ok:
  assumes "lanes_ok b0 b"
  shows "\<exists>b'. budget_consume lane tokens (Some b) = Some b' \<and> lanes_ok b0 b'"
  using assms
  by (cases lane) (auto simp: budget_consume_def Let_def lanes_ok_def budget_remaining_def)

lemma consume_all_lanes_ok:
  "lanes_ok b0 b \<Longrightarrow> \<exists>b'. consume_all cs (Some b) = Some b' \<and> lanes_ok b0 b'"
proof (induction cs arbitrary: b)
  case (Cons c cs)
  obtain lane tokens where c: "c = (lane, tokens)" by (cases c)
  from consume_lanes_ok [OF Cons.prems, of lane tokens] Cons.IH show ?case by (auto simp: c)
qed simp

lemma share_bounds: "0 \<le> (r::int) \<Longrightarrow> 0 \<le> r * 60 div 100 \<and> r * 60 div 100 \<le> r"
  using percent_le [of r 60] by simp

definition split_ok :: "int \<Rightarrow> retrieval_budget \<Rightarrow> bool" where
  "split_ok cap b \<longleftrightarrow>
     0 \<le> rb_knowledgeTokens b \<and> 0 \<le> rb_webTokens b \<and> 0 \<le> rb_memoryTokens b \<and> rb_memoryTokens b \<le> 900 \<and>
     rb_knowledgeTokens b + rb_webTokens b + rb_memoryTokens b \<le> rb_totalTokens b \<and> rb_totalTokens b \<le> cap"

lemma new_budget_split:
  fixes u :: "string \<Rightarrow> string" and request :: provider_request
  defines "cap \<equiv> snd (inputBudgetTokens u defaultContextBudgetPolicy (pr_ModelID request)) * 40 div 100"
  shows "split_ok cap (newRetrievalContextBudget u request k w m)"
proof -
  let ?input = "snd (inputBudgetTokens u defaultContextBudgetPolicy (pr_ModelID request))"
  have cap: "0 \<le> cap"
    using inputBudget_min [of u defaultContextBudgetPolicy "pr_ModelID request"]
    by (simp add: cap_def contextMinimumInputBudget_def)
  let ?t = "min (?input - retrieval_base_tokens request - 512) cap"
  let ?total = "if ?t < 256 then 0 else ?t"
  define T where "T = ?total"
  define M where "M = (if m then min T 900 else 0)"
  have T: "T \<le> cap" "0 \<le> T" using cap by (auto simp: T_def)
  then have M: "0 \<le> T - M" "0 \<le> M" "M \<le> 900" by (auto simp: M_def)
  have b: "newRetrievalContextBudget u request k w m =
     (let r = T - M; kn = (if k \<and> w then r * 60 div 100 else if k then r else 0)
      in \<lparr>rb_totalTokens = T, rb_knowledgeTokens = kn,
          rb_webTokens = (if k \<and> w then r - kn else if k then 0 else if w then r else 0),
          rb_memoryTokens = M, rb_knowledgeConsumed = 0, rb_webConsumed = 0, rb_memoryConsumed = 0\<rparr>)"
    unfolding newRetrievalContextBudget_def Let_def retrieval_limits cap_def T_def M_def by (rule refl)
  define R where "R = T - M"
  have R: "0 \<le> R" "R + M = T" "0 \<le> R * 60 div 100" "R * 60 div 100 \<le> R"
    using M share_bounds [of R] by (simp_all add: R_def)
  show ?thesis
    unfolding b Let_def split_ok_def R_def [symmetric] using R M T
    by (cases k; cases w) auto
qed

lemma new_budget_room:
  "rb_totalTokens (newRetrievalContextBudget u request k w m) = 0 \<or>
   retrieval_base_tokens request + rb_totalTokens (newRetrievalContextBudget u request k w m) + 512
     \<le> snd (inputBudgetTokens u defaultContextBudgetPolicy (pr_ModelID request))"
  by (auto simp: newRetrievalContextBudget_def Let_def retrieval_limits)

section \<open>Properties\<close>

text \<open>
  C13: whatever evidence a turn admits, what is consumed over all lanes is at most 40 percent
  of the model's input budget, each lane stays within its own share, memory within 900 tokens,
  and prompt, envelope reserve and evidence together fit the input budget (or there is no
  evidence budget at all).
\<close>

theorem retrieval_budget_respected:
  "let b0 = newRetrievalContextBudget u request k w m;
       input = snd (inputBudgetTokens u defaultContextBudgetPolicy (pr_ModelID request)) in
   \<exists>b. consume_all draws (Some b0) = Some b \<and>
     (\<forall>lane. 0 \<le> lane_consumed lane b \<and> lane_consumed lane b \<le> budget_limit lane (Some b0)) \<and>
     rb_knowledgeConsumed b + rb_webConsumed b + rb_memoryConsumed b \<le> input * 40 div 100 \<and>
     rb_memoryConsumed b \<le> 900 \<and>
     (rb_totalTokens b0 = 0 \<or> retrieval_base_tokens request + 512 +
        (rb_knowledgeConsumed b + rb_webConsumed b + rb_memoryConsumed b) \<le> input)"
proof -
  let ?b0 = "newRetrievalContextBudget u request k w m"
  have split: "split_ok (snd (inputBudgetTokens u defaultContextBudgetPolicy (pr_ModelID request)) * 40 div 100) ?b0"
    by (rule new_budget_split)
  have "lanes_ok ?b0 ?b0"
    using split by (simp add: lanes_ok_def split_ok_def) (simp add: newRetrievalContextBudget_def Let_def)
  then obtain b where b: "consume_all draws (Some ?b0) = Some b" "lanes_ok ?b0 b"
    using consume_all_lanes_ok by blast
  have "0 \<le> lane_consumed lane b \<and> lane_consumed lane b \<le> budget_limit lane (Some ?b0)" for lane
    using b(2) by (cases lane) (simp_all add: lane_consumed_def budget_limit_def lanes_ok_def)
  moreover have "rb_knowledgeConsumed b + rb_webConsumed b + rb_memoryConsumed b \<le> rb_totalTokens ?b0"
    "rb_memoryConsumed b \<le> 900"
    using b(2) split by (auto simp: lanes_ok_def split_ok_def)
  ultimately show ?thesis
    using b(1) split new_budget_room [of u request k w m] unfolding Let_def
    by (intro exI [of _ b]) (auto simp: split_ok_def)
qed

end
