(* ===== verification/Turn_Compaction.thy ===== *)
theory Turn_Compaction
  imports Chat_Types
begin

text \<open>
  internal/chat/chat_turn_compaction.go: shrinking the continuation of an agent turn.  Long tool
  results are cut to a head and a tail; when the turn is still too large the oldest exchanges
  are replaced by a checkpoint that lists their calls.  The lemmas show that a replacement
  strictly shrinks the continuation, keeps the newest exchanges with their calls and results,
  and that the checkpoint stays within 16 KiB.
\<close>

definition toolResultPruneThresholdBytes :: int where
  "toolResultPruneThresholdBytes = 65536"

definition toolResultPruneHeadBytes :: int where
  "toolResultPruneHeadBytes = 24576"

definition toolResultPruneTailBytes :: int where
  "toolResultPruneTailBytes = 24576"

definition turnCompactionThresholdBytes :: int where
  "turnCompactionThresholdBytes = 262144"

definition turnCompactionKeepExchanges :: nat where
  "turnCompactionKeepExchanges = 4"

definition turnCompactionCheckpointBytes :: int where
  "turnCompactionCheckpointBytes = 16384"

definition overflowToolResultThresholdBytes :: int where
  "overflowToolResultThresholdBytes = 16384"

definition overflowToolResultHeadBytes :: int where
  "overflowToolResultHeadBytes = 6144"

definition overflowToolResultTailBytes :: int where
  "overflowToolResultTailBytes = 6144"

definition overflowCompactionKeepExchanges :: nat where
  "overflowCompactionKeepExchanges = 2"

record context_replacement =
  xr_Reason :: string
  xr_BeforeBytes :: int
  xr_AfterBytes :: int
  xr_ResultsPruned :: int
  xr_ExchangesReplaced :: int

section \<open>Sizes\<close>

text \<open>\<open>marshal\<close> is \<open>json.Marshal\<close> of the provider's opaque state.\<close>

definition exchange_size :: "(any_value \<Rightarrow> string option) \<Rightarrow> tool_exchange \<Rightarrow> int" where
  "exchange_size marshal x =
     int (length (tx_AssistantContent x)) + int (length (tx_AssistantReasoning x)) +
     int (length (tx_FollowupPrompt x)) + int (length (tx_Checkpoint x)) +
     sum_list (map (\<lambda>c. int (length (tc_ID c)) + int (length (tc_Name c)) + int (length (tc_Arguments c)) +
                       int (length (tc_FailureCategory c))) (tx_Calls x)) +
     sum_list (map (\<lambda>r. int (length (tr_CallID r)) + int (length (tr_Name r)) + int (length (tr_Content r)) + 1)
                  (tx_Results x)) +
     (case tx_ProviderState x of None \<Rightarrow> 0
      | Some v \<Rightarrow> (case marshal v of None \<Rightarrow> 0 | Some encoded \<Rightarrow> int (length encoded)))"

definition providerContinuationSize :: "(any_value \<Rightarrow> string option) \<Rightarrow> tool_exchange list \<Rightarrow> int" where
  "providerContinuationSize marshal exchanges = sum_list (map (exchange_size marshal) exchanges)"

section \<open>Pruning results\<close>

text \<open>One result; the flag says whether it was cut.\<close>

definition prune_result :: "int \<Rightarrow> int \<Rightarrow> int \<Rightarrow> tool_result \<Rightarrow> tool_result \<times> bool" where
  "prune_result threshold headBytes tailBytes r =
     (let content = tr_Content r
      in if int (length content) \<le> threshold then (r, False)
         else
           let head = utf8Prefix content headBytes;
               tail = utf8Suffix content tailBytes;
               omitted = int (length content) - int (length head) - int (length tail)
           in if omitted \<le> 0 then (r, False)
              else (r\<lparr>tr_Content := head @ [CHR 0x0A] @ ''...[tool result pruned: '' @ itoa omitted @
                       '' bytes omitted]...'' @ [CHR 0x0A] @ tail\<rparr>, True))"

definition prune_exchange :: "int \<Rightarrow> int \<Rightarrow> int \<Rightarrow> tool_exchange \<Rightarrow> tool_exchange \<times> int" where
  "prune_exchange threshold headBytes tailBytes x =
     (let results = map (prune_result threshold headBytes tailBytes) (tx_Results x)
      in (x\<lparr>tx_Results := map fst results\<rparr>, int (length (filter snd results))))"

definition pruneProviderToolResults ::
  "tool_exchange list \<Rightarrow> int \<Rightarrow> int \<Rightarrow> int \<Rightarrow> tool_exchange list \<times> int" where
  "pruneProviderToolResults exchanges threshold headBytes tailBytes =
     (let pruned = map (prune_exchange threshold headBytes tailBytes) exchanges
      in (map fst pruned, sum_list (map snd pruned)))"

section \<open>The checkpoint\<close>

definition checkpoint_open :: string where
  "checkpoint_open = ''<agent_context_checkpoint>'' @ [CHR 0x0A]"

definition checkpoint_close :: string where
  "checkpoint_close = ''</agent_context_checkpoint>''"

definition appendBoundedCheckpointText :: "string \<Rightarrow> string \<Rightarrow> string" where
  "appendBoundedCheckpointText builder value =
     (let remaining = turnCompactionCheckpointBytes - int (length builder)
      in if remaining \<le> 0 then builder else builder @ utf8Prefix value remaining)"

definition results_by_id :: "tool_result list \<Rightarrow> (string, tool_result) gomap" where
  "results_by_id results = fold (\<lambda>r m. AList.update (trim_space (tr_CallID r)) r m) results []"

text \<open>The line of one call.\<close>

definition checkpoint_line :: "(string, tool_result) gomap \<Rightarrow> tool_call \<Rightarrow> string" where
  "checkpoint_line resultsByID call =
     (let callID = trim_space (tc_ID call);
          name = normalizedToolName (tc_Name call);
          (status, resultBytes) =
            (case map_of resultsByID callID of
               None \<Rightarrow> (''missing'', 0)
             | Some result \<Rightarrow> (if tr_IsError result then ''failed'' else ''succeeded'',
                               int (length (tr_Content result))))
      in ''- tool='' @ truncateChatAgentUTF8 name 128 @ '' callId='' @ truncateChatAgentUTF8 callID 256 @
         '' status='' @ status @ '' resultBytes='' @ itoa resultBytes @ [CHR 0x0A])"

text \<open>What one exchange adds to the checkpoint.\<close>

definition checkpoint_exchange :: "tool_exchange \<Rightarrow> string \<Rightarrow> string" where
  "checkpoint_exchange x builder =
     (let checkpoint = trim_space (tx_Checkpoint x)
      in if checkpoint \<noteq> []
         then appendBoundedCheckpointText builder
                (trim_suffix (trim_prefix checkpoint checkpoint_open) ([CHR 0x0A] @ checkpoint_close) @ [CHR 0x0A])
         else if tx_Calls x = []
         then (if trim_space (tx_FollowupPrompt x) \<noteq> []
               then appendBoundedCheckpointText builder (''- prior Agent continuation completed'' @ [CHR 0x0A])
               else builder)
         else fold (\<lambda>call builder. appendBoundedCheckpointText builder
                      (checkpoint_line (results_by_id (tx_Results x)) call))
                (tx_Calls x) builder)"

definition buildProviderContinuationCheckpoint :: "tool_exchange list \<Rightarrow> string" where
  "buildProviderContinuationCheckpoint exchanges =
     (let body = fold checkpoint_exchange exchanges checkpoint_open;
          body = (if int (length body) + int (length checkpoint_close) > turnCompactionCheckpointBytes
                  then utf8Prefix body (turnCompactionCheckpointBytes - int (length checkpoint_close))
                  else body)
      in body @ checkpoint_close)"

section \<open>Compaction\<close>

definition checkpoint_only :: "string \<Rightarrow> tool_exchange" where
  "checkpoint_only checkpoint =
     \<lparr>tx_AssistantContent = [], tx_AssistantReasoning = [], tx_Calls = [], tx_Results = [],
      tx_ProviderState = None, tx_FollowupPrompt = [], tx_Checkpoint = checkpoint\<rparr>"

definition compactChatAgentContinuation ::
  "(any_value \<Rightarrow> string option) \<Rightarrow> tool_exchange list \<Rightarrow> bool
   \<Rightarrow> tool_exchange list \<times> context_replacement option" where
  "compactChatAgentContinuation marshal exchanges aggressive =
     (let before = providerContinuationSize marshal exchanges
      in if before = 0 then (exchanges, None)
         else
           let threshold = (if aggressive then overflowToolResultThresholdBytes else toolResultPruneThresholdBytes);
               head = (if aggressive then overflowToolResultHeadBytes else toolResultPruneHeadBytes);
               tail = (if aggressive then overflowToolResultTailBytes else toolResultPruneTailBytes);
               keep = (if aggressive then overflowCompactionKeepExchanges else turnCompactionKeepExchanges);
               reason = (if aggressive then ''provider_context_overflow'' else ''tool_result_pruning'');
               (compacted, pruned) = pruneProviderToolResults exchanges threshold head tail;
               (compacted, replaced, reason) =
                 (if (aggressive \<or> providerContinuationSize marshal compacted > turnCompactionThresholdBytes) \<and>
                     length compacted > keep
                  then (let prefixCount = length compacted - keep;
                            checkpoint = buildProviderContinuationCheckpoint (take prefixCount compacted)
                        in (checkpoint_only checkpoint # drop prefixCount compacted, int prefixCount,
                            if aggressive then ''provider_context_overflow'' else ''turn_summary_compaction''))
                  else (compacted, 0, reason));
               after = providerContinuationSize marshal compacted
           in if after \<ge> before \<or> (pruned = 0 \<and> replaced = 0) then (exchanges, None)
              else (compacted, Some \<lparr>xr_Reason = reason, xr_BeforeBytes = before, xr_AfterBytes = after,
                      xr_ResultsPruned = pruned, xr_ExchangesReplaced = replaced\<rparr>))"

text \<open>
  \<open>sent\<close> says whether the replacement event could be delivered; \<open>None\<close> is the
  abandoned turn.
\<close>

definition appendCompactedChatAgentContinuation ::
  "(any_value \<Rightarrow> string option) \<Rightarrow> (context_replacement \<Rightarrow> bool) \<Rightarrow> tool_exchange list \<Rightarrow> tool_exchange
   \<Rightarrow> tool_exchange list option" where
  "appendCompactedChatAgentContinuation marshal sent exchanges exchange =
     (let exchanges = exchanges @ [exchange]
      in case compactChatAgentContinuation marshal exchanges False of
           (_, None) \<Rightarrow> Some exchanges
         | (compacted, Some replacement) \<Rightarrow> if sent replacement then Some compacted else None)"

section \<open>Lemmas\<close>

lemma checkpoint_length: "int (length (buildProviderContinuationCheckpoint xs)) \<le> turnCompactionCheckpointBytes"
proof -
  have c: "int (length checkpoint_close) \<le> turnCompactionCheckpointBytes"
    by (simp add: checkpoint_close_def turnCompactionCheckpointBytes_def)
  show ?thesis
    using c length_utf8Prefix_le [of "fold checkpoint_exchange xs checkpoint_open"
        "turnCompactionCheckpointBytes - int (length checkpoint_close)"]
    by (auto simp: buildProviderContinuationCheckpoint_def Let_def)
qed

text \<open>Two exchanges that agree on everything but the contents of their results.\<close>

definition same_calls :: "tool_exchange \<Rightarrow> tool_exchange \<Rightarrow> bool" where
  "same_calls x y \<longleftrightarrow> x\<lparr>tx_Results := []\<rparr> = y\<lparr>tx_Results := []\<rparr> \<and>
     map (\<lambda>r. (tr_CallID r, tr_Name r, tr_IsError r)) (tx_Results x) =
     map (\<lambda>r. (tr_CallID r, tr_Name r, tr_IsError r)) (tx_Results y)"

lemma prune_result_same:
  "tr_CallID (fst (prune_result t h l r)) = tr_CallID r" "tr_Name (fst (prune_result t h l r)) = tr_Name r"
  "tr_IsError (fst (prune_result t h l r)) = tr_IsError r"
  by (simp_all add: prune_result_def Let_def)

lemma prune_exchange_same: "same_calls x (fst (prune_exchange t h l x))"
  by (simp add: same_calls_def prune_exchange_def Let_def comp_def prune_result_same)

lemma prune_all_same: "list_all2 same_calls xs (fst (pruneProviderToolResults xs t h l))"
  by (simp add: pruneProviderToolResults_def Let_def list_all2_conv_all_nth prune_exchange_same)

lemma length_prune [simp]: "length (fst (pruneProviderToolResults xs t h l)) = length xs"
  by (simp add: pruneProviderToolResults_def Let_def)

definition keep_count :: "bool \<Rightarrow> nat" where
  "keep_count aggressive = (if aggressive then overflowCompactionKeepExchanges else turnCompactionKeepExchanges)"

lemma same_calls_refl [simp]: "same_calls x x"
  by (simp add: same_calls_def)

lemma compact_cases:
  assumes "compactChatAgentContinuation marshal xs aggressive = (ys, rep)"
  shows "rep = None \<and> ys = xs \<or>
    (\<exists>r ps. rep = Some r \<and> list_all2 same_calls xs ps \<and>
       xr_BeforeBytes r = providerContinuationSize marshal xs \<and>
       xr_AfterBytes r = providerContinuationSize marshal ys \<and> xr_AfterBytes r < xr_BeforeBytes r \<and>
       (xr_ExchangesReplaced r = 0 \<and> ys = ps \<or>
        keep_count aggressive < length xs \<and>
        xr_ExchangesReplaced r = int (length xs - keep_count aggressive) \<and>
        ys = checkpoint_only (buildProviderContinuationCheckpoint (take (length xs - keep_count aggressive) ps))
             # drop (length xs - keep_count aggressive) ps))"
proof -
  let ?t = "if aggressive then overflowToolResultThresholdBytes else toolResultPruneThresholdBytes"
  let ?h = "if aggressive then overflowToolResultHeadBytes else toolResultPruneHeadBytes"
  let ?l = "if aggressive then overflowToolResultTailBytes else toolResultPruneTailBytes"
  obtain ps n where p: "pruneProviderToolResults xs ?t ?h ?l = (ps, n)"
    by (cases "pruneProviderToolResults xs ?t ?h ?l")
  have same: "list_all2 same_calls xs ps" using prune_all_same [of xs ?t ?h ?l] by (simp add: p)
  have len: "length ps = length xs" using same by (simp add: list_all2_lengthD)
  show ?thesis
    using assms same unfolding compactChatAgentContinuation_def p Let_def keep_count_def [symmetric]
    by (auto simp: len split: if_splits)
qed

lemma list_all2_last: "list_all2 P xs ys \<Longrightarrow> xs \<noteq> [] \<Longrightarrow> P (last xs) (last ys)"
  by (induction rule: list_all2_induct) (auto simp: list_all2_Cons1)

section \<open>Properties\<close>

text \<open>
  C14: a compaction that reports a replacement strictly shrinks the continuation, keeps the
  newest four (two under pressure) exchanges with their calls and the identity and error flag
  of every result, and replaces exactly the older ones by one checkpoint of at most 16 KiB; a
  compaction that reports none changes nothing.
\<close>

theorem compaction_keeps_recent:
  assumes "compactChatAgentContinuation marshal exchanges aggressive = (compacted, replacement)"
  shows "(case replacement of
      None \<Rightarrow> compacted = exchanges
    | Some r \<Rightarrow>
        providerContinuationSize marshal compacted < providerContinuationSize marshal exchanges \<and>
        xr_AfterBytes r = providerContinuationSize marshal compacted \<and>
        (let n = nat (xr_ExchangesReplaced r) in
         if n = 0 then list_all2 same_calls exchanges compacted
         else length exchanges = n + (if aggressive then 2 else 4) \<and>
              same_calls (hd compacted) (checkpoint_only (tx_Checkpoint (hd compacted))) \<and>
              length (tx_Checkpoint (hd compacted)) \<le> 16384 \<and>
              list_all2 same_calls (drop n exchanges) (tl compacted)))"
proof (cases replacement)
  case None
  then show ?thesis using compact_cases [OF assms] by auto
next
  case (Some r)
  then obtain ps where ps: "list_all2 same_calls exchanges ps"
    "xr_BeforeBytes r = providerContinuationSize marshal exchanges"
    "xr_AfterBytes r = providerContinuationSize marshal compacted" "xr_AfterBytes r < xr_BeforeBytes r"
    and cs: "xr_ExchangesReplaced r = 0 \<and> compacted = ps \<or>
        keep_count aggressive < length exchanges \<and>
        xr_ExchangesReplaced r = int (length exchanges - keep_count aggressive) \<and>
        compacted = checkpoint_only (buildProviderContinuationCheckpoint
            (take (length exchanges - keep_count aggressive) ps))
          # drop (length exchanges - keep_count aggressive) ps"
    using compact_cases [OF assms] by auto
  have keep: "keep_count aggressive = (if aggressive then 2 else 4)"
    by (simp add: keep_count_def overflowCompactionKeepExchanges_def turnCompactionKeepExchanges_def)
  have ck: "length (buildProviderContinuationCheckpoint zs) \<le> 16384" for zs
    using checkpoint_length [of zs] by (simp add: turnCompactionCheckpointBytes_def)
  from cs show ?thesis
  proof
    assume "xr_ExchangesReplaced r = 0 \<and> compacted = ps"
    then show ?thesis using Some ps by simp
  next
    assume c: "keep_count aggressive < length exchanges \<and>
        xr_ExchangesReplaced r = int (length exchanges - keep_count aggressive) \<and>
        compacted = checkpoint_only (buildProviderContinuationCheckpoint
            (take (length exchanges - keep_count aggressive) ps))
          # drop (length exchanges - keep_count aggressive) ps"
    define n where "n = length exchanges - keep_count aggressive"
    have n: "nat (xr_ExchangesReplaced r) = n" "0 < n" "length exchanges = n + (if aggressive then 2 else 4)"
      using c keep by (auto simp: n_def)
    show ?thesis
      using Some ps ck list_all2_dropI [OF ps(1), of n] c unfolding n_def [symmetric]
      using n(2) by (simp add: Let_def n(1,3) checkpoint_only_def)
  qed
qed

definition example_exchange :: "string \<Rightarrow> tool_exchange" where
  "example_exchange args =
     \<lparr>tx_AssistantContent = [], tx_AssistantReasoning = [],
      tx_Calls = [\<lparr>tc_ChoiceIndex = 0, tc_CallIndex = 0, tc_ID = ''c'', tc_SyntheticID = False, tc_Name = ''t'',
                   tc_Arguments = args, tc_FailureCategory = []\<rparr>],
      tx_Results = [\<lparr>tr_CallID = ''c'', tr_Name = ''t'', tr_Content = ''ok'', tr_IsError = False\<rparr>],
      tx_ProviderState = None, tx_FollowupPrompt = [], tx_Checkpoint = []\<rparr>"

theorem compaction_keeps_recent_witness:
  "\<exists>compacted replacement. compactChatAgentContinuation (\<lambda>v. None) [example_exchange ''a''] True =
     (compacted, replacement) \<and> (replacement = None \<longrightarrow> compacted = [example_exchange ''a''])"
proof -
  obtain ys r where c: "compactChatAgentContinuation (\<lambda>v. None) [example_exchange ''a''] True = (ys, r)"
    by (cases "compactChatAgentContinuation (\<lambda>v. None) [example_exchange ''a''] True")
  from compaction_keeps_recent [OF c] c show ?thesis by (cases r) auto
qed

text \<open>
  C15: continuing a turn never loses the exchange that was just made: it is the last one of
  the continuation, with its calls and its results' identities.
\<close>

theorem continuation_keeps_newest:
  assumes "appendCompactedChatAgentContinuation marshal sent exchanges x = Some continuation"
  shows "continuation \<noteq> [] \<and> same_calls x (last continuation)"
proof -
  obtain ys r where c: "compactChatAgentContinuation marshal (exchanges @ [x]) False = (ys, r)"
    by (cases "compactChatAgentContinuation marshal (exchanges @ [x]) False")
  consider "r = None" "continuation = exchanges @ [x]" | "r \<noteq> None" "continuation = ys"
    using assms by (auto simp: appendCompactedChatAgentContinuation_def Let_def c split: option.splits if_splits)
  then show ?thesis
  proof cases
    case 2
    then obtain ps where ps: "list_all2 same_calls (exchanges @ [x]) ps"
      and "ys = ps \<or> (\<exists>c. ys = c # drop (length (exchanges @ [x]) - keep_count False) ps)"
      using compact_cases [OF c] by blast
    then have cs: "ys = ps \<or> (\<exists>c n. n \<le> length exchanges \<and> ys = c # drop n ps)"
      by (auto simp: keep_count_def turnCompactionKeepExchanges_def intro!: exI [of _ "length exchanges - 3"])
    have "same_calls x (last ps)" "length ps = Suc (length exchanges)"
      using list_all2_last [OF ps] list_all2_lengthD [OF ps] by simp_all
    moreover have "last ys = last ps"
      using cs calculation(2) by (auto simp: last_drop)
    ultimately show ?thesis using 2 cs by auto
  qed simp
qed

theorem continuation_keeps_newest_witness:
  "same_calls (example_exchange ''b'') (last (the (appendCompactedChatAgentContinuation (\<lambda>v. None) (\<lambda>r. True)
     [example_exchange ''a''] (example_exchange ''b''))))"
proof -
  have "appendCompactedChatAgentContinuation (\<lambda>v. None) (\<lambda>r. True)
     [example_exchange ''a''] (example_exchange ''b'') \<noteq> None"
    by (auto simp: appendCompactedChatAgentContinuation_def Let_def split: prod.split option.split)
  then obtain zs where "appendCompactedChatAgentContinuation (\<lambda>v. None) (\<lambda>r. True)
     [example_exchange ''a''] (example_exchange ''b'') = Some zs" by blast
  with continuation_keeps_newest [OF this] show ?thesis by simp
qed

end
