(* ===== verification/Turn_Guard.thy ===== *)
theory Turn_Guard
  imports Chat_Types
begin

text \<open>
  internal/chat/chat_agent_turn.go and chat_agent_progress.go: the two guards that end an
  agent turn, the step and tool-call budget and the no-progress tracker.  The lemmas
  characterise the tracker by the history of rounds and bound the driver for every sequence of
  requests.
\<close>

section \<open>The turn driver\<close>

definition maxChatAgentTurnSteps :: nat where
  "maxChatAgentTurnSteps = 32"

definition maxChatAgentToolCalls :: int where
  "maxChatAgentToolCalls = 128"

datatype step_purpose = SkillPrelude | TaskStep

record agent_step =
  as_Sequence :: nat
  as_TaskSequence :: nat
  as_Purpose :: step_purpose

record turn_driver =
  td_steps :: nat
  td_taskSteps :: nat
  td_toolCalls :: int
  td_completionDriven :: bool

definition newChatAgentTurnDriver :: "bool list \<Rightarrow> turn_driver" where
  "newChatAgentTurnDriver completionDriven =
     \<lparr>td_steps = 0, td_taskSteps = 0, td_toolCalls = 0,
      td_completionDriven = (case completionDriven of [] \<Rightarrow> False | c # _ \<Rightarrow> c)\<rparr>"

definition beginStep :: "bool \<Rightarrow> turn_driver \<Rightarrow> agent_step option \<times> turn_driver" where
  "beginStep skillPrelude d =
     (if \<not> td_completionDriven d \<and> td_steps d \<ge> maxChatAgentTurnSteps then (None, d)
      else
        let d = d\<lparr>td_steps := td_steps d + 1\<rparr>
        in if skillPrelude
           then (Some \<lparr>as_Sequence = td_steps d, as_TaskSequence = td_taskSteps d, as_Purpose = SkillPrelude\<rparr>, d)
           else
             let d = d\<lparr>td_taskSteps := td_taskSteps d + 1\<rparr>
             in (Some \<lparr>as_Sequence = td_steps d, as_TaskSequence = td_taskSteps d, as_Purpose = TaskStep\<rparr>, d))"

definition admitToolCalls :: "int \<Rightarrow> turn_driver \<Rightarrow> int \<times> turn_driver" where
  "admitToolCalls requested d =
     (if requested \<le> 0 \<or> (\<not> td_completionDriven d \<and> td_toolCalls d \<ge> maxChatAgentToolCalls) then (0, d)
      else if td_completionDriven d
      then (requested, d\<lparr>td_toolCalls := td_toolCalls d + requested\<rparr>)
      else let admitted = min requested (maxChatAgentToolCalls - td_toolCalls d)
           in (admitted, d\<lparr>td_toolCalls := td_toolCalls d + admitted\<rparr>))"

section \<open>Fingerprints\<close>

text \<open>
  The JSON codec and SHA-256 are parameters: \<open>unmarshal\<close> decodes a value, \<open>marshal\<close>
  encodes one, \<open>marshal_outcome\<close> encodes the fingerprint payload of calls and results.
\<close>

record progress_env =
  pe_unmarshal :: "string \<Rightarrow> any_value option"
  pe_marshal :: "any_value \<Rightarrow> string option"
  pe_marshal_outcome :: "(string \<times> string) list \<Rightarrow> (string \<times> string \<times> bool) list \<Rightarrow> string option"
  pe_sha256_hex :: "string \<Rightarrow> string"

definition volatile_keys :: "string list" where
  "volatile_keys = [''callId'', ''evidenceToolCallId'', ''executionId'']"

fun removeAgentOutcomeIdentifiers :: "any_value \<Rightarrow> any_value" where
  "removeAgentOutcomeIdentifiers (AnyMap entries) =
     AnyMap (map (\<lambda>(k, v). (k, removeAgentOutcomeIdentifiers v))
               (filter (\<lambda>(k, v). k \<notin> set volatile_keys) entries))"
| "removeAgentOutcomeIdentifiers (AnyList items) = AnyList (map removeAgentOutcomeIdentifiers items)"
| "removeAgentOutcomeIdentifiers v = v"

definition compactAgentOutcomeContent :: "progress_env \<Rightarrow> string \<Rightarrow> string" where
  "compactAgentOutcomeContent env value =
     (case pe_unmarshal env (trim_space value) of
        None \<Rightarrow> trim_space value
      | Some decoded \<Rightarrow>
          (case pe_marshal env (removeAgentOutcomeIdentifiers decoded) of
             None \<Rightarrow> trim_space value | Some encoded \<Rightarrow> encoded))"

definition compactAgentJSON :: "progress_env \<Rightarrow> string \<Rightarrow> string" where
  "compactAgentJSON env value =
     (case pe_unmarshal env (trim_space value) of
        None \<Rightarrow> trim_space value
      | Some decoded \<Rightarrow>
          (case pe_marshal env decoded of None \<Rightarrow> trim_space value | Some encoded \<Rightarrow> encoded))"

definition chatAgentToolOutcomeFingerprint ::
  "progress_env \<Rightarrow> tool_call list \<Rightarrow> tool_result list \<Rightarrow> string" where
  "chatAgentToolOutcomeFingerprint env calls results =
     (case pe_marshal_outcome env
             (map (\<lambda>c. (trim_space (tc_Name c), compactAgentJSON env (tc_Arguments c))) calls)
             (map (\<lambda>r. (trim_space (tr_Name r), compactAgentOutcomeContent env (tr_Content r), tr_IsError r)) results) of
        None \<Rightarrow> [] | Some encoded \<Rightarrow> pe_sha256_hex env encoded)"

section \<open>The progress tracker\<close>

definition maxRepeatedChatAgentToolOutcomes :: nat where
  "maxRepeatedChatAgentToolOutcomes = 3"

definition maxConsecutiveChatAgentErrorRounds :: nat where
  "maxConsecutiveChatAgentErrorRounds = 5"

datatype block_reason = RepeatedToolOutcome | ConsecutiveToolErrors

record progress_tracker =
  pt_lastFingerprint :: string
  pt_repeatedOutcomes :: nat
  pt_consecutiveErrorRound :: nat

definition newChatAgentProgressTracker :: progress_tracker where
  "newChatAgentProgressTracker =
     \<lparr>pt_lastFingerprint = [], pt_repeatedOutcomes = 0, pt_consecutiveErrorRound = 0\<rparr>"

text \<open>The update and the verdict for a round with its fingerprint.\<close>

definition observe_round ::
  "string \<Rightarrow> bool \<Rightarrow> progress_tracker \<Rightarrow> block_reason option \<times> progress_tracker" where
  "observe_round fingerprint allErrors t =
     (let t = (if fingerprint \<noteq> [] \<and> fingerprint = pt_lastFingerprint t
               then t\<lparr>pt_repeatedOutcomes := pt_repeatedOutcomes t + 1\<rparr>
               else t\<lparr>pt_lastFingerprint := fingerprint, pt_repeatedOutcomes := 1\<rparr>);
          t = (if allErrors then t\<lparr>pt_consecutiveErrorRound := pt_consecutiveErrorRound t + 1\<rparr>
               else t\<lparr>pt_consecutiveErrorRound := 0\<rparr>)
      in if pt_repeatedOutcomes t \<ge> maxRepeatedChatAgentToolOutcomes then (Some RepeatedToolOutcome, t)
         else if pt_consecutiveErrorRound t \<ge> maxConsecutiveChatAgentErrorRounds
         then (Some ConsecutiveToolErrors, t) else (None, t))"

definition observe ::
  "progress_env \<Rightarrow> tool_call list \<Rightarrow> tool_result list \<Rightarrow> progress_tracker
   \<Rightarrow> block_reason option \<times> progress_tracker" where
  "observe env calls results t =
     (if calls = [] \<or> results = [] then (None, t)
      else observe_round (chatAgentToolOutcomeFingerprint env calls results)
             (list_all tr_IsError results) t)"

definition chatAgentBlockedSystemInstruction :: string where
  "chatAgentBlockedSystemInstruction =
     ''The Agent run has been stopped by the no-progress guard, not completed successfully.'' @ [CHR 0x0A] @
     ''Give a concise final status report with: what remains incomplete, the last verified result, the blocking reason, and the safest concrete next action. Do not call tools. Do not claim success or imply that an unpublished file is downloadable.''"

definition withChatAgentBlockedInstruction :: "string \<Rightarrow> string \<Rightarrow> string" where
  "withChatAgentBlockedInstruction systemPrompt reason =
     (let instruction = chatAgentBlockedSystemInstruction @ [CHR 0x0A] @ ''Blocking reason: '' @
            trim_space reason @ ''.'';
          prompt = trim_space systemPrompt;
          prompt = (if prompt \<noteq> [] then prompt @ [CHR 0x0A, CHR 0x0A] else prompt)
      in prompt @ instruction)"

definition chatAgentNarrationSystemInstruction :: string where
  "chatAgentNarrationSystemInstruction =
     ''Keep the user oriented during Tool-based work with brief user-visible progress updates. Before each meaningful new Tool phase, state in one concise sentence what you are about to do and why. When a Tool result materially changes the plan, briefly state the observed outcome before the next Tool phase. These updates are user-facing narration, not hidden reasoning: never expose chain-of-thought, repeat raw Tool output, invent results, or narrate every trivial call. Keep the final answer concise and separate from the progress updates.''"

definition appendChatAgentNarrationSystemInstruction :: "string \<Rightarrow> string" where
  "appendChatAgentNarrationSystemInstruction systemPrompt =
     (let prompt = trim_space systemPrompt
      in if contains prompt chatAgentNarrationSystemInstruction then prompt
         else (if prompt \<noteq> [] then prompt @ [CHR 0x0A, CHR 0x0A] else prompt)
              @ chatAgentNarrationSystemInstruction)"

section \<open>The tracker and the history of rounds\<close>

type_synonym round_trace = "(string \<times> bool) list"

text \<open>A round as the tracker sees it; the newest round is the first of the trace.\<close>

fun trace_of :: "progress_env \<Rightarrow> (tool_call list \<times> tool_result list) list \<Rightarrow> round_trace" where
  "trace_of env [] = []"
| "trace_of env ((calls, results) # older) =
     (if calls = [] \<or> results = [] then trace_of env older
      else (chatAgentToolOutcomeFingerprint env calls results, list_all tr_IsError results) # trace_of env older)"

fun tracker_after :: "progress_env \<Rightarrow> (tool_call list \<times> tool_result list) list \<Rightarrow> progress_tracker" where
  "tracker_after env [] = newChatAgentProgressTracker"
| "tracker_after env ((calls, results) # older) = snd (observe env calls results (tracker_after env older))"

fun repeats :: "round_trace \<Rightarrow> nat" where
  "repeats [] = 0"
| "repeats ((f, e) # rest) = (if f = [] then 1 else length (takeWhile (\<lambda>x. fst x = f) ((f, e) # rest)))"

definition error_run :: "round_trace \<Rightarrow> nat" where
  "error_run tr = length (takeWhile snd tr)"

definition newest_print :: "round_trace \<Rightarrow> string" where
  "newest_print tr = (case tr of [] \<Rightarrow> [] | x # _ \<Rightarrow> fst x)"

definition tracks :: "progress_tracker \<Rightarrow> round_trace \<Rightarrow> bool" where
  "tracks t tr \<longleftrightarrow> pt_lastFingerprint t = newest_print tr \<and> pt_repeatedOutcomes t = repeats tr \<and>
     pt_consecutiveErrorRound t = error_run tr"

lemma observe_round_tracks:
  assumes "tracks t tr"
  shows "tracks (snd (observe_round f e t)) ((f, e) # tr)"
proof (cases tr)
  case Nil
  then show ?thesis
    using assms by (auto simp: tracks_def observe_round_def Let_def error_run_def newest_print_def)
next
  case (Cons x xs)
  then show ?thesis
    using assms by (cases x) (auto simp: tracks_def observe_round_def Let_def error_run_def newest_print_def)
qed

lemma tracker_after_tracks: "tracks (tracker_after env rounds) (trace_of env rounds)"
proof (induction rounds)
  case Nil
  then show ?case by (simp add: tracks_def newChatAgentProgressTracker_def error_run_def newest_print_def)
next
  case (Cons r rounds)
  then show ?case by (cases r) (auto simp: observe_def intro: observe_round_tracks)
qed

lemma takeWhile_at_least: "n \<le> length (takeWhile P xs) \<longleftrightarrow> n \<le> length xs \<and> list_all P (take n xs)"
proof (induction xs arbitrary: n)
  case (Cons x xs)
  then show ?case by (cases n) auto
qed auto

text \<open>The verdict, in terms of the history alone.\<close>

definition stuck :: "round_trace \<Rightarrow> block_reason option" where
  "stuck tr =
     (if 3 \<le> length tr \<and> newest_print tr \<noteq> [] \<and> list_all (\<lambda>x. fst x = newest_print tr) (take 3 tr)
      then Some RepeatedToolOutcome
      else if 5 \<le> length tr \<and> list_all snd (take 5 tr) then Some ConsecutiveToolErrors else None)"

lemma repeats_at_least_3:
  "3 \<le> repeats tr \<longleftrightarrow> 3 \<le> length tr \<and> newest_print tr \<noteq> [] \<and> list_all (\<lambda>x. fst x = newest_print tr) (take 3 tr)"
proof (cases tr)
  case (Cons x xs)
  then show ?thesis
    using takeWhile_at_least [of 3 "\<lambda>y. fst y = fst x" tr]
    by (cases x) (auto simp: newest_print_def)
qed simp

lemma tracks_stuck:
  "tracks t tr \<Longrightarrow>
   (if pt_repeatedOutcomes t \<ge> 3 then Some RepeatedToolOutcome
    else if pt_consecutiveErrorRound t \<ge> 5 then Some ConsecutiveToolErrors else None) = stuck tr"
  by (simp add: stuck_def tracks_def repeats_at_least_3 error_run_def takeWhile_at_least)

lemma observe_verdict:
  assumes "calls \<noteq> []" "results \<noteq> []"
  shows "fst (observe env calls results (tracker_after env rounds)) = stuck (trace_of env ((calls, results) # rounds))"
proof -
  let ?f = "chatAgentToolOutcomeFingerprint env calls results" and ?e = "list_all tr_IsError results"
  have t: "tracks (snd (observe_round ?f ?e (tracker_after env rounds))) ((?f, ?e) # trace_of env rounds)"
    by (rule observe_round_tracks [OF tracker_after_tracks])
  have "fst (observe_round f e t) =
      (if pt_repeatedOutcomes (snd (observe_round f e t)) \<ge> 3 then Some RepeatedToolOutcome
       else if pt_consecutiveErrorRound (snd (observe_round f e t)) \<ge> 5 then Some ConsecutiveToolErrors
       else None)" for f e t
    by (simp add: observe_round_def Let_def maxRepeatedChatAgentToolOutcomes_def
        maxConsecutiveChatAgentErrorRounds_def)
  then have "fst (observe_round ?f ?e (tracker_after env rounds)) = stuck ((?f, ?e) # trace_of env rounds)"
    by (simp only: tracks_stuck [OF t])
  then show ?thesis using assms by (simp add: observe_def)
qed

section \<open>The driver over a turn\<close>

datatype driver_op = BeginStep bool | AdmitCalls int

fun driver_run :: "driver_op list \<Rightarrow> turn_driver \<Rightarrow> turn_driver" where
  "driver_run [] d = d"
| "driver_run (BeginStep prelude # ops) d = driver_run ops (snd (beginStep prelude d))"
| "driver_run (AdmitCalls n # ops) d = driver_run ops (snd (admitToolCalls n d))"

fun admitted_calls :: "driver_op list \<Rightarrow> turn_driver \<Rightarrow> int" where
  "admitted_calls [] d = 0"
| "admitted_calls (BeginStep prelude # ops) d = admitted_calls ops (snd (beginStep prelude d))"
| "admitted_calls (AdmitCalls n # ops) d = fst (admitToolCalls n d) + admitted_calls ops (snd (admitToolCalls n d))"

fun begun_steps :: "driver_op list \<Rightarrow> turn_driver \<Rightarrow> agent_step list" where
  "begun_steps [] d = []"
| "begun_steps (BeginStep prelude # ops) d =
     (case fst (beginStep prelude d) of None \<Rightarrow> [] | Some s \<Rightarrow> [s]) @ begun_steps ops (snd (beginStep prelude d))"
| "begun_steps (AdmitCalls n # ops) d = begun_steps ops (snd (admitToolCalls n d))"

lemma driver_bounded:
  "\<not> td_completionDriven d \<Longrightarrow> 0 \<le> td_toolCalls d \<Longrightarrow> td_toolCalls d \<le> 128 \<Longrightarrow> td_steps d \<le> 32 \<Longrightarrow>
   0 \<le> admitted_calls ops d \<and> td_toolCalls d + admitted_calls ops d \<le> 128 \<and>
   map as_Sequence (begun_steps ops d) = [Suc (td_steps d) ..< Suc (td_steps d) + length (begun_steps ops d)] \<and>
   td_steps d + length (begun_steps ops d) \<le> 32"
proof (induction ops d rule: driver_run.induct)
  case (2 prelude ops d)
  show ?case
  proof (cases "td_steps d \<ge> 32")
    case True
    then show ?thesis using 2 by (simp add: beginStep_def maxChatAgentTurnSteps_def)
  next
    case False
    let ?d = "snd (beginStep prelude d)"
    have d: "\<not> td_completionDriven ?d" "td_toolCalls ?d = td_toolCalls d" "td_steps ?d = Suc (td_steps d)"
      "\<exists>s. fst (beginStep prelude d) = Some s \<and> as_Sequence s = Suc (td_steps d)"
      using False "2.prems" by (auto simp: beginStep_def Let_def maxChatAgentTurnSteps_def)
    show ?thesis using "2.IH" "2.prems" d False by (auto simp: upt_conv_Cons)
  qed
next
  case (3 n ops d)
  let ?d = "snd (admitToolCalls n d)"
  have "\<not> td_completionDriven ?d" "td_steps ?d = td_steps d" "0 \<le> td_toolCalls ?d" "td_toolCalls ?d \<le> 128"
    "td_toolCalls ?d = td_toolCalls d + fst (admitToolCalls n d)" "0 \<le> fst (admitToolCalls n d)"
    using "3.prems" by (auto simp: admitToolCalls_def Let_def maxChatAgentToolCalls_def)
  then show ?case using "3.IH" "3.prems" by auto
qed simp

section \<open>Properties\<close>

text \<open>
  C16: a turn that is not completion-driven starts at most 32 model steps, numbered 1, 2, 3
  and so on without gaps, and admits at most 128 tool calls, whatever is requested.
\<close>

theorem turn_budget_bounded:
  "let d = newChatAgentTurnDriver []; n = length (begun_steps ops d) in
   n \<le> 32 \<and> map as_Sequence (begun_steps ops d) = [1 ..< Suc n] \<and>
   0 \<le> admitted_calls ops d \<and> admitted_calls ops d \<le> 128"
  using driver_bounded [of "newChatAgentTurnDriver []" ops]
  by (auto simp: Let_def newChatAgentTurnDriver_def)

text \<open>
  C17: the no-progress guard stops a turn exactly when the three newest rounds had the same
  (non-empty) outcome fingerprint, or else the five newest rounds failed in every call.
\<close>

theorem no_progress_verdict:
  assumes "calls \<noteq> []" "results \<noteq> []"
    and "tr = trace_of env ((calls, results) # rounds)"
  shows "fst (observe env calls results (tracker_after env rounds)) =
    (if 3 \<le> length tr \<and> newest_print tr \<noteq> [] \<and> list_all (\<lambda>x. fst x = newest_print tr) (take 3 tr)
     then Some RepeatedToolOutcome
     else if 5 \<le> length tr \<and> list_all snd (take 5 tr) then Some ConsecutiveToolErrors else None)"
  using observe_verdict [OF assms(1,2)] assms(3) by (simp add: stuck_def)

definition example_progress_env :: progress_env where
  "example_progress_env = \<lparr>pe_unmarshal = (\<lambda>s. None), pe_marshal = (\<lambda>v. None),
     pe_marshal_outcome = (\<lambda>cs rs. Some (concat (map fst cs))), pe_sha256_hex = (\<lambda>s. CHR ''h'' # s)\<rparr>"

definition example_round :: "string \<Rightarrow> tool_call list \<times> tool_result list" where
  "example_round name = ([\<lparr>tc_ChoiceIndex = 0, tc_CallIndex = 0, tc_ID = ''c'', tc_SyntheticID = False,
       tc_Name = name, tc_Arguments = ''{}'', tc_FailureCategory = []\<rparr>],
     [\<lparr>tr_CallID = ''c'', tr_Name = name, tr_Content = ''no'', tr_IsError = True\<rparr>])"

lemma example_trace:
  "trace_of example_progress_env (example_round n # rounds) =
     (CHR ''h'' # trim_space n, True) # trace_of example_progress_env rounds"
  by (simp add: example_round_def example_progress_env_def chatAgentToolOutcomeFingerprint_def)

theorem no_progress_verdict_witness:
  "fst (observe example_progress_env (fst (example_round ''a'')) (snd (example_round ''a''))
     (tracker_after example_progress_env [example_round ''a'', example_round ''a'', example_round ''b''])) =
   Some RepeatedToolOutcome"
proof -
  let ?tr = "trace_of example_progress_env ((fst (example_round ''a''), snd (example_round ''a'')) #
    [example_round ''a'', example_round ''a'', example_round ''b''])"
  have ne: "fst (example_round ''a'') \<noteq> []" "snd (example_round ''a'') \<noteq> []"
    by (simp_all add: example_round_def)
  have "3 \<le> length ?tr \<and> newest_print ?tr \<noteq> [] \<and> list_all (\<lambda>x. fst x = newest_print ?tr) (take 3 ?tr)"
    by (simp add: example_trace newest_print_def)
  with no_progress_verdict [OF ne refl, of example_progress_env
      "[example_round ''a'', example_round ''a'', example_round ''b'']"]
  show ?thesis by (simp only: if_True simp_thms)
qed

end
