(* ===== verification/Agent_Goal.thy ===== *)
theory Agent_Goal
  imports Chat_Types
begin

text \<open>
  The Goal of a conversation as the services and the goal tools see it
  (internal/chat/chat_agent_goal.go, goal_tool_contract.go and goal_tool_loop.go): the
  validation in front of the repository, the three tools get_goal, create_goal and
  update_goal, and the automatic rounds.  The repository is the Go interface
  \<open>ChatAgentGoalRepository\<close>, here a record of operations on a state \<open>'s\<close>; the locale
  \<open>goal_contract\<close> says what the tools rely on, and the theory Agent\_Goal\_Store proves it
  of the PostgreSQL repository.
\<close>

section \<open>Goals and inputs\<close>

record agent_goal =
  ag_ID :: string
  ag_ConversationID :: string
  ag_UserID :: string
  ag_Objective :: string
  ag_Phase :: string
  ag_Revision :: int
  ag_RoundsStarted :: int
  ag_MaxGoalRounds :: int
  ag_BlockedReason :: "(string \<times> string) option"
  ag_CreatedAt :: int
  ag_UpdatedAt :: int

record create_goal_input =
  ci_TurnID :: string
  ci_EventID :: string
  ci_GoalID :: string
  ci_Objective :: string
  ci_MaxGoalRounds :: int
  ci_OccurredAt :: int

record change_goal_input =
  hi_TurnID :: string
  hi_EventID :: string
  hi_GoalID :: string
  hi_ExpectedRevision :: int
  hi_Action :: string
  hi_Objective :: string
  hi_MaxGoalRounds :: "int option"
  hi_BlockedReason :: string
  hi_OccurredAt :: int

record cancel_goal_input =
  xi_TurnID :: string
  xi_EventID :: string
  xi_GoalID :: string
  xi_ExpectedRevision :: int
  xi_OccurredAt :: int

record round_goal_input =
  ri_TurnID :: string
  ri_EventID :: string
  ri_GoalID :: string
  ri_ExpectedRevision :: int
  ri_Round :: int
  ri_OccurredAt :: int

datatype goal_error =
    GoalError string
  | GoalValidation string string
  | GoalOther string

record 's goal_repository =
  gr_Get :: "string \<Rightarrow> 's \<Rightarrow> goal_error + agent_goal option"
  gr_Create :: "create_goal_input \<Rightarrow> 's \<Rightarrow> (goal_error + agent_goal) \<times> 's"
  gr_Change :: "change_goal_input \<Rightarrow> 's \<Rightarrow> (goal_error + agent_goal) \<times> 's"
  gr_Cancel :: "cancel_goal_input \<Rightarrow> 's \<Rightarrow> (goal_error + string \<times> int) \<times> 's"
  gr_StartRound :: "round_goal_input \<Rightarrow> 's \<Rightarrow> (goal_error + agent_goal) \<times> 's"

definition minChatAgentMaxGoalRounds :: int where "minChatAgentMaxGoalRounds = 3"
definition defaultChatAgentMaxGoalRounds :: int where "defaultChatAgentMaxGoalRounds = 8"
definition maxChatAgentMaxGoalRounds :: int where "maxChatAgentMaxGoalRounds = 32"
definition maxChatAgentGoalObjective :: nat where "maxChatAgentGoalObjective = 8192"
definition maxChatAgentGoalBlockReason :: nat where "maxChatAgentGoalBlockReason = 4096"

section \<open>Services\<close>

definition isChatAgentGoalChangeAction :: "string \<Rightarrow> bool" where
  "isChatAgentGoalChangeAction action \<longleftrightarrow>
     action \<in> {''edit'', ''pause'', ''resume'', ''complete'', ''blocked''}"

definition GetChatAgentGoal :: "'s goal_repository \<Rightarrow> string \<Rightarrow> 's \<Rightarrow> goal_error + agent_goal option" where
  "GetChatAgentGoal repo conversation s =
     (let conversationID = trim_space conversation
      in if \<not> is_uuid conversationID
         then Inl (GoalValidation ''INVALID_CONVERSATION_ID'' ''conversation id must be a UUID'')
         else gr_Get repo conversationID s)"

definition CreateChatAgentGoal ::
  "'s goal_repository \<Rightarrow> create_goal_input \<Rightarrow> 's \<Rightarrow> (goal_error + agent_goal) \<times> 's" where
  "CreateChatAgentGoal repo input0 s =
     (let input = input0\<lparr>ci_TurnID := trim_space (ci_TurnID input0), ci_EventID := trim_space (ci_EventID input0),
                         ci_GoalID := trim_space (ci_GoalID input0), ci_Objective := trim_space (ci_Objective input0)\<rparr>
      in if \<not> is_uuid (ci_TurnID input) \<or> \<not> is_uuid (ci_EventID input) \<or> \<not> is_uuid (ci_GoalID input) \<or>
            ci_OccurredAt input = zero_time \<or> ci_Objective input = [] \<or>
            length (ci_Objective input) > maxChatAgentGoalObjective \<or>
            ci_MaxGoalRounds input < minChatAgentMaxGoalRounds \<or>
            ci_MaxGoalRounds input > maxChatAgentMaxGoalRounds
         then (Inl (GoalValidation ''INVALID_CHAT_AGENT_GOAL'' ''chat Agent Goal input is invalid''), s)
         else gr_Create repo input s)"

definition ChangeChatAgentGoal ::
  "'s goal_repository \<Rightarrow> change_goal_input \<Rightarrow> 's \<Rightarrow> (goal_error + agent_goal) \<times> 's" where
  "ChangeChatAgentGoal repo input0 s =
     (let input = input0\<lparr>hi_TurnID := trim_space (hi_TurnID input0), hi_EventID := trim_space (hi_EventID input0),
                         hi_GoalID := trim_space (hi_GoalID input0), hi_Action := trim_space (hi_Action input0),
                         hi_Objective := trim_space (hi_Objective input0),
                         hi_BlockedReason := trim_space (hi_BlockedReason input0)\<rparr>
      in if \<not> is_uuid (hi_TurnID input) \<or> \<not> is_uuid (hi_EventID input) \<or> \<not> is_uuid (hi_GoalID input) \<or>
            hi_ExpectedRevision input < 1 \<or> hi_OccurredAt input = zero_time \<or>
            \<not> isChatAgentGoalChangeAction (hi_Action input) \<or>
            length (hi_Objective input) > maxChatAgentGoalObjective \<or>
            length (hi_BlockedReason input) > maxChatAgentGoalBlockReason \<or>
            (case hi_MaxGoalRounds input of None \<Rightarrow> False
             | Some n \<Rightarrow> n < minChatAgentMaxGoalRounds \<or> n > maxChatAgentMaxGoalRounds)
         then (Inl (GoalValidation ''INVALID_CHAT_AGENT_GOAL'' ''chat Agent Goal change is invalid''), s)
         else gr_Change repo input s)"

definition CancelChatAgentGoal ::
  "'s goal_repository \<Rightarrow> cancel_goal_input \<Rightarrow> 's \<Rightarrow> (goal_error + string \<times> int) \<times> 's" where
  "CancelChatAgentGoal repo input0 s =
     (let input = input0\<lparr>xi_TurnID := trim_space (xi_TurnID input0), xi_EventID := trim_space (xi_EventID input0),
                         xi_GoalID := trim_space (xi_GoalID input0)\<rparr>
      in if \<not> is_uuid (xi_TurnID input) \<or> \<not> is_uuid (xi_EventID input) \<or> \<not> is_uuid (xi_GoalID input) \<or>
            xi_ExpectedRevision input < 1 \<or> xi_OccurredAt input = zero_time
         then (Inl (GoalValidation ''INVALID_CHAT_AGENT_GOAL'' ''chat Agent Goal cancellation is invalid''), s)
         else gr_Cancel repo input s)"

definition StartChatAgentGoalRound ::
  "'s goal_repository \<Rightarrow> round_goal_input \<Rightarrow> 's \<Rightarrow> (goal_error + agent_goal) \<times> 's" where
  "StartChatAgentGoalRound repo input0 s =
     (let input = input0\<lparr>ri_TurnID := trim_space (ri_TurnID input0), ri_EventID := trim_space (ri_EventID input0),
                         ri_GoalID := trim_space (ri_GoalID input0)\<rparr>
      in if \<not> is_uuid (ri_TurnID input) \<or> \<not> is_uuid (ri_EventID input) \<or> \<not> is_uuid (ri_GoalID input) \<or>
            ri_ExpectedRevision input < 1 \<or> ri_Round input < 1 \<or> ri_OccurredAt input = zero_time
         then (Inl (GoalValidation ''INVALID_CHAT_AGENT_GOAL_ROUND'' ''chat Agent Goal round is invalid''), s)
         else gr_StartRound repo input s)"

definition chatAgentGoalErrorCode :: "goal_error \<Rightarrow> string" where
  "chatAgentGoalErrorCode e =
     (case e of GoalError c \<Rightarrow> trim_space c | GoalValidation c _ \<Rightarrow> trim_space c | GoalOther _ \<Rightarrow> [])"

section \<open>The tool runtime\<close>

text \<open>
  What the runtime takes from outside: the JSON codec of the standard library (the decoders
  read one value of the argument's type and nothing after it), and the Unicode path of
  \<open>strings.ToLower\<close>.
\<close>

record update_arguments =
  ua_GoalID :: string
  ua_Revision :: int
  ua_Action :: string
  ua_Objective :: "string option"
  ua_MaxGoalRounds :: "int option"
  ua_BlockedReason :: "string option"

record goal_env =
  ge_marshal :: "any_value \<Rightarrow> string"
  ge_decode_get :: "string \<Rightarrow> unit option"
  ge_decode_create :: "string \<Rightarrow> (string \<times> int option) option"
  ge_decode_update :: "string \<Rightarrow> update_arguments option"
  ge_lower :: "string \<Rightarrow> string"

text \<open>
  What one tool call draws from the world: new identifiers (\<open>NewUUID\<close> can fail), the clock,
  and whether the consumer took the events that announce the call and its outcome.
\<close>

record goal_tick =
  tk_goalID :: "string option"
  tk_eventID :: "string option"
  tk_now :: int
  tk_announced :: bool
  tk_reported :: bool

record goal_runtime =
  rt_turnID :: string
  rt_conversationID :: string
  rt_current :: "agent_goal option"
  rt_armed :: bool
  rt_directHuman :: bool
  rt_currentRound :: int
  rt_forceNoTools :: bool
  rt_calls :: int

record tool_execution =
  te_ExecutionID :: string
  te_CallID :: string
  te_Name :: string
  te_Classification :: string
  te_Status :: string
  te_CallStatus :: string
  te_Round :: int
  te_FailureCategory :: string
  te_Mode :: string

definition newChatAgentGoalToolRuntime :: "bool \<Rightarrow> string \<Rightarrow> string \<Rightarrow> goal_runtime option" where
  "newChatAgentGoalToolRuntime available turnID conversationID =
     (if \<not> available \<or> \<not> is_uuid (trim_space turnID) \<or> \<not> is_uuid (trim_space conversationID) then None
      else Some \<lparr>rt_turnID = trim_space turnID, rt_conversationID = trim_space conversationID,
                 rt_current = None, rt_armed = False, rt_directHuman = True, rt_currentRound = 0,
                 rt_forceNoTools = False, rt_calls = 0\<rparr>)"

text \<open>\<open>enabled\<close> of a runtime that exists and has its service.\<close>

definition runtime_enabled :: "goal_runtime \<Rightarrow> bool" where
  "runtime_enabled rt = (rt_turnID rt \<noteq> [] \<and> rt_conversationID rt \<noteq> [])"

definition automaticWorkActive :: "goal_runtime \<Rightarrow> bool" where
  "automaticWorkActive rt =
     (runtime_enabled rt \<and> rt_armed rt \<and>
      (case rt_current rt of None \<Rightarrow> False | Some g \<Rightarrow> ag_Phase g = ''active''))"

definition consumeForceNoTools :: "goal_runtime \<Rightarrow> bool \<times> goal_runtime" where
  "consumeForceNoTools rt =
     (if \<not> rt_forceNoTools rt then (False, rt) else (True, rt\<lparr>rt_forceNoTools := False\<rparr>))"

definition maxToolParamsBytes :: nat where "maxToolParamsBytes = 32768"

definition decodeStrictToolArguments :: "(string \<Rightarrow> 'a option) \<Rightarrow> string \<Rightarrow> 'a option" where
  "decodeStrictToolArguments decode raw0 =
     (let raw = trim_space raw0
      in if raw = [] \<or> length raw > maxToolParamsBytes then None else decode raw)"

definition isChatAgentGoalToolName :: "string \<Rightarrow> bool" where
  "isChatAgentGoalToolName name \<longleftrightarrow> trim_space name \<in> {''get_goal'', ''create_goal'', ''update_goal''}"

definition chatAgentGoalBlockedAfterRounds :: int where "chatAgentGoalBlockedAfterRounds = 3"

subsection \<open>Results\<close>

definition chatAgentGoalProjection :: "agent_goal \<Rightarrow> any_map" where
  "chatAgentGoalProjection goal =
     [(''id'', AnyString (ag_ID goal)), (''revision'', AnyInt (ag_Revision goal)),
      (''objective'', AnyString (ag_Objective goal)), (''phase'', AnyString (ag_Phase goal)),
      (''roundsStarted'', AnyInt (ag_RoundsStarted goal)), (''maxGoalRounds'', AnyInt (ag_MaxGoalRounds goal))] @
     (case ag_BlockedReason goal of None \<Rightarrow> []
      | Some (code, message) \<Rightarrow>
          [(''blockedReason'', AnyMap [(''code'', AnyString code), (''message'', AnyString message)])])"

definition chatAgentGoalPayloadResult :: "goal_env \<Rightarrow> tool_call \<Rightarrow> any_map \<Rightarrow> tool_result" where
  "chatAgentGoalPayloadResult env call payload =
     \<lparr>tr_CallID = tc_ID call, tr_Name = tc_Name call,
      tr_Content = ge_marshal env (AnyMap (AList.update ''untrustedChatAgentGoalResult'' (AnyBool True) payload)),
      tr_IsError = False\<rparr>"

definition chatAgentGoalSuccessResult :: "goal_env \<Rightarrow> tool_call \<Rightarrow> agent_goal option \<Rightarrow> bool \<Rightarrow> tool_result" where
  "chatAgentGoalSuccessResult env call goal armed =
     chatAgentGoalPayloadResult env call
       (case goal of
          None \<Rightarrow> [(''goal'', AnyNil), (''activation'', AnyString ''disarmed'')]
        | Some g \<Rightarrow> [(''goal'', AnyMap (chatAgentGoalProjection g)),
                     (''activation'', AnyString (if armed \<and> ag_Phase g = ''active'' then ''armed'' else ''disarmed''))])"

definition chatAgentGoalFailureResult :: "goal_env \<Rightarrow> tool_call \<Rightarrow> string \<Rightarrow> tool_result" where
  "chatAgentGoalFailureResult env call category =
     \<lparr>tr_CallID = tc_ID call, tr_Name = tc_Name call,
      tr_Content = ge_marshal env (AnyMap [(''untrustedChatAgentGoalResult'', AnyBool True),
        (''isError'', AnyBool True), (''error'', AnyString (trim_space category))]),
      tr_IsError = True\<rparr>"

definition renderChatAgentGoalRound :: "goal_env \<Rightarrow> agent_goal \<Rightarrow> string" where
  "renderChatAgentGoalRound env goal =
     ''<goal_round>'' @ [CHR 0x0A] @ ''Objective: '' @ ge_marshal env (AnyString (ag_Objective goal)) @ [CHR 0x0A] @
     ''Round: '' @ itoa (ag_RoundsStarted goal) @ ''/'' @ itoa (ag_MaxGoalRounds goal) @ [CHR 0x0A, CHR 0x0A] @
     ''Continue working toward the objective in this same conversation. Treat the current workspace, Tool results, '' @
     ''and durable state as authoritative; inspect them instead of assuming earlier narration is current. Make concrete '' @
     ''progress, inspect results when useful, and mark the Goal complete only when the objective is actually achieved. '' @
     ''If work remains, leave the Goal active for the next round. Follow the Goal policy before reporting a blocker.'' @
     [CHR 0x0A] @ ''</goal_round>''"

definition renderChatAgentGoalWrapup :: "goal_env \<Rightarrow> agent_goal \<Rightarrow> string" where
  "renderChatAgentGoalWrapup env goal =
     ''<goal_wrapup>'' @ [CHR 0x0A] @ ''Objective: '' @ ge_marshal env (AnyString (ag_Objective goal)) @
     (case ag_BlockedReason goal of None \<Rightarrow> []
      | Some (_, message) \<Rightarrow> [CHR 0x0A] @ ''Blocked: '' @ ge_marshal env (AnyString message)) @ [CHR 0x0A] @
     ''The Goal is now '' @ ag_Phase goal @ ''. Write the closing message to the user: state the real outcome, '' @
     ''point to concrete results, and mention only meaningful remaining review or the exact blocker. Do not add a '' @
     ''ritual verification summary when the result is normal. Use only facts established by this conversation and '' @
     ''Tool results. Do not call more Tools in this run.'' @ [CHR 0x0A] @ ''</goal_wrapup>''"

text \<open>The last component is a failure of the database that ends the run.\<close>

type_synonym call_outcome = "tool_result \<times> bool \<times> string \<times> goal_error option"

definition no_result :: tool_result where
  "no_result = \<lparr>tr_CallID = [], tr_Name = [], tr_Content = [], tr_IsError = False\<rparr>"

definition goal_failure :: "goal_env \<Rightarrow> tool_call \<Rightarrow> string \<Rightarrow> call_outcome" where
  "goal_failure env call category = (chatAgentGoalFailureResult env call category, False, category, None)"

definition goalErrorResult :: "goal_env \<Rightarrow> tool_call \<Rightarrow> goal_error \<Rightarrow> call_outcome" where
  "goalErrorResult env call err =
     (let code = chatAgentGoalErrorCode err
      in if code = [] then (no_result, False, [], Some err)
         else goal_failure env call (to_lower (ge_lower env) (trim_prefix code ''CHAT_AGENT_GOAL_'')))"

definition uuid_failed :: goal_error where
  "uuid_failed = GoalOther ''generate uuid''"

definition chatAgentGoalUpdateArgumentsValid ::
  "string \<Rightarrow> string option \<Rightarrow> int option \<Rightarrow> string option \<Rightarrow> bool" where
  "chatAgentGoalUpdateArgumentsValid action objective maxGoalRounds blockedReason =
     (let hasObjective = (case objective of None \<Rightarrow> False | Some v \<Rightarrow> trim_space v \<noteq> []);
          hasMaxRounds = (maxGoalRounds \<noteq> None);
          hasBlockedReason = (case blockedReason of None \<Rightarrow> False | Some v \<Rightarrow> trim_space v \<noteq> [])
      in if action = ''edit'' then (hasObjective \<or> hasMaxRounds) \<and> \<not> hasBlockedReason
         else if action = ''blocked'' then \<not> hasObjective \<and> \<not> hasMaxRounds \<and> hasBlockedReason
         else if action \<in> {''pause'', ''resume'', ''complete'', ''cancel''}
         then \<not> hasObjective \<and> \<not> hasMaxRounds \<and> \<not> hasBlockedReason
         else False)"

subsection \<open>Calls\<close>

definition executeGoalUpdate ::
  "goal_env \<Rightarrow> 's goal_repository \<Rightarrow> goal_tick \<Rightarrow> tool_call \<Rightarrow> update_arguments \<Rightarrow> goal_runtime \<Rightarrow> 's
   \<Rightarrow> call_outcome \<times> goal_runtime \<times> 's" where
  "executeGoalUpdate env repo tick call args rt s =
     (let action = trim_space (ua_Action args)
      in if action \<in> {''edit'', ''pause'', ''resume'', ''cancel''} \<and> \<not> rt_directHuman rt
         then (goal_failure env call ''human_authority_required'', rt, s)
         else if action = ''blocked'' \<and> \<not> rt_directHuman rt \<and>
                 (rt_current rt = None \<or> rt_currentRound rt < chatAgentGoalBlockedAfterRounds)
         then (goal_failure env call ''blocked_round_threshold'', rt, s)
         else if \<not> chatAgentGoalUpdateArgumentsValid action (ua_Objective args) (ua_MaxGoalRounds args)
                   (ua_BlockedReason args)
         then (goal_failure env call ''arguments_invalid'', rt, s)
         else
           (case tk_eventID tick of
              None \<Rightarrow> ((no_result, False, [], Some uuid_failed), rt, s)
            | Some eventID \<Rightarrow>
                if action = ''cancel''
                then
                  (case CancelChatAgentGoal repo
                          \<lparr>xi_TurnID = rt_turnID rt, xi_EventID = eventID,
                           xi_GoalID = trim_space (ua_GoalID args), xi_ExpectedRevision = ua_Revision args,
                           xi_OccurredAt = tk_now tick\<rparr> s of
                     (Inl err, s') \<Rightarrow> (goalErrorResult env call err, rt, s')
                   | (Inr (gid, revision), s') \<Rightarrow>
                       ((chatAgentGoalPayloadResult env call
                           [(''goal'', AnyNil),
                            (''cleared'', AnyMap [(''id'', AnyString gid), (''revision'', AnyInt revision)]),
                            (''activation'', AnyString ''disarmed'')], True, [], None),
                        rt\<lparr>rt_current := None, rt_armed := False, rt_forceNoTools := True\<rparr>, s'))
                else
                  (case ChangeChatAgentGoal repo
                          \<lparr>hi_TurnID = rt_turnID rt, hi_EventID = eventID,
                           hi_GoalID = trim_space (ua_GoalID args), hi_ExpectedRevision = ua_Revision args,
                           hi_Action = action,
                           hi_Objective = (case ua_Objective args of None \<Rightarrow> [] | Some v \<Rightarrow> v),
                           hi_MaxGoalRounds = ua_MaxGoalRounds args,
                           hi_BlockedReason = (case ua_BlockedReason args of None \<Rightarrow> [] | Some v \<Rightarrow> v),
                           hi_OccurredAt = tk_now tick\<rparr> s of
                     (Inl err, s') \<Rightarrow> (goalErrorResult env call err, rt, s')
                   | (Inr goal, s') \<Rightarrow>
                       let rt1 = rt\<lparr>rt_current := Some goal\<rparr>;
                           concludes = (action \<in> {''pause'', ''complete'', ''blocked''});
                           rt2 = (if action = ''resume'' then rt1\<lparr>rt_armed := True\<rparr>
                                  else if concludes then rt1\<lparr>rt_armed := False, rt_forceNoTools := True\<rparr>
                                  else rt1)
                       in ((chatAgentGoalSuccessResult env call (rt_current rt2) (rt_armed rt2), concludes, [], None),
                           rt2, s'))))"

definition executeCall ::
  "goal_env \<Rightarrow> 's goal_repository \<Rightarrow> goal_tick \<Rightarrow> tool_call \<Rightarrow> goal_runtime \<Rightarrow> 's
   \<Rightarrow> call_outcome \<times> goal_runtime \<times> 's" where
  "executeCall env repo tick call rt s =
     (let name = trim_space (tc_Name call)
      in if trim_space (tc_FailureCategory call) \<noteq> [] then (goal_failure env call ''arguments_invalid'', rt, s)
         else if name = ''get_goal''
         then
           (case decodeStrictToolArguments (ge_decode_get env) (tc_Arguments call) of
              None \<Rightarrow> (goal_failure env call ''arguments_invalid'', rt, s)
            | Some _ \<Rightarrow>
                (case GetChatAgentGoal repo (rt_conversationID rt) s of
                   Inl err \<Rightarrow> (goalErrorResult env call err, rt, s)
                 | Inr goal \<Rightarrow>
                     let moved = (case rt_current rt of None \<Rightarrow> False
                          | Some c \<Rightarrow> (case goal of None \<Rightarrow> True
                              | Some g \<Rightarrow> ag_ID g \<noteq> ag_ID c \<or> ag_Revision g \<noteq> ag_Revision c));
                         rt1 = (if moved then rt\<lparr>rt_armed := False\<rparr> else rt);
                         rt2 = rt1\<lparr>rt_current := goal\<rparr>
                     in ((chatAgentGoalSuccessResult env call (rt_current rt2) (rt_armed rt2), False, [], None), rt2, s)))
         else if name = ''create_goal''
         then
           (if \<not> rt_directHuman rt then (goal_failure env call ''human_authority_required'', rt, s)
            else
              (case decodeStrictToolArguments (ge_decode_create env) (tc_Arguments call) of
                 None \<Rightarrow> (goal_failure env call ''arguments_invalid'', rt, s)
               | Some (objective, rounds) \<Rightarrow>
                   let maxRounds = (case rounds of None \<Rightarrow> defaultChatAgentMaxGoalRounds | Some n \<Rightarrow> n)
                   in (case (tk_goalID tick, tk_eventID tick) of
                         (Some goalID, Some eventID) \<Rightarrow>
                           (case CreateChatAgentGoal repo
                                   \<lparr>ci_TurnID = rt_turnID rt, ci_EventID = eventID, ci_GoalID = goalID,
                                    ci_Objective = objective, ci_MaxGoalRounds = maxRounds,
                                    ci_OccurredAt = tk_now tick\<rparr> s of
                              (Inl err, s') \<Rightarrow> (goalErrorResult env call err, rt, s')
                            | (Inr goal, s') \<Rightarrow>
                                ((chatAgentGoalSuccessResult env call (Some goal) True, False, [], None),
                                 rt\<lparr>rt_current := Some goal, rt_armed := True\<rparr>, s'))
                       | _ \<Rightarrow> ((no_result, False, [], Some uuid_failed), rt, s))))
         else if name = ''update_goal''
         then
           (case decodeStrictToolArguments (ge_decode_update env) (tc_Arguments call) of
              None \<Rightarrow> (goal_failure env call ''arguments_invalid'', rt, s)
            | Some args \<Rightarrow> executeGoalUpdate env repo tick call args rt s)
         else (goal_failure env call ''tool_not_available'', rt, s))"

text \<open>
  \<open>execute\<close> wraps a call in the events that announce and report it.  It ends in a run failure,
  or in a cancellation when the consumer is gone.
\<close>

datatype run_error = RunCanceled | RunFailure string goal_error

definition goal_execution :: "tool_call \<Rightarrow> int \<Rightarrow> int \<Rightarrow> tool_execution" where
  "goal_execution call round callNumber =
     (let name = trim_space (tc_Name call)
      in \<lparr>te_ExecutionID = ''goal-'' @ itoa round @ ''-'' @ itoa callNumber, te_CallID = tc_ID call, te_Name = name,
          te_Classification = (if name = ''create_goal'' \<or> name = ''update_goal'' then ''write'' else ''read''),
          te_Status = ''running'', te_CallStatus = ''running'', te_Round = round, te_FailureCategory = [],
          te_Mode = ''goal''\<rparr>)"

definition execute ::
  "goal_env \<Rightarrow> 's goal_repository \<Rightarrow> goal_tick \<Rightarrow> tool_call \<Rightarrow> int \<Rightarrow> int \<Rightarrow> goal_runtime \<Rightarrow> 's
   \<Rightarrow> (tool_result \<times> bool \<times> run_error option) \<times> tool_execution list \<times> goal_runtime \<times> 's" where
  "execute env repo tick call round callNumber rt s =
     (let started = goal_execution call round callNumber
      in if \<not> tk_announced tick then ((no_result, False, Some RunCanceled), [], rt, s)
         else
           (case executeCall env repo tick call rt s of
              ((result, concludes, failure, fatal), rt', s') \<Rightarrow>
                (case fatal of
                   Some err \<Rightarrow>
                     ((result, False, Some (RunFailure ''AGENT_GOAL_PERSISTENCE_FAILED'' err)),
                      [started, started\<lparr>te_Status := ''failed'', te_CallStatus := ''failed'',
                                        te_FailureCategory := ''persistence_failed''\<rparr>], rt', s')
                 | None \<Rightarrow>
                     let ended = (if failure \<noteq> []
                           then started\<lparr>te_Status := ''failed'', te_CallStatus := ''failed'', te_FailureCategory := failure\<rparr>
                           else started\<lparr>te_Status := ''completed'', te_CallStatus := ''succeeded''\<rparr>)
                     in if \<not> tk_reported tick then ((no_result, False, Some RunCanceled), [started], rt', s')
                        else ((result, concludes \<and> failure = [], None), [started, ended], rt', s'))))"

text \<open>The batch, from the call with index \<open>i\<close> on; \<open>ticks i\<close> is what that call draws.\<close>

record goal_batch =
  gb_Results :: "(nat \<times> tool_result) list"
  gb_ConcludesTurn :: bool

fun goal_batch_from ::
  "goal_env \<Rightarrow> 's goal_repository \<Rightarrow> (nat \<Rightarrow> goal_tick) \<Rightarrow> int \<Rightarrow> nat \<Rightarrow> tool_call list \<Rightarrow> goal_batch \<Rightarrow> goal_runtime \<Rightarrow> 's
   \<Rightarrow> (goal_batch \<times> run_error option) \<times> goal_runtime \<times> 's" where
  "goal_batch_from env repo ticks round i [] ex rt s = ((ex, None), rt, s)"
| "goal_batch_from env repo ticks round i (call # calls) ex rt s =
     (if \<not> isChatAgentGoalToolName (tc_Name call) then goal_batch_from env repo ticks round (i + 1) calls ex rt s
      else if gb_ConcludesTurn ex
      then goal_batch_from env repo ticks round (i + 1) calls
             (ex\<lparr>gb_Results := gb_Results ex @ [(i, chatAgentGoalFailureResult env call ''goal_concluded'')]\<rparr>) rt s
      else
        let rt1 = rt\<lparr>rt_calls := rt_calls rt + 1\<rparr>
        in (case execute env repo (ticks i) call round (rt_calls rt1) rt1 s of
              ((result, concludes, err), _, rt2, s') \<Rightarrow>
                let ex1 = ex\<lparr>gb_Results := gb_Results ex @ [(i, result)]\<rparr>
                in if err \<noteq> None then ((ex1, err), rt2, s')
                   else goal_batch_from env repo ticks round (i + 1) calls
                          (if concludes then ex1\<lparr>gb_ConcludesTurn := True\<rparr> else ex1) rt2 s'))"

definition executeChatAgentGoalBatch ::
  "goal_env \<Rightarrow> 's goal_repository \<Rightarrow> (nat \<Rightarrow> goal_tick) \<Rightarrow> tool_call list \<Rightarrow> int \<Rightarrow> goal_runtime \<Rightarrow> 's
   \<Rightarrow> (goal_batch \<times> run_error option) \<times> goal_runtime \<times> 's" where
  "executeChatAgentGoalBatch env repo ticks calls round rt s =
     (let ex = \<lparr>gb_Results = [], gb_ConcludesTurn = False\<rparr>
      in if \<not> runtime_enabled rt then ((ex, None), rt, s)
         else goal_batch_from env repo ticks round 0 calls ex rt s)"

subsection \<open>Automatic rounds\<close>

definition changeGoal ::
  "'s goal_repository \<Rightarrow> goal_tick \<Rightarrow> change_goal_input \<Rightarrow> goal_runtime \<Rightarrow> 's \<Rightarrow> (goal_error + agent_goal) \<times> 's" where
  "changeGoal repo tick input rt s =
     (case tk_eventID tick of
        None \<Rightarrow> (Inl uuid_failed, s)
      | Some eventID \<Rightarrow>
          ChangeChatAgentGoal repo (input\<lparr>hi_TurnID := rt_turnID rt, hi_EventID := eventID,
                                          hi_OccurredAt := tk_now tick\<rparr>) s)"

text \<open>The result is the follow-up prompt, if the turn continues.\<close>

definition beginNextRound ::
  "goal_env \<Rightarrow> 's goal_repository \<Rightarrow> goal_tick \<Rightarrow> goal_runtime \<Rightarrow> 's
   \<Rightarrow> (goal_error + string option) \<times> goal_runtime \<times> 's" where
  "beginNextRound env repo tick rt s =
     (case (automaticWorkActive rt, rt_current rt) of
        (True, Some goal) \<Rightarrow>
          if ag_RoundsStarted goal \<ge> ag_MaxGoalRounds goal
          then
            (case changeGoal repo tick
                    \<lparr>hi_TurnID = [], hi_EventID = [], hi_GoalID = ag_ID goal,
                     hi_ExpectedRevision = ag_Revision goal, hi_Action = ''blocked'', hi_Objective = [],
                     hi_MaxGoalRounds = None,
                     hi_BlockedReason = ''Goal reached its configured limit of '' @ itoa (ag_MaxGoalRounds goal) @
                       '' automatic rounds.'',
                     hi_OccurredAt = zero_time\<rparr> rt s of
               (Inl err, s') \<Rightarrow> (Inl err, rt, s')
             | (Inr blocked, s') \<Rightarrow>
                 (Inr (Some (renderChatAgentGoalWrapup env blocked)),
                  rt\<lparr>rt_current := Some blocked, rt_armed := False, rt_directHuman := False, rt_forceNoTools := True\<rparr>, s'))
          else
            (case tk_eventID tick of
               None \<Rightarrow> (Inl uuid_failed, rt, s)
             | Some eventID \<Rightarrow>
                 let round = ag_RoundsStarted goal + 1
                 in (case StartChatAgentGoalRound repo
                            \<lparr>ri_TurnID = rt_turnID rt, ri_EventID = eventID, ri_GoalID = ag_ID goal,
                             ri_ExpectedRevision = ag_Revision goal, ri_Round = round,
                             ri_OccurredAt = tk_now tick\<rparr> s of
                       (Inl err, s') \<Rightarrow> (Inl err, rt, s')
                     | (Inr started, s') \<Rightarrow>
                         (Inr (Some (renderChatAgentGoalRound env started)),
                          rt\<lparr>rt_current := Some started, rt_directHuman := False, rt_currentRound := round\<rparr>, s')))
      | _ \<Rightarrow> (Inr None, rt, s))"

end
