(* ===== verification/Agent_Goal_Contract.thy ===== *)
theory Agent_Goal_Contract
  imports Agent_Goal
begin

text \<open>
  What the goal tools rely on.  \<open>goal_moves\<close> is the abstract life of a conversation's goal, one
  rule per action; the locale \<open>goal_contract\<close> says that the repository moves the goal only in
  this way, that it compares identifier and revision before it changes anything, and that a
  failed operation leaves no trace.  From these laws alone follow the lemmas about the
  runtime: what a call may do without the user's authority, and that the automatic rounds of
  a turn come to an end.
\<close>

section \<open>The life of a goal\<close>

inductive goal_moves :: "string \<Rightarrow> agent_goal option \<Rightarrow> agent_goal option \<Rightarrow> bool" where
  create: "(case old of None \<Rightarrow> True | Some g0 \<Rightarrow> ag_Phase g0 = ''complete'') \<Longrightarrow> ag_Phase g = ''active'' \<Longrightarrow>
    ag_Revision g = 1 \<Longrightarrow> ag_RoundsStarted g = 0 \<Longrightarrow> 3 \<le> ag_MaxGoalRounds g \<Longrightarrow> ag_MaxGoalRounds g \<le> 32 \<Longrightarrow>
    ag_BlockedReason g = None \<Longrightarrow> goal_moves ''create'' old (Some g)"
| edit: "ag_ID g' = ag_ID g \<Longrightarrow> ag_Revision g' = ag_Revision g + 1 \<Longrightarrow> ag_Phase g' = ag_Phase g \<Longrightarrow>
    ag_BlockedReason g' = ag_BlockedReason g \<Longrightarrow> ag_RoundsStarted g' = ag_RoundsStarted g \<Longrightarrow>
    ag_RoundsStarted g' \<le> ag_MaxGoalRounds g' \<Longrightarrow> 3 \<le> ag_MaxGoalRounds g' \<Longrightarrow> ag_MaxGoalRounds g' \<le> 32 \<Longrightarrow>
    goal_moves ''edit'' (Some g) (Some g')"
| pause: "ag_Phase g = ''active'' \<Longrightarrow>
    g' = g\<lparr>ag_Phase := ''paused'', ag_Revision := ag_Revision g + 1, ag_BlockedReason := None, ag_UpdatedAt := t\<rparr> \<Longrightarrow>
    goal_moves ''pause'' (Some g) (Some g')"
| resume: "ag_Phase g \<in> {''active'', ''paused'', ''blocked''} \<Longrightarrow> ag_RoundsStarted g < ag_MaxGoalRounds g \<Longrightarrow>
    g' = g\<lparr>ag_Phase := ''active'', ag_Revision := ag_Revision g + 1, ag_BlockedReason := None, ag_UpdatedAt := t\<rparr> \<Longrightarrow>
    goal_moves ''resume'' (Some g) (Some g')"
| complete: "ag_Phase g \<in> {''active'', ''paused'', ''blocked''} \<Longrightarrow>
    g' = g\<lparr>ag_Phase := ''complete'', ag_Revision := ag_Revision g + 1, ag_BlockedReason := None, ag_UpdatedAt := t\<rparr> \<Longrightarrow>
    goal_moves ''complete'' (Some g) (Some g')"
| blocked: "ag_Phase g = ''active'' \<Longrightarrow>
    g' = g\<lparr>ag_Phase := ''blocked'', ag_Revision := ag_Revision g + 1,
            ag_BlockedReason := Some (''model-reported'', reason), ag_UpdatedAt := t\<rparr> \<Longrightarrow>
    goal_moves ''blocked'' (Some g) (Some g')"
| cancel: "goal_moves ''cancel'' (Some g) None"
| round: "ag_Phase g = ''active'' \<Longrightarrow> ag_RoundsStarted g < ag_MaxGoalRounds g \<Longrightarrow>
    g' = g\<lparr>ag_RoundsStarted := ag_RoundsStarted g + 1, ag_UpdatedAt := t\<rparr> \<Longrightarrow>
    goal_moves ''round'' (Some g) (Some g')"

inductive_cases goal_moves_createE: "goal_moves ''create'' old new"
inductive_cases goal_moves_editE: "goal_moves ''edit'' old new"
inductive_cases goal_moves_pauseE: "goal_moves ''pause'' old new"
inductive_cases goal_moves_resumeE: "goal_moves ''resume'' old new"
inductive_cases goal_moves_completeE: "goal_moves ''complete'' old new"
inductive_cases goal_moves_blockedE: "goal_moves ''blocked'' old new"
inductive_cases goal_moves_cancelE: "goal_moves ''cancel'' old new"
inductive_cases goal_moves_roundE: "goal_moves ''round'' old new"

text \<open>The bounds that every goal keeps.\<close>

definition goal_wf :: "agent_goal \<Rightarrow> bool" where
  "goal_wf g \<longleftrightarrow> 3 \<le> ag_MaxGoalRounds g \<and> ag_MaxGoalRounds g \<le> 32 \<and>
     0 \<le> ag_RoundsStarted g \<and> ag_RoundsStarted g \<le> ag_MaxGoalRounds g"

lemma goal_moves_wf:
  assumes "goal_moves a old (Some g)" "\<forall>g0. old = Some g0 \<longrightarrow> goal_wf g0"
  shows "goal_wf g"
  using assms by (cases rule: goal_moves.cases) (simp_all add: goal_wf_def)

text \<open>Once a goal is over (complete), only editing touches it and only a new goal replaces it.\<close>

lemma goal_moves_complete_final:
  assumes "goal_moves a (Some g) new" "ag_Phase g = ''complete''"
  shows "a \<in> {''create'', ''edit'', ''cancel''}"
  using assms by (cases rule: goal_moves.cases) simp_all

section \<open>The contract of the repository\<close>

text \<open>\<open>goal s\<close> is the goal of the conversation \<open>conv\<close>; \<open>turn\<close> is a running turn of it.\<close>

locale goal_contract =
  fixes repo :: "'s goal_repository"
    and turn :: string
    and conv :: string
    and goal :: "'s \<Rightarrow> agent_goal option"
    and inv :: "'s \<Rightarrow> bool"
  assumes names: "inv s \<Longrightarrow> is_uuid conv \<and> trim_space conv = conv \<and> trim_space turn = turn"
    and get: "inv s \<Longrightarrow> gr_Get repo conv s = Inr (goal s)"
    and wf: "inv s \<Longrightarrow> goal s = Some g \<Longrightarrow> goal_wf g"
    and create_ok: "inv s \<Longrightarrow> ci_TurnID ci = turn \<Longrightarrow> gr_Create repo ci s = (Inr g, s') \<Longrightarrow>
      inv s' \<and> goal s' = Some g \<and> goal_moves ''create'' (goal s) (Some g)"
    and change_ok: "inv s \<Longrightarrow> hi_TurnID hi = turn \<Longrightarrow> gr_Change repo hi s = (Inr g, s') \<Longrightarrow>
      inv s' \<and> goal s' = Some g \<and> goal_moves (hi_Action hi) (goal s) (Some g) \<and>
      (\<exists>g0. goal s = Some g0 \<and> ag_ID g0 = hi_GoalID hi \<and> ag_Revision g0 = hi_ExpectedRevision hi)"
    and cancel_ok: "inv s \<Longrightarrow> xi_TurnID xi = turn \<Longrightarrow> gr_Cancel repo xi s = (Inr ref, s') \<Longrightarrow>
      inv s' \<and> goal s' = None \<and>
      (\<exists>g0. goal s = Some g0 \<and> ag_ID g0 = xi_GoalID xi \<and> ag_Revision g0 = xi_ExpectedRevision xi)"
    and round_ok: "inv s \<Longrightarrow> ri_TurnID ri = turn \<Longrightarrow> gr_StartRound repo ri s = (Inr g, s') \<Longrightarrow>
      inv s' \<and> goal s' = Some g \<and> goal_moves ''round'' (goal s) (Some g) \<and>
      ag_RoundsStarted g = ri_Round ri \<and>
      (\<exists>g0. goal s = Some g0 \<and> ag_ID g0 = ri_GoalID ri \<and> ag_Revision g0 = ri_ExpectedRevision ri)"
    and create_err: "gr_Create repo ci s = (Inl e, s') \<Longrightarrow> s' = s"
    and change_err: "gr_Change repo hi s = (Inl e, s') \<Longrightarrow> s' = s"
    and cancel_err: "gr_Cancel repo xi s = (Inl e, s') \<Longrightarrow> s' = s"
    and round_err: "gr_StartRound repo ri s = (Inl e, s') \<Longrightarrow> s' = s"
begin

text \<open>The services keep the contract: they only refuse more.\<close>

lemma service_get: "inv s \<Longrightarrow> GetChatAgentGoal repo conv s = Inr (goal s)"
  using names [of s] get [of s] by (simp add: GetChatAgentGoal_def)

lemma service_create:
  assumes "inv s" "ci_TurnID ci = turn" "CreateChatAgentGoal repo ci s = (r, s')"
  shows "(case r of Inl _ \<Rightarrow> s' = s
    | Inr g \<Rightarrow> inv s' \<and> goal s' = Some g \<and> goal_moves ''create'' (goal s) (Some g))"
proof -
  let ?n = "ci\<lparr>ci_TurnID := trim_space (ci_TurnID ci),
      ci_EventID := trim_space (ci_EventID ci),
      ci_GoalID := trim_space (ci_GoalID ci),
      ci_Objective := trim_space (ci_Objective ci)\<rparr>"
  have "(\<exists>e. r = Inl e \<and> s' = s) \<or> gr_Create repo ?n s = (r, s')"
    using assms(3) unfolding CreateChatAgentGoal_def Let_def by (auto split: if_splits)
  then show ?thesis
    using create_ok [OF assms(1), of ?n] create_err [of ?n s] assms(2) names [OF assms(1)]
    by (cases r) fastforce+
qed

lemma service_change:
  assumes "inv s" "hi_TurnID hi = turn" "ChangeChatAgentGoal repo hi s = (r, s')"
  shows "(case r of Inl _ \<Rightarrow> s' = s
    | Inr g \<Rightarrow> inv s' \<and> goal s' = Some g \<and> goal_moves (trim_space (hi_Action hi)) (goal s) (Some g) \<and>
        (\<exists>g0. goal s = Some g0 \<and> ag_ID g0 = trim_space (hi_GoalID hi) \<and> ag_Revision g0 = hi_ExpectedRevision hi))"
proof -
  let ?n = "hi\<lparr>hi_TurnID := trim_space (hi_TurnID hi),
      hi_EventID := trim_space (hi_EventID hi),
      hi_GoalID := trim_space (hi_GoalID hi),
      hi_Action := trim_space (hi_Action hi),
      hi_Objective := trim_space (hi_Objective hi),
      hi_BlockedReason := trim_space (hi_BlockedReason hi)\<rparr>"
  have "(\<exists>e. r = Inl e \<and> s' = s) \<or> gr_Change repo ?n s = (r, s')"
    using assms(3) unfolding ChangeChatAgentGoal_def Let_def by (auto split: if_splits)
  then show ?thesis
    using change_ok [OF assms(1), of ?n] change_err [of ?n s] assms(2) names [OF assms(1)]
    by (cases r) fastforce+
qed

lemma service_cancel:
  assumes "inv s" "xi_TurnID xi = turn" "CancelChatAgentGoal repo xi s = (r, s')"
  shows "(case r of Inl _ \<Rightarrow> s' = s
    | Inr g \<Rightarrow> inv s' \<and> goal s' = None \<and>
        (\<exists>g0. goal s = Some g0 \<and> ag_ID g0 = trim_space (xi_GoalID xi) \<and> ag_Revision g0 = xi_ExpectedRevision xi))"
proof -
  let ?n = "xi\<lparr>xi_TurnID := trim_space (xi_TurnID xi),
      xi_EventID := trim_space (xi_EventID xi),
      xi_GoalID := trim_space (xi_GoalID xi)\<rparr>"
  have "(\<exists>e. r = Inl e \<and> s' = s) \<or> gr_Cancel repo ?n s = (r, s')"
    using assms(3) unfolding CancelChatAgentGoal_def Let_def by (auto split: if_splits)
  then show ?thesis
    using cancel_ok [OF assms(1), of ?n] cancel_err [of ?n s] assms(2) names [OF assms(1)]
    by (cases r) fastforce+
qed

lemma service_round:
  assumes "inv s" "ri_TurnID ri = turn" "StartChatAgentGoalRound repo ri s = (r, s')"
  shows "(case r of Inl _ \<Rightarrow> s' = s
    | Inr g \<Rightarrow> inv s' \<and> goal s' = Some g \<and> goal_moves ''round'' (goal s) (Some g) \<and>
        ag_RoundsStarted g = ri_Round ri \<and>
        (\<exists>g0. goal s = Some g0 \<and> ag_ID g0 = trim_space (ri_GoalID ri) \<and> ag_Revision g0 = ri_ExpectedRevision ri))"
proof -
  let ?n = "ri\<lparr>ri_TurnID := trim_space (ri_TurnID ri),
      ri_EventID := trim_space (ri_EventID ri),
      ri_GoalID := trim_space (ri_GoalID ri)\<rparr>"
  have "(\<exists>e. r = Inl e \<and> s' = s) \<or> gr_StartRound repo ?n s = (r, s')"
    using assms(3) unfolding StartChatAgentGoalRound_def Let_def by (auto split: if_splits)
  then show ?thesis
    using round_ok [OF assms(1), of ?n] round_err [of ?n s] assms(2) names [OF assms(1)]
    by (cases r) fastforce+
qed

end

section \<open>What a call does\<close>

text \<open>The runtime after the repository answered a change.\<close>

definition after_change :: "string \<Rightarrow> agent_goal \<Rightarrow> goal_runtime \<Rightarrow> goal_runtime" where
  "after_change action g rt =
     (if action = ''resume'' then rt\<lparr>rt_current := Some g, rt_armed := True\<rparr>
      else if action \<in> {''pause'', ''complete'', ''blocked''}
      then rt\<lparr>rt_current := Some g, rt_armed := False, rt_forceNoTools := True\<rparr>
      else rt\<lparr>rt_current := Some g\<rparr>)"

text \<open>Without the user's authority only completing and, late enough, blocking are let through.\<close>

definition allowed_action :: "goal_runtime \<Rightarrow> string \<Rightarrow> bool" where
  "allowed_action rt action \<longleftrightarrow>
     action \<in> {''edit'', ''pause'', ''resume'', ''complete'', ''blocked'', ''cancel'', ''create''} \<and>
     (rt_directHuman rt \<or> action = ''complete'' \<or>
      (action = ''blocked'' \<and> rt_current rt \<noteq> None \<and> 3 \<le> rt_currentRound rt))"

lemma arguments_valid_action:
  "chatAgentGoalUpdateArgumentsValid action ob mx br \<Longrightarrow>
   action \<in> {''edit'', ''pause'', ''resume'', ''complete'', ''blocked'', ''cancel''}"
  by (auto simp: chatAgentGoalUpdateArgumentsValid_def Let_def split: if_splits)

lemma executeGoalUpdate_cases:
  assumes run: "executeGoalUpdate env repo tick call args rt s = (out, rt', s')"
  obtains (refused) "rt' = rt" "s' = s"
  | (cancelled) xi r where "xi_TurnID xi = rt_turnID rt" "allowed_action rt ''cancel''"
      "CancelChatAgentGoal repo xi s = (r, s')"
      "rt' = (case r of Inl _ \<Rightarrow> rt | Inr _ \<Rightarrow> rt\<lparr>rt_current := None, rt_armed := False, rt_forceNoTools := True\<rparr>)"
  | (changed) hi r where "hi_TurnID hi = rt_turnID rt" "trim_space (hi_Action hi) = hi_Action hi"
      "allowed_action rt (hi_Action hi)" "hi_Action hi \<noteq> ''create''" "hi_Action hi \<noteq> ''cancel''"
      "ChangeChatAgentGoal repo hi s = (r, s')"
      "rt' = (case r of Inl _ \<Rightarrow> rt | Inr g \<Rightarrow> after_change (hi_Action hi) g rt)"
proof -
  let ?a = "trim_space (ua_Action args)"
  consider (no) "rt' = rt" "s' = s"
    | (yes) eventID where "\<not> (?a \<in> {''edit'', ''pause'', ''resume'', ''cancel''} \<and> \<not> rt_directHuman rt)"
      "\<not> (?a = ''blocked'' \<and> \<not> rt_directHuman rt \<and> (rt_current rt = None \<or> rt_currentRound rt < 3))"
      "chatAgentGoalUpdateArgumentsValid ?a (ua_Objective args) (ua_MaxGoalRounds args) (ua_BlockedReason args)"
      "tk_eventID tick = Some eventID"
    using run unfolding executeGoalUpdate_def Let_def chatAgentGoalBlockedAfterRounds_def
    by (cases "tk_eventID tick") (simp_all split: if_split_asm)
  then show ?thesis
  proof cases
    case no
    then show ?thesis by (rule refused)
  next
    case yes
    then have ok: "allowed_action rt ?a" "?a \<noteq> ''create''"
      using arguments_valid_action [OF yes(3)] by (auto simp: allowed_action_def)
    note run' = run [unfolded executeGoalUpdate_def Let_def chatAgentGoalBlockedAfterRounds_def]
    show ?thesis
    proof (cases "?a = ''cancel''")
      case True
      let ?x = "\<lparr>xi_TurnID = rt_turnID rt, xi_EventID = eventID, xi_GoalID = trim_space (ua_GoalID args),
        xi_ExpectedRevision = ua_Revision args, xi_OccurredAt = tk_now tick\<rparr>"
      show ?thesis
        using run' yes True ok by (intro cancelled [of ?x "fst (CancelChatAgentGoal repo ?x s)"])
          (auto split: if_split_asm prod.splits sum.splits)
    next
      case False
      let ?h = "\<lparr>hi_TurnID = rt_turnID rt, hi_EventID = eventID, hi_GoalID = trim_space (ua_GoalID args),
        hi_ExpectedRevision = ua_Revision args, hi_Action = ?a,
        hi_Objective = (case ua_Objective args of None \<Rightarrow> [] | Some v \<Rightarrow> v),
        hi_MaxGoalRounds = ua_MaxGoalRounds args,
        hi_BlockedReason = (case ua_BlockedReason args of None \<Rightarrow> [] | Some v \<Rightarrow> v),
        hi_OccurredAt = tk_now tick\<rparr>"
      obtain r s1 where change: "ChangeChatAgentGoal repo ?h s = (r, s1)" by fastforce
      have "s1 = s'" "rt' = (case r of Inl _ \<Rightarrow> rt | Inr g \<Rightarrow> after_change ?a g rt)"
        using run' yes False change
        by (cases r; auto simp: after_change_def split: if_split_asm)+
      then show ?thesis using change ok False by (intro changed [of ?h r]) (auto split: sum.split)
    qed
  qed
qed

lemma executeCall_cases:
  assumes run: "executeCall env repo tick call rt s = (out, rt', s')"
  obtains (refused) "rt' = rt" "s' = s"
  | (read) g where "GetChatAgentGoal repo (rt_conversationID rt) s = Inr g" "s' = s"
      "rt' = rt\<lparr>rt_current := g, rt_armed := rt_armed rt \<and> (case rt_current rt of None \<Rightarrow> True
         | Some c \<Rightarrow> (case g of None \<Rightarrow> False | Some g \<Rightarrow> ag_ID g = ag_ID c \<and> ag_Revision g = ag_Revision c))\<rparr>"
  | (created) ci r where "ci_TurnID ci = rt_turnID rt" "rt_directHuman rt" "CreateChatAgentGoal repo ci s = (r, s')"
      "rt' = (case r of Inl _ \<Rightarrow> rt | Inr g \<Rightarrow> rt\<lparr>rt_current := Some g, rt_armed := True\<rparr>)"
  | (updated) args where "executeGoalUpdate env repo tick call args rt s = (out, rt', s')"
proof -
  note run' = run [unfolded executeCall_def Let_def]
  consider (fail) "trim_space (tc_FailureCategory call) \<noteq> []"
    | (get) "trim_space (tc_FailureCategory call) = []" "trim_space (tc_Name call) = ''get_goal''"
    | (create) "trim_space (tc_FailureCategory call) = []" "trim_space (tc_Name call) = ''create_goal''"
    | (update) "trim_space (tc_FailureCategory call) = []" "trim_space (tc_Name call) = ''update_goal''"
    | (other) "trim_space (tc_FailureCategory call) = []"
        "trim_space (tc_Name call) \<notin> {''get_goal'', ''create_goal'', ''update_goal''}"
    by blast
  then show ?thesis
  proof cases
    case fail
    then show ?thesis using run' by (intro refused) simp_all
  next
    case get
    show ?thesis
    proof (cases "decodeStrictToolArguments (ge_decode_get env) (tc_Arguments call)")
      case None
      then show ?thesis using run' get by (intro refused) simp_all
    next
      case (Some u)
      show ?thesis
      proof (cases "GetChatAgentGoal repo (rt_conversationID rt) s")
        case (Inl e)
        then show ?thesis using run' get Some by (intro refused) simp_all
      next
        case (Inr g)
        then show ?thesis
          using run' get Some by (intro read [of g]) (auto split: option.splits if_split_asm)
      qed
    qed
  next
    case create
    consider (no) "rt' = rt" "s' = s"
      | (go) ob n gid eid where "rt_directHuman rt"
          "decodeStrictToolArguments (ge_decode_create env) (tc_Arguments call) = Some (ob, n)"
          "tk_goalID tick = Some gid" "tk_eventID tick = Some eid"
      using run' create by (simp split: if_split_asm option.splits prod.splits)
    then show ?thesis
    proof cases
      case no
      then show ?thesis by (rule refused)
    next
      case go
      let ?c = "\<lparr>ci_TurnID = rt_turnID rt, ci_EventID = eid, ci_GoalID = gid, ci_Objective = ob,
        ci_MaxGoalRounds = (case n of None \<Rightarrow> defaultChatAgentMaxGoalRounds | Some n \<Rightarrow> n), ci_OccurredAt = tk_now tick\<rparr>"
      obtain r s1 where c: "CreateChatAgentGoal repo ?c s = (r, s1)" by fastforce
      have "s1 = s'" "rt' = (case r of Inl _ \<Rightarrow> rt | Inr g \<Rightarrow> rt\<lparr>rt_current := Some g, rt_armed := True\<rparr>)"
        using run' create go c by (cases r; simp)+
      then show ?thesis using c go(1) by (intro created [of ?c r]) simp_all
    qed
  next
    case update
    show ?thesis
    proof (cases "decodeStrictToolArguments (ge_decode_update env) (tc_Arguments call)")
      case None
      then show ?thesis using run' update by (intro refused) simp_all
    next
      case (Some args)
      then show ?thesis using run' update by (intro updated [of args]) simp
    qed
  next
    case other
    then show ?thesis using run' by (intro refused) simp_all
  qed
qed

section \<open>The runtime follows the goal\<close>

text \<open>
  A runtime that is armed holds the goal as it is stored.  \<open>remaining_rounds\<close> is how often
  \<open>beginNextRound\<close> can still continue the turn by itself.
\<close>

definition bound_runtime :: "string \<Rightarrow> string \<Rightarrow> agent_goal option \<Rightarrow> goal_runtime \<Rightarrow> bool" where
  "bound_runtime turn conv g rt \<longleftrightarrow>
     rt_turnID rt = turn \<and> rt_conversationID rt = conv \<and> (rt_armed rt \<longrightarrow> g \<noteq> None \<and> rt_current rt = g)"

definition remaining_rounds :: "goal_runtime \<Rightarrow> int" where
  "remaining_rounds rt =
     (if automaticWorkActive rt
      then (case rt_current rt of None \<Rightarrow> 0 | Some g \<Rightarrow> ag_MaxGoalRounds g - ag_RoundsStarted g + 1) else 0)"

definition without_authority :: "int \<Rightarrow> agent_goal option \<Rightarrow> agent_goal option \<Rightarrow> bool" where
  "without_authority round g g' \<longleftrightarrow>
     g' = g \<or>
     (\<exists>x x'. g = Some x \<and> g' = Some x' \<and>
        (ag_Phase x' = ''complete'' \<or> ag_Phase x' = ''blocked'' \<and> 3 \<le> round) \<and>
        ag_ID x' = ag_ID x \<and> ag_Objective x' = ag_Objective x \<and>
        ag_MaxGoalRounds x' = ag_MaxGoalRounds x \<and> ag_RoundsStarted x' = ag_RoundsStarted x)"

lemma without_authority_refl [simp]: "without_authority n g g"
  by (simp add: without_authority_def)

lemma without_authority_trans:
  "without_authority n g1 g2 \<Longrightarrow> without_authority n g2 g3 \<Longrightarrow> without_authority n g1 g3"
  unfolding without_authority_def by force

lemma without_authority_moves:
  assumes "allowed_action rt a" "\<not> rt_directHuman rt" "goal_moves a g g'"
  shows "without_authority (rt_currentRound rt) g g'"
proof -
  from assms(1,2) consider "a = ''complete''" | "a = ''blocked''" "3 \<le> rt_currentRound rt"
    by (auto simp: allowed_action_def)
  then show ?thesis
    using assms(3) by cases (auto elim!: goal_moves_completeE goal_moves_blockedE simp: without_authority_def)
qed

lemma remaining_disarmed [simp]: "\<not> rt_armed rt \<Longrightarrow> remaining_rounds rt = 0"
  by (simp add: remaining_rounds_def automaticWorkActive_def)

lemma remaining_force [simp]: "remaining_rounds (rt\<lparr>rt_forceNoTools := n\<rparr>) = remaining_rounds rt"
  by (simp add: remaining_rounds_def automaticWorkActive_def runtime_enabled_def)

lemma remaining_calls [simp]: "remaining_rounds (rt\<lparr>rt_calls := n\<rparr>) = remaining_rounds rt"
  by (simp add: remaining_rounds_def automaticWorkActive_def runtime_enabled_def)

context goal_contract
begin

definition call_ok :: "goal_runtime \<Rightarrow> 's \<Rightarrow> goal_runtime \<Rightarrow> 's \<Rightarrow> bool" where
  "call_ok rt s rt' s' \<longleftrightarrow>
     inv s' \<and> bound_runtime turn conv (goal s') rt' \<and>
     rt_directHuman rt' = rt_directHuman rt \<and> rt_currentRound rt' = rt_currentRound rt \<and>
     (\<not> rt_directHuman rt \<longrightarrow>
        without_authority (rt_currentRound rt) (goal s) (goal s') \<and> remaining_rounds rt' \<le> remaining_rounds rt)"

lemma call_ok_refl: "inv s \<Longrightarrow> bound_runtime turn conv (goal s) rt \<Longrightarrow> call_ok rt s rt s"
  by (simp add: call_ok_def)

lemma call_ok_trans: "call_ok rt s rt1 s1 \<Longrightarrow> call_ok rt1 s1 rt2 s2 \<Longrightarrow> call_ok rt s rt2 s2"
  unfolding call_ok_def using without_authority_trans by force

lemma remaining_nonneg:
  assumes "inv s" "bound_runtime turn conv (goal s) rt"
  shows "0 \<le> remaining_rounds rt"
proof (cases "rt_armed rt")
  case True
  then obtain g where "goal s = Some g" "rt_current rt = Some g"
    using assms(2) by (auto simp: bound_runtime_def)
  then show ?thesis using wf [OF assms(1)] by (auto simp: remaining_rounds_def goal_wf_def)
qed simp

lemma update_ok:
  assumes "inv s" "bound_runtime turn conv (goal s) rt"
    and "executeGoalUpdate env repo tick call args rt s = (out, rt', s')"
  shows "call_ok rt s rt' s'"
  using assms(3)
proof (cases rule: executeGoalUpdate_cases)
  case refused
  then show ?thesis using call_ok_refl assms by simp
next
  case (cancelled xi r)
  show ?thesis
  proof (cases r)
    case (Inl e)
    then show ?thesis
      using cancelled service_cancel [OF assms(1) _ cancelled(3)] call_ok_refl assms
      by (auto simp: bound_runtime_def)
  next
    case (Inr ref)
    have "rt_directHuman rt" using cancelled(2) by (auto simp: allowed_action_def)
    then show ?thesis
      using Inr cancelled service_cancel [OF assms(1) _ cancelled(3)] assms(2)
      by (auto simp: call_ok_def bound_runtime_def)
  qed
next
  case (changed hi r)
  have t: "hi_TurnID hi = turn" using changed(1) assms(2) by (simp add: bound_runtime_def)
  note law = service_change [OF assms(1) t changed(6)]
  show ?thesis
  proof (cases r)
    case (Inl e)
    then show ?thesis using changed(7) law call_ok_refl assms by simp
  next
    case (Inr g)
    then have s': "inv s'" "goal s' = Some g" "goal_moves (hi_Action hi) (goal s) (Some g)"
      using law changed(2) by simp_all
    have rt': "rt' = after_change (hi_Action hi) g rt" using Inr changed(7) by simp
    have "bound_runtime turn conv (goal s') rt'"
      using assms(2) s'(2) rt' by (auto simp: bound_runtime_def after_change_def)
    moreover have "rt_directHuman rt' = rt_directHuman rt" "rt_currentRound rt' = rt_currentRound rt"
      using rt' by (simp_all add: after_change_def)
    moreover have "without_authority (rt_currentRound rt) (goal s) (goal s')" if "\<not> rt_directHuman rt"
      using without_authority_moves [OF changed(3) that s'(3)] s'(2) by simp
    moreover have "remaining_rounds rt' \<le> remaining_rounds rt" if "\<not> rt_directHuman rt"
    proof -
      have "\<not> rt_armed rt'" using changed(3) that rt' by (auto simp: allowed_action_def after_change_def)
      then show ?thesis using remaining_nonneg [OF assms(1,2)] by simp
    qed
    ultimately show ?thesis using s'(1) by (simp add: call_ok_def)
  qed
qed

lemma executeCall_ok:
  assumes "inv s" "bound_runtime turn conv (goal s) rt"
    and "executeCall env repo tick call rt s = (out, rt', s')"
  shows "call_ok rt s rt' s'"
  using assms(3)
proof (cases rule: executeCall_cases)
  case refused
  then show ?thesis using call_ok_refl assms by simp
next
  case (read g)
  then have g: "g = goal s" using service_get [OF assms(1)] assms(2) by (simp add: bound_runtime_def)
  have rt': "rt' = rt\<lparr>rt_current := goal s, rt_armed := rt_armed rt\<rparr> \<or> rt' = rt\<lparr>rt_current := goal s, rt_armed := False\<rparr>"
  proof -
    obtain b where "rt' = rt\<lparr>rt_current := goal s, rt_armed := rt_armed rt \<and> b\<rparr>" using read(3) g by blast
    then show ?thesis by (cases b) auto
  qed
  have "remaining_rounds rt' \<le> remaining_rounds rt"
  proof (cases "rt_armed rt")
    case True
    then have "rt_current rt = goal s" using assms(2) by (simp add: bound_runtime_def)
    then show ?thesis using rt' remaining_nonneg [OF assms(1,2)]
      by (auto simp: remaining_rounds_def automaticWorkActive_def runtime_enabled_def)
  next
    case False
    then show ?thesis using rt' by auto
  qed
  then show ?thesis using rt' read(2) assms(1,2) by (auto simp: call_ok_def bound_runtime_def)
next
  case (created ci r)
  have t: "ci_TurnID ci = turn" using created(1) assms(2) by (simp add: bound_runtime_def)
  note law = service_create [OF assms(1) t created(3)]
  show ?thesis
  proof (cases r)
    case (Inl e)
    then show ?thesis using created(4) law call_ok_refl assms by simp
  next
    case (Inr g)
    then show ?thesis using created(2,4) law assms(2) by (simp add: call_ok_def bound_runtime_def)
  qed
next
  case (updated args)
  then show ?thesis by (rule update_ok [OF assms(1,2)])
qed

lemma execute_ok:
  assumes "inv s" "bound_runtime turn conv (goal s) rt"
    and "execute env repo tick call round n rt s = (out, evs, rt', s')"
  shows "call_ok rt s rt' s'"
proof (cases "tk_announced tick")
  case False
  then show ?thesis using assms call_ok_refl by (simp add: execute_def Let_def)
next
  case True
  obtain o1 rt1 s1 where c: "executeCall env repo tick call rt s = (o1, rt1, s1)" by (cases "executeCall env repo tick call rt s")
  then have "rt' = rt1 \<and> s' = s1"
    using assms(3) True by (auto simp: execute_def Let_def split: prod.splits option.splits if_split_asm)
  then show ?thesis using executeCall_ok [OF assms(1,2) c] by simp
qed

lemma batch_ok:
  "inv s \<Longrightarrow> bound_runtime turn conv (goal s) rt \<Longrightarrow>
   goal_batch_from env repo ticks round i calls ex rt s = (out, rt', s') \<Longrightarrow> call_ok rt s rt' s'"
proof (induction calls arbitrary: i ex rt s)
  case Nil
  then show ?case using call_ok_refl by simp
next
  case (Cons call calls)
  let ?rt1 = "rt\<lparr>rt_calls := rt_calls rt + 1\<rparr>"
  show ?case
  proof (cases "isChatAgentGoalToolName (tc_Name call) \<and> \<not> gb_ConcludesTurn ex")
    case False
    then show ?thesis using Cons.prems by (auto intro!: Cons.IH [OF Cons.prems(1,2)] split: if_split_asm)
  next
    case True
    have b1: "bound_runtime turn conv (goal s) ?rt1" using Cons.prems(2) by (simp add: bound_runtime_def)
    have first: "call_ok rt s ?rt1 s" using Cons.prems(1) b1 by (simp add: call_ok_def)
    obtain result concludes err evs rt2 s2 where
      e: "execute env repo (ticks i) call round (rt_calls ?rt1) ?rt1 s = ((result, concludes, err), evs, rt2, s2)"
      by (metis prod_cases3)
    have step: "call_ok rt s rt2 s2"
      using call_ok_trans [OF first execute_ok [OF Cons.prems(1) b1 e]] .
    show ?thesis
    proof (cases "err = None")
      case False
      then show ?thesis using Cons.prems(3) True e step by (simp add: Let_def)
    next
      case None: True
      have "inv s2" "bound_runtime turn conv (goal s2) rt2" using step by (simp_all add: call_ok_def)
      from Cons.IH [OF this] have "call_ok rt2 s2 rt' s'"
        using Cons.prems(3) True e None by (simp add: Let_def)
      then show ?thesis using step call_ok_trans by blast
    qed
  qed
qed

end

section \<open>A turn\<close>

text \<open>
  What the tool loop does with the runtime: it hands over the calls of a model round, asks for
  the next automatic round when the model is done, or withdraws the tools for the closing
  message.  The history counts how often the turn was continued.
\<close>

datatype goal_op =
    CallBatch "nat \<Rightarrow> goal_tick" "tool_call list" int
  | NextRound goal_tick
  | WithdrawTools

definition goal_step ::
  "goal_env \<Rightarrow> 's goal_repository \<Rightarrow> goal_op \<Rightarrow> goal_runtime \<Rightarrow> 's \<Rightarrow> bool \<times> goal_runtime \<times> 's" where
  "goal_step env repo op rt s =
     (case op of
        CallBatch ticks calls round \<Rightarrow> (False, snd (executeChatAgentGoalBatch env repo ticks calls round rt s))
      | NextRound tick \<Rightarrow>
          (case beginNextRound env repo tick rt s of
             (r, rt', s') \<Rightarrow> ((case r of Inr (Some _) \<Rightarrow> True | _ \<Rightarrow> False), rt', s'))
      | WithdrawTools \<Rightarrow> (False, snd (consumeForceNoTools rt), s))"

fun goal_history ::
  "goal_env \<Rightarrow> 's goal_repository \<Rightarrow> goal_op list \<Rightarrow> goal_runtime \<Rightarrow> 's \<Rightarrow> nat \<times> goal_runtime \<times> 's" where
  "goal_history env repo [] rt s = (0, rt, s)"
| "goal_history env repo (op # ops) rt s =
     (let (continued, rt1, s1) = goal_step env repo op rt s;
          (n, rt2, s2) = goal_history env repo ops rt1 s1
      in ((if continued then n + 1 else n), rt2, s2))"

lemma automaticWorkActiveD:
  "automaticWorkActive rt \<Longrightarrow> rt_armed rt \<and> (\<exists>g. rt_current rt = Some g \<and> ag_Phase g = ''active'')"
  by (auto simp: automaticWorkActive_def split: option.splits)

context goal_contract
begin

lemma next_round_ok:
  assumes "inv s" "bound_runtime turn conv (goal s) rt"
    and "beginNextRound env repo tick rt s = (r, rt', s')"
  shows "inv s' \<and> bound_runtime turn conv (goal s') rt' \<and>
    (case r of Inr (Some _) \<Rightarrow> \<not> rt_directHuman rt' \<and> remaining_rounds rt' + 1 \<le> remaining_rounds rt
     | _ \<Rightarrow> rt' = rt \<and> s' = s)"
proof (cases "automaticWorkActive rt")
  case False
  then show ?thesis using assms by (auto simp: beginNextRound_def)
next
  case True
  then obtain g where g: "rt_current rt = Some g" "goal s = Some g" "ag_Phase g = ''active''"
    using automaticWorkActiveD [OF True] assms(2) by (auto simp: bound_runtime_def)
  have turn: "rt_turnID rt = turn" using assms(2) by (simp add: bound_runtime_def)
  have wf_g: "goal_wf g" using wf [OF assms(1) g(2)] .
  note run = assms(3) [unfolded beginNextRound_def changeGoal_def Let_def]
  show ?thesis
  proof (cases "tk_eventID tick")
    case None
    then show ?thesis using run True g assms(1,2) by (auto split: if_split_asm)
  next
    case (Some eid)
    show ?thesis
    proof (cases "ag_MaxGoalRounds g \<le> ag_RoundsStarted g")
      case limit: True
      let ?i = "\<lparr>hi_TurnID = rt_turnID rt, hi_EventID = eid, hi_GoalID = ag_ID g,
        hi_ExpectedRevision = ag_Revision g, hi_Action = ''blocked'', hi_Objective = [], hi_MaxGoalRounds = None,
        hi_BlockedReason = ''Goal reached its configured limit of '' @ itoa (ag_MaxGoalRounds g) @ '' automatic rounds.'',
        hi_OccurredAt = tk_now tick\<rparr>"
      obtain r1 where c: "ChangeChatAgentGoal repo ?i s = (r1, s')"
        and r: "case r1 of Inl e \<Rightarrow> r = Inl e \<and> rt' = rt
          | Inr b \<Rightarrow> (\<exists>p. r = Inr (Some p)) \<and> rt' = rt\<lparr>rt_current := Some b, rt_armed := False,
              rt_directHuman := False, rt_forceNoTools := True\<rparr>"
      proof -
        obtain r1 s1 where c: "ChangeChatAgentGoal repo ?i s = (r1, s1)" by fastforce
        show ?thesis
          by (rule that [of r1]) (use run True g Some limit c in \<open>cases r1; auto\<close>)+
      qed
      have t: "hi_TurnID ?i = turn" by (simp add: turn)
      note law = service_change [OF assms(1) t c]
      have "1 \<le> remaining_rounds rt" using True g wf_g by (simp add: remaining_rounds_def goal_wf_def)
      then show ?thesis
        using r law assms(1,2) by (cases r1) (auto simp: bound_runtime_def)
    next
      case False
      let ?i = "\<lparr>ri_TurnID = rt_turnID rt, ri_EventID = eid, ri_GoalID = ag_ID g,
        ri_ExpectedRevision = ag_Revision g, ri_Round = ag_RoundsStarted g + 1, ri_OccurredAt = tk_now tick\<rparr>"
      obtain r1 s1 where c: "StartChatAgentGoalRound repo ?i s = (r1, s1)" by fastforce
      have t: "ri_TurnID ?i = turn" by (simp add: turn)
      note law = service_round [OF assms(1) t c]
      show ?thesis
      proof (cases r1)
        case (Inl e)
        then show ?thesis using run True g Some False c law assms(1,2) by auto
      next
        case (Inr b)
        then have b: "inv s1" "goal s1 = Some b" "goal_moves ''round'' (Some g) (Some b)"
          using law g(2) by simp_all
        have rt': "rt' = rt\<lparr>rt_current := Some b, rt_directHuman := False, rt_currentRound := ag_RoundsStarted g + 1\<rparr>"
          "s' = s1" "\<exists>p. r = Inr (Some p)"
          using run True g Some False c Inr by auto
        have "ag_MaxGoalRounds b = ag_MaxGoalRounds g" "ag_RoundsStarted b = ag_RoundsStarted g + 1" "ag_Phase b = ''active''"
          using b(3) g(3) by (auto elim!: goal_moves_roundE)
        then have "remaining_rounds rt' + 1 \<le> remaining_rounds rt"
          using True g rt'(1) by (simp add: remaining_rounds_def automaticWorkActive_def runtime_enabled_def)
        then show ?thesis using b rt' assms(2) by (auto simp: bound_runtime_def)
      qed
    qed
  qed
qed

lemma goal_step_ok:
  assumes "inv s" "bound_runtime turn conv (goal s) rt" "goal_step env repo op rt s = (continued, rt', s')"
  shows "inv s' \<and> bound_runtime turn conv (goal s') rt' \<and>
    (continued \<longrightarrow> \<not> rt_directHuman rt') \<and>
    (\<not> continued \<longrightarrow> rt_directHuman rt' = rt_directHuman rt) \<and>
    (continued \<or> \<not> rt_directHuman rt \<longrightarrow> remaining_rounds rt' + (if continued then 1 else 0) \<le> remaining_rounds rt)"
proof (cases op)
  case (CallBatch ticks calls round)
  then have c: "continued = False" "snd (executeChatAgentGoalBatch env repo ticks calls round rt s) = (rt', s')"
    using assms(3) by (simp_all add: goal_step_def)
  have "call_ok rt s rt' s'"
  proof (cases "runtime_enabled rt")
    case True
    then have "goal_batch_from env repo ticks round 0 calls \<lparr>gb_Results = [], gb_ConcludesTurn = False\<rparr> rt s =
        (fst (executeChatAgentGoalBatch env repo ticks calls round rt s), rt', s')"
      using c(2) by (simp add: executeChatAgentGoalBatch_def prod_eq_iff)
    then show ?thesis by (rule batch_ok [OF assms(1,2)])
  next
    case False
    then show ?thesis using c(2) call_ok_refl [OF assms(1,2)] by (simp add: executeChatAgentGoalBatch_def)
  qed
  then show ?thesis using c(1) by (simp add: call_ok_def)
next
  case (NextRound tick)
  obtain r where b: "beginNextRound env repo tick rt s = (r, rt', s')" "continued = (case r of Inr (Some _) \<Rightarrow> True | _ \<Rightarrow> False)"
    using assms(3) NextRound by (auto simp: goal_step_def split: prod.splits)
  note ok = next_round_ok [OF assms(1,2) b(1)]
  show ?thesis
  proof (cases continued)
    case True
    then obtain p where "r = Inr (Some p)" using b(2) by (auto split: sum.splits option.splits)
    then show ?thesis using ok True by simp
  next
    case False
    then have "(case r of Inr (Some _) \<Rightarrow> False | _ \<Rightarrow> True)" using b(2) by (auto split: sum.splits option.splits)
    then have "rt' = rt" "s' = s" using ok by (auto split: sum.splits option.splits)
    then show ?thesis using False assms(1,2) by simp
  qed
next
  case WithdrawTools
  then show ?thesis
    using assms by (cases "rt_forceNoTools rt") (auto simp: goal_step_def consumeForceNoTools_def bound_runtime_def)
qed

lemma remaining_bound:
  assumes "inv s" "bound_runtime turn conv (goal s) rt"
  shows "remaining_rounds rt \<le> 33"
proof (cases "rt_armed rt")
  case True
  then obtain g where "goal s = Some g" "rt_current rt = Some g"
    using assms(2) by (auto simp: bound_runtime_def)
  then show ?thesis using wf [OF assms(1)] by (auto simp: remaining_rounds_def goal_wf_def)
qed simp

lemma history_ok:
  "inv s \<Longrightarrow> bound_runtime turn conv (goal s) rt \<Longrightarrow> goal_history env repo ops rt s = (n, rt', s') \<Longrightarrow>
   inv s' \<and> bound_runtime turn conv (goal s') rt' \<and>
   int n \<le> (if rt_directHuman rt then 33 else remaining_rounds rt)"
proof (induction ops arbitrary: rt s n)
  case Nil
  then show ?case using remaining_nonneg by simp
next
  case (Cons op ops)
  obtain continued rt1 s1 where step: "goal_step env repo op rt s = (continued, rt1, s1)" by (metis prod_cases3)
  obtain m where rest: "goal_history env repo ops rt1 s1 = (m, rt', s')" "n = (if continued then m + 1 else m)"
    using Cons.prems(3) step by (auto split: prod.splits)
  note ok = goal_step_ok [OF Cons.prems(1,2) step]
  note later = Cons.IH [OF ok [THEN conjunct1] ok [THEN conjunct2, THEN conjunct1] rest(1)]
  show ?case
    using ok later rest(2) remaining_bound [OF Cons.prems(1,2)] by (cases continued) (auto split: if_split_asm)
qed

end

end
