(* ===== verification/Event_Log.thy ===== *)
theory Event_Log
  imports Chat_Types
begin

text \<open>
  The append-only log of agent turns: the database gateway (the PL/pgSQL functions
  \<open>chat_agent_start_turn\<close> and \<open>chat_agent_append_event\<close> in the form that migration 101
  gives them, called by internal/chat/repository_postgres.go) and the service in front of it
  (internal/chat/chat_agent_events.go) with its payload validation.  A gateway function is one
  transaction: an exception leaves the tables as they were.  Identifiers are in the canonical
  form of the UUID type.
\<close>

section \<open>Tables\<close>

record turn_row =
  tn_user :: string
  tn_conversation :: string
  tn_message :: string
  tn_run :: string
  tn_status :: string
  tn_next :: int
  tn_started :: int
  tn_ended :: "int option"
  tn_updated :: int

record event_row =
  er_turn :: string
  er_sequence :: int
  er_type :: string
  er_step :: "int option"
  er_payload :: any_map
  er_occurred :: int

record message_row =
  mr_conversation :: string
  mr_user :: string
  mr_role :: string
  mr_status :: string
  mr_deleted :: bool
  mr_errorCode :: "string option"
  mr_completedAt :: "int option"
  mr_updatedAt :: int

record conversation_row =
  cv_user :: string
  cv_deleted :: bool

record log_db =
  db_turns :: "(string, turn_row) gomap"
  db_events :: "(string, event_row) gomap"
  db_messages :: "(string, message_row) gomap"
  db_conversations :: "(string, conversation_row) gomap"

datatype db_error = DbError string | DbConstraint string

record agent_event =
  ae_EventID :: string
  ae_TurnID :: string
  ae_UserID :: string
  ae_ConversationID :: string
  ae_MessageID :: string
  ae_RunID :: string
  ae_Sequence :: int
  ae_Type :: string
  ae_StepSequence :: int
  ae_Payload :: any_map
  ae_OccurredAt :: int

text \<open>\<open>scanChatAgentEvent\<close>: the row that a gateway function returns, as the Go value.\<close>

definition event_of :: "string \<Rightarrow> string \<Rightarrow> turn_row \<Rightarrow> event_row \<Rightarrow> agent_event" where
  "event_of eventID turnID turn row =
     \<lparr>ae_EventID = eventID, ae_TurnID = turnID, ae_UserID = tn_user turn,
      ae_ConversationID = tn_conversation turn, ae_MessageID = tn_message turn, ae_RunID = tn_run turn,
      ae_Sequence = er_sequence row, ae_Type = er_type row,
      ae_StepSequence = (case er_step row of None \<Rightarrow> 0 | Some n \<Rightarrow> n),
      ae_Payload = er_payload row, ae_OccurredAt = er_occurred row\<rparr>"

section \<open>The gateway\<close>

definition turn_authority :: "log_db \<Rightarrow> string \<Rightarrow> string \<Rightarrow> string \<Rightarrow> bool" where
  "turn_authority db userID conversationID messageID =
     (case (map_of (db_messages db) messageID, map_of (db_conversations db) conversationID) of
        (Some m, Some c) \<Rightarrow>
          mr_conversation m = conversationID \<and> mr_user m = userID \<and> mr_role m = ''assistant'' \<and>
          \<not> mr_deleted m \<and> cv_user c = userID \<and> \<not> cv_deleted c
      | _ \<Rightarrow> False)"

definition started_payload :: any_map where
  "started_payload = [(''status'', AnyString ''running''), (''transcriptVersion'', AnyFloat 2 0)]"

definition chat_agent_start_turn ::
  "string \<Rightarrow> string \<Rightarrow> string \<Rightarrow> string \<Rightarrow> string \<Rightarrow> string \<Rightarrow> int \<Rightarrow> log_db
   \<Rightarrow> (db_error + agent_event) \<times> log_db" where
  "chat_agent_start_turn turnID eventID userID conversationID messageID runID occurredAt db =
     (if \<not> turn_authority db userID conversationID messageID
      then (Inl (DbError ''CHAT_AGENT_TURN_AUTHORITY_INVALID''), db)
      else
        let found = map_of (db_turns db) turnID;
            fresh = \<lparr>tn_user = userID, tn_conversation = conversationID, tn_message = messageID,
                     tn_run = runID, tn_status = ''running'', tn_next = 2, tn_started = occurredAt,
                     tn_ended = None, tn_updated = occurredAt\<rparr>;
            turn = (case found of None \<Rightarrow> fresh | Some t \<Rightarrow> t);
            row = \<lparr>er_turn = turnID, er_sequence = 1, er_type = ''turn.started'', er_step = None,
                   er_payload = started_payload, er_occurred = occurredAt\<rparr>;
    turns = (if found = None then AList.update turnID fresh (db_turns db) else db_turns db)
        in if found = None \<and> list_ex (\<lambda>(_, t). tn_message t = messageID \<or> tn_run t = runID) (db_turns db)
           then (Inl (DbConstraint ''chat_agent_turns_message_unique''), db)
           else if tn_user turn \<noteq> userID \<or> tn_conversation turn \<noteq> conversationID \<or>
                   tn_message turn \<noteq> messageID \<or> tn_run turn \<noteq> runID
           then (Inl (DbError ''CHAT_AGENT_TURN_REPLAY_CONFLICT''), db)
           else
             (case map_of (db_events db) eventID of
                Some old \<Rightarrow>
                  if er_turn old \<noteq> turnID \<or> er_sequence old \<noteq> 1 \<or> er_type old \<noteq> ''turn.started''
                  then (Inl (DbError ''CHAT_AGENT_EVENT_REPLAY_CONFLICT''), db)
                  else (Inr (event_of eventID turnID turn old), db\<lparr>db_turns := turns\<rparr>)
              | None \<Rightarrow>
                  if list_ex (\<lambda>(_, e). er_turn e = turnID \<and> er_sequence e = 1) (db_events db)
                  then (Inl (DbConstraint ''chat_agent_events_turn_sequence_unique''), db)
                  else (Inr (event_of eventID turnID turn row),
                        db\<lparr>db_turns := turns, db_events := AList.update eventID row (db_events db)\<rparr>)))"

definition appendable_types :: "string list" where
  "appendable_types =
     [''turn.ended'', ''step.started'', ''step.ended'', ''assistant.message'', ''tool.called'',
      ''tool.result'', ''goal.changed'', ''goal.round.started'', ''context.replaced'',
      ''context.injected'', ''assistant.chunk'', ''assistant.block.completed'']"

definition terminal_statuses :: "string list" where
  "terminal_statuses = [''completed'', ''failed'', ''cancelled'', ''interrupted'']"

text \<open>\<open>payload->>'status'\<close> for the payloads that the service writes.\<close>

definition payload_status :: "any_map \<Rightarrow> string option" where
  "payload_status payload =
     (case map_of payload ''status'' of Some (AnyString v) \<Rightarrow> Some v | _ \<Rightarrow> None)"

text \<open>The messages of an interrupted turn are failed.\<close>

definition interrupt_message :: "turn_row \<Rightarrow> int \<Rightarrow> (string, message_row) gomap \<Rightarrow> (string, message_row) gomap" where
  "interrupt_message turn occurredAt messages =
     map (\<lambda>(k, m). (k,
       if k = tn_message turn \<and> mr_conversation m = tn_conversation turn \<and> mr_user m = tn_user turn \<and>
          (mr_status m = ''pending'' \<or> mr_status m = ''streaming'')
       then m\<lparr>mr_status := ''failed'',
              mr_errorCode := Some (case mr_errorCode m of None \<Rightarrow> ''AGENT_RUN_INTERRUPTED'' | Some c \<Rightarrow> c),
              mr_completedAt := Some (case mr_completedAt m of None \<Rightarrow> occurredAt | Some t \<Rightarrow> t),
              mr_updatedAt := max (mr_updatedAt m) occurredAt\<rparr>
       else m)) messages"

text \<open>\<open>octets\<close> is PostgreSQL's \<open>octet_length\<close> of the payload's text.\<close>

definition chat_agent_append_event ::
  "(any_map \<Rightarrow> nat) \<Rightarrow> string \<Rightarrow> string \<Rightarrow> string \<Rightarrow> int option \<Rightarrow> any_map \<Rightarrow> int \<Rightarrow> log_db
   \<Rightarrow> (db_error + agent_event) \<times> log_db" where
  "chat_agent_append_event octets turnID eventID eventType stepSequence payload occurredAt db =
     (if octets payload > 262144 then (Inl (DbError ''CHAT_AGENT_EVENT_INPUT_INVALID''), db)
      else if eventType = ''turn.started'' \<or> eventType \<notin> set appendable_types
      then (Inl (DbError ''CHAT_AGENT_EVENT_TYPE_INVALID''), db)
      else if (case stepSequence of None \<Rightarrow> False | Some n \<Rightarrow> n < 1)
      then (Inl (DbError ''CHAT_AGENT_EVENT_STEP_INVALID''), db)
      else
        (case map_of (db_turns db) turnID of
           None \<Rightarrow> (Inl (DbError ''CHAT_AGENT_TURN_NOT_FOUND''), db)
         | Some turn \<Rightarrow>
            (case map_of (db_events db) eventID of
               Some old \<Rightarrow>
                 if er_turn old \<noteq> turnID \<or> er_type old \<noteq> eventType \<or> er_step old \<noteq> stepSequence \<or>
                    er_payload old \<noteq> payload
                 then (Inl (DbError ''CHAT_AGENT_EVENT_REPLAY_CONFLICT''), db)
                 else (Inr (event_of eventID turnID turn old), db)
             | None \<Rightarrow>
                 if tn_status turn \<noteq> ''running'' then (Inl (DbError ''CHAT_AGENT_TURN_TERMINAL''), db)
                 else
                   let row = \<lparr>er_turn = turnID, er_sequence = tn_next turn, er_type = eventType,
                              er_step = stepSequence, er_payload = payload, er_occurred = occurredAt\<rparr>;
                       turn1 = turn\<lparr>tn_next := tn_next turn + 1, tn_updated := max (tn_updated turn) occurredAt\<rparr>;
                       db1 = db\<lparr>db_turns := AList.update turnID turn1 (db_turns db),
                                db_events := AList.update eventID row (db_events db)\<rparr>
                   in if eventType \<noteq> ''turn.ended'' then (Inr (event_of eventID turnID turn row), db1)
                      else
                        (case payload_status payload of
                           None \<Rightarrow> (Inl (DbError ''CHAT_AGENT_TURN_STATUS_INVALID''), db)
                         | Some status \<Rightarrow>
                             if status \<notin> set terminal_statuses
                             then (Inl (DbError ''CHAT_AGENT_TURN_STATUS_INVALID''), db)
                             else if occurredAt < tn_started turn
                             then (Inl (DbConstraint ''chat_agent_turns_ended_after_started''), db)
                             else
                               (Inr (event_of eventID turnID turn row),
                                db1\<lparr>db_turns := AList.update turnID
                                      (turn1\<lparr>tn_status := status, tn_ended := Some occurredAt\<rparr>) (db_turns db),
                                    db_messages := (if status = ''interrupted''
                                      then interrupt_message turn occurredAt (db_messages db1)
                                      else db_messages db1)\<rparr>)))))"

section \<open>Payload validation\<close>

definition maxChatAgentEventPayloadBytes :: int where
  "maxChatAgentEventPayloadBytes = 262144"

definition maxChatAgentMessageEventBytes :: int where
  "maxChatAgentMessageEventBytes = 196608"

definition maxChatAgentContextEventBytes :: int where
  "maxChatAgentContextEventBytes = 65536"

definition maxChatAgentChunkEventBytes :: int where
  "maxChatAgentChunkEventBytes = 65536"

text \<open>
  JSON, the size of a \<open>jsonb\<close> text, and the two secret filters (regular expressions of
  process_trace.go) are parameters.
\<close>

record log_env =
  le_marshal :: "any_map \<Rightarrow> string option"
  le_unmarshal :: "string \<Rightarrow> any_map option"
  le_jsonb_size :: "any_map \<Rightarrow> nat"
  le_redact :: "string \<Rightarrow> string"
  le_sanitize :: "string \<Rightarrow> string"

definition chatAgentPayloadString :: "any_map \<Rightarrow> string \<Rightarrow> string" where
  "chatAgentPayloadString payload key =
     (case map_of payload key of Some (AnyString v) \<Rightarrow> trim_space v | _ \<Rightarrow> [])"

text \<open>A \<open>float64\<close> converted with \<open>int(typed)\<close> and compared back: integral and within \<open>int64\<close>.\<close>

definition exact_float :: "int \<Rightarrow> int \<Rightarrow> int option" where
  "exact_float m e =
     (if e \<ge> 0 then (let v = m * 2 ^ nat e in if v \<le> max_int64 then Some v else None)
      else if m mod 2 ^ nat (- e) = 0 then Some (m div 2 ^ nat (- e)) else None)"

definition exactNonnegativeChatAgentPayloadInt :: "any_value option \<Rightarrow> int \<times> bool" where
  "exactNonnegativeChatAgentPayloadInt value =
     (case value of
        Some (AnyInt n) \<Rightarrow> (n, n \<ge> 0)
      | Some (AnyFloat m e) \<Rightarrow>
          if m < 0 then (0, False)
          else (case exact_float m e of None \<Rightarrow> (0, False) | Some v \<Rightarrow> (v, v \<le> max_int64))
      | _ \<Rightarrow> (0, False))"

definition exactPositiveChatAgentPayloadInt :: "any_value option \<Rightarrow> int \<times> bool" where
  "exactPositiveChatAgentPayloadInt value =
     (let (converted, ok) = exactNonnegativeChatAgentPayloadInt value in (converted, ok \<and> converted > 0))"

definition isChatAgentAssistantBlockType :: "string \<Rightarrow> bool" where
  "isChatAgentAssistantBlockType blockType = (blockType = ''reasoning'' \<or> blockType = ''narration'')"

datatype event_error =
    ValidationError string string
  | RepositoryError db_error
  | PersistenceError

definition payload_error :: "string \<Rightarrow> event_error" where
  "payload_error what = ValidationError ''INVALID_CHAT_AGENT_EVENT_PAYLOAD'' what"

definition normalizeChatAgentContextReplacementPayload :: "any_map \<Rightarrow> event_error + any_map" where
  "normalizeChatAgentContextReplacementPayload payload =
     (if length payload \<noteq> 5 then Inl (payload_error ''context replacement payload is invalid'')
      else
        let reason = chatAgentPayloadString payload ''reason''
        in if reason \<notin> {''tool_result_pruning'', ''turn_summary_compaction'', ''provider_context_overflow''}
           then Inl (payload_error ''context replacement reason is invalid'')
           else
             let (before, beforeOK) = exactNonnegativeChatAgentPayloadInt (map_of payload ''beforeBytes'');
                 (after, afterOK) = exactNonnegativeChatAgentPayloadInt (map_of payload ''afterBytes'');
                 (pruned, prunedOK) = exactNonnegativeChatAgentPayloadInt (map_of payload ''resultsPruned'');
                 (replaced, replacedOK) = exactNonnegativeChatAgentPayloadInt (map_of payload ''exchangesReplaced'')
             in if \<not> beforeOK \<or> \<not> afterOK \<or> \<not> prunedOK \<or> \<not> replacedOK \<or> before \<le> after \<or>
                   (pruned = 0 \<and> replaced = 0)
                then Inl (payload_error ''context replacement counts are invalid'')
                else Inr [(''reason'', AnyString reason), (''beforeBytes'', AnyInt before),
                          (''afterBytes'', AnyInt after), (''resultsPruned'', AnyInt pruned),
                          (''exchangesReplaced'', AnyInt replaced)])"

definition normalizeChatAgentContextInjectionPayload :: "log_env \<Rightarrow> any_map \<Rightarrow> event_error + any_map" where
  "normalizeChatAgentContextInjectionPayload env payload =
     (if length payload < 3 \<or> length payload > 4
      then Inl (payload_error ''context injection payload is invalid'')
      else
        let source = chatAgentPayloadString payload ''source''
        in if source \<notin> {''system-prompt'', ''skill-catalog'', ''skill-instruction'', ''runtime-context''}
           then Inl (payload_error ''context injection source is invalid'')
           else
             let label = truncateChatAgentUTF8 (le_redact env (chatAgentPayloadString payload ''label'')) 256;
                 (raw, contentOK) = (case map_of payload ''content'' of
                    Some (AnyString v) \<Rightarrow> (v, True) | _ \<Rightarrow> ([], False));
                 content = le_sanitize env raw
             in if label = [] \<or> \<not> contentOK \<or> trim_space content = []
                then Inl (payload_error ''context injection content is invalid'')
                else
                  let truncated = int (length content) > maxChatAgentContextEventBytes;
                      bounded = truncateChatAgentUTF8 content maxChatAgentContextEventBytes;
                      done = (\<lambda>flag. Inr [(''source'', AnyString source), (''label'', AnyString label),
                               (''content'', AnyString bounded), (''truncated'', AnyBool flag)])
                  in case map_of payload ''truncated'' of
                       None \<Rightarrow> done truncated
                     | Some (AnyBool supplied) \<Rightarrow> done (truncated \<or> supplied)
                     | Some _ \<Rightarrow> Inl (payload_error ''context injection truncation is invalid''))"

definition normalizeChatAgentAssistantChunkPayload :: "log_env \<Rightarrow> any_map \<Rightarrow> event_error + any_map" where
  "normalizeChatAgentAssistantChunkPayload env payload =
     (if length payload < 3 \<or> length payload > 4
      then Inl (payload_error ''assistant chunk payload is invalid'')
      else
        let chunkType = chatAgentPayloadString payload ''chunkType'';
            blockType = chatAgentPayloadString payload ''blockType'';
            (blockIndex, blockOK) = exactPositiveChatAgentPayloadInt (map_of payload ''blockIndex'')
        in if \<not> blockOK \<or> \<not> isChatAgentAssistantBlockType blockType
           then Inl (payload_error ''assistant chunk block is invalid'')
           else
             let result = [(''chunkType'', AnyString chunkType), (''blockType'', AnyString blockType),
                           (''blockIndex'', AnyInt blockIndex)]
             in if chunkType = ''block-start''
                then (if length payload \<noteq> 3 then Inl (payload_error ''assistant block start is invalid'')
                      else Inr result)
                else if (blockType = ''reasoning'' \<and> chunkType = ''reasoning-delta'') \<or>
                        (blockType = ''narration'' \<and> chunkType = ''narration-delta'')
                then
                  let (raw, contentOK) = (case map_of payload ''content'' of
                        Some (AnyString v) \<Rightarrow> (v, True) | _ \<Rightarrow> ([], False));
                      content = le_sanitize env raw
                  in if \<not> contentOK \<or> content = []
                     then Inl (payload_error ''assistant block delta is empty'')
                     else Inr (result @ [(''content'',
                            AnyString (truncateChatAgentUTF8 content maxChatAgentChunkEventBytes))])
                else Inl (payload_error ''assistant chunk type is invalid''))"

definition normalizeChatAgentBlockCompletedPayload :: "any_map \<Rightarrow> event_error + any_map" where
  "normalizeChatAgentBlockCompletedPayload payload =
     (let blockType = chatAgentPayloadString payload ''blockType''
      in if length payload \<noteq> 2 \<or> \<not> isChatAgentAssistantBlockType blockType
         then Inl (payload_error ''assistant completed block is invalid'')
         else
           let (blockIndex, ok) = exactPositiveChatAgentPayloadInt (map_of payload ''blockIndex'')
           in if \<not> ok then Inl (payload_error ''assistant completed block index is invalid'')
              else Inr [(''blockType'', AnyString blockType), (''blockIndex'', AnyInt blockIndex)])"

text \<open>The per-type part of the normalisation, and the bounds on the encoded payload.\<close>

definition typed_payload :: "log_env \<Rightarrow> string \<Rightarrow> any_map \<Rightarrow> event_error + any_map" where
  "typed_payload env eventType payload =
     (if eventType = ''context.replaced'' then normalizeChatAgentContextReplacementPayload payload
      else if eventType = ''context.injected'' then normalizeChatAgentContextInjectionPayload env payload
      else if eventType = ''assistant.chunk'' then normalizeChatAgentAssistantChunkPayload env payload
      else if eventType = ''assistant.block.completed'' then normalizeChatAgentBlockCompletedPayload payload
      else if eventType = ''assistant.message''
      then (case map_of payload ''content'' of
              Some (AnyString content) \<Rightarrow>
                Inr (AList.update ''content''
                       (AnyString (truncateChatAgentUTF8 content maxChatAgentMessageEventBytes)) payload)
            | _ \<Rightarrow> Inr payload)
      else Inr payload)"

definition normalizeChatAgentEventPayload :: "log_env \<Rightarrow> string \<Rightarrow> any_map \<Rightarrow> event_error + any_map" where
  "normalizeChatAgentEventPayload env eventType payload0 =
     (case typed_payload env eventType payload0 of
        Inl e \<Rightarrow> Inl e
      | Inr payload \<Rightarrow>
          let too_large = payload_error ''chat Agent event payload is invalid or too large''
          in case le_marshal env payload of
               None \<Rightarrow> Inl too_large
             | Some encoded \<Rightarrow>
                 if int (length encoded) > maxChatAgentEventPayloadBytes then Inl too_large
                 else (case le_unmarshal env encoded of
                         None \<Rightarrow> Inl (payload_error ''chat Agent event payload must be an object'')
                       | Some normalized \<Rightarrow>
                           (case le_marshal env normalized of
                              None \<Rightarrow> Inl too_large
                            | Some encoded2 \<Rightarrow>
                                if int (length encoded2) > maxChatAgentEventPayloadBytes
                                then Inl too_large else Inr normalized)))"

section \<open>The service\<close>

definition StartChatAgentTurn ::
  "string \<Rightarrow> string \<Rightarrow> string \<Rightarrow> string \<Rightarrow> string \<Rightarrow> string \<Rightarrow> int \<Rightarrow> log_db
   \<Rightarrow> (event_error + agent_event) \<times> log_db" where
  "StartChatAgentTurn userID turn event conversation message run occurredAt db =
     (let turnID = trim_space turn; eventID = trim_space event; conversationID = trim_space conversation;
          messageID = trim_space message; runID = trim_space run
      in if \<not> is_uuid turnID \<or> \<not> is_uuid eventID \<or> \<not> is_uuid conversationID \<or> \<not> is_uuid messageID \<or>
            \<not> is_uuid runID \<or> occurredAt = zero_time
         then (Inl (ValidationError ''INVALID_CHAT_AGENT_TURN''
                  ''chat Agent turn identifiers and occurredAt are required''), db)
         else (case chat_agent_start_turn turnID eventID userID conversationID messageID runID occurredAt db of
                 (Inl e, db') \<Rightarrow> (Inl (RepositoryError e), db')
               | (Inr event, db') \<Rightarrow> (Inr event, db')))"

definition AppendChatAgentEvent ::
  "log_env \<Rightarrow> string \<Rightarrow> string \<Rightarrow> string \<Rightarrow> int \<Rightarrow> any_map \<Rightarrow> int \<Rightarrow> log_db
   \<Rightarrow> (event_error + agent_event) \<times> log_db" where
  "AppendChatAgentEvent env turn event type0 stepSequence payload occurredAt db =
     (let turnID = trim_space turn; eventID = trim_space event; eventType = trim_space type0
      in if \<not> is_uuid turnID \<or> \<not> is_uuid eventID \<or> occurredAt = zero_time
         then (Inl (ValidationError ''INVALID_CHAT_AGENT_EVENT''
                  ''chat Agent event identifiers and occurredAt are required''), db)
         else if eventType \<notin> set appendable_types
         then (Inl (ValidationError ''INVALID_CHAT_AGENT_EVENT'' ''chat Agent event type is invalid''), db)
         else if stepSequence < 0
         then (Inl (ValidationError ''INVALID_CHAT_AGENT_EVENT''
                  ''chat Agent event step sequence is invalid''), db)
         else
           (case normalizeChatAgentEventPayload env eventType payload of
              Inl e \<Rightarrow> (Inl e, db)
            | Inr normalized \<Rightarrow>
                (case chat_agent_append_event (le_jsonb_size env) turnID eventID eventType
                        (if stepSequence = 0 then None else Some stepSequence) normalized occurredAt db of
                   (Inl e, db') \<Rightarrow> (Inl (RepositoryError e), db')
                 | (Inr ev, db') \<Rightarrow> (Inr ev, db'))))"

section \<open>The log invariant\<close>

text \<open>
  The events of a turn carry the sequence numbers 1, 2, ... without gap or repetition; a turn
  is terminal exactly when its last event says so, and then with that event's status.
\<close>

definition turn_ok :: "(string, event_row) gomap \<Rightarrow> string \<Rightarrow> turn_row \<Rightarrow> bool" where
  "turn_ok events t row \<longleftrightarrow>
     2 \<le> tn_next row \<and>
     (\<forall>x \<in> set events. er_turn (snd x) = t \<longrightarrow> 1 \<le> er_sequence (snd x) \<and> er_sequence (snd x) < tn_next row) \<and>
     (\<forall>n \<in> {1 ..< tn_next row}. \<exists>x \<in> set events. er_turn (snd x) = t \<and> er_sequence (snd x) = n) \<and>
     (\<forall>x \<in> set events. \<forall>y \<in> set events. er_turn (snd x) = t \<and> er_turn (snd y) = t \<and>
        er_sequence (snd x) = er_sequence (snd y) \<longrightarrow> fst x = fst y) \<and>
     (if tn_status row = ''running''
      then \<forall>x \<in> set events. er_turn (snd x) = t \<longrightarrow> er_type (snd x) \<noteq> ''turn.ended''
      else tn_status row \<in> set terminal_statuses \<and>
           (\<exists>x \<in> set events. er_turn (snd x) = t \<and> er_sequence (snd x) = tn_next row - 1 \<and>
              er_type (snd x) = ''turn.ended'' \<and> payload_status (er_payload (snd x)) = Some (tn_status row)))"

definition log_ok :: "log_db \<Rightarrow> bool" where
  "log_ok db \<longleftrightarrow>
     keys_distinct (db_turns db) \<and> keys_distinct (db_events db) \<and>
     (\<forall>x \<in> set (db_events db). er_turn (snd x) \<in> fst ` set (db_turns db)) \<and>
     (\<forall>x \<in> set (db_turns db). turn_ok (db_events db) (fst x) (snd x))"

definition log_start :: "log_db \<Rightarrow> bool" where
  "log_start db \<longleftrightarrow> db_turns db = [] \<and> db_events db = []"

lemma log_ok_start: "log_start db \<Longrightarrow> log_ok db"
  by (simp add: log_start_def log_ok_def)

lemma set_update_fresh:
  "map_of m k = None \<Longrightarrow> set (AList.update k v m) = insert (k, v) (set m)"
  by (induction m) (auto split: if_splits)

text \<open>Adding an event to one turn leaves the others as they were.\<close>

lemma turn_ok_other:
  assumes "turn_ok events t row" "map_of events k = None" "er_turn e \<noteq> t"
  shows "turn_ok (AList.update k e events) t row"
proof -
  have "x \<in> set (AList.update k e events) \<and> er_turn (snd x) = t \<longleftrightarrow> x \<in> set events \<and> er_turn (snd x) = t" for x
    using assms(2,3) by (auto simp: set_update_fresh)
  then show ?thesis
    using assms(1) unfolding turn_ok_def by (smt (verit, best))
qed

lemma turn_ok_same:
  assumes "turn_ok events t row" "map_of events k = None" "tn_status row = ''running''"
    and "er_turn e = t" "er_sequence e = tn_next row" "tn_next row' = tn_next row + 1"
    and "if er_type e = ''turn.ended''
         then tn_status row' \<in> set terminal_statuses \<and> payload_status (er_payload e) = Some (tn_status row')
         else tn_status row' = ''running''"
  shows "turn_ok (AList.update k e events) t row'"
proof -
  have S: "set (AList.update k e events) = insert (k, e) (set events)"
    by (rule set_update_fresh [OF assms(2)])
  have n: "\<exists>x \<in> insert (k, e) (set events). er_turn (snd x) = t \<and> er_sequence (snd x) = n"
    if "n \<in> {1 ..< tn_next row + 1}" for n
  proof (cases "n = tn_next row")
    case False
    with that assms(1) show ?thesis by (force simp: turn_ok_def)
  qed (use assms(4,5) in auto)
  have old: "1 \<le> er_sequence (snd x) \<and> er_sequence (snd x) < tn_next row"
    if "x \<in> set events" "er_turn (snd x) = t" for x
    using assms(1) that by (auto simp: turn_ok_def)
  have inj: "fst x = fst y" if "x \<in> insert (k, e) (set events)" "y \<in> insert (k, e) (set events)"
    "er_turn (snd x) = t" "er_turn (snd y) = t" "er_sequence (snd x) = er_sequence (snd y)" for x y
  proof -
    note members = that(1,2)
    consider "x = (k, e)" "y = (k, e)" | "x = (k, e)" "y \<in> set events" | "x \<in> set events" "y = (k, e)"
      | "x \<in> set events" "y \<in> set events"
      using members by blast
    then show ?thesis
    proof cases
      case 2
      then show ?thesis using old [of y] that assms(5) by simp
    next
      case 3
      then show ?thesis using old [of x] that assms(5) by simp
    next
      case 4
      then show ?thesis using that assms(1) unfolding turn_ok_def by blast
    qed simp
  qed
  have no: "''running'' \<notin> set terminal_statuses" by (simp add: terminal_statuses_def)
  have quiet: "er_type (snd x) \<noteq> ''turn.ended''" if "x \<in> set events" "er_turn (snd x) = t" for x
    using assms(1,3) that by (simp add: turn_ok_def)
  have status: "if tn_status row' = ''running''
      then \<forall>x \<in> insert (k, e) (set events). er_turn (snd x) = t \<longrightarrow> er_type (snd x) \<noteq> ''turn.ended''
      else tn_status row' \<in> set terminal_statuses \<and>
           (\<exists>x \<in> insert (k, e) (set events). er_turn (snd x) = t \<and> er_sequence (snd x) = tn_next row' - 1 \<and>
              er_type (snd x) = ''turn.ended'' \<and> payload_status (er_payload (snd x)) = Some (tn_status row'))"
  proof (cases "er_type e = ''turn.ended''")
    case True
    then have "tn_status row' \<in> set terminal_statuses" "payload_status (er_payload e) = Some (tn_status row')"
      using assms(7) by simp_all
    moreover have "tn_status row' \<noteq> ''running''" using calculation(1) no by metis
    ultimately show ?thesis using True assms(4-6) by simp
  next
    case False
    then show ?thesis using assms(7) quiet by auto
  qed
  show ?thesis
    unfolding turn_ok_def S
  proof (intro conjI)
    show "2 \<le> tn_next row'" using assms(1,6) by (simp add: turn_ok_def)
    show "\<forall>x \<in> insert (k, e) (set events). er_turn (snd x) = t \<longrightarrow>
        1 \<le> er_sequence (snd x) \<and> er_sequence (snd x) < tn_next row'"
      using old assms(1,5,6) by (auto simp: turn_ok_def dest!: old)
    show "\<forall>n \<in> {1 ..< tn_next row'}. \<exists>x \<in> insert (k, e) (set events). er_turn (snd x) = t \<and> er_sequence (snd x) = n"
      using n assms(6) by simp
    show "\<forall>x \<in> insert (k, e) (set events). \<forall>y \<in> insert (k, e) (set events).
        er_turn (snd x) = t \<and> er_turn (snd y) = t \<and> er_sequence (snd x) = er_sequence (snd y) \<longrightarrow> fst x = fst y"
      using inj by blast
  qed (rule status)
qed

text \<open>What a gateway function can do to the tables: nothing, open a turn, or append one event.\<close>

definition turn_ids :: "turn_row \<Rightarrow> string \<times> string \<times> string \<times> string" where
  "turn_ids row = (tn_user row, tn_conversation row, tn_message row, tn_run row)"

inductive log_change :: "log_db \<Rightarrow> log_db \<Rightarrow> bool" where
  unchanged: "log_change db db"
| opened: "map_of (db_turns db) t = None \<Longrightarrow> map_of (db_events db) e = None \<Longrightarrow>
    tn_next row = 2 \<Longrightarrow> tn_status row = ''running'' \<Longrightarrow> er_turn ev = t \<Longrightarrow> er_sequence ev = 1 \<Longrightarrow>
    er_type ev = ''turn.started'' \<Longrightarrow> db_turns db' = AList.update t row (db_turns db) \<Longrightarrow>
    db_events db' = AList.update e ev (db_events db) \<Longrightarrow> log_change db db'"
| appended: "map_of (db_turns db) t = Some row \<Longrightarrow> map_of (db_events db) e = None \<Longrightarrow>
    tn_status row = ''running'' \<Longrightarrow> er_turn ev = t \<Longrightarrow> er_sequence ev = tn_next row \<Longrightarrow>
    tn_next row' = tn_next row + 1 \<Longrightarrow>
    (if er_type ev = ''turn.ended''
     then tn_status row' \<in> set terminal_statuses \<and> payload_status (er_payload ev) = Some (tn_status row')
     else tn_status row' = ''running'') \<Longrightarrow> turn_ids row' = turn_ids row \<Longrightarrow>
    db_turns db' = AList.update t row' (db_turns db) \<Longrightarrow>
    db_events db' = AList.update e ev (db_events db) \<Longrightarrow> log_change db db'"

inductive_cases log_changeE: "log_change db db'"

lemma start_turn_change:
  assumes "log_ok db"
  shows "log_change db (snd (chat_agent_start_turn t e u c m r at db))"
proof (cases "map_of (db_turns db) t")
  case (Some row)
  have "turn_ok (db_events db) t row"
    using assms map_of_SomeD [OF Some] by (force simp: log_ok_def)
  then have "\<exists>x \<in> set (db_events db). er_turn (snd x) = t \<and> er_sequence (snd x) = 1"
    unfolding turn_ok_def by force
  then have "list_ex (\<lambda>(_, e). er_turn e = t \<and> er_sequence e = 1) (db_events db)"
    by (force simp: list_ex_iff)
  then show ?thesis
    using Some by (auto simp: chat_agent_start_turn_def Let_def intro: unchanged split: option.split)
next
  case None
  have no: "er_turn ev \<noteq> t" if "map_of (db_events db) k = Some ev" for k ev
    using assms map_of_SomeD [OF that] None by (force simp: log_ok_def map_of_eq_None_iff)
  show ?thesis
    using None no
    by (auto simp: chat_agent_start_turn_def Let_def intro: unchanged split: option.split)
      (rule opened, auto)
qed

lemma append_event_change: "log_change db (snd (chat_agent_append_event sz t e ty st p at db))"
proof (cases "map_of (db_turns db) t")
  case None
  then show ?thesis by (simp add: chat_agent_append_event_def unchanged)
next
  case (Some row)
  let ?ev = "\<lparr>er_turn = t, er_sequence = tn_next row, er_type = ty, er_step = st, er_payload = p, er_occurred = at\<rparr>"
  let ?row = "row\<lparr>tn_next := tn_next row + 1, tn_updated := max (tn_updated row) at\<rparr>"
  show ?thesis
  proof (cases "map_of (db_events db) e = None \<and> tn_status row = ''running''")
    case False
    then show ?thesis
      using Some by (auto simp: chat_agent_append_event_def unchanged split: option.split)
  next
    case True
    show ?thesis
    proof (cases "ty = ''turn.ended''")
      case False
      then have "log_change db (db\<lparr>db_turns := AList.update t ?row (db_turns db),
          db_events := AList.update e ?ev (db_events db)\<rparr>)"
        using True by (intro appended [OF Some, of e ?ev ?row]) (simp_all add: turn_ids_def)
      then show ?thesis
        using Some True False by (simp add: chat_agent_append_event_def unchanged Let_def)
    next
      case ended: True
      have "log_change db db'"
        if "payload_status p = Some status" "status \<in> set terminal_statuses"
          "db_turns db' = AList.update t (?row\<lparr>tn_status := status, tn_ended := Some at\<rparr>) (db_turns db)"
          "db_events db' = AList.update e ?ev (db_events db)" for status db'
        using True ended that
        by (intro appended [OF Some, of e ?ev "?row\<lparr>tn_status := status, tn_ended := Some at\<rparr>"]) (simp_all add: turn_ids_def)
      then show ?thesis
        using Some True ended by (simp add: chat_agent_append_event_def unchanged Let_def split: option.split)
    qed
  qed
qed

lemma log_ok_change:
  assumes "log_ok db" "log_change db db'"
  shows "log_ok db'"
  using assms(2)
proof cases
  case unchanged
  with assms(1) show ?thesis by simp
next
  case (opened t e row ev)
  have fresh: "x \<notin> set (db_events db)" if "er_turn (snd x) = t" for x
    using assms(1) opened(1) that by (force simp: log_ok_def map_of_eq_None_iff)
  have S: "set (AList.update e ev (db_events db)) = insert (e, ev) (set (db_events db))"
    by (rule set_update_fresh [OF opened(2)])
  have "turn_ok (AList.update e ev (db_events db)) t row"
    using opened(3-7) fresh unfolding turn_ok_def S by force
  moreover have "turn_ok (AList.update e ev (db_events db)) (fst x) (snd x)"
    if "x \<in> set (db_turns db)" for x
  proof (rule turn_ok_other [OF _ opened(2)])
    show "turn_ok (db_events db) (fst x) (snd x)" using assms(1) that by (simp add: log_ok_def)
    show "er_turn ev \<noteq> fst x" using opened(1,5) that by (force simp: map_of_eq_None_iff)
  qed
  ultimately show ?thesis
    using assms(1) opened by (auto simp: log_ok_def S set_update_fresh dom_update)
next
  case (appended t row e ev row')
  have S: "set (AList.update e ev (db_events db)) = insert (e, ev) (set (db_events db))"
    by (rule set_update_fresh [OF appended(2)])
  have "turn_ok (AList.update e ev (db_events db)) t row'"
    using assms(1) map_of_SomeD [OF appended(1)] appended(3-7)
    by (intro turn_ok_same [OF _ appended(2)]) (auto simp: log_ok_def)
  moreover have "turn_ok (AList.update e ev (db_events db)) (fst x) (snd x)"
    if "x \<in> set (db_turns db)" "fst x \<noteq> t" for x
  proof (rule turn_ok_other [OF _ appended(2)])
    show "turn_ok (db_events db) (fst x) (snd x)" using assms(1) that by (simp add: log_ok_def)
    show "er_turn ev \<noteq> fst x" using appended(4) that by simp
  qed
  moreover have "fst ` set (AList.update t row' (db_turns db)) = insert t (fst ` set (db_turns db))"
    by (simp add: dom_update)
  ultimately show ?thesis
    using assms(1) appended(4,9,10)
    by (auto simp: log_ok_def S ball_Un gomap_set_update simp del: image_insert)
qed

text \<open>Events are never rewritten or removed.\<close>

lemma log_change_append_only:
  assumes "log_change db db'" "map_of (db_events db) e = Some ev"
  shows "map_of (db_events db') e = Some ev"
  using assms by (cases rule: log_change.cases) (auto simp: update_conv')

section \<open>Histories\<close>

datatype log_op =
    StartTurn string string string string string string int
  | AppendEvent string string string int any_map int

definition log_step :: "log_env \<Rightarrow> log_op \<Rightarrow> log_db \<Rightarrow> log_db" where
  "log_step env op db =
     (case op of
        StartTurn u t e c m r at \<Rightarrow> snd (StartChatAgentTurn u t e c m r at db)
      | AppendEvent t e ty n p at \<Rightarrow> snd (AppendChatAgentEvent env t e ty n p at db))"

fun log_run :: "log_env \<Rightarrow> log_op list \<Rightarrow> log_db \<Rightarrow> log_db" where
  "log_run env [] db = db"
| "log_run env (op # ops) db = log_run env ops (log_step env op db)"

lemma log_step_change:
  assumes "log_ok db"
  shows "log_change db (log_step env op db)"
proof (cases op)
  case (StartTurn u t e c m r at)
  then show ?thesis
    using start_turn_change [OF assms]
    by (auto simp: log_step_def StartChatAgentTurn_def Let_def unchanged split: prod.split sum.split) (metis snd_conv)+
next
  case (AppendEvent t e ty n p at)
  have "log_change db (snd (AppendChatAgentEvent env t e ty n p at db))"
    using append_event_change
    by (auto simp: AppendChatAgentEvent_def Let_def unchanged split: prod.split sum.split) (metis snd_conv)+
  with AppendEvent show ?thesis by (simp add: log_step_def)
qed

lemma log_run_induct:
  assumes "log_ok db" "P db" "\<And>db db'. log_ok db \<Longrightarrow> P db \<Longrightarrow> log_change db db' \<Longrightarrow> P db'"
  shows "log_ok (log_run env ops db) \<and> P (log_run env ops db)"
  using assms(1,2)
proof (induction ops arbitrary: db)
  case (Cons op ops)
  from log_step_change [OF Cons.prems(1), of env op] Cons show ?case
    using log_ok_change assms(3) by auto
qed simp

definition events_of :: "log_db \<Rightarrow> string \<Rightarrow> (string \<times> event_row) list" where
  "events_of db t = filter (\<lambda>x. er_turn (snd x) = t) (db_events db)"

lemma turn_ok_sequences:
  assumes "turn_ok (db_events db) t row" "keys_distinct (db_events db)"
  shows "set (map (er_sequence \<circ> snd) (events_of db t)) = {1 .. tn_next row - 1}"
    "distinct (map (er_sequence \<circ> snd) (events_of db t))"
proof -
  show "set (map (er_sequence \<circ> snd) (events_of db t)) = {1 .. tn_next row - 1}"
  proof
    show "set (map (er_sequence \<circ> snd) (events_of db t)) \<subseteq> {1 .. tn_next row - 1}"
      using assms(1) by (force simp: turn_ok_def events_of_def)
    show "{1 .. tn_next row - 1} \<subseteq> set (map (er_sequence \<circ> snd) (events_of db t))"
    proof
      fix n assume "n \<in> {1 .. tn_next row - 1}"
      then have "n \<in> {1 ..< tn_next row}" by auto
      then obtain x where "x \<in> set (db_events db)" "er_turn (snd x) = t" "er_sequence (snd x) = n"
        using assms(1) unfolding turn_ok_def by blast
      then show "n \<in> set (map (er_sequence \<circ> snd) (events_of db t))" by (force simp: events_of_def)
    qed
  qed
  have "inj_on (er_sequence \<circ> snd) (set (events_of db t))"
  proof (rule inj_onI)
    fix x y assume "x \<in> set (events_of db t)" "y \<in> set (events_of db t)" "(er_sequence \<circ> snd) x = (er_sequence \<circ> snd) y"
    then have "fst x = fst y" "x \<in> set (db_events db)" "y \<in> set (db_events db)"
      using assms(1) unfolding turn_ok_def events_of_def by auto
    then show "x = y" using assms(2) by (metis eq_key_imp_eq_value keys_distinct_def prod.collapse)
  qed
  moreover have "distinct (events_of db t)"
    using assms(2) by (simp add: events_of_def keys_distinct_def distinct_map)
  ultimately show "distinct (map (er_sequence \<circ> snd) (events_of db t))" by (simp add: distinct_map)
qed

lemma terminal_frozen:
  assumes "log_change db db'" "map_of (db_turns db) t = Some row" "tn_status row \<noteq> ''running''"
  shows "map_of (db_turns db') t = Some row \<and> set (events_of db' t) = set (events_of db t)"
  using assms(1)
proof cases
  case unchanged
  with assms show ?thesis by simp
next
  case (opened t' e row' ev)
  then have "t' \<noteq> t" using assms(2) by auto
  then show ?thesis
    using opened assms(2) by (auto simp: update_conv' events_of_def set_update_fresh)
next
  case (appended t' row0 e ev row')
  then have "t' \<noteq> t" using assms(2,3) by auto
  then show ?thesis
    using appended assms(2) by (auto simp: update_conv' events_of_def set_update_fresh)
qed

text \<open>What an accepted append leaves in the tables.\<close>

lemma append_event_Inr:
  assumes "chat_agent_append_event sz t e ty st p at db = (Inr ev, db')"
  shows "\<exists>turn row. map_of (db_turns db') t = Some turn \<and> map_of (db_events db') e = Some row \<and>
    er_turn row = t \<and> er_type row = ty \<and> er_step row = st \<and> er_payload row = p \<and> ev = event_of e t turn row"
proof -
  obtain turn where turn: "map_of (db_turns db) t = Some turn"
    using assms by (auto simp: chat_agent_append_event_def split: if_splits option.splits)
  have guard: "sz p \<le> 262144" "ty \<noteq> ''turn.started''" "ty \<in> set appendable_types"
    "\<not> (case st of None \<Rightarrow> False | Some n \<Rightarrow> n < 1)"
    using assms by (auto simp: chat_agent_append_event_def simp del: not_less split: if_splits)
  show ?thesis
  proof (cases "map_of (db_events db) e")
    case (Some old)
    then show ?thesis
      using assms guard turn by (auto simp: chat_agent_append_event_def simp del: not_less split: if_splits)
  next
    case None
    let ?row = "\<lparr>er_turn = t, er_sequence = tn_next turn, er_type = ty, er_step = st, er_payload = p, er_occurred = at\<rparr>"
    have run: "tn_status turn = ''running''"
      using assms guard turn None by (simp add: chat_agent_append_event_def split: if_splits)
    have ev: "ev = event_of e t turn ?row" and events: "db_events db' = AList.update e ?row (db_events db)"
      using assms guard turn None run
      by (simp_all add: chat_agent_append_event_def Let_def split: if_splits option.splits) auto
    have "\<exists>turn'. db_turns db' = AList.update t turn' (db_turns db) \<and> event_of e t turn' ?row = ev"
      using assms guard turn None run ev
      by (cases "ty = ''turn.ended''")
        (auto simp: chat_agent_append_event_def Let_def event_of_def split: if_splits option.splits)
    then show ?thesis using events by (auto simp: update_conv')
  qed
qed

lemma append_replay:
  assumes "chat_agent_append_event sz t e ty st p at db = (Inr ev, db')"
  shows "chat_agent_append_event sz t e ty st p at db' = (Inr ev, db')"
proof -
  have "sz p \<le> 262144" "ty \<noteq> ''turn.started''" "ty \<in> set appendable_types"
    "\<not> (case st of None \<Rightarrow> False | Some n \<Rightarrow> n < 1)"
    using assms by (auto simp: chat_agent_append_event_def simp del: not_less split: if_splits)
  with append_event_Inr [OF assms] show ?thesis by (auto simp: chat_agent_append_event_def)
qed

lemma turn_ok_ended:
  assumes "turn_ok (db_events db) t row" "tn_status row \<noteq> ''running''"
  shows "\<exists>x \<in> set (events_of db t). er_sequence (snd x) = tn_next row - 1 \<and> er_type (snd x) = ''turn.ended'' \<and>
    payload_status (er_payload (snd x)) = Some (tn_status row)"
proof -
  obtain x where "x \<in> set (db_events db)" "er_turn (snd x) = t" "er_sequence (snd x) = tn_next row - 1"
    "er_type (snd x) = ''turn.ended''" "payload_status (er_payload (snd x)) = Some (tn_status row)"
    using assms unfolding turn_ok_def by auto
  then show ?thesis by (intro bexI [of _ x]) (auto simp: events_of_def)
qed

lemma append_service_replay:
  assumes "AppendChatAgentEvent env t e ty n p at db = (Inr ev, db')"
  shows "AppendChatAgentEvent env t e ty n p at db' = (Inr ev, db')"
  using assms append_replay
  by (auto simp: AppendChatAgentEvent_def Let_def split: if_splits sum.splits prod.splits)

lemma log_change_turn_ids:
  assumes "log_change db db'" "map_of (db_turns db) t = Some row"
  shows "\<exists>row'. map_of (db_turns db') t = Some row' \<and> turn_ids row' = turn_ids row"
  using assms by (cases rule: log_change.cases) (auto simp: update_conv')

text \<open>An append that was accepted can be repeated at any later time.\<close>

definition replayable :: "string \<Rightarrow> string \<Rightarrow> turn_row \<Rightarrow> event_row \<Rightarrow> log_db \<Rightarrow> bool" where
  "replayable t e turn row db \<longleftrightarrow>
     (\<exists>turn'. map_of (db_turns db) t = Some turn' \<and> turn_ids turn' = turn_ids turn) \<and>
     map_of (db_events db) e = Some row"

lemma replayable_change: "replayable t e turn row db \<Longrightarrow> log_change db db' \<Longrightarrow> replayable t e turn row db'"
  using log_change_append_only log_change_turn_ids unfolding replayable_def by metis

lemma replayable_append:
  assumes "chat_agent_append_event sz t e ty st p at db = (Inr ev, db')"
  shows "\<exists>turn row. replayable t e turn row db' \<and>
    (\<forall>later. replayable t e turn row later \<longrightarrow>
       chat_agent_append_event sz t e ty st p at later = (Inr ev, later))"
proof -
  have guard: "sz p \<le> 262144" "ty \<noteq> ''turn.started''" "ty \<in> set appendable_types"
    "\<not> (case st of None \<Rightarrow> False | Some n \<Rightarrow> n < 1)"
    using assms by (auto simp: chat_agent_append_event_def simp del: not_less split: if_splits)
  obtain turn row where R: "map_of (db_turns db') t = Some turn" "map_of (db_events db') e = Some row"
    "er_turn row = t" "er_type row = ty" "er_step row = st" "er_payload row = p" "ev = event_of e t turn row"
    using append_event_Inr [OF assms] by blast
  have "chat_agent_append_event sz t e ty st p at later = (Inr ev, later)"
    if "replayable t e turn row later" for later
    using that guard R by (auto simp: replayable_def turn_ids_def chat_agent_append_event_def event_of_def)
  then show ?thesis using R(1,2) unfolding replayable_def by blast
qed

lemma log_run_append: "log_run env (a @ b) db = log_run env b (log_run env a db)"
  by (induction a arbitrary: db) auto

lemma log_start_run_ok: "log_start db0 \<Longrightarrow> log_ok (log_run env ops db0)"
  using log_run_induct [OF log_ok_start, of db0 "\<lambda>_. True"] by simp

section \<open>An example\<close>

definition example_uuid :: "char \<Rightarrow> string" where
  "example_uuid c = replicate 8 c @ ''-'' @ replicate 4 c @ ''-'' @ replicate 4 c @ ''-'' @ replicate 4 c @
     ''-'' @ replicate 12 c"

definition example_log_env :: log_env where
  "example_log_env = \<lparr>le_marshal = (\<lambda>p. Some []), le_unmarshal = (\<lambda>s. Some [(''status'', AnyString ''completed'')]),
     le_jsonb_size = length, le_redact = (\<lambda>s. s), le_sanitize = (\<lambda>s. s)\<rparr>"

definition example_log_db :: log_db where
  "example_log_db = \<lparr>db_turns = [], db_events = [],
     db_messages = [(example_uuid CHR ''4'', \<lparr>mr_conversation = example_uuid CHR ''3'', mr_user = ''u'',
        mr_role = ''assistant'', mr_status = ''streaming'', mr_deleted = False, mr_errorCode = None,
        mr_completedAt = None, mr_updatedAt = 0\<rparr>)],
     db_conversations = [(example_uuid CHR ''3'', \<lparr>cv_user = ''u'', cv_deleted = False\<rparr>)]\<rparr>"

definition example_log_ops :: "log_op list" where
  "example_log_ops =
     [StartTurn ''u'' (example_uuid CHR ''1'') (example_uuid CHR ''2'') (example_uuid CHR ''3'')
        (example_uuid CHR ''4'') (example_uuid CHR ''5'') 7,
      AppendEvent (example_uuid CHR ''1'') (example_uuid CHR ''6'') ''turn.ended'' 0 [] 9]"

lemma example_uuid_facts:
  "trim_space (example_uuid CHR ''1'') = example_uuid CHR ''1''" "is_uuid (example_uuid CHR ''1'')"
  "trim_space (example_uuid CHR ''2'') = example_uuid CHR ''2''" "is_uuid (example_uuid CHR ''2'')"
  "trim_space (example_uuid CHR ''3'') = example_uuid CHR ''3''" "is_uuid (example_uuid CHR ''3'')"
  "trim_space (example_uuid CHR ''4'') = example_uuid CHR ''4''" "is_uuid (example_uuid CHR ''4'')"
  "trim_space (example_uuid CHR ''5'') = example_uuid CHR ''5''" "is_uuid (example_uuid CHR ''5'')"
  "trim_space (example_uuid CHR ''6'') = example_uuid CHR ''6''" "is_uuid (example_uuid CHR ''6'')"
  by (simp_all add: example_uuid_def trim_space_printable printable_def numeral_eq_Suc) code_simp+

definition example_ended_row :: turn_row where
  "example_ended_row = \<lparr>tn_user = ''u'', tn_conversation = example_uuid CHR ''3'',
     tn_message = example_uuid CHR ''4'', tn_run = example_uuid CHR ''5'', tn_status = ''completed'',
     tn_next = 3, tn_started = 7, tn_ended = Some 9, tn_updated = 9\<rparr>"

lemma example_uuid_eq: "example_uuid a = example_uuid b \<longleftrightarrow> a = b"
  by (auto simp: example_uuid_def numeral_eq_Suc)

lemma example_start:
  "snd (StartChatAgentTurn ''u'' (example_uuid CHR ''1'') (example_uuid CHR ''2'') (example_uuid CHR ''3'')
        (example_uuid CHR ''4'') (example_uuid CHR ''5'') 7 example_log_db) =
   example_log_db\<lparr>db_turns := [(example_uuid CHR ''1'', \<lparr>tn_user = ''u'', tn_conversation = example_uuid CHR ''3'',
     tn_message = example_uuid CHR ''4'', tn_run = example_uuid CHR ''5'', tn_status = ''running'',
     tn_next = 2, tn_started = 7, tn_ended = None, tn_updated = 7\<rparr>)],
     db_events := [(example_uuid CHR ''2'', \<lparr>er_turn = example_uuid CHR ''1'', er_sequence = 1,
       er_type = ''turn.started'', er_step = None, er_payload = started_payload, er_occurred = 7\<rparr>)]\<rparr>"
  by (simp add: StartChatAgentTurn_def Let_def example_uuid_facts chat_agent_start_turn_def
      turn_authority_def example_log_db_def zero_time_def)

lemma example_normalize:
  "normalizeChatAgentEventPayload example_log_env ''turn.ended'' [] = Inr [(''status'', AnyString ''completed'')]"
  by (simp add: normalizeChatAgentEventPayload_def typed_payload_def example_log_env_def
      maxChatAgentEventPayloadBytes_def)

lemma example_trim: "trim_space ''turn.ended'' = ''turn.ended''"
  by (simp add: trim_space_printable printable_def numeral_eq_Suc)

lemma example_log_env_size: "le_jsonb_size example_log_env = length"
  by (simp add: example_log_env_def)

lemma example_run:
  "db_turns (log_run example_log_env example_log_ops example_log_db) = [(example_uuid CHR ''1'', example_ended_row)]"
  "AppendChatAgentEvent example_log_env (example_uuid CHR ''1'') (example_uuid CHR ''6'') ''turn.ended'' 0 [] 9
     (log_run example_log_env [hd example_log_ops] example_log_db) =
   (Inr (event_of (example_uuid CHR ''6'') (example_uuid CHR ''1'') example_ended_row
      \<lparr>er_turn = example_uuid CHR ''1'', er_sequence = 2, er_type = ''turn.ended'', er_step = None,
       er_payload = [(''status'', AnyString ''completed'')], er_occurred = 9\<rparr>),
    log_run example_log_env example_log_ops example_log_db)"
  by (simp_all add: example_log_ops_def log_step_def example_start AppendChatAgentEvent_def Let_def
      example_uuid_facts example_uuid_eq example_normalize zero_time_def chat_agent_append_event_def
      appendable_types_def terminal_statuses_def payload_status_def example_log_env_size event_of_def
      example_ended_row_def example_trim)

section \<open>Properties\<close>

text \<open>
  C18: whatever turns are started and whatever events are appended to them, valid or not, the
  events of a turn carry the sequence numbers 1 to n without gap or repetition, where n + 1
  is the number the turn gives next.
\<close>

theorem event_sequences_contiguous:
  assumes "log_start db0" "map_of (db_turns (log_run env ops db0)) t = Some row"
  shows "set (map (er_sequence \<circ> snd) (events_of (log_run env ops db0) t)) = {1 .. tn_next row - 1} \<and>
    distinct (map (er_sequence \<circ> snd) (events_of (log_run env ops db0) t))"
proof -
  have ok: "log_ok (log_run env ops db0)"
    using log_run_induct [OF log_ok_start [OF assms(1)], of "\<lambda>_. True"] by simp
  then have "turn_ok (db_events (log_run env ops db0)) t row" "keys_distinct (db_events (log_run env ops db0))"
    using map_of_SomeD [OF assms(2)] by (force simp: log_ok_def)+
  from turn_ok_sequences [OF this] show ?thesis by simp
qed

theorem event_sequences_contiguous_witness:
  "set (map (er_sequence \<circ> snd)
      (events_of (log_run example_log_env example_log_ops example_log_db) (example_uuid CHR ''1''))) = {1, 2}"
proof -
  have "{1 .. 3 - (1::int)} = {1, 2}" by auto
  then show ?thesis
    using event_sequences_contiguous [of example_log_db example_log_env example_log_ops "example_uuid CHR ''1''"]
      example_run(1) by (auto simp: log_start_def example_log_db_def example_ended_row_def)
qed

text \<open>
  C19: once a turn has left the running state, nothing that is done later changes its row or
  its events, and the last of them is the ``turn.ended'' event that carries its status.
\<close>

theorem terminal_turn_immutable:
  assumes "log_start db0" "db1 = log_run env ops1 db0" "db2 = log_run env ops2 db1"
    and "map_of (db_turns db1) t = Some row" "tn_status row \<noteq> ''running''"
  shows "map_of (db_turns db2) t = Some row \<and> set (events_of db2 t) = set (events_of db1 t) \<and>
    (\<exists>x \<in> set (events_of db1 t). er_sequence (snd x) = tn_next row - 1 \<and> er_type (snd x) = ''turn.ended'' \<and>
       payload_status (er_payload (snd x)) = Some (tn_status row))"
proof -
  have ok: "log_ok db1" using log_start_run_ok [OF assms(1)] assms(2) by simp
  have "map_of (db_turns db2) t = Some row \<and> set (events_of db2 t) = set (events_of db1 t)"
    unfolding assms(3)
    by (rule conjunct2 [OF log_run_induct [OF ok, of "\<lambda>db. map_of (db_turns db) t = Some row \<and>
        set (events_of db t) = set (events_of db1 t)"]])
      (use assms(4,5) terminal_frozen in auto)
  moreover have "turn_ok (db_events db1) t row"
    using ok map_of_SomeD [OF assms(4)] by (force simp: log_ok_def)
  ultimately show ?thesis using turn_ok_ended assms(5) by blast
qed

theorem terminal_turn_immutable_witness:
  "map_of (db_turns (log_run example_log_env example_log_ops
      (log_run example_log_env example_log_ops example_log_db))) (example_uuid CHR ''1'') = Some example_ended_row"
  using terminal_turn_immutable [OF _ refl refl, of example_log_db example_log_env example_log_ops
      "example_uuid CHR ''1''" example_ended_row example_log_ops] example_run(1)
  by (auto simp: log_start_def example_log_db_def example_ended_row_def)

text \<open>
  C20: appending is idempotent: when an event was accepted, sending the same request again,
  however much the log has grown since and even after the turn has ended, returns the same
  event and changes nothing.
\<close>

theorem append_event_idempotent:
  assumes "log_start db0" "AppendChatAgentEvent env t e ty n p at (log_run env ops1 db0) = (Inr ev, db1)"
    and "later = log_run env ops2 db1"
  shows "AppendChatAgentEvent env t e ty n p at later = (Inr ev, later)"
proof -
  have db1: "db1 = log_run env (ops1 @ [AppendEvent t e ty n p at]) db0"
    using assms(2) by (simp add: log_run_append log_step_def)
  then have ok: "log_ok db1" using log_start_run_ok [OF assms(1)] by simp
  obtain q where q: "normalizeChatAgentEventPayload env (trim_space ty) p = Inr q"
    and guard: "is_uuid (trim_space t)" "is_uuid (trim_space e)" "at \<noteq> zero_time"
      "trim_space ty \<in> set appendable_types" "\<not> n < 0"
    and gate: "chat_agent_append_event (le_jsonb_size env) (trim_space t) (trim_space e) (trim_space ty)
      (if n = 0 then None else Some n) q at (log_run env ops1 db0) = (Inr ev, db1)"
    using assms(2) by (auto simp: AppendChatAgentEvent_def Let_def split: if_splits sum.splits prod.splits)
  obtain turn row where R: "replayable (trim_space t) (trim_space e) turn row db1"
    "\<And>later. replayable (trim_space t) (trim_space e) turn row later \<Longrightarrow>
       chat_agent_append_event (le_jsonb_size env) (trim_space t) (trim_space e) (trim_space ty)
         (if n = 0 then None else Some n) q at later = (Inr ev, later)"
    using replayable_append [OF gate] by metis
  have "replayable (trim_space t) (trim_space e) turn row later"
    unfolding assms(3) using log_run_induct [OF ok, of "replayable (trim_space t) (trim_space e) turn row"] R(1) replayable_change by blast
  then show ?thesis using R(2) q guard by (simp add: AppendChatAgentEvent_def Let_def)
qed

theorem append_event_idempotent_witness:
  "snd (AppendChatAgentEvent example_log_env (example_uuid CHR ''1'') (example_uuid CHR ''6'') ''turn.ended'' 0 [] 9
      (log_run example_log_env example_log_ops example_log_db)) = log_run example_log_env example_log_ops example_log_db"
  using append_event_idempotent [OF _ example_run(2), of "log_run example_log_env example_log_ops example_log_db" "[]"]
  by (simp add: log_start_def example_log_db_def)

end
