(* ===== verification/Agent_Goal_Store.thy ===== *)
theory Agent_Goal_Store
  imports Agent_Goal_Contract Event_Log
begin

text \<open>
  The stored goals: the gateway functions of migration 097 (each one transaction, with the
  goal event it appends to the turn's log), the PostgreSQL repository that calls them
  (internal/chat/repository_postgres.go), and the proof that it keeps the contract of the
  goal tools.
\<close>

section \<open>Tables and gateway\<close>

record goal_row =
  gl_id :: string
  gl_user :: string
  gl_objective :: string
  gl_phase :: string
  gl_revision :: int
  gl_rounds :: int
  gl_max :: int
  gl_blockedCode :: "string option"
  gl_blockedMessage :: "string option"
  gl_created :: int
  gl_updated :: int

text \<open>Goals are keyed by their conversation.\<close>

record goal_db =
  gd_log :: log_db
  gd_goals :: "(string, goal_row) gomap"

text \<open>\<open>btrim\<close> with one argument removes spaces only.\<close>

definition btrim :: "string \<Rightarrow> string" where
  "btrim s = rev (dropWhile (\<lambda>c. c = CHR '' '') (rev (dropWhile (\<lambda>c. c = CHR '' '') s)))"

text \<open>The goal event is appended in the same transaction: when that fails, nothing is kept.\<close>

definition with_goal_event ::
  "(any_map \<Rightarrow> nat) \<Rightarrow> string \<Rightarrow> string \<Rightarrow> string \<Rightarrow> any_map \<Rightarrow> int \<Rightarrow> 'a \<Rightarrow> (string, goal_row) gomap \<Rightarrow> goal_db
   \<Rightarrow> (db_error + 'a) \<times> goal_db" where
  "with_goal_event octets turnID eventID eventType payload occurredAt result goals db =
     (case chat_agent_append_event octets turnID eventID eventType None payload occurredAt (gd_log db) of
        (Inl e, _) \<Rightarrow> (Inl e, db)
      | (Inr _, log) \<Rightarrow> (Inr result, db\<lparr>gd_log := log, gd_goals := goals\<rparr>))"

definition json_number :: "int \<Rightarrow> any_value" where
  "json_number n = AnyFloat n 0"

definition goal_json :: "goal_row \<Rightarrow> any_map" where
  "goal_json g =
     [(''id'', AnyString (gl_id g)), (''revision'', json_number (gl_revision g)),
      (''objective'', AnyString (gl_objective g)), (''phase'', AnyString (gl_phase g)),
      (''roundsStarted'', json_number (gl_rounds g)), (''maxGoalRounds'', json_number (gl_max g))]"

definition chat_agent_create_goal ::
  "(any_map \<Rightarrow> nat) \<Rightarrow> string \<Rightarrow> string \<Rightarrow> string \<Rightarrow> string \<Rightarrow> int \<Rightarrow> int \<Rightarrow> goal_db
   \<Rightarrow> (db_error + string \<times> goal_row) \<times> goal_db" where
  "chat_agent_create_goal octets turnID eventID goalID objective maxRounds occurredAt db =
     (if btrim objective = [] \<or> length (btrim objective) > 8192 \<or> maxRounds < 3 \<or> maxRounds > 32
      then (Inl (DbError ''CHAT_AGENT_GOAL_INPUT_INVALID''), db)
      else
        (case map_of (db_turns (gd_log db)) turnID of
           None \<Rightarrow> (Inl (DbError ''CHAT_AGENT_GOAL_TURN_INVALID''), db)
         | Some turn \<Rightarrow>
             if tn_status turn \<noteq> ''running'' then (Inl (DbError ''CHAT_AGENT_GOAL_TURN_INVALID''), db)
             else if (case map_of (db_conversations (gd_log db)) (tn_conversation turn) of None \<Rightarrow> True
                      | Some c \<Rightarrow> cv_user c \<noteq> tn_user turn \<or> cv_deleted c)
             then (Inl (DbError ''CHAT_AGENT_GOAL_AUTHORITY_INVALID''), db)
             else if (case map_of (gd_goals db) (tn_conversation turn) of None \<Rightarrow> False
                      | Some g \<Rightarrow> gl_phase g \<noteq> ''complete'')
             then (Inl (DbError ''CHAT_AGENT_GOAL_ALREADY_EXISTS''), db)
             else if list_ex (\<lambda>(c, g). c \<noteq> tn_conversation turn \<and> gl_id g = goalID) (gd_goals db)
             then (Inl (DbConstraint ''chat_agent_goals_id_key''), db)
             else
               let g = \<lparr>gl_id = goalID, gl_user = tn_user turn, gl_objective = btrim objective,
                        gl_phase = ''active'', gl_revision = 1, gl_rounds = 0, gl_max = maxRounds,
                        gl_blockedCode = None, gl_blockedMessage = None,
                        gl_created = occurredAt, gl_updated = occurredAt\<rparr>
               in with_goal_event octets turnID eventID ''goal.changed''
                    [(''operation'', AnyString ''create''), (''goal'', AnyMap (goal_json g))] occurredAt
                    (tn_conversation turn, g) (AList.update (tn_conversation turn) g (gd_goals db)) db))"

text \<open>The goal that a change, a cancellation or a round is about.\<close>

definition locked_goal ::
  "string \<Rightarrow> string \<Rightarrow> int \<Rightarrow> goal_db \<Rightarrow> db_error + string \<times> goal_row" where
  "locked_goal turnID goalID expectedRevision db =
     (case map_of (db_turns (gd_log db)) turnID of
        None \<Rightarrow> Inl (DbError ''CHAT_AGENT_GOAL_TURN_INVALID'')
      | Some turn \<Rightarrow>
          if tn_status turn \<noteq> ''running'' then Inl (DbError ''CHAT_AGENT_GOAL_TURN_INVALID'')
          else
            (case map_of (gd_goals db) (tn_conversation turn) of
               None \<Rightarrow> Inl (DbError ''CHAT_AGENT_GOAL_NOT_FOUND'')
             | Some g \<Rightarrow>
                 if gl_user g \<noteq> tn_user turn then Inl (DbError ''CHAT_AGENT_GOAL_NOT_FOUND'')
                 else if gl_id g \<noteq> goalID \<or> gl_revision g \<noteq> expectedRevision
                 then Inl (DbError ''CHAT_AGENT_GOAL_STALE_REVISION'')
                 else Inr (tn_conversation turn, g)))"

definition goal_moved :: "string \<Rightarrow> string option \<Rightarrow> string option \<Rightarrow> int \<Rightarrow> goal_row \<Rightarrow> goal_row" where
  "goal_moved phase code message occurredAt g =
     g\<lparr>gl_phase := phase, gl_revision := gl_revision g + 1, gl_blockedCode := code,
       gl_blockedMessage := message, gl_updated := max (gl_updated g) occurredAt\<rparr>"

text \<open>The \<open>CASE p_action\<close> of \<open>chat_agent_change_goal\<close>.\<close>

definition changed_goal ::
  "string \<Rightarrow> string option \<Rightarrow> int option \<Rightarrow> string option \<Rightarrow> int \<Rightarrow> goal_row \<Rightarrow> string + goal_row" where
  "changed_goal action objective maxRounds blockedReason occurredAt g =
     (if action = ''edit''
      then
        if (case objective of None \<Rightarrow> True | Some v \<Rightarrow> btrim v = []) \<and> maxRounds = None
        then Inl ''CHAT_AGENT_GOAL_EDIT_INVALID''
        else if (case objective of None \<Rightarrow> False | Some v \<Rightarrow> btrim v = [] \<or> length (btrim v) > 8192)
        then Inl ''CHAT_AGENT_GOAL_INPUT_INVALID''
        else if (case maxRounds of None \<Rightarrow> False | Some n \<Rightarrow> n < 3 \<or> n > 32 \<or> n < gl_rounds g)
        then Inl ''CHAT_AGENT_GOAL_ROUND_LIMIT_INVALID''
        else Inr (g\<lparr>gl_objective := (case objective of None \<Rightarrow> gl_objective g
                                     | Some v \<Rightarrow> if btrim v = [] then gl_objective g else btrim v),
                    gl_max := (case maxRounds of None \<Rightarrow> gl_max g | Some n \<Rightarrow> n),
                    gl_revision := gl_revision g + 1, gl_updated := max (gl_updated g) occurredAt\<rparr>)
      else if action = ''pause''
      then if gl_phase g \<noteq> ''active'' then Inl ''CHAT_AGENT_GOAL_TRANSITION_INVALID''
           else Inr (goal_moved ''paused'' None None occurredAt g)
      else if action = ''resume''
      then if gl_phase g \<notin> {''active'', ''paused'', ''blocked''} \<or> gl_rounds g \<ge> gl_max g
           then Inl ''CHAT_AGENT_GOAL_TRANSITION_INVALID''
           else Inr (goal_moved ''active'' None None occurredAt g)
      else if action = ''complete''
      then if gl_phase g \<notin> {''active'', ''paused'', ''blocked''} then Inl ''CHAT_AGENT_GOAL_TRANSITION_INVALID''
           else Inr (goal_moved ''complete'' None None occurredAt g)
      else
        (case blockedReason of
           None \<Rightarrow> Inl ''CHAT_AGENT_GOAL_BLOCK_INVALID''
         | Some reason \<Rightarrow>
             if gl_phase g \<noteq> ''active'' \<or> btrim reason = [] \<or> length (btrim reason) > 4096
             then Inl ''CHAT_AGENT_GOAL_BLOCK_INVALID''
             else Inr (goal_moved ''blocked'' (Some ''model-reported'') (Some (btrim reason)) occurredAt g)))"

definition chat_agent_change_goal ::
  "(any_map \<Rightarrow> nat) \<Rightarrow> string \<Rightarrow> string \<Rightarrow> string \<Rightarrow> int \<Rightarrow> string \<Rightarrow> string option \<Rightarrow> int option \<Rightarrow> string option
   \<Rightarrow> int \<Rightarrow> goal_db \<Rightarrow> (db_error + string \<times> goal_row) \<times> goal_db" where
  "chat_agent_change_goal octets turnID eventID goalID expectedRevision action objective maxRounds blockedReason
     occurredAt db =
     (if expectedRevision < 1 \<or> action \<notin> {''edit'', ''pause'', ''resume'', ''complete'', ''blocked''}
      then (Inl (DbError ''CHAT_AGENT_GOAL_INPUT_INVALID''), db)
      else
        (case locked_goal turnID goalID expectedRevision db of
           Inl e \<Rightarrow> (Inl e, db)
         | Inr (conversation, g0) \<Rightarrow>
             (case changed_goal action objective maxRounds blockedReason occurredAt g0 of
                Inl code \<Rightarrow> (Inl (DbError code), db)
              | Inr g \<Rightarrow>
                  with_goal_event octets turnID eventID ''goal.changed''
                    [(''operation'', AnyString action),
                     (''goal'', AnyMap (goal_json g @
                        (case (gl_phase g = ''blocked'', gl_blockedCode g, gl_blockedMessage g) of
                           (True, Some code, Some message) \<Rightarrow>
                             [(''blockedReason'', AnyMap [(''code'', AnyString code), (''message'', AnyString message)])]
                         | _ \<Rightarrow> [])))]
                    occurredAt (conversation, g) (AList.update conversation g (gd_goals db)) db)))"

definition chat_agent_cancel_goal ::
  "(any_map \<Rightarrow> nat) \<Rightarrow> string \<Rightarrow> string \<Rightarrow> string \<Rightarrow> int \<Rightarrow> int \<Rightarrow> goal_db
   \<Rightarrow> (db_error + string \<times> int) \<times> goal_db" where
  "chat_agent_cancel_goal octets turnID eventID goalID expectedRevision occurredAt db =
     (if expectedRevision < 1 then (Inl (DbError ''CHAT_AGENT_GOAL_INPUT_INVALID''), db)
      else
        (case locked_goal turnID goalID expectedRevision db of
           Inl e \<Rightarrow> (Inl e, db)
         | Inr (conversation, g) \<Rightarrow>
             with_goal_event octets turnID eventID ''goal.changed''
               [(''operation'', AnyString ''cancel''), (''goal'', AnyNil),
                (''cleared'', AnyMap [(''id'', AnyString (gl_id g)), (''revision'', json_number (gl_revision g + 1))])]
               occurredAt (gl_id g, gl_revision g + 1) (AList.delete conversation (gd_goals db)) db))"

definition chat_agent_start_goal_round ::
  "(any_map \<Rightarrow> nat) \<Rightarrow> string \<Rightarrow> string \<Rightarrow> string \<Rightarrow> int \<Rightarrow> int \<Rightarrow> int \<Rightarrow> goal_db
   \<Rightarrow> (db_error + string \<times> goal_row) \<times> goal_db" where
  "chat_agent_start_goal_round octets turnID eventID goalID expectedRevision round occurredAt db =
     (if expectedRevision < 1 \<or> round < 1 then (Inl (DbError ''CHAT_AGENT_GOAL_INPUT_INVALID''), db)
      else
        (case locked_goal turnID goalID expectedRevision db of
           Inl e \<Rightarrow> (Inl e, db)
         | Inr (conversation, g0) \<Rightarrow>
             if gl_phase g0 \<noteq> ''active'' \<or> round \<noteq> gl_rounds g0 + 1 \<or> round > gl_max g0
             then (Inl (DbError ''CHAT_AGENT_GOAL_ROUND_INVALID''), db)
             else
               let g = g0\<lparr>gl_rounds := round, gl_updated := max (gl_updated g0) occurredAt\<rparr>
               in with_goal_event octets turnID eventID ''goal.round.started''
                    [(''goalId'', AnyString (gl_id g)), (''revision'', json_number (gl_revision g)),
                     (''round'', json_number (gl_rounds g)), (''maxGoalRounds'', json_number (gl_max g))]
                    occurredAt (conversation, g) (AList.update conversation g (gd_goals db)) db))"

section \<open>The repository\<close>

definition scanChatAgentGoal :: "string \<times> goal_row \<Rightarrow> agent_goal" where
  "scanChatAgentGoal r =
     (case r of (conversation, g) \<Rightarrow>
       \<lparr>ag_ID = gl_id g, ag_ConversationID = conversation, ag_UserID = gl_user g, ag_Objective = gl_objective g,
        ag_Phase = gl_phase g, ag_Revision = gl_revision g, ag_RoundsStarted = gl_rounds g,
        ag_MaxGoalRounds = gl_max g,
        ag_BlockedReason = (case (gl_blockedCode g, gl_blockedMessage g) of
           (Some code, Some message) \<Rightarrow> Some (code, message) | _ \<Rightarrow> None),
        ag_CreatedAt = gl_created g, ag_UpdatedAt = gl_updated g\<rparr>)"

definition normalizeChatAgentGoalRepositoryError :: "db_error \<Rightarrow> goal_error" where
  "normalizeChatAgentGoalRepositoryError e =
     (case e of
        DbError message \<Rightarrow>
          (let code = trim_space message
           in if has_prefix code ''CHAT_AGENT_GOAL_'' then GoalError code else GoalOther message)
      | DbConstraint name \<Rightarrow> GoalOther name)"

definition repository_result :: "('a \<Rightarrow> 'b) \<Rightarrow> (db_error + 'a) \<times> goal_db \<Rightarrow> (goal_error + 'b) \<times> goal_db" where
  "repository_result f r =
     (case r of (Inl e, db) \<Rightarrow> (Inl (normalizeChatAgentGoalRepositoryError e), db) | (Inr x, db) \<Rightarrow> (Inr (f x), db))"

definition nullIfEmpty :: "string \<Rightarrow> string option" where
  "nullIfEmpty v = (if v = [] then None else Some v)"

definition pg_get_goal :: "string \<Rightarrow> string \<Rightarrow> goal_db \<Rightarrow> agent_goal option" where
  "pg_get_goal user conversation db =
     (case map_of (gd_goals db) conversation of
        None \<Rightarrow> None
      | Some g \<Rightarrow> if gl_user g = user then Some (scanChatAgentGoal (conversation, g)) else None)"

definition pg_goal_repository :: "(any_map \<Rightarrow> nat) \<Rightarrow> string \<Rightarrow> goal_db goal_repository" where
  "pg_goal_repository octets user =
     \<lparr>gr_Get = (\<lambda>conversation db. Inr (pg_get_goal user conversation db)),
      gr_Create = (\<lambda>i db. repository_result scanChatAgentGoal
        (chat_agent_create_goal octets (ci_TurnID i) (ci_EventID i) (ci_GoalID i) (ci_Objective i)
           (ci_MaxGoalRounds i) (ci_OccurredAt i) db)),
      gr_Change = (\<lambda>i db. repository_result scanChatAgentGoal
        (chat_agent_change_goal octets (hi_TurnID i) (hi_EventID i) (hi_GoalID i) (hi_ExpectedRevision i)
           (hi_Action i) (nullIfEmpty (hi_Objective i)) (hi_MaxGoalRounds i) (nullIfEmpty (hi_BlockedReason i))
           (hi_OccurredAt i) db)),
      gr_Cancel = (\<lambda>i db. repository_result (\<lambda>ref. ref)
        (chat_agent_cancel_goal octets (xi_TurnID i) (xi_EventID i) (xi_GoalID i) (xi_ExpectedRevision i)
           (xi_OccurredAt i) db)),
      gr_StartRound = (\<lambda>i db. repository_result scanChatAgentGoal
        (chat_agent_start_goal_round octets (ri_TurnID i) (ri_EventID i) (ri_GoalID i) (ri_ExpectedRevision i)
           (ri_Round i) (ri_OccurredAt i) db))\<rparr>"

section \<open>What the gateway keeps\<close>

text \<open>The CHECK constraints of the table.\<close>

definition goal_row_ok :: "goal_row \<Rightarrow> bool" where
  "goal_row_ok g \<longleftrightarrow>
     gl_phase g \<in> {''active'', ''paused'', ''blocked'', ''complete''} \<and> 1 \<le> gl_revision g \<and>
     0 \<le> gl_rounds g \<and> 3 \<le> gl_max g \<and> gl_max g \<le> 32 \<and> gl_rounds g \<le> gl_max g \<and>
     btrim (gl_objective g) \<noteq> [] \<and> length (gl_objective g) \<le> 8192 \<and>
     (if gl_phase g = ''blocked''
      then gl_blockedCode g = Some ''model-reported'' \<and>
           (\<exists>m. gl_blockedMessage g = Some m \<and> btrim m \<noteq> [] \<and> length m \<le> 4096)
      else gl_blockedCode g = None \<and> gl_blockedMessage g = None) \<and>
     gl_created g \<le> gl_updated g"

definition goals_ok :: "goal_db \<Rightarrow> bool" where
  "goals_ok db \<longleftrightarrow> keys_distinct (gd_goals db) \<and> (\<forall>x \<in> set (gd_goals db). goal_row_ok (snd x))"

lemma goals_okD: "goals_ok db \<Longrightarrow> map_of (gd_goals db) c = Some g \<Longrightarrow> goal_row_ok g"
  unfolding goals_ok_def by (metis map_of_SomeD snd_conv)

lemma goals_ok_update: "goals_ok db \<Longrightarrow> goal_row_ok g \<Longrightarrow> gd_goals db' = AList.update c g (gd_goals db) \<Longrightarrow> goals_ok db'"
  using set_update_subset [of c g "gd_goals db"] by (auto simp: goals_ok_def)

lemma goals_ok_delete: "goals_ok db \<Longrightarrow> gd_goals db' = AList.delete c (gd_goals db) \<Longrightarrow> goals_ok db'"
  using set_delete_subset [of c "gd_goals db"] by (auto simp: goals_ok_def)

lemma btrim_idem [simp]: "btrim (btrim s) = btrim s"
proof -
  let ?P = "\<lambda>c. c = CHR '' ''"
  have "dropWhile ?P (rev (dropWhile ?P (rev t))) = rev (dropWhile ?P (rev t))" if "dropWhile ?P t = t" for t
  proof (cases "rev (dropWhile ?P (rev t))")
    case (Cons a u)
    have "prefix (rev (dropWhile ?P (rev t))) t"
      using suffix_dropWhile [of ?P "rev t"] by (metis rev_rev_ident suffix_to_prefix)
    then obtain v where "t = a # v" using Cons by (auto simp: prefix_def)
    then have "a \<noteq> CHR '' ''" using that dropWhile_eq_Cons_conv [of ?P t a v] by auto
    then show ?thesis using Cons by simp
  next
    case Nil
    show ?thesis unfolding Nil by simp
  qed
  from this [of "dropWhile ?P s"] show ?thesis by (simp add: btrim_def dropWhile_idem)
qed

lemma with_goal_event_Inl: "with_goal_event sz t e ty p at r goals db = (Inl err, db') \<Longrightarrow> db' = db"
  by (auto simp: with_goal_event_def split: prod.splits sum.splits)

lemma with_goal_event_Inr:
  assumes "with_goal_event sz t e ty p at r goals db = (Inr x, db')"
  shows "x = r \<and> gd_goals db' = goals \<and> log_change (gd_log db) (gd_log db')"
  using assms append_event_change [of "gd_log db" sz t e ty None p at]
  by (auto simp: with_goal_event_def split: prod.splits sum.splits)

definition turn_of :: "goal_db \<Rightarrow> string \<Rightarrow> turn_row option" where
  "turn_of db t = map_of (db_turns (gd_log db)) t"

lemma locked_goal_Inr:
  assumes "locked_goal t i n db = Inr (c, g)"
  shows "\<exists>turn. turn_of db t = Some turn \<and> tn_status turn = ''running'' \<and> tn_conversation turn = c \<and>
    map_of (gd_goals db) c = Some g \<and> gl_user g = tn_user turn \<and> gl_id g = i \<and> gl_revision g = n"
  using assms by (auto simp: locked_goal_def turn_of_def split: option.splits if_splits)

lemma create_goal_Inr:
  assumes "chat_agent_create_goal sz t e i ob n at db = (Inr (c, g), db')"
  shows "\<exists>turn. turn_of db t = Some turn \<and> tn_conversation turn = c \<and> tn_user turn = gl_user g \<and>
    (case map_of (gd_goals db) c of None \<Rightarrow> True | Some g0 \<Rightarrow> gl_phase g0 = ''complete'') \<and>
    g = \<lparr>gl_id = i, gl_user = tn_user turn, gl_objective = btrim ob, gl_phase = ''active'', gl_revision = 1,
      gl_rounds = 0, gl_max = n, gl_blockedCode = None, gl_blockedMessage = None, gl_created = at, gl_updated = at\<rparr> \<and>
    3 \<le> n \<and> n \<le> 32 \<and> btrim ob \<noteq> [] \<and> length (btrim ob) \<le> 8192 \<and>
    gd_goals db' = AList.update c g (gd_goals db) \<and> log_change (gd_log db) (gd_log db')"
proof -
  obtain turn where turn: "map_of (db_turns (gd_log db)) t = Some turn"
    using assms by (auto simp: chat_agent_create_goal_def split: if_splits option.splits)
  show ?thesis
    using assms turn
    by (auto simp: chat_agent_create_goal_def Let_def turn_of_def split: if_split_asm option.splits
        dest!: with_goal_event_Inr)
qed

lemma create_goal_Inl: "chat_agent_create_goal sz t e i ob n at db = (Inl err, db') \<Longrightarrow> db' = db"
  by (auto simp: chat_agent_create_goal_def Let_def split: if_splits option.splits dest: with_goal_event_Inl)

lemma change_goal_Inr:
  assumes "chat_agent_change_goal sz t e i n a ob m br at db = (Inr (c, g), db')"
  shows "\<exists>g0. locked_goal t i n db = Inr (c, g0) \<and> a \<in> {''edit'', ''pause'', ''resume'', ''complete'', ''blocked''} \<and>
    changed_goal a ob m br at g0 = Inr g \<and>
    gd_goals db' = AList.update c g (gd_goals db) \<and> log_change (gd_log db) (gd_log db')"
  using assms by (auto simp: chat_agent_change_goal_def split: if_split_asm sum.splits prod.splits
      dest!: with_goal_event_Inr)

lemma change_goal_Inl: "chat_agent_change_goal sz t e i n a ob m br at db = (Inl err, db') \<Longrightarrow> db' = db"
  by (auto simp: chat_agent_change_goal_def split: if_splits sum.splits prod.splits dest: with_goal_event_Inl)

lemma cancel_goal_Inr:
  assumes "chat_agent_cancel_goal sz t e i n at db = (Inr ref, db')"
  shows "\<exists>c g. locked_goal t i n db = Inr (c, g) \<and> ref = (i, n + 1) \<and>
    gd_goals db' = AList.delete c (gd_goals db) \<and> log_change (gd_log db) (gd_log db')"
  using assms locked_goal_Inr [of t i n db]
  by (auto simp: chat_agent_cancel_goal_def split: if_split_asm sum.splits prod.splits
      dest!: with_goal_event_Inr)

lemma cancel_goal_Inl: "chat_agent_cancel_goal sz t e i n at db = (Inl err, db') \<Longrightarrow> db' = db"
  by (auto simp: chat_agent_cancel_goal_def split: if_splits sum.splits prod.splits dest: with_goal_event_Inl)

lemma round_goal_Inr:
  assumes "chat_agent_start_goal_round sz t e i n k at db = (Inr (c, g), db')"
  shows "\<exists>g0. locked_goal t i n db = Inr (c, g0) \<and> gl_phase g0 = ''active'' \<and> k = gl_rounds g0 + 1 \<and> k \<le> gl_max g0 \<and>
    g = g0\<lparr>gl_rounds := k, gl_updated := max (gl_updated g0) at\<rparr> \<and>
    gd_goals db' = AList.update c g (gd_goals db) \<and> log_change (gd_log db) (gd_log db')"
  using assms by (auto simp: chat_agent_start_goal_round_def Let_def split: if_split_asm sum.splits prod.splits
      dest!: with_goal_event_Inr)

lemma round_goal_Inl: "chat_agent_start_goal_round sz t e i n k at db = (Inl err, db') \<Longrightarrow> db' = db"
  by (auto simp: chat_agent_start_goal_round_def Let_def split: if_splits sum.splits prod.splits dest: with_goal_event_Inl)

text \<open>Every change keeps the constraints and is a move of the abstract goal.\<close>

lemma goal_moved_ok:
  assumes "goal_row_ok g" "ph \<in> {''active'', ''paused'', ''complete''}"
  shows "goal_row_ok (goal_moved ph None None at g)"
  using assms(1) assms(2) [simplified]
  by (elim disjE) (simp_all add: goal_row_ok_def goal_moved_def le_max_iff_disj)

lemma changed_goal_ok:
  assumes "goal_row_ok g" "changed_goal a ob m br at g = Inr g'"
  shows "goal_row_ok g'"
proof -
  consider "a = ''edit''" | "a = ''pause''" | "a = ''resume''" | "a = ''complete''"
    | "a \<notin> {''edit'', ''pause'', ''resume'', ''complete''}" by blast
  then show ?thesis
  proof cases
    case 1
    let ?ob = "case ob of None \<Rightarrow> gl_objective g | Some v \<Rightarrow> if btrim v = [] then gl_objective g else btrim v"
    let ?m = "case m of None \<Rightarrow> gl_max g | Some n \<Rightarrow> n"
    have g': "g' = g\<lparr>gl_objective := ?ob, gl_max := ?m, gl_revision := gl_revision g + 1,
        gl_updated := max (gl_updated g) at\<rparr>"
      and obj: "\<not> (case ob of None \<Rightarrow> False | Some v \<Rightarrow> btrim v = [] \<or> length (btrim v) > 8192)"
      and max: "\<not> (case m of None \<Rightarrow> False | Some n \<Rightarrow> n < 3 \<or> n > 32 \<or> n < gl_rounds g)"
      using assms(2) 1 by (simp_all add: changed_goal_def split: if_split_asm)
    have "btrim ?ob \<noteq> []" "length ?ob \<le> 8192"
      using obj assms(1) by (cases ob; simp add: goal_row_ok_def)+
    moreover have "3 \<le> ?m" "?m \<le> 32" "gl_rounds g \<le> ?m"
      using max assms(1) by (cases m; simp add: goal_row_ok_def)+
    moreover have "gl_created g \<le> max (gl_updated g) at" using assms(1) by (simp add: goal_row_ok_def le_max_iff_disj)
    ultimately show ?thesis using assms(1) unfolding g' by (simp add: goal_row_ok_def)
  next
    case 5
    then obtain r where "br = Some r" "g' = goal_moved ''blocked'' (Some ''model-reported'') (Some (btrim r)) at g"
      "btrim r \<noteq> []" "length (btrim r) \<le> 4096"
      using assms(2) by (auto simp: changed_goal_def split: if_split_asm option.splits)
    then show ?thesis using assms(1) by (simp add: goal_row_ok_def goal_moved_def le_max_iff_disj)
  next
    case 2
    then have "g' = goal_moved ''paused'' None None at g"
      using assms(2) by (simp add: changed_goal_def split: if_split_asm)
    then show ?thesis using goal_moved_ok [OF assms(1)] by simp
  next
    case 3
    then have "g' = goal_moved ''active'' None None at g"
      using assms(2) by (simp add: changed_goal_def split: if_split_asm)
    then show ?thesis using goal_moved_ok [OF assms(1)] by simp
  next
    case 4
    then have "g' = goal_moved ''complete'' None None at g"
      using assms(2) by (simp add: changed_goal_def split: if_split_asm)
    then show ?thesis using goal_moved_ok [OF assms(1)] by simp
  qed
qed

lemma scan_moved:
  "goal_row_ok g \<Longrightarrow> scanChatAgentGoal (c, goal_moved ph None None at g) =
     (scanChatAgentGoal (c, g))\<lparr>ag_Phase := ph, ag_Revision := gl_revision g + 1, ag_BlockedReason := None,
       ag_UpdatedAt := max (gl_updated g) at\<rparr>"
  by (simp add: scanChatAgentGoal_def goal_moved_def)

lemma scan_fields [simp]:
  "ag_ID (scanChatAgentGoal (c, g)) = gl_id g" "ag_Phase (scanChatAgentGoal (c, g)) = gl_phase g"
  "ag_Revision (scanChatAgentGoal (c, g)) = gl_revision g" "ag_RoundsStarted (scanChatAgentGoal (c, g)) = gl_rounds g"
  "ag_MaxGoalRounds (scanChatAgentGoal (c, g)) = gl_max g" "ag_UserID (scanChatAgentGoal (c, g)) = gl_user g"
  "ag_Objective (scanChatAgentGoal (c, g)) = gl_objective g"
  by (simp_all add: scanChatAgentGoal_def)

lemma changed_goal_moves:
  assumes ok: "goal_row_ok g" and ch: "changed_goal a ob m br at g = Inr g'"
    and a: "a \<in> {''edit'', ''pause'', ''resume'', ''complete'', ''blocked''}"
  shows "goal_moves a (Some (scanChatAgentGoal (c, g))) (Some (scanChatAgentGoal (c, g')))"
proof -
  consider "a = ''edit''" | "a = ''pause''" | "a = ''resume''" | "a = ''complete''" | "a = ''blocked''"
    using a by blast
  then show ?thesis
  proof cases
    case 1
    have "goal_row_ok g'" by (rule changed_goal_ok [OF ok ch])
    moreover have "gl_id g' = gl_id g" "gl_revision g' = gl_revision g + 1" "gl_phase g' = gl_phase g"
      "gl_blockedCode g' = gl_blockedCode g" "gl_blockedMessage g' = gl_blockedMessage g" "gl_rounds g' = gl_rounds g"
      using ch 1 by (auto simp: changed_goal_def split: if_split_asm)
    moreover from this have "ag_BlockedReason (scanChatAgentGoal (c, g')) = ag_BlockedReason (scanChatAgentGoal (c, g))"
      by (simp add: scanChatAgentGoal_def split: option.split)
    ultimately show ?thesis
      unfolding 1 by (intro goal_moves.edit) (simp_all add: goal_row_ok_def)
  next
    case 2
    then have "gl_phase g = ''active''" "g' = goal_moved ''paused'' None None at g"
      using ch by (simp_all add: changed_goal_def split: if_split_asm)
    then show ?thesis unfolding 2 by (intro goal_moves.pause) (simp_all add: scan_moved [OF ok])
  next
    case 3
    then have "gl_phase g \<in> {''active'', ''paused'', ''blocked''}" "gl_rounds g < gl_max g"
      "g' = goal_moved ''active'' None None at g"
      using ch by (simp_all add: changed_goal_def split: if_split_asm)
    then show ?thesis unfolding 3 by (intro goal_moves.resume) (simp_all add: scan_moved [OF ok])
  next
    case 4
    then have "gl_phase g \<in> {''active'', ''paused'', ''blocked''}" "g' = goal_moved ''complete'' None None at g"
      using ch by (simp_all add: changed_goal_def split: if_split_asm)
    then show ?thesis unfolding 4 by (intro goal_moves.complete) (simp_all add: scan_moved [OF ok])
  next
    case 5
    then obtain r where "gl_phase g = ''active''"
      "g' = goal_moved ''blocked'' (Some ''model-reported'') (Some (btrim r)) at g"
      using ch by (auto simp: changed_goal_def split: if_split_asm option.splits)
    then show ?thesis
      unfolding 5 by (intro goal_moves.blocked) (simp_all add: scanChatAgentGoal_def goal_moved_def)
  qed
qed

lemma goal_row_wf: "goal_row_ok g \<Longrightarrow> goal_wf (scanChatAgentGoal (c, g))"
  by (simp add: goal_row_ok_def goal_wf_def)

section \<open>The contract holds\<close>

lemma is_uuid_trim:
  assumes "is_uuid s"
  shows "trim_space s = s"
proof -
  have l: "length s = 36" and all: "\<And>i c. (i, c) \<in> set (zip [0..<(36::nat)] s) \<Longrightarrow>
      if i \<in> {8, 13, 18, 23} then c = CHR ''-'' else is_hex c"
    using assms by (auto simp: is_uuid_def list_all_iff)
  have "is_hex (s ! i)" if "i = 0 \<or> i = 35" for i
  proof -
    have "(i, s ! i) \<in> set (zip [0..<36] s)" using that l by (force simp: set_zip intro: exI [of _ i])
    from all [OF this] show ?thesis using that by auto
  qed
  then have "printable (s ! 0)" "printable (s ! 35)"
    by (fastforce simp: printable_def is_hex_def Let_def)+
  moreover have "s \<noteq> []" using l by auto
  ultimately show ?thesis using l by (intro trim_space_printable) (simp_all add: hd_conv_nth last_conv_nth)
qed

definition pg_inv :: "string \<Rightarrow> string \<Rightarrow> string \<Rightarrow> goal_db \<Rightarrow> bool" where
  "pg_inv turn conv user db \<longleftrightarrow>
     is_uuid turn \<and> is_uuid conv \<and> goals_ok db \<and>
     (\<exists>row. turn_of db turn = Some row \<and> tn_conversation row = conv \<and> tn_user row = user)"

lemma pg_inv_change:
  assumes "pg_inv turn conv user db" "log_change (gd_log db) (gd_log db')" "goals_ok db'"
  shows "pg_inv turn conv user db'"
  using assms log_change_turn_ids [OF assms(2)] unfolding pg_inv_def turn_of_def turn_ids_def by force

lemma repository_resultD:
  "repository_result f r = (Inl e, db') \<Longrightarrow> \<exists>e'. r = (Inl e', db')"
  "repository_result f r = (Inr y, db') \<Longrightarrow> \<exists>x. r = (Inr x, db') \<and> y = f x"
  by (auto simp: repository_result_def split: prod.splits sum.splits)

lemma pg_get_update:
  "gd_goals db' = AList.update c g (gd_goals db) \<Longrightarrow> gl_user g = user \<Longrightarrow>
   pg_get_goal user c db' = Some (scanChatAgentGoal (c, g))"
  by (simp add: pg_get_goal_def update_conv')

lemma pg_locked:
  assumes "pg_inv turn conv user db" "locked_goal turn i n db = Inr (c, g)"
  shows "c = conv \<and> map_of (gd_goals db) conv = Some g \<and> gl_user g = user \<and> gl_id g = i \<and> gl_revision g = n \<and>
    goal_row_ok g \<and> pg_get_goal user conv db = Some (scanChatAgentGoal (conv, g))"
  using assms(1) locked_goal_Inr [OF assms(2)] goals_okD [of db]
  by (auto simp: pg_inv_def pg_get_goal_def)

interpretation pg: goal_contract "pg_goal_repository sz user" turn conv "pg_get_goal user conv" "pg_inv turn conv user"
  for sz user turn conv
proof
  fix s :: goal_db
  assume inv: "pg_inv turn conv user s"
  then show "is_uuid conv \<and> trim_space conv = conv \<and> trim_space turn = turn"
    by (simp add: pg_inv_def is_uuid_trim)
  show "gr_Get (pg_goal_repository sz user) conv s = Inr (pg_get_goal user conv s)"
    by (simp add: pg_goal_repository_def)
  have ok: "goals_ok s" using inv by (simp add: pg_inv_def)
  show "goal_wf g" if "pg_get_goal user conv s = Some g" for g
    using that goals_okD [OF ok] by (auto simp: pg_get_goal_def goal_row_wf split: option.splits if_splits)
  show "pg_inv turn conv user s' \<and> pg_get_goal user conv s' = Some g \<and>
      goal_moves ''create'' (pg_get_goal user conv s) (Some g)"
    if "ci_TurnID ci = turn" "gr_Create (pg_goal_repository sz user) ci s = (Inr g, s')" for ci g s'
  proof -
    note hyps = that
    obtain c r where run: "chat_agent_create_goal sz turn (ci_EventID ci) (ci_GoalID ci) (ci_Objective ci)
        (ci_MaxGoalRounds ci) (ci_OccurredAt ci) s = (Inr (c, r), s')" and g: "g = scanChatAgentGoal (c, r)"
      using hyps by (auto simp: pg_goal_repository_def dest!: repository_resultD(2))
    note facts = create_goal_Inr [OF run]
    have c: "c = conv" "gl_user r = user" using facts inv by (auto simp: pg_inv_def)
    have "goal_row_ok r" using facts by (auto simp: goal_row_ok_def)
    then have "goals_ok s'" using goals_ok_update [OF ok] facts by blast
    moreover have "case pg_get_goal user conv s of None \<Rightarrow> True | Some g0 \<Rightarrow> ag_Phase g0 = ''complete''"
      using facts c by (auto simp: pg_get_goal_def split: option.splits)
    ultimately show ?thesis
      using facts c g pg_inv_change [OF inv, of s']
      by (auto simp: pg_get_update intro!: goal_moves.create) (auto simp: scanChatAgentGoal_def)
  qed
  show "pg_inv turn conv user s' \<and> pg_get_goal user conv s' = Some g \<and>
      goal_moves (hi_Action hi) (pg_get_goal user conv s) (Some g) \<and>
      (\<exists>g0. pg_get_goal user conv s = Some g0 \<and> ag_ID g0 = hi_GoalID hi \<and> ag_Revision g0 = hi_ExpectedRevision hi)"
    if "hi_TurnID hi = turn" "gr_Change (pg_goal_repository sz user) hi s = (Inr g, s')" for hi g s'
  proof -
    note hyps = that
    obtain c r where run: "chat_agent_change_goal sz turn (hi_EventID hi) (hi_GoalID hi) (hi_ExpectedRevision hi)
        (hi_Action hi) (nullIfEmpty (hi_Objective hi)) (hi_MaxGoalRounds hi) (nullIfEmpty (hi_BlockedReason hi))
        (hi_OccurredAt hi) s = (Inr (c, r), s')" and g: "g = scanChatAgentGoal (c, r)"
      using hyps by (auto simp: pg_goal_repository_def dest!: repository_resultD(2))
    obtain g0 where lock: "locked_goal turn (hi_GoalID hi) (hi_ExpectedRevision hi) s = Inr (c, g0)"
      and a: "hi_Action hi \<in> {''edit'', ''pause'', ''resume'', ''complete'', ''blocked''}"
      and ch: "changed_goal (hi_Action hi) (nullIfEmpty (hi_Objective hi)) (hi_MaxGoalRounds hi)
        (nullIfEmpty (hi_BlockedReason hi)) (hi_OccurredAt hi) g0 = Inr r"
      and db: "gd_goals s' = AList.update c r (gd_goals s)" "log_change (gd_log s) (gd_log s')"
      using change_goal_Inr [OF run] by blast
    note l = pg_locked [OF inv lock]
    have "goal_row_ok r" "goal_moves (hi_Action hi) (Some (scanChatAgentGoal (conv, g0))) (Some (scanChatAgentGoal (conv, r)))"
      using changed_goal_ok changed_goal_moves l ch a by blast+
    moreover have "gl_user r = gl_user g0"
      using ch by (auto simp: changed_goal_def goal_moved_def split: if_split_asm option.splits)
    ultimately show ?thesis
      using l g db pg_inv_change [OF inv db(2) goals_ok_update [OF ok _ db(1)]] by (simp add: pg_get_update)
  qed
  show "pg_inv turn conv user s' \<and> pg_get_goal user conv s' = None \<and>
      (\<exists>g0. pg_get_goal user conv s = Some g0 \<and> ag_ID g0 = xi_GoalID xi \<and> ag_Revision g0 = xi_ExpectedRevision xi)"
    if "xi_TurnID xi = turn" "gr_Cancel (pg_goal_repository sz user) xi s = (Inr ref, s')" for xi ref s'
  proof -
    note hyps = that
    have run: "chat_agent_cancel_goal sz turn (xi_EventID xi) (xi_GoalID xi) (xi_ExpectedRevision xi)
        (xi_OccurredAt xi) s = (Inr ref, s')"
      using hyps by (auto simp: pg_goal_repository_def dest!: repository_resultD(2))
    obtain c g where lock: "locked_goal turn (xi_GoalID xi) (xi_ExpectedRevision xi) s = Inr (c, g)"
      and db: "gd_goals s' = AList.delete c (gd_goals s)" "log_change (gd_log s) (gd_log s')"
      using cancel_goal_Inr [OF run] by blast
    note l = pg_locked [OF inv lock]
    show ?thesis
      using l db pg_inv_change [OF inv db(2) goals_ok_delete [OF ok db(1)]]
      by (simp add: pg_get_goal_def delete_conv')
  qed
  show "pg_inv turn conv user s' \<and> pg_get_goal user conv s' = Some g \<and>
      goal_moves ''round'' (pg_get_goal user conv s) (Some g) \<and> ag_RoundsStarted g = ri_Round ri \<and>
      (\<exists>g0. pg_get_goal user conv s = Some g0 \<and> ag_ID g0 = ri_GoalID ri \<and> ag_Revision g0 = ri_ExpectedRevision ri)"
    if "ri_TurnID ri = turn" "gr_StartRound (pg_goal_repository sz user) ri s = (Inr g, s')" for ri g s'
  proof -
    note hyps = that
    obtain c r where run: "chat_agent_start_goal_round sz turn (ri_EventID ri) (ri_GoalID ri) (ri_ExpectedRevision ri)
        (ri_Round ri) (ri_OccurredAt ri) s = (Inr (c, r), s')" and g: "g = scanChatAgentGoal (c, r)"
      using hyps by (auto simp: pg_goal_repository_def dest!: repository_resultD(2))
    obtain g0 where lock: "locked_goal turn (ri_GoalID ri) (ri_ExpectedRevision ri) s = Inr (c, g0)"
      and rd: "gl_phase g0 = ''active''" "ri_Round ri = gl_rounds g0 + 1" "ri_Round ri \<le> gl_max g0"
        "r = g0\<lparr>gl_rounds := ri_Round ri, gl_updated := max (gl_updated g0) (ri_OccurredAt ri)\<rparr>"
      and db: "gd_goals s' = AList.update c r (gd_goals s)" "log_change (gd_log s) (gd_log s')"
      using round_goal_Inr [OF run] by blast
    note l = pg_locked [OF inv lock]
    have "goal_row_ok r" using l rd by (simp add: goal_row_ok_def le_max_iff_disj)
    moreover have "goal_moves ''round'' (Some (scanChatAgentGoal (conv, g0))) (Some (scanChatAgentGoal (conv, r)))"
      by (rule goal_moves.round [where t = "gl_updated r"]) (use rd in \<open>simp_all add: scanChatAgentGoal_def split: option.split\<close>)
    ultimately show ?thesis
      using l g db rd pg_inv_change [OF inv db(2) goals_ok_update [OF ok _ db(1)]] by (simp add: pg_get_update)
  qed
qed (auto simp: pg_goal_repository_def dest!: repository_resultD(1)
    dest: create_goal_Inl change_goal_Inl cancel_goal_Inl round_goal_Inl)

section \<open>Requests\<close>

datatype goal_request =
    CreateRequest create_goal_input
  | ChangeRequest change_goal_input
  | CancelRequest cancel_goal_input
  | RoundRequest round_goal_input

definition goal_request_step :: "'s goal_repository \<Rightarrow> goal_request \<Rightarrow> 's \<Rightarrow> 's" where
  "goal_request_step repo rq s =
     (case rq of
        CreateRequest i \<Rightarrow> snd (CreateChatAgentGoal repo i s)
      | ChangeRequest i \<Rightarrow> snd (ChangeChatAgentGoal repo i s)
      | CancelRequest i \<Rightarrow> snd (CancelChatAgentGoal repo i s)
      | RoundRequest i \<Rightarrow> snd (StartChatAgentGoalRound repo i s))"

fun goal_requests :: "'s goal_repository \<Rightarrow> goal_request list \<Rightarrow> 's \<Rightarrow> 's" where
  "goal_requests repo [] s = s"
| "goal_requests repo (rq # rqs) s = goal_requests repo rqs (goal_request_step repo rq s)"

definition abs_goals :: "goal_db \<Rightarrow> string \<Rightarrow> agent_goal option" where
  "abs_goals db c = map_option (\<lambda>g. scanChatAgentGoal (c, g)) (map_of (gd_goals db) c)"

text \<open>What a request can do: nothing, or one move of one goal with a step of the log.\<close>

definition goal_effect :: "goal_db \<Rightarrow> goal_db \<Rightarrow> bool" where
  "goal_effect db db' \<longleftrightarrow>
     db' = db \<or>
     (\<exists>c a. goal_moves a (abs_goals db c) (abs_goals db' c) \<and> (\<forall>c'. c' \<noteq> c \<longrightarrow> abs_goals db' c' = abs_goals db c') \<and>
        goals_ok db' \<and> log_change (gd_log db) (gd_log db'))"

lemma abs_goals_update: "gd_goals db' = AList.update c g (gd_goals db) \<Longrightarrow>
    abs_goals db' = (abs_goals db)(c \<mapsto> scanChatAgentGoal (c, g))"
  by (rule ext) (simp add: abs_goals_def update_conv')

lemma abs_goals_delete: "gd_goals db' = AList.delete c (gd_goals db) \<Longrightarrow> abs_goals db' = (abs_goals db)(c := None)"
  by (rule ext) (simp add: abs_goals_def delete_conv')

lemma abs_goals_Some: "map_of (gd_goals db) c = Some g \<Longrightarrow> abs_goals db c = Some (scanChatAgentGoal (c, g))"
  by (simp add: abs_goals_def)

lemma create_effect:
  assumes "goals_ok db" "chat_agent_create_goal sz t e i ob n at db = (r, db')"
  shows "goal_effect db db'"
proof (cases r)
  case (Inl err)
  then show ?thesis using create_goal_Inl assms(2) by (simp add: goal_effect_def)
next
  case (Inr x)
  obtain c g where x: "x = (c, g)" by fastforce
  note facts = create_goal_Inr [OF assms(2) [unfolded Inr x]]
  have "goal_row_ok g" using facts by (auto simp: goal_row_ok_def)
  then have "goals_ok db'" using goals_ok_update [OF assms(1)] facts by blast
  moreover have "goal_moves ''create'' (abs_goals db c) (Some (scanChatAgentGoal (c, g)))"
    using facts by (intro goal_moves.create) (auto simp: abs_goals_def scanChatAgentGoal_def split: option.splits)
  ultimately show ?thesis
    using facts unfolding goal_effect_def
    by (intro disjI2 exI [of _ c] exI [of _ "''create''"]) (auto simp: abs_goals_update)
qed

lemma change_effect:
  assumes "goals_ok db" "chat_agent_change_goal sz t e i n a ob m br at db = (r, db')"
  shows "goal_effect db db'"
proof (cases r)
  case (Inl err)
  then show ?thesis using change_goal_Inl assms(2) by (simp add: goal_effect_def)
next
  case (Inr x)
  obtain c g where x: "x = (c, g)" by fastforce
  obtain g0 where lock: "locked_goal t i n db = Inr (c, g0)"
    and a: "a \<in> {''edit'', ''pause'', ''resume'', ''complete'', ''blocked''}"
    and ch: "changed_goal a ob m br at g0 = Inr g"
    and db: "gd_goals db' = AList.update c g (gd_goals db)" "log_change (gd_log db) (gd_log db')"
    using change_goal_Inr [OF assms(2) [unfolded Inr x]] by (elim exE conjE) (rule that, assumption+)
  have g0: "map_of (gd_goals db) c = Some g0" using locked_goal_Inr [OF lock] by blast
  have ok: "goal_row_ok g0" by (rule goals_okD [OF assms(1) g0])
  have "goals_ok db'" by (rule goals_ok_update [OF assms(1) changed_goal_ok [OF ok ch] db(1)])
  then show ?thesis
    using changed_goal_moves [OF ok ch a, of c] db abs_goals_Some [OF g0] unfolding goal_effect_def
    by (intro disjI2 exI [of _ c] exI [of _ a]) (simp add: abs_goals_update)
qed

lemma cancel_effect:
  assumes "goals_ok db" "chat_agent_cancel_goal sz t e i n at db = (r, db')"
  shows "goal_effect db db'"
proof (cases r)
  case (Inl err)
  then show ?thesis using cancel_goal_Inl assms(2) by (simp add: goal_effect_def)
next
  case (Inr ref)
  obtain c g where lock: "locked_goal t i n db = Inr (c, g)"
    and db: "gd_goals db' = AList.delete c (gd_goals db)" "log_change (gd_log db) (gd_log db')"
    using cancel_goal_Inr [OF assms(2) [unfolded Inr]] by blast
  have g: "map_of (gd_goals db) c = Some g" using locked_goal_Inr [OF lock] by blast
  show ?thesis
    using db abs_goals_Some [OF g] goals_ok_delete [OF assms(1) db(1)] unfolding goal_effect_def
    by (intro disjI2 exI [of _ c] exI [of _ "''cancel''"]) (simp add: abs_goals_delete goal_moves.cancel)
qed

lemma round_effect:
  assumes "goals_ok db" "chat_agent_start_goal_round sz t e i n k at db = (r, db')"
  shows "goal_effect db db'"
proof (cases r)
  case (Inl err)
  then show ?thesis using round_goal_Inl assms(2) by (simp add: goal_effect_def)
next
  case (Inr x)
  obtain c g where x: "x = (c, g)" by fastforce
  obtain g0 where lock: "locked_goal t i n db = Inr (c, g0)"
    and rd: "gl_phase g0 = ''active''" "k = gl_rounds g0 + 1" "k \<le> gl_max g0"
      "g = g0\<lparr>gl_rounds := k, gl_updated := max (gl_updated g0) at\<rparr>"
    and db: "gd_goals db' = AList.update c g (gd_goals db)" "log_change (gd_log db) (gd_log db')"
    using round_goal_Inr [OF assms(2) [unfolded Inr x]] by blast
  have g0: "map_of (gd_goals db) c = Some g0" using locked_goal_Inr [OF lock] by blast
  have "goal_row_ok g" using goals_okD [OF assms(1) g0] rd by (simp add: goal_row_ok_def le_max_iff_disj)
  then have "goals_ok db'" by (rule goals_ok_update [OF assms(1) _ db(1)])
  moreover have "goal_moves ''round'' (Some (scanChatAgentGoal (c, g0))) (Some (scanChatAgentGoal (c, g)))"
    by (rule goal_moves.round [where t = "gl_updated g"]) (use rd in \<open>simp_all add: scanChatAgentGoal_def split: option.split\<close>)
  ultimately show ?thesis
    using db abs_goals_Some [OF g0] unfolding goal_effect_def
    by (intro disjI2 exI [of _ c] exI [of _ "''round''"]) (simp add: abs_goals_update)
qed

lemma repository_result_snd: "snd (repository_result f r) = snd r"
  by (auto simp: repository_result_def split: prod.splits sum.splits)

lemma request_effect:
  assumes "goals_ok db"
  shows "goal_effect db (goal_request_step (pg_goal_repository sz user) rq db)"
proof -
  have same: "goal_effect db db" by (simp add: goal_effect_def)
  note effects = create_effect [OF assms] change_effect [OF assms] cancel_effect [OF assms] round_effect [OF assms]
  show ?thesis
    by (cases rq) (auto simp: goal_request_step_def CreateChatAgentGoal_def ChangeChatAgentGoal_def
        CancelChatAgentGoal_def StartChatAgentGoalRound_def Let_def pg_goal_repository_def repository_result_snd
        intro: same effects prod.collapse [symmetric])
qed

lemma goal_effect_ok: "goals_ok db \<Longrightarrow> goal_effect db db' \<Longrightarrow> goals_ok db'"
  by (auto simp: goal_effect_def)

lemma goal_effect_log: "log_ok (gd_log db) \<Longrightarrow> goal_effect db db' \<Longrightarrow> log_ok (gd_log db')"
  using log_ok_change by (auto simp: goal_effect_def)

end
