(* ===== verification/Agent_Goal_Properties.thy ===== *)
theory Agent_Goal_Properties
  imports Agent_Goal_Store
begin

text \<open>
  The properties of goals over the PostgreSQL repository: the table's constraints and the
  refinement of the abstract goal hold for every sequence of requests, a revision can be spent
  only once, the tools change a goal by themselves only as far as they are allowed, and the
  automatic rounds of a turn end.
\<close>

section \<open>An example\<close>

definition example_turn :: string where "example_turn = example_uuid CHR ''1''"
definition example_conv :: string where "example_conv = example_uuid CHR ''3''"

definition example_row :: goal_row where
  "example_row = \<lparr>gl_id = example_uuid CHR ''2'', gl_user = ''u'', gl_objective = ''ship'', gl_phase = ''active'',
     gl_revision = 2, gl_rounds = 3, gl_max = 8, gl_blockedCode = None, gl_blockedMessage = None,
     gl_created = 7, gl_updated = 7\<rparr>"

definition example_goal_db :: "(string, goal_row) gomap \<Rightarrow> goal_db" where
  "example_goal_db goals =
     \<lparr>gd_log = snd (StartChatAgentTurn ''u'' example_turn (example_uuid CHR ''2'') example_conv
        (example_uuid CHR ''4'') (example_uuid CHR ''5'') 7 example_log_db), gd_goals = goals\<rparr>"

definition example_env :: goal_env where
  "example_env = \<lparr>ge_marshal = (\<lambda>_. []), ge_decode_get = (\<lambda>_. None), ge_decode_create = (\<lambda>_. None),
     ge_decode_update = (\<lambda>_. Some \<lparr>ua_GoalID = example_uuid CHR ''2'', ua_Revision = 2, ua_Action = ''complete'',
        ua_Objective = None, ua_MaxGoalRounds = None, ua_BlockedReason = None\<rparr>), ge_lower = (\<lambda>s. s)\<rparr>"

definition example_tick :: goal_tick where
  "example_tick = \<lparr>tk_goalID = None, tk_eventID = Some (example_uuid CHR ''6''), tk_now = 9,
     tk_announced = True, tk_reported = True\<rparr>"

definition example_call :: tool_call where
  "example_call = \<lparr>tc_ChoiceIndex = 0, tc_CallIndex = 0, tc_ID = ''c'', tc_SyntheticID = False,
     tc_Name = ''update_goal'', tc_Arguments = ''{}'', tc_FailureCategory = []\<rparr>"

definition example_runtime :: goal_runtime where
  "example_runtime = \<lparr>rt_turnID = example_turn, rt_conversationID = example_conv,
     rt_current = Some (scanChatAgentGoal (example_conv, example_row)), rt_armed = True, rt_directHuman = False,
     rt_currentRound = 3, rt_forceNoTools = False, rt_calls = 0\<rparr>"

definition example_db :: goal_db where
  "example_db = example_goal_db [(example_conv, example_row)]"

lemma example_uuids:
  "is_uuid example_turn" "is_uuid example_conv" "is_uuid (example_uuid CHR ''2'')" "is_uuid (example_uuid CHR ''6'')"
  using example_uuid_facts by (simp_all add: example_turn_def example_conv_def)

lemma example_trims:
  "trim_space example_turn = example_turn" "trim_space (example_uuid CHR ''2'') = example_uuid CHR ''2''"
  "trim_space (example_uuid CHR ''6'') = example_uuid CHR ''6''"
  using example_uuids is_uuid_trim by simp_all

lemma example_goals: "gd_goals example_db = [(example_conv, example_row)]"
  by (simp add: example_db_def example_goal_db_def)

lemma example_turn_of:
  "turn_of example_db example_turn = Some \<lparr>tn_user = ''u'', tn_conversation = example_conv,
     tn_message = example_uuid CHR ''4'', tn_run = example_uuid CHR ''5'', tn_status = ''running'',
     tn_next = 2, tn_started = 7, tn_ended = None, tn_updated = 7\<rparr>"
  by (simp add: turn_of_def example_db_def example_goal_db_def example_turn_def example_conv_def example_start)

lemma example_ok: "goals_ok example_db"
  by (simp add: goals_ok_def example_goals example_row_def goal_row_ok_def keys_distinct_def btrim_def)

lemma example_inv: "pg_inv example_turn example_conv ''u'' example_db"
  using example_ok example_turn_of by (simp add: pg_inv_def example_uuids)

lemma example_goal: "pg_get_goal ''u'' example_conv example_db = Some (scanChatAgentGoal (example_conv, example_row))"
  by (simp add: pg_get_goal_def example_goals example_row_def)

lemma example_bound:
  "bound_runtime example_turn example_conv (pg_get_goal ''u'' example_conv example_db) example_runtime"
  by (simp add: bound_runtime_def example_goal example_runtime_def)


definition example_cancel :: goal_request where
  "example_cancel = CancelRequest \<lparr>xi_TurnID = example_turn, xi_EventID = example_uuid CHR ''6'',
     xi_GoalID = example_uuid CHR ''2'', xi_ExpectedRevision = 2, xi_OccurredAt = 9\<rparr>"


section \<open>Properties\<close>

text \<open>
  C21: the constraints of the goal table and the integrity of the event log hold after every
  sequence of goal requests: phases, round limits between 3 and 32, rounds never above the
  limit, a blocker exactly when the goal is blocked, objectives of at most 8192 bytes.
\<close>

theorem goal_rows_well_formed:
  assumes "goals_ok db" "log_ok (gd_log db)"
  shows "goals_ok (goal_requests (pg_goal_repository sz user) rqs db) \<and>
    log_ok (gd_log (goal_requests (pg_goal_repository sz user) rqs db))"
  using assms
proof (induction rqs arbitrary: db)
  case (Cons rq rqs)
  then show ?case
    using request_effect [OF Cons.prems(1)] goal_effect_ok goal_effect_log by simp
qed simp

theorem goal_rows_well_formed_witness:
  "goals_ok (goal_requests (pg_goal_repository length ''u'')
     [CreateRequest \<lparr>ci_TurnID = example_turn, ci_EventID = example_uuid CHR ''6'', ci_GoalID = example_uuid CHR ''2'',
        ci_Objective = ''ship'', ci_MaxGoalRounds = 8, ci_OccurredAt = 9\<rparr>]
     \<lparr>gd_log = example_log_db, gd_goals = []\<rparr>)"
proof -
  have "goals_ok \<lparr>gd_log = example_log_db, gd_goals = []\<rparr>" by (simp add: goals_ok_def)
  moreover have "log_ok (gd_log \<lparr>gd_log = example_log_db, gd_goals = []\<rparr>)"
    using log_ok_start [of example_log_db] by (simp add: log_start_def example_log_db_def)
  ultimately show ?thesis by (rule conjunct1 [OF goal_rows_well_formed])
qed

text \<open>
  C22: the store refines the abstract goal: whatever request arrives, either nothing changes,
  or exactly one conversation's goal moves as its life cycle allows and the log makes one
  step of its own.
\<close>

theorem goal_store_refines:
  assumes "goals_ok db" "db' = goal_request_step (pg_goal_repository sz user) rq db"
  shows "db' = db \<or>
    (\<exists>c a. goal_moves a (abs_goals db c) (abs_goals db' c) \<and> log_change (gd_log db) (gd_log db') \<and>
       (\<forall>c'. c' \<noteq> c \<longrightarrow> abs_goals db' c' = abs_goals db c'))"
  using request_effect [OF assms(1), of sz user rq] assms(2) by (auto simp: goal_effect_def)

theorem goal_store_refines_witness:
  "goal_request_step (pg_goal_repository length ''u'') example_cancel example_db = example_db \<or>
    (\<exists>c a. goal_moves a (abs_goals example_db c)
       (abs_goals (goal_request_step (pg_goal_repository length ''u'') example_cancel example_db) c))"
  using goal_store_refines [OF example_ok refl, of length "''u''" example_cancel] by blast



text \<open>
  C24: without a direct human turn, the calls of a model round leave the goal as it is, or
  complete it, or, from the third automatic round on, report it blocked; they never create,
  edit, pause, resume or cancel one.
\<close>

theorem goal_tools_need_authority:
  assumes "pg_inv turn conv user db" "bound_runtime turn conv (pg_get_goal user conv db) rt"
    and "\<not> rt_directHuman rt"
    and "executeChatAgentGoalBatch env (pg_goal_repository sz user) ticks calls round rt db = (out, rt', db')"
  shows "without_authority (rt_currentRound rt) (pg_get_goal user conv db) (pg_get_goal user conv db') \<and>
    \<not> rt_directHuman rt' \<and> rt_currentRound rt' = rt_currentRound rt"
proof -
  have "pg.call_ok turn conv user rt db rt' db'"
  proof (cases "runtime_enabled rt")
    case True
    then show ?thesis
      using pg.batch_ok [OF assms(1,2)] assms(4) by (cases out) (simp add: executeChatAgentGoalBatch_def Let_def)
  next
    case False
    then show ?thesis
      using pg.call_ok_refl [OF assms(1,2)] assms(4) by (simp add: executeChatAgentGoalBatch_def Let_def)
  qed
  then show ?thesis using assms(3) by (simp add: pg.call_ok_def)
qed

theorem goal_tools_need_authority_witness:
  "\<exists>out rt' db'. executeChatAgentGoalBatch example_env (pg_goal_repository length ''u'') (\<lambda>_. example_tick)
      [example_call] 4 example_runtime example_db = (out, rt', db') \<and>
    without_authority 3 (pg_get_goal ''u'' example_conv example_db) (pg_get_goal ''u'' example_conv db')"
proof -
  obtain out rt' db' where run: "executeChatAgentGoalBatch example_env (pg_goal_repository length ''u'')
      (\<lambda>_. example_tick) [example_call] 4 example_runtime example_db = (out, rt', db')"
    by (metis prod_cases3)
  have "\<not> rt_directHuman example_runtime" "rt_currentRound example_runtime = 3"
    by (simp_all add: example_runtime_def)
  with goal_tools_need_authority [OF example_inv example_bound _ run] run show ?thesis by auto
qed

text \<open>
  C25: the automatic work of a turn ends: in any order of tool calls, further rounds and
  closing messages, a turn is continued by its goal at most 33 times (the 32 rounds that a
  goal can have, and the closing message).
\<close>

theorem automatic_rounds_bounded:
  assumes "pg_inv turn conv user db" "bound_runtime turn conv (pg_get_goal user conv db) rt"
  shows "fst (goal_history env (pg_goal_repository sz user) ops rt db) \<le> 33"
proof -
  obtain n rt' db' where h: "goal_history env (pg_goal_repository sz user) ops rt db = (n, rt', db')"
    by (metis prod_cases3)
  have "int n \<le> (if rt_directHuman rt then 33 else remaining_rounds rt)" "remaining_rounds rt \<le> 33"
    using pg.history_ok [OF assms h] pg.remaining_bound [OF assms] by blast+
  then show ?thesis using h by (auto split: if_splits)
qed

theorem automatic_rounds_bounded_witness:
  "fst (goal_history example_env (pg_goal_repository length ''u'') (replicate 50 (NextRound example_tick))
     example_runtime example_db) \<le> 33"
  by (rule automatic_rounds_bounded [OF example_inv example_bound])

end
