(* ===== verification/Agent_Approval.thy ===== *)
theory Agent_Approval
  imports Agent_Goal_Store
begin

text \<open>
  Approvals of tool calls: the gateway functions of migration 100, the PostgreSQL repository,
  the services, and the in-process waiters that hand a decision to the tool call that waits
  for it (internal/chat/chat_agent_approvals.go and repository_postgres.go).
\<close>

section \<open>Tables\<close>

record approval_row =
  ap_turn :: string
  ap_user :: string
  ap_conversation :: string
  ap_message :: string
  ap_run :: string
  ap_execution :: string
  ap_tool :: string
  ap_risk :: string
  ap_status :: string
  ap_decision :: "string option"
  ap_revision :: int
  ap_allowConversation :: bool
  ap_expires :: int
  ap_created :: int
  ap_decided :: "int option"

text \<open>A grant: conversation, user, tool and risk class.\<close>

type_synonym tool_grant = "string \<times> string \<times> string \<times> string"

record approval_db =
  ad_log :: log_db
  ad_approvals :: "(string, approval_row) gomap"
  ad_grants :: "tool_grant list"

definition chatAgentApprovalTTL :: int where
  "chatAgentApprovalTTL = 300000000000"

definition approval_risks :: "string list" where
  "approval_risks = [''write'', ''execute'', ''external'']"

section \<open>Gateway\<close>

definition granted :: "approval_db \<Rightarrow> turn_row \<Rightarrow> string \<Rightarrow> string \<Rightarrow> bool" where
  "granted db turn tool risk =
     ((tn_conversation turn, tn_user turn, tool, risk) \<in> set (ad_grants db) \<and>
      (case map_of (db_conversations (ad_log db)) (tn_conversation turn) of None \<Rightarrow> False
       | Some c \<Rightarrow> cv_user c = tn_user turn \<and> \<not> cv_deleted c))"

definition chat_agent_create_approval ::
  "string \<Rightarrow> string \<Rightarrow> string \<Rightarrow> string \<Rightarrow> string \<Rightarrow> string \<Rightarrow> bool \<Rightarrow> int \<Rightarrow> int \<Rightarrow> approval_db
   \<Rightarrow> (db_error + string \<times> approval_row) \<times> approval_db" where
  "chat_agent_create_approval approvalID turnID userID executionID toolName riskClass allowConversation
     expiresAt occurredAt db =
     (let execution = btrim executionID; tool = btrim toolName
      in if execution = [] \<or> length execution > 256 \<or> tool = [] \<or> length tool > 128 \<or>
            riskClass \<notin> set approval_risks \<or> expiresAt \<le> occurredAt \<or> expiresAt > occurredAt + chatAgentApprovalTTL
         then (Inl (DbError ''CHAT_AGENT_APPROVAL_INPUT_INVALID''), db)
         else
           (case map_of (db_turns (ad_log db)) turnID of
              None \<Rightarrow> (Inl (DbError ''CHAT_AGENT_APPROVAL_TURN_INVALID''), db)
            | Some turn \<Rightarrow>
                if tn_status turn \<noteq> ''running''
                then (Inl (DbError ''CHAT_AGENT_APPROVAL_TURN_INVALID''), db)
                else if tn_user turn \<noteq> userID
                then (Inl (DbError ''CHAT_AGENT_APPROVAL_AUTHORITY_INVALID''), db)
                else
                  let yes = granted db turn tool riskClass;
                      row = \<lparr>ap_turn = turnID, ap_user = tn_user turn, ap_conversation = tn_conversation turn,
                             ap_message = tn_message turn, ap_run = tn_run turn, ap_execution = execution,
                             ap_tool = tool, ap_risk = riskClass,
                             ap_status = (if yes then ''allowed'' else ''pending''),
                             ap_decision = (if yes then Some ''allow_conversation'' else None),
                             ap_revision = 1, ap_allowConversation = allowConversation,
                             ap_expires = expiresAt, ap_created = occurredAt,
                             ap_decided = (if yes then Some occurredAt else None)\<rparr>
                  in if yes \<and> \<not> allowConversation
                     then (Inl (DbConstraint ''chat_agent_approvals_conversation_policy_shape''), db)
                     else
                       (case find (\<lambda>(_, r). ap_turn r = turnID \<and> ap_execution r = execution) (ad_approvals db) of
                          Some (key, old) \<Rightarrow>
                            if ap_user old \<noteq> tn_user turn \<or> ap_tool old \<noteq> tool \<or> ap_risk old \<noteq> riskClass
                            then (Inl (DbError ''CHAT_AGENT_APPROVAL_REPLAY_CONFLICT''), db)
                            else (Inr (key, old), db)
                        | None \<Rightarrow>
                            if map_of (ad_approvals db) approvalID \<noteq> None
                            then (Inl (DbConstraint ''chat_agent_approvals_pkey''), db)
                            else (Inr (approvalID, row),
                                  db\<lparr>ad_approvals := AList.update approvalID row (ad_approvals db)\<rparr>))))"

definition approval_decisions :: "string list" where
  "approval_decisions = [''allow_once'', ''allow_conversation'', ''deny'', ''expired'', ''restart_denied'']"

text \<open>The new status and decision of a pending approval.\<close>

definition decided_as :: "string \<Rightarrow> int \<Rightarrow> approval_row \<Rightarrow> (string \<times> string) option" where
  "decided_as decision occurredAt row =
     (if occurredAt \<ge> ap_expires row \<or> decision = ''expired'' then Some (''expired'', ''expired'')
      else if decision = ''restart_denied'' then Some (''denied'', ''restart_denied'')
      else if decision = ''deny'' then Some (''denied'', ''deny'')
      else if decision = ''allow_conversation'' \<and> \<not> ap_allowConversation row then None
      else Some (''allowed'', decision))"

definition chat_agent_decide_approval ::
  "string \<Rightarrow> string \<Rightarrow> int \<Rightarrow> string \<Rightarrow> int \<Rightarrow> approval_db
   \<Rightarrow> (db_error + string \<times> approval_row) \<times> approval_db" where
  "chat_agent_decide_approval approvalID userID expectedRevision decision occurredAt db =
     (if expectedRevision < 1 \<or> decision \<notin> set approval_decisions
      then (Inl (DbError ''CHAT_AGENT_APPROVAL_INPUT_INVALID''), db)
      else
        (case map_of (ad_approvals db) approvalID of
           None \<Rightarrow> (Inl (DbError ''CHAT_AGENT_APPROVAL_NOT_FOUND''), db)
         | Some row \<Rightarrow>
             if ap_user row \<noteq> userID \<or>
                (case map_of (db_conversations (ad_log db)) (ap_conversation row) of None \<Rightarrow> True
                 | Some c \<Rightarrow> cv_user c \<noteq> ap_user row \<or> cv_deleted c)
             then (Inl (DbError ''CHAT_AGENT_APPROVAL_NOT_FOUND''), db)
             else if ap_status row \<noteq> ''pending'' then (Inr (approvalID, row), db)
             else if ap_revision row \<noteq> expectedRevision
             then (Inl (DbError ''CHAT_AGENT_APPROVAL_STALE_REVISION''), db)
             else
               (case decided_as decision occurredAt row of
                  None \<Rightarrow> (Inl (DbError ''CHAT_AGENT_APPROVAL_SCOPE_FORBIDDEN''), db)
                | Some (status, verdict) \<Rightarrow>
                    let row1 = row\<lparr>ap_status := status, ap_decision := Some verdict,
                                   ap_revision := ap_revision row + 1, ap_decided := Some occurredAt\<rparr>;
                        key = (ap_conversation row, ap_user row, ap_tool row, ap_risk row);
                        taken = list_ex (\<lambda>(c, _, t, r). c = ap_conversation row \<and> t = ap_tool row \<and> r = ap_risk row)
                          (ad_grants db)
                    in (Inr (approvalID, row1),
                        db\<lparr>ad_approvals := AList.update approvalID row1 (ad_approvals db),
                           ad_grants := (if verdict = ''allow_conversation'' \<and> \<not> taken
                                         then ad_grants db @ [key] else ad_grants db)\<rparr>))))"

definition restart_deny :: "int \<Rightarrow> approval_row \<Rightarrow> approval_row" where
  "restart_deny decidedAt row =
     (if ap_status row = ''pending''
      then row\<lparr>ap_status := ''denied'', ap_decision := Some ''restart_denied'',
               ap_revision := ap_revision row + 1, ap_decided := Some decidedAt\<rparr>
      else row)"

definition chat_agent_recover_approvals :: "int \<Rightarrow> approval_db \<Rightarrow> int \<times> approval_db" where
  "chat_agent_recover_approvals decidedAt db =
     (int (length (filter (\<lambda>(_, r). ap_status r = ''pending'') (ad_approvals db))),
      db\<lparr>ad_approvals := map (\<lambda>(k, r). (k, restart_deny decidedAt r)) (ad_approvals db)\<rparr>)"

section \<open>Repository and services\<close>

record agent_approval =
  aa_ID :: string
  aa_TurnID :: string
  aa_UserID :: string
  aa_ConversationID :: string
  aa_MessageID :: string
  aa_RunID :: string
  aa_ExecutionID :: string
  aa_ToolName :: string
  aa_RiskClass :: string
  aa_Status :: string
  aa_Decision :: string
  aa_Revision :: int
  aa_AllowConversation :: bool
  aa_ExpiresAt :: int
  aa_CreatedAt :: int
  aa_DecidedAt :: "int option"

definition scanChatAgentApproval :: "string \<times> approval_row \<Rightarrow> agent_approval" where
  "scanChatAgentApproval r =
     (case r of (key, row) \<Rightarrow>
       \<lparr>aa_ID = key, aa_TurnID = ap_turn row, aa_UserID = ap_user row, aa_ConversationID = ap_conversation row,
        aa_MessageID = ap_message row, aa_RunID = ap_run row, aa_ExecutionID = ap_execution row,
        aa_ToolName = ap_tool row, aa_RiskClass = ap_risk row, aa_Status = ap_status row,
        aa_Decision = (case ap_decision row of None \<Rightarrow> [] | Some d \<Rightarrow> d), aa_Revision = ap_revision row,
        aa_AllowConversation = ap_allowConversation row, aa_ExpiresAt = ap_expires row,
        aa_CreatedAt = ap_created row, aa_DecidedAt = ap_decided row\<rparr>)"

datatype approval_error = ApprovalError string | ApprovalValidation string string | ApprovalOther string

definition normalizeChatAgentApprovalRepositoryError :: "db_error \<Rightarrow> approval_error" where
  "normalizeChatAgentApprovalRepositoryError e =
     (case e of
        DbError message \<Rightarrow>
          (let code = trim_space message
           in if has_prefix code ''CHAT_AGENT_APPROVAL_'' then ApprovalError code else ApprovalOther message)
      | DbConstraint name \<Rightarrow> ApprovalOther name)"

record create_approval_input =
  ca_ID :: string
  ca_TurnID :: string
  ca_ExecutionID :: string
  ca_ToolName :: string
  ca_RiskClass :: string
  ca_AllowConversation :: bool
  ca_ExpiresAt :: int
  ca_OccurredAt :: int

record decide_approval_input =
  da_ApprovalID :: string
  da_ExpectedRevision :: int
  da_Decision :: string
  da_OccurredAt :: int

definition approval_result ::
  "(db_error + string \<times> approval_row) \<times> approval_db \<Rightarrow> (approval_error + agent_approval) \<times> approval_db" where
  "approval_result r =
     (case r of
        (Inl e, db) \<Rightarrow> (Inl (normalizeChatAgentApprovalRepositoryError e), db)
      | (Inr row, db) \<Rightarrow> (Inr (scanChatAgentApproval row), db))"

definition CreateChatAgentApproval ::
  "string \<Rightarrow> create_approval_input \<Rightarrow> approval_db \<Rightarrow> (approval_error + agent_approval) \<times> approval_db" where
  "CreateChatAgentApproval user input db =
     (let approvalID = trim_space (ca_ID input); turnID = trim_space (ca_TurnID input);
          executionID = trim_space (ca_ExecutionID input); tool = normalizedToolName (ca_ToolName input);
          risk = trim_space (ca_RiskClass input)
      in if \<not> is_uuid approvalID \<or> \<not> is_uuid turnID \<or> executionID = [] \<or> length executionID > 256 \<or>
            tool = ''unknown'' \<or> risk \<notin> set approval_risks \<or>
            ca_OccurredAt input = zero_time \<or> ca_ExpiresAt input = zero_time \<or>
            \<not> ca_ExpiresAt input > ca_OccurredAt input \<or>
            ca_ExpiresAt input > ca_OccurredAt input + chatAgentApprovalTTL
         then (Inl (ApprovalValidation ''INVALID_CHAT_AGENT_APPROVAL'' ''chat Agent approval input is invalid''), db)
         else approval_result
                (chat_agent_create_approval approvalID turnID user executionID tool risk
                   (ca_AllowConversation input) (ca_ExpiresAt input) (ca_OccurredAt input) db))"

definition DecideChatAgentApproval ::
  "string \<Rightarrow> decide_approval_input \<Rightarrow> approval_db \<Rightarrow> (approval_error + agent_approval) \<times> approval_db" where
  "DecideChatAgentApproval user input db =
     (let approvalID = trim_space (da_ApprovalID input); decision = trim_space (da_Decision input);
          invalid = ApprovalValidation ''INVALID_CHAT_AGENT_APPROVAL_DECISION''
            ''chat Agent approval decision is invalid''
      in if \<not> is_uuid approvalID \<or> da_ExpectedRevision input < 1 \<or> da_OccurredAt input = zero_time
         then (Inl invalid, db)
         else if decision \<notin> set approval_decisions then (Inl invalid, db)
         else approval_result
                (chat_agent_decide_approval approvalID user (da_ExpectedRevision input) decision
                   (da_OccurredAt input) db))"

definition RecoverPendingChatAgentApprovals :: "int \<Rightarrow> approval_db \<Rightarrow> (approval_error + int) \<times> approval_db" where
  "RecoverPendingChatAgentApprovals decidedAt db =
     (if decidedAt = zero_time
      then (Inl (ApprovalValidation ''INVALID_CHAT_AGENT_APPROVAL_RECOVERY''
               ''chat Agent approval recovery time is required''), db)
      else (case chat_agent_recover_approvals decidedAt db of (n, db') \<Rightarrow> (Inr n, db')))"

definition chatAgentApprovalAllowsExecution :: "agent_approval \<Rightarrow> bool" where
  "chatAgentApprovalAllowsExecution a =
     (aa_Status a = ''allowed'' \<and> (aa_Decision a = ''allow_once'' \<or> aa_Decision a = ''allow_conversation''))"

section \<open>Waiters\<close>

text \<open>
  The waiters of the process.  A channel has room for one approval; it is named by its
  position in \<open>sy_channels\<close>.  \<open>sy_flight\<close> holds the decisions that were made but not yet
  handed to \<open>resolve\<close>: the two are separate actions, and anything can happen between them.
\<close>

record approval_system =
  sy_db :: approval_db
  sy_waiters :: "(string, nat) gomap"
  sy_channels :: "agent_approval option list"
  sy_flight :: "agent_approval list"

definition register_waiter :: "string \<Rightarrow> approval_system \<Rightarrow> nat \<times> approval_system" where
  "register_waiter approvalID sy =
     (length (sy_channels sy),
      sy\<lparr>sy_waiters := AList.update approvalID (length (sy_channels sy)) (sy_waiters sy),
         sy_channels := sy_channels sy @ [None]\<rparr>)"

definition unregister_waiter :: "string \<Rightarrow> approval_system \<Rightarrow> approval_system" where
  "unregister_waiter approvalID sy = sy\<lparr>sy_waiters := AList.delete approvalID (sy_waiters sy)\<rparr>"

definition resolve_waiter :: "agent_approval \<Rightarrow> approval_system \<Rightarrow> approval_system" where
  "resolve_waiter approval sy =
     (case map_of (sy_waiters sy) (aa_ID approval) of
        None \<Rightarrow> sy
      | Some ch \<Rightarrow>
          sy\<lparr>sy_waiters := AList.delete (aa_ID approval) (sy_waiters sy),
             sy_channels := (sy_channels sy)[ch := Some approval]\<rparr>)"

text \<open>\<open>request\<close>: the approval and, when it is pending, the channel to wait on.\<close>

definition request_approval ::
  "string \<Rightarrow> string option \<Rightarrow> string \<Rightarrow> string \<Rightarrow> string \<Rightarrow> string \<Rightarrow> bool \<Rightarrow> int \<Rightarrow> approval_system
   \<Rightarrow> (approval_error + agent_approval \<times> nat option) \<times> approval_system" where
  "request_approval user newID turnID executionID toolName classification allowConversation now sy =
     (case newID of
        None \<Rightarrow> (Inl (ApprovalOther ''generate uuid''), sy)
      | Some approvalID \<Rightarrow>
          (case CreateChatAgentApproval user
                  \<lparr>ca_ID = approvalID, ca_TurnID = turnID, ca_ExecutionID = executionID, ca_ToolName = toolName,
                   ca_RiskClass = classification, ca_AllowConversation = allowConversation,
                   ca_ExpiresAt = now + chatAgentApprovalTTL, ca_OccurredAt = now\<rparr> (sy_db sy) of
             (Inl e, db) \<Rightarrow> (Inl e, sy\<lparr>sy_db := db\<rparr>)
           | (Inr approval, db) \<Rightarrow>
               if aa_Status approval \<noteq> ''pending'' then (Inr (approval, None), sy\<lparr>sy_db := db\<rparr>)
               else (case register_waiter (aa_ID approval) (sy\<lparr>sy_db := db\<rparr>) of
                       (ch, sy') \<Rightarrow> (Inr (approval, Some ch), sy'))))"

definition finishPending ::
  "string \<Rightarrow> agent_approval \<Rightarrow> string \<Rightarrow> int \<Rightarrow> approval_system
   \<Rightarrow> (approval_error + agent_approval) \<times> approval_system" where
  "finishPending user approval decision now sy =
     (case DecideChatAgentApproval user
             \<lparr>da_ApprovalID = aa_ID approval, da_ExpectedRevision = aa_Revision approval,
              da_Decision = decision, da_OccurredAt = now\<rparr> (sy_db sy) of
        (Inl e, db) \<Rightarrow> (Inl e, sy\<lparr>sy_db := db\<rparr>)
      | (Inr resolved, db) \<Rightarrow> (Inr resolved, resolve_waiter resolved (sy\<lparr>sy_db := db\<rparr>)))"

text \<open>
  \<open>wait\<close>, for what its \<open>select\<close> fires on.  The value is None for a receive from an empty
  channel (which blocks), and an inner None for the error of the cancelled context.
\<close>

datatype wait_event = DecisionArrived | TimerFired int | ContextDone int

definition wait_approval ::
  "string \<Rightarrow> agent_approval \<Rightarrow> nat option \<Rightarrow> wait_event \<Rightarrow> approval_system
   \<Rightarrow> ((approval_error + agent_approval) option \<times> approval_system) option" where
  "wait_approval user approval decisions event sy =
     (case decisions of
        None \<Rightarrow> Some (Some (Inr approval), sy)
      | Some ch \<Rightarrow>
          if aa_Status approval \<noteq> ''pending'' then Some (Some (Inr approval), sy)
          else
            (case event of
               DecisionArrived \<Rightarrow>
                 (if ch < length (sy_channels sy)
                  then map_option (\<lambda>d. (Some (Inr d), unregister_waiter (aa_ID approval)
                         (sy\<lparr>sy_channels := (sy_channels sy)[ch := None]\<rparr>))) (sy_channels sy ! ch)
                  else None)
             | TimerFired now \<Rightarrow>
                 (case finishPending user approval ''expired'' now sy of
                    (r, sy') \<Rightarrow> Some (Some r, unregister_waiter (aa_ID approval) sy'))
             | ContextDone now \<Rightarrow>
                 (case finishPending user approval ''deny'' now sy of
                    (_, sy') \<Rightarrow> Some (None, unregister_waiter (aa_ID approval) sy'))))"

text \<open>A schedule of the process: the actions of its requests, deciders and waiters in any order.\<close>

datatype approval_step =
    RequestStep string "string option" string string string string bool int
  | DecideStep string decide_approval_input
  | ResolveStep
  | WaitStep string agent_approval "nat option" wait_event
  | RecoverStep int

definition approval_act :: "approval_step \<Rightarrow> approval_system \<Rightarrow> approval_system" where
  "approval_act st sy =
     (case st of
        RequestStep user new turnID executionID tool risk allow now \<Rightarrow>
          snd (request_approval user new turnID executionID tool risk allow now sy)
      | DecideStep user input \<Rightarrow>
          (case DecideChatAgentApproval user input (sy_db sy) of
             (Inl _, db) \<Rightarrow> sy\<lparr>sy_db := db\<rparr>
           | (Inr approval, db) \<Rightarrow> sy\<lparr>sy_db := db, sy_flight := sy_flight sy @ [approval]\<rparr>)
      | ResolveStep \<Rightarrow>
          (case sy_flight sy of [] \<Rightarrow> sy | a # rest \<Rightarrow> resolve_waiter a (sy\<lparr>sy_flight := rest\<rparr>))
      | WaitStep user approval decisions event \<Rightarrow>
          (case wait_approval user approval decisions event sy of None \<Rightarrow> sy | Some (_, sy') \<Rightarrow> sy')
      | RecoverStep now \<Rightarrow> sy\<lparr>sy_db := snd (RecoverPendingChatAgentApprovals now (sy_db sy))\<rparr>)"

fun approval_acts :: "approval_step list \<Rightarrow> approval_system \<Rightarrow> approval_system" where
  "approval_acts [] sy = sy"
| "approval_acts (st # sts) sy = approval_acts sts (approval_act st sy)"

section \<open>What the tables keep\<close>

text \<open>
  A pending approval has revision 1; a decision makes it 2.  Revision 1 and allowed means that
  a grant of the conversation decided it at once.
\<close>

definition approval_row_ok :: "approval_row \<Rightarrow> bool" where
  "approval_row_ok r \<longleftrightarrow>
     ap_created r < ap_expires r \<and> ap_expires r \<le> ap_created r + chatAgentApprovalTTL \<and>
     ap_risk r \<in> set approval_risks \<and>
     (if ap_status r = ''pending'' then ap_revision r = 1 \<and> ap_decision r = None \<and> ap_decided r = None
      else if ap_status r = ''allowed''
      then (\<exists>t. ap_decided r = Some t \<and> t < ap_expires r) \<and>
           (ap_decision r = Some ''allow_once'' \<and> ap_revision r = 2 \<or>
            ap_decision r = Some ''allow_conversation'' \<and> ap_allowConversation r \<and> ap_revision r \<in> {1, 2})
      else if ap_status r = ''denied''
      then ap_revision r = 2 \<and> ap_decision r \<in> {Some ''deny'', Some ''restart_denied''} \<and> ap_decided r \<noteq> None
      else ap_status r = ''expired'' \<and> ap_revision r = 2 \<and> ap_decision r = Some ''expired'' \<and> ap_decided r \<noteq> None)"

definition grant_key :: "approval_row \<Rightarrow> tool_grant" where
  "grant_key r = (ap_conversation r, ap_user r, ap_tool r, ap_risk r)"

text \<open>A decision of a user to allow a tool for the whole conversation.\<close>

definition conversation_decision :: "approval_row \<Rightarrow> bool" where
  "conversation_decision r \<longleftrightarrow>
     ap_status r = ''allowed'' \<and> ap_decision r = Some ''allow_conversation'' \<and> ap_revision r = 2"

definition approvals_ok :: "approval_db \<Rightarrow> bool" where
  "approvals_ok db \<longleftrightarrow>
     keys_distinct (ad_approvals db) \<and>
     (\<forall>x \<in> set (ad_approvals db). approval_row_ok (snd x)) \<and>
     (\<forall>g \<in> set (ad_grants db). \<exists>x \<in> set (ad_approvals db). conversation_decision (snd x) \<and> grant_key (snd x) = g) \<and>
     (\<forall>x \<in> set (ad_approvals db). ap_status (snd x) = ''allowed'' \<and> ap_revision (snd x) = 1 \<longrightarrow>
        grant_key (snd x) \<in> set (ad_grants db))"

text \<open>What an action can do to the tables.\<close>

inductive approval_change :: "approval_db \<Rightarrow> approval_db \<Rightarrow> bool" where
  same: "approval_change db db"
| created: "map_of (ad_approvals db) k = None \<Longrightarrow> approval_row_ok row \<Longrightarrow>
    (ap_status row = ''allowed'' \<Longrightarrow> grant_key row \<in> set (ad_grants db)) \<Longrightarrow>
    approval_change db (db\<lparr>ad_approvals := AList.update k row (ad_approvals db)\<rparr>)"
| decided: "map_of (ad_approvals db) k = Some row \<Longrightarrow> ap_status row = ''pending'' \<Longrightarrow> ap_status row' \<noteq> ''pending'' \<Longrightarrow>
    approval_row_ok row' \<Longrightarrow> ap_revision row' = 2 \<Longrightarrow>
    set grants \<subseteq> set (ad_grants db) \<union> (if conversation_decision row' then {grant_key row'} else {}) \<Longrightarrow>
    set (ad_grants db) \<subseteq> set grants \<Longrightarrow>
    approval_change db (db\<lparr>ad_approvals := AList.update k row' (ad_approvals db), ad_grants := grants\<rparr>)"
| recovered: "approval_change db (db\<lparr>ad_approvals := map (\<lambda>(k, r). (k, restart_deny at r)) (ad_approvals db)\<rparr>)"

lemma restart_deny_ok: "approval_row_ok r \<Longrightarrow> approval_row_ok (restart_deny at r)"
  by (auto simp: approval_row_ok_def restart_deny_def)

lemma restart_deny_conversation: "conversation_decision (restart_deny at r) = conversation_decision r"
  by (auto simp: conversation_decision_def restart_deny_def)

lemma restart_deny_key [simp]: "grant_key (restart_deny at r) = grant_key r"
  by (simp add: grant_key_def restart_deny_def)

lemma restart_deny_allowed:
  "ap_status (restart_deny at r) = ''allowed'' \<Longrightarrow> restart_deny at r = r"
  by (auto simp: restart_deny_def split: if_splits)

lemma approval_change_ok:
  assumes "approvals_ok db" "approval_change db db'"
  shows "approvals_ok db'"
  using assms(2)
proof cases
  case same
  then show ?thesis using assms(1) by simp
next
  case (created k row)
  have S: "set (ad_approvals db') = insert (k, row) (set (ad_approvals db))"
    using created(1,2) by (simp add: set_update_fresh)
  have "ad_grants db' = ad_grants db" "keys_distinct (ad_approvals db')"
    using created(1) assms(1) by (simp_all add: approvals_ok_def)
  then show ?thesis
    using assms(1) created(3,4) unfolding approvals_ok_def S by simp
next
  case (decided k row row' grants)
  have kd: "keys_distinct (ad_approvals db)" using assms(1) by (simp add: approvals_ok_def)
  have S: "set (ad_approvals db') = insert (k, row') {x \<in> set (ad_approvals db). fst x \<noteq> k}"
    using decided(1) kd by (auto simp: gomap_set_update)
  have G: "ad_grants db' = grants" using decided(1) by simp
  have old: "row = snd x" if "x \<in> set (ad_approvals db)" "fst x = k" for x
    using that decided(2) kd map_of_set_eq [of "ad_approvals db" k "snd x"] by (cases x) auto
  have keep: "\<exists>y \<in> set (ad_approvals db'). conversation_decision (snd y) \<and> grant_key (snd y) = g"
    if g: "g \<in> set (ad_grants db)" for g
  proof -
    obtain x where x: "x \<in> set (ad_approvals db)" "conversation_decision (snd x)" "grant_key (snd x) = g"
      using g assms(1) unfolding approvals_ok_def by blast
    have "fst x \<noteq> k" using old [OF x(1)] x(2) decided(3) by (auto simp: conversation_decision_def)
    then show ?thesis using x unfolding S by blast
  qed
  have new: "\<exists>y \<in> set (ad_approvals db'). conversation_decision (snd y) \<and> grant_key (snd y) = g"
    if "g \<in> set grants" for g
  proof (cases "g \<in> set (ad_grants db)")
    case True
    then show ?thesis by (rule keep)
  next
    case False
    then have "conversation_decision row'" "g = grant_key row'"
      using that decided(7) by (auto split: if_split_asm)
    then show ?thesis unfolding S by auto
  qed
  have "keys_distinct (ad_approvals db')" using decided(1) kd by simp
  moreover have "\<forall>x \<in> set (ad_approvals db'). approval_row_ok (snd x)"
    using assms(1) decided(5) unfolding approvals_ok_def S by simp
  moreover have "\<forall>x \<in> set (ad_approvals db'). ap_status (snd x) = ''allowed'' \<and> ap_revision (snd x) = 1 \<longrightarrow>
      grant_key (snd x) \<in> set grants"
  proof (intro ballI impI)
    fix x assume x: "x \<in> set (ad_approvals db')" "ap_status (snd x) = ''allowed'' \<and> ap_revision (snd x) = 1"
    then have "x \<in> set (ad_approvals db)" using decided(6) unfolding S by auto
    then show "grant_key (snd x) \<in> set grants" using x(2) assms(1) decided(8) unfolding approvals_ok_def by blast
  qed
  ultimately show ?thesis using new unfolding approvals_ok_def G by blast
next
  case (recovered at)
  have S: "set (ad_approvals db') = (\<lambda>(k, r). (k, restart_deny at r)) ` set (ad_approvals db)"
    using recovered by simp
  have G: "ad_grants db' = ad_grants db" using recovered by simp
  have "keys_distinct (ad_approvals db')"
    using assms(1) recovered by (simp add: approvals_ok_def keys_distinct_map_values)
  moreover have "\<forall>x \<in> set (ad_approvals db'). approval_row_ok (snd x)"
    using assms(1) restart_deny_ok unfolding approvals_ok_def S by force
  moreover have "\<exists>x \<in> set (ad_approvals db'). conversation_decision (snd x) \<and> grant_key (snd x) = g"
    if g: "g \<in> set (ad_grants db)" for g
  proof -
    obtain x where x: "x \<in> set (ad_approvals db)" "conversation_decision (snd x)" "grant_key (snd x) = g"
      using g assms(1) unfolding approvals_ok_def by blast
    then show ?thesis
      unfolding S by (intro bexI [of _ "(fst x, restart_deny at (snd x))"])
        (auto simp: restart_deny_conversation intro: rev_image_eqI split: prod.splits)
  qed
  moreover have "grant_key (snd x) \<in> set (ad_grants db)"
    if x: "x \<in> set (ad_approvals db')" and a: "ap_status (snd x) = ''allowed''" and r: "ap_revision (snd x) = 1" for x
  proof -
    obtain y where y: "y \<in> set (ad_approvals db)" "snd x = restart_deny at (snd y)"
      using x unfolding S by (auto split: prod.splits)
    then have "snd x = snd y" using restart_deny_allowed a by simp
    then show ?thesis using y(1) a r assms(1) unfolding approvals_ok_def by auto
  qed
  ultimately show ?thesis unfolding approvals_ok_def G by blast
qed

lemma approval_change_frozen:
  assumes "approval_change db db'" "map_of (ad_approvals db) k = Some row" "ap_status row \<noteq> ''pending''"
  shows "map_of (ad_approvals db') k = Some row"
  using assms(1)
proof cases
  case same
  with assms(2) show ?thesis by simp
next
  case (created k' row')
  with assms(2) show ?thesis by (auto simp: update_conv')
next
  case (decided k' row0 row' grants)
  then have "k' \<noteq> k" using assms(2,3) by auto
  then show ?thesis using decided(1) assms(2) by (simp add: update_conv')
next
  case (recovered at)
  then show ?thesis using assms(2,3) by (simp add: map_of_map_values restart_deny_def)
qed

lemma create_approval_change:
  assumes ok: "approvals_ok db" and "chat_agent_create_approval k t u e tool risk allow ex at db = (r, db')"
  shows "approval_change db db' \<and>
    (case r of Inl _ \<Rightarrow> db' = db | Inr x \<Rightarrow> map_of (ad_approvals db') (fst x) = Some (snd x))"
proof -
  let ?e = "btrim e" and ?tool = "btrim tool"
  consider (no) "db' = db" "\<exists>err. r = Inl err"
    | (old) x where "db' = db" "r = Inr x" "x \<in> set (ad_approvals db)"
        "find (\<lambda>(_, r). ap_turn r = t \<and> ap_execution r = ?e) (ad_approvals db) = Some x"
    | (new) turn row where "map_of (ad_approvals db) k = None" "r = Inr (k, row)"
        "db' = db\<lparr>ad_approvals := AList.update k row (ad_approvals db)\<rparr>"
        "ex > at" "ex \<le> at + chatAgentApprovalTTL" "risk \<in> set approval_risks"
        "\<not> (granted db turn ?tool risk \<and> \<not> allow)"
        "row = \<lparr>ap_turn = t, ap_user = tn_user turn, ap_conversation = tn_conversation turn,
           ap_message = tn_message turn, ap_run = tn_run turn, ap_execution = ?e, ap_tool = ?tool, ap_risk = risk,
           ap_status = (if granted db turn ?tool risk then ''allowed'' else ''pending''),
           ap_decision = (if granted db turn ?tool risk then Some ''allow_conversation'' else None),
           ap_revision = 1, ap_allowConversation = allow, ap_expires = ex, ap_created = at,
           ap_decided = (if granted db turn ?tool risk then Some at else None)\<rparr>"
  proof (cases "map_of (db_turns (ad_log db)) t")
    case None
    then show ?thesis
      using assms(2) that(1) by (auto simp: chat_agent_create_approval_def Let_def split: if_split_asm)
  next
    case (Some turn)
    note run = assms(2) [unfolded chat_agent_create_approval_def Let_def, simplified Some option.case]
    show ?thesis
    proof (cases "find (\<lambda>(_, r). ap_turn r = t \<and> ap_execution r = ?e) (ad_approvals db)")
      case (Some x)
      show ?thesis
        using run find_SomeD [OF Some] that(1) that(2) [OF _ _ _ Some] Some
        by (cases x) (auto split: if_split_asm)
    next
      case none: None
      show ?thesis
      proof (cases "\<exists>err. r = Inl err")
        case True
        then show ?thesis using run none that(1) by (auto split: if_split_asm)
      next
        case False
        show ?thesis
          by (rule that(3) [of "snd (projr r)" turn]) (use run none False in \<open>auto split: if_split_asm\<close>)
      qed
    qed
  qed
  then show ?thesis
  proof cases
    case no
    then show ?thesis by (auto intro: approval_change.same)
  next
    case old
    then have "map_of (ad_approvals db) (fst x) = Some (snd x)"
      using ok by (cases x) (simp add: approvals_ok_def map_of_set_eq)
    then show ?thesis using old(1,2) by (simp add: approval_change.same)
  next
    case new
    have "approval_row_ok row"
      using new(4-8) by (auto simp: approval_row_ok_def)
    moreover have "ap_status row = ''allowed'' \<Longrightarrow> grant_key row \<in> set (ad_grants db)"
      using new(8) by (auto simp: granted_def grant_key_def split: if_split_asm)
    ultimately show ?thesis
      using new(1-3) by (simp add: approval_change.created update_conv')
  qed
qed

lemma decided_as_Some:
  "decided_as d at row = Some (status, verdict) \<Longrightarrow>
   status \<noteq> ''pending'' \<and>
   (status = ''allowed'' \<and> verdict = d \<and> at < ap_expires row \<and> d \<notin> {''expired'', ''restart_denied'', ''deny''} \<and>
      (d = ''allow_conversation'' \<longrightarrow> ap_allowConversation row) \<or>
    status = ''denied'' \<and> verdict \<in> {''deny'', ''restart_denied''} \<or> status = ''expired'' \<and> verdict = ''expired'')"
  by (auto simp: decided_as_def split: if_splits)

lemma decide_approval_change:
  assumes ok: "approvals_ok db" and "chat_agent_decide_approval k u n d at db = (r, db')"
  shows "approval_change db db' \<and>
    (case r of Inl _ \<Rightarrow> db' = db
     | Inr x \<Rightarrow> map_of (ad_approvals db') (fst x) = Some (snd x) \<and> ap_status (snd x) \<noteq> ''pending'')"
proof -
  consider (no) "db' = db" "\<exists>err. r = Inl err"
    | (old) row where "db' = db" "r = Inr (k, row)" "map_of (ad_approvals db) k = Some row" "ap_status row \<noteq> ''pending''"
    | (new) row status verdict grants where "map_of (ad_approvals db) k = Some row" "ap_status row = ''pending''"
        "d \<in> set approval_decisions" "decided_as d at row = Some (status, verdict)"
        "r = Inr (k, row\<lparr>ap_status := status, ap_decision := Some verdict, ap_revision := ap_revision row + 1,
           ap_decided := Some at\<rparr>)"
        "db' = db\<lparr>ad_approvals := AList.update k (row\<lparr>ap_status := status, ap_decision := Some verdict,
           ap_revision := ap_revision row + 1, ap_decided := Some at\<rparr>) (ad_approvals db), ad_grants := grants\<rparr>"
        "grants = ad_grants db \<or> verdict = ''allow_conversation'' \<and> grants = ad_grants db @ [grant_key row]"
  proof (cases "map_of (ad_approvals db) k")
    case None
    then show ?thesis using assms(2) that(1) by (auto simp: chat_agent_decide_approval_def split: if_split_asm)
  next
    case (Some row)
    show ?thesis
    proof (cases "decided_as d at row")
      case None
      then show ?thesis
        using Some assms(2) that(1,2) by (auto simp: chat_agent_decide_approval_def split: if_split_asm)
    next
      case (Some sv)
      obtain status verdict where sv: "sv = (status, verdict)" by fastforce
      show ?thesis
        using \<open>map_of (ad_approvals db) k = Some row\<close> Some sv assms(2) that(1,2)
          that(3) [of row status verdict "ad_grants db'"]
        by (auto simp: chat_agent_decide_approval_def Let_def grant_key_def split: if_split_asm)
    qed
  qed
  then show ?thesis
  proof cases
    case no
    then show ?thesis by (auto intro: approval_change.same)
  next
    case old
    then show ?thesis by (simp add: approval_change.same)
  next
    case new
    let ?row' = "row\<lparr>ap_status := status, ap_decision := Some verdict, ap_revision := ap_revision row + 1,
      ap_decided := Some at\<rparr>"
    have row: "approval_row_ok row" using ok map_of_SomeD [OF new(1)] by (force simp: approvals_ok_def)
    note verdict = decided_as_Some [OF new(4)]
    have "approval_row_ok ?row'" "ap_revision ?row' = 2"
      using row new(2,3) verdict by (auto simp: approval_row_ok_def approval_decisions_def)
    moreover have "set grants \<subseteq> set (ad_grants db) \<union> (if conversation_decision ?row' then {grant_key ?row'} else {})"
    proof (cases "grants = ad_grants db")
      case False
      then have "verdict = ''allow_conversation''" "grants = ad_grants db @ [grant_key row]" using new(7) by auto
      moreover have "status = ''allowed''" using verdict calculation(1) by auto
      ultimately show ?thesis using \<open>ap_revision ?row' = 2\<close> by (auto simp: conversation_decision_def grant_key_def)
    qed auto
    moreover have "set (ad_grants db) \<subseteq> set grants" using new(7) by auto
    ultimately have "approval_change db db'"
      unfolding new(6) using new(1,2) verdict by (intro approval_change.decided [of db k row]) auto
    then show ?thesis using new(5,6) verdict by (simp add: update_conv')
  qed
qed

section \<open>What the process keeps\<close>

text \<open>A decision in the hands of the process is the row as it stands in the table, for good.\<close>

definition settled :: "approval_db \<Rightarrow> agent_approval \<Rightarrow> bool" where
  "settled db a \<longleftrightarrow>
     aa_Status a \<noteq> ''pending'' \<and>
     (\<exists>row. map_of (ad_approvals db) (aa_ID a) = Some row \<and> a = scanChatAgentApproval (aa_ID a, row))"

definition system_ok :: "approval_system \<Rightarrow> bool" where
  "system_ok sy \<longleftrightarrow>
     approvals_ok (sy_db sy) \<and> (\<forall>a \<in> set (sy_flight sy). settled (sy_db sy) a) \<and>
     (\<forall>c \<in> set (sy_channels sy). \<forall>a. c = Some a \<longrightarrow> settled (sy_db sy) a)"

lemma scan_approval [simp]:
  "aa_ID (scanChatAgentApproval (k, r)) = k" "aa_Status (scanChatAgentApproval (k, r)) = ap_status r"
  by (simp_all add: scanChatAgentApproval_def)

lemma settled_change: "settled db a \<Longrightarrow> approval_change db db' \<Longrightarrow> settled db' a"
  unfolding settled_def using approval_change_frozen scan_approval(2) by metis

lemma decide_service:
  assumes "approvals_ok db" "DecideChatAgentApproval user i db = (r, db')"
  shows "approval_change db db' \<and> (case r of Inl _ \<Rightarrow> db' = db | Inr a \<Rightarrow> settled db' a)"
proof -
  consider "db' = db" "\<exists>e. r = Inl e"
    | g where "chat_agent_decide_approval (trim_space (da_ApprovalID i)) user (da_ExpectedRevision i)
        (trim_space (da_Decision i)) (da_OccurredAt i) db = (g, db')"
        "r = (case g of Inl e \<Rightarrow> Inl (normalizeChatAgentApprovalRepositoryError e) | Inr x \<Rightarrow> Inr (scanChatAgentApproval x))"
    using assms(2)
    by (auto simp: DecideChatAgentApproval_def Let_def approval_result_def split: if_split_asm prod.splits sum.splits)
  then show ?thesis
  proof cases
    case 1
    then show ?thesis by (auto intro: approval_change.same)
  next
    case (2 g)
    from decide_approval_change [OF assms(1) 2(1)] 2(2) show ?thesis
      by (cases g) (auto simp: settled_def)
  qed
qed

lemma create_service:
  assumes "approvals_ok db" "CreateChatAgentApproval user i db = (r, db')"
  shows "approval_change db db'"
proof -
  consider "db' = db"
    | g where "chat_agent_create_approval (trim_space (ca_ID i)) (trim_space (ca_TurnID i)) user
        (trim_space (ca_ExecutionID i)) (normalizedToolName (ca_ToolName i)) (trim_space (ca_RiskClass i))
        (ca_AllowConversation i) (ca_ExpiresAt i) (ca_OccurredAt i) db = (g, db')"
    using assms(2)
    by (auto simp: CreateChatAgentApproval_def Let_def approval_result_def split: if_split_asm prod.splits sum.splits)
  then show ?thesis
    by cases (auto intro: approval_change.same dest: create_approval_change [OF assms(1)])
qed

text \<open>A new state of the tables, with the decisions that were there and possibly a new one.\<close>

lemma system_ok_step:
  assumes "system_ok sy" "approval_change (sy_db sy) db"
    and "sy_db sy' = db"
    and "\<And>a. a \<in> set (sy_flight sy') \<Longrightarrow> a \<in> set (sy_flight sy) \<or> settled db a"
    and "\<And>a. Some a \<in> set (sy_channels sy') \<Longrightarrow>
      Some a \<in> set (sy_channels sy) \<or> a \<in> set (sy_flight sy) \<or> settled db a"
  shows "system_ok sy'"
proof -
  have "approvals_ok db" using assms(1) approval_change_ok [OF _ assms(2)] by (simp add: system_ok_def)
  moreover have "settled db a" if "a \<in> set (sy_flight sy) \<or> Some a \<in> set (sy_channels sy)" for a
    using assms(1,2) that settled_change unfolding system_ok_def by blast
  ultimately show ?thesis
    unfolding system_ok_def assms(3) using assms(4,5) by blast
qed

lemma resolve_waiter_facts:
  "sy_db (resolve_waiter a sy) = sy_db sy" "sy_flight (resolve_waiter a sy) = sy_flight sy"
  "Some b \<in> set (sy_channels (resolve_waiter a sy)) \<Longrightarrow> Some b \<in> set (sy_channels sy) \<or> b = a"
  by (auto simp: resolve_waiter_def split: option.splits dest: set_update_subset_insert [THEN subsetD])

lemma finish_ok:
  assumes "system_ok sy" "finishPending user a d now sy = (r, sy')"
  shows "system_ok sy' \<and> (case r of Inl _ \<Rightarrow> True | Inr x \<Rightarrow> settled (sy_db sy') x)"
proof -
  obtain g db where dec: "DecideChatAgentApproval user \<lparr>da_ApprovalID = aa_ID a, da_ExpectedRevision = aa_Revision a,
      da_Decision = d, da_OccurredAt = now\<rparr> (sy_db sy) = (g, db)" by fastforce
  have ok: "approvals_ok (sy_db sy)" using assms(1) by (simp add: system_ok_def)
  note law = decide_service [OF ok dec]
  show ?thesis
  proof (cases g)
    case (Inl e)
    then have "sy' = sy\<lparr>sy_db := db\<rparr>" "r = Inl e" using assms(2) dec by (simp_all add: finishPending_def)
    then show ?thesis using law by (auto intro: system_ok_step [OF assms(1), of db])
  next
    case (Inr x)
    then have s: "sy' = resolve_waiter x (sy\<lparr>sy_db := db\<rparr>)" "r = Inr x"
      using assms(2) dec by (simp_all add: finishPending_def)
    have "system_ok sy'"
      using law Inr by (intro system_ok_step [OF assms(1), of db])
        (auto simp: s resolve_waiter_facts dest: resolve_waiter_facts(3))
    then show ?thesis using law Inr s by (simp add: resolve_waiter_facts)
  qed
qed

lemma unregister_ok [simp]: "system_ok (unregister_waiter k sy) = system_ok sy"
  "sy_db (unregister_waiter k sy) = sy_db sy"
  by (simp_all add: unregister_waiter_def system_ok_def)

lemma wait_ok:
  assumes "system_ok sy" "wait_approval user a decisions ev sy = Some (r, sy')"
  shows "system_ok sy' \<and>
    (case r of Some (Inr d) \<Rightarrow> settled (sy_db sy') d \<or> d = a \<and> (decisions = None \<or> aa_Status a \<noteq> ''pending'') | _ \<Rightarrow> True)"
proof (cases "decisions = None \<or> aa_Status a \<noteq> ''pending''")
  case True
  then have "sy' = sy" "r = Some (Inr a)" using assms(2) by (auto simp: wait_approval_def split: option.splits if_split_asm)
  then show ?thesis using assms(1) True by simp
next
  case False
  then obtain ch where ch: "decisions = Some ch" "aa_Status a = ''pending''" by auto
  show ?thesis
  proof (cases ev)
    case DecisionArrived
    then obtain d where d: "ch < length (sy_channels sy)" "sy_channels sy ! ch = Some d" "r = Some (Inr d)"
      "sy' = unregister_waiter (aa_ID a) (sy\<lparr>sy_channels := (sy_channels sy)[ch := None]\<rparr>)"
      using assms(2) ch by (auto simp: wait_approval_def split: if_split_asm)
    have "settled (sy_db sy) d" using assms(1) d(1,2) nth_mem [OF d(1)] by (auto simp: system_ok_def)
    moreover have "system_ok (sy\<lparr>sy_channels := (sy_channels sy)[ch := None]\<rparr>)"
      by (rule system_ok_step [OF assms(1) approval_change.same]) (auto dest: set_update_subset_insert [THEN subsetD])
    ultimately show ?thesis using d by simp
  next
    case (TimerFired now)
    obtain g sy1 where f: "finishPending user a ''expired'' now sy = (g, sy1)" by fastforce
    then show ?thesis
      using assms(2) ch TimerFired finish_ok [OF assms(1) f] by (auto simp: wait_approval_def split: sum.splits)
  next
    case (ContextDone now)
    obtain g sy1 where f: "finishPending user a ''deny'' now sy = (g, sy1)" by fastforce
    then show ?thesis
      using assms(2) ch ContextDone finish_ok [OF assms(1) f] by (auto simp: wait_approval_def)
  qed
qed

lemma request_ok:
  assumes "system_ok sy"
  shows "system_ok (snd (request_approval user new t e tool risk allow now sy))"
proof (cases new)
  case None
  then show ?thesis using assms by (simp add: request_approval_def)
next
  case (Some k)
  let ?i = "\<lparr>ca_ID = k, ca_TurnID = t, ca_ExecutionID = e, ca_ToolName = tool, ca_RiskClass = risk,
    ca_AllowConversation = allow, ca_ExpiresAt = now + chatAgentApprovalTTL, ca_OccurredAt = now\<rparr>"
  obtain r db where c: "CreateChatAgentApproval user ?i (sy_db sy) = (r, db)" by fastforce
  have "approvals_ok (sy_db sy)" using assms by (simp add: system_ok_def)
  note ch = create_service [OF this c]
  show ?thesis
    using Some c
    by (intro system_ok_step [OF assms ch])
      (auto simp: request_approval_def register_waiter_def split: sum.splits if_split_asm)
qed

lemma recover_change: "approval_change db (snd (RecoverPendingChatAgentApprovals now db))"
  by (simp add: RecoverPendingChatAgentApprovals_def chat_agent_recover_approvals_def
      approval_change.same approval_change.recovered)

lemma act_ok:
  assumes "system_ok sy"
  shows "system_ok (approval_act st sy)"
proof (cases st)
  case (RequestStep u n t e tl r al now)
  then show ?thesis using request_ok [OF assms] by (simp add: approval_act_def)
next
  case (DecideStep u i)
  obtain r db where d: "DecideChatAgentApproval u i (sy_db sy) = (r, db)" by fastforce
  have "approvals_ok (sy_db sy)" using assms by (simp add: system_ok_def)
  note law = decide_service [OF this d]
  show ?thesis
    using DecideStep d law
    by (intro system_ok_step [OF assms, of db]) (auto simp: approval_act_def split: sum.splits)
next
  case ResolveStep
  show ?thesis
  proof (cases "sy_flight sy")
    case Nil
    then show ?thesis using assms ResolveStep by (simp add: approval_act_def)
  next
    case (Cons a rest)
    then show ?thesis
      using ResolveStep
      by (intro system_ok_step [OF assms approval_change.same])
        (auto simp: approval_act_def resolve_waiter_facts dest: resolve_waiter_facts(3))
  qed
next
  case (WaitStep u a ch ev)
  then show ?thesis
    using assms wait_ok [OF assms] by (auto simp: approval_act_def split: option.splits prod.splits)
next
  case (RecoverStep now)
  show ?thesis
    using RecoverStep by (intro system_ok_step [OF assms recover_change]) (simp_all add: approval_act_def)
qed

lemma acts_ok: "system_ok sy \<Longrightarrow> system_ok (approval_acts sts sy)"
  using act_ok by (induction sts arbitrary: sy) auto

lemma act_change:
  assumes "system_ok sy"
  shows "approval_change (sy_db sy) (sy_db (approval_act st sy))"
proof -
  have ok: "approvals_ok (sy_db sy)" using assms by (simp add: system_ok_def)
  note laws = create_service [OF ok] decide_service [OF ok, THEN conjunct1]
  have fin: "approval_change (sy_db sy) (sy_db (snd (finishPending u a d now sy)))" for u a d now
    using laws(2) by (auto simp: finishPending_def resolve_waiter_facts split: prod.splits sum.splits)
  have wait: "approval_change (sy_db sy) (sy_db sy')"
    if "wait_approval u a ch ev sy = Some (r, sy')" for u a ch ev r sy'
    using that fin [of u a]
    by (auto simp: wait_approval_def approval_change.same split: option.splits if_split_asm wait_event.splits prod.splits)
      (metis snd_conv)+
  show ?thesis
  proof (cases st)
    case (RequestStep u n t e tl r al now)
    then show ?thesis
      using laws(1) by (auto simp: approval_act_def request_approval_def register_waiter_def approval_change.same
          split: option.splits prod.splits sum.splits)
  next
    case (DecideStep u i)
    then show ?thesis using laws(2) by (auto simp: approval_act_def split: prod.splits sum.splits)
  next
    case ResolveStep
    then show ?thesis
      by (auto simp: approval_act_def approval_change.same resolve_waiter_facts split: list.splits)
  next
    case (WaitStep u a ch ev)
    then show ?thesis using wait by (auto simp: approval_act_def approval_change.same split: option.splits prod.splits)
  next
    case (RecoverStep now)
    then show ?thesis using recover_change by (simp add: approval_act_def)
  qed
qed

lemma acts_frozen:
  "system_ok sy \<Longrightarrow> map_of (ad_approvals (sy_db sy)) k = Some row \<Longrightarrow> ap_status row \<noteq> ''pending'' \<Longrightarrow>
   map_of (ad_approvals (sy_db (approval_acts sts sy))) k = Some row"
proof (induction sts arbitrary: sy)
  case (Cons st sts)
  have "map_of (ad_approvals (sy_db (approval_act st sy))) k = Some row"
    using approval_change_frozen [OF act_change [OF Cons.prems(1)] Cons.prems(2,3)] .
  then show ?case using Cons.IH [OF act_ok [OF Cons.prems(1)]] Cons.prems(3) by simp
qed simp

definition approval_start :: "log_db \<Rightarrow> approval_system" where
  "approval_start log =
     \<lparr>sy_db = \<lparr>ad_log = log, ad_approvals = [], ad_grants = []\<rparr>, sy_waiters = [], sy_channels = [], sy_flight = []\<rparr>"

lemma start_ok: "system_ok (approval_start log)"
  by (simp add: approval_start_def system_ok_def approvals_ok_def)

section \<open>An example\<close>

definition example_approval_log :: log_db where
  "example_approval_log = snd (StartChatAgentTurn ''u'' (example_uuid CHR ''1'') (example_uuid CHR ''2'')
     (example_uuid CHR ''3'') (example_uuid CHR ''4'') (example_uuid CHR ''5'') 7 example_log_db)"

definition example_request :: approval_step where
  "example_request = RequestStep ''u'' (Some (example_uuid CHR ''6'')) (example_uuid CHR ''1'') ''call''
     ''terminal'' ''execute'' True 9"

definition example_decision :: approval_step where
  "example_decision = DecideStep ''u'' \<lparr>da_ApprovalID = example_uuid CHR ''6'', da_ExpectedRevision = 1,
     da_Decision = ''allow_once'', da_OccurredAt = 10\<rparr>"

definition example_pending_row :: approval_row where
  "example_pending_row = \<lparr>ap_turn = example_uuid CHR ''1'', ap_user = ''u'', ap_conversation = example_uuid CHR ''3'',
     ap_message = example_uuid CHR ''4'', ap_run = example_uuid CHR ''5'', ap_execution = ''call'',
     ap_tool = ''terminal'', ap_risk = ''execute'', ap_status = ''pending'', ap_decision = None, ap_revision = 1,
     ap_allowConversation = True, ap_expires = 300000000009, ap_created = 9, ap_decided = None\<rparr>"

definition example_allowed_row :: approval_row where
  "example_allowed_row = example_pending_row\<lparr>ap_status := ''allowed'', ap_decision := Some ''allow_once'',
     ap_revision := 2, ap_decided := Some 10\<rparr>"

lemma example_names:
  "trim_space ''call'' = ''call''" "trim_space ''execute'' = ''execute''" "trim_space ''allow_once'' = ''allow_once''"
  "normalizedToolName ''terminal'' = ''terminal''"
  by (simp_all add: trim_space_printable printable_def normalizedToolName_def) code_simp

lemma example_btrim: "btrim ''call'' = ''call''" "btrim ''terminal'' = ''terminal''"
  by (simp_all add: btrim_def)

lemma example_approval_tables:
  "db_turns example_approval_log = [(example_uuid CHR ''1'', \<lparr>tn_user = ''u'',
     tn_conversation = example_uuid CHR ''3'', tn_message = example_uuid CHR ''4'', tn_run = example_uuid CHR ''5'',
     tn_status = ''running'', tn_next = 2, tn_started = 7, tn_ended = None, tn_updated = 7\<rparr>)]"
  "db_conversations example_approval_log = [(example_uuid CHR ''3'', \<lparr>cv_user = ''u'', cv_deleted = False\<rparr>)]"
  unfolding example_approval_log_def example_start by (simp_all add: example_log_db_def)

lemma example_requested:
  "approval_act example_request (approval_start example_approval_log) =
     \<lparr>sy_db = \<lparr>ad_log = example_approval_log, ad_approvals = [(example_uuid CHR ''6'', example_pending_row)],
        ad_grants = []\<rparr>,
      sy_waiters = [(example_uuid CHR ''6'', 0)], sy_channels = [None], sy_flight = []\<rparr>"
  by (simp add: approval_act_def example_request_def request_approval_def approval_start_def Let_def
      CreateChatAgentApproval_def example_uuid_facts example_names example_btrim approval_risks_def zero_time_def
      chatAgentApprovalTTL_def chat_agent_create_approval_def example_approval_tables granted_def approval_result_def
      register_waiter_def example_pending_row_def scanChatAgentApproval_def)

lemma example_decided:
  "approval_acts [example_request, example_decision] (approval_start example_approval_log) =
     \<lparr>sy_db = \<lparr>ad_log = example_approval_log, ad_approvals = [(example_uuid CHR ''6'', example_allowed_row)],
        ad_grants = []\<rparr>,
      sy_waiters = [(example_uuid CHR ''6'', 0)], sy_channels = [None],
      sy_flight = [scanChatAgentApproval (example_uuid CHR ''6'', example_allowed_row)]\<rparr>"
proof -
  have row: "ap_user example_pending_row = ''u''" "ap_conversation example_pending_row = example_uuid CHR ''3''"
    "ap_status example_pending_row = ''pending''" "ap_revision example_pending_row = 1"
    "decided_as ''allow_once'' 10 example_pending_row = Some (''allowed'', ''allow_once'')"
    by (simp_all add: example_pending_row_def decided_as_def)
  show ?thesis
    by (simp add: example_requested, simp add: approval_act_def example_decision_def DecideChatAgentApproval_def Let_def
        example_uuid_facts example_names approval_decisions_def zero_time_def chat_agent_decide_approval_def row
        example_approval_tables approval_result_def example_allowed_row_def)
qed

section \<open>Properties\<close>

text \<open>
  C26: the first decision wins: whatever requests, decisions, timeouts, cancellations and
  restarts follow in whatever order, an approval that has been decided is never changed again.
\<close>

theorem approval_first_decision_wins:
  assumes "sy = approval_acts before (approval_start log)"
    and "map_of (ad_approvals (sy_db sy)) k = Some row" "ap_status row \<noteq> ''pending''"
  shows "map_of (ad_approvals (sy_db (approval_acts after sy))) k = Some row"
  by (rule acts_frozen [OF _ assms(2,3)]) (simp add: assms(1) acts_ok start_ok)

theorem approval_first_decision_wins_witness:
  "map_of (ad_approvals (sy_db (approval_acts
      [RecoverStep 11, DecideStep ''u'' \<lparr>da_ApprovalID = example_uuid CHR ''6'', da_ExpectedRevision = 2,
         da_Decision = ''deny'', da_OccurredAt = 12\<rparr>]
      (approval_acts [example_request, example_decision] (approval_start example_approval_log)))))
     (example_uuid CHR ''6'') = Some example_allowed_row"
  by (rule approval_first_decision_wins [OF refl])
    (unfold example_decided, simp_all add: example_allowed_row_def)

text \<open>
  C27: an approval is allowed only by a decision: every allowed approval was decided before it
  expired, and either it was decided itself, or an approval of the same user, conversation,
  tool and risk class was decided for the whole conversation (and had offered that choice).
\<close>

theorem approval_allowed_by_decision:
  assumes "sy = approval_acts sts (approval_start log)"
    and "map_of (ad_approvals (sy_db sy)) k = Some row" "ap_status row = ''allowed''"
  shows "(\<exists>t. ap_decided row = Some t \<and> t < ap_expires row) \<and>
    (ap_revision row = 2 \<or>
     (\<exists>k' row'. map_of (ad_approvals (sy_db sy)) k' = Some row' \<and> grant_key row' = grant_key row \<and>
        ap_status row' = ''allowed'' \<and> ap_decision row' = Some ''allow_conversation'' \<and>
        ap_allowConversation row' \<and> ap_revision row' = 2))"
proof -
  have ok: "approvals_ok (sy_db sy)" using acts_ok [OF start_ok] assms(1) by (simp add: system_ok_def)
  have row: "(k, row) \<in> set (ad_approvals (sy_db sy))" by (rule map_of_SomeD [OF assms(2)])
  then have good: "approval_row_ok row" using ok by (force simp: approvals_ok_def)
  have "\<exists>k' row'. map_of (ad_approvals (sy_db sy)) k' = Some row' \<and> grant_key row' = grant_key row \<and>
      conversation_decision row'" if "ap_revision row = 1"
  proof -
    have "grant_key row \<in> set (ad_grants (sy_db sy))"
      using ok row assms(3) \<open>ap_revision row = 1\<close> unfolding approvals_ok_def by force
    then obtain x where "x \<in> set (ad_approvals (sy_db sy))" "conversation_decision (snd x)" "grant_key (snd x) = grant_key row"
      using ok unfolding approvals_ok_def by blast
    then show ?thesis using ok map_of_set_eq [of "ad_approvals (sy_db sy)" "fst x" "snd x"]
      by (auto simp: approvals_ok_def)
  qed
  moreover have "ap_allowConversation r" if c: "conversation_decision r" "map_of (ad_approvals (sy_db sy)) j = Some r" for j r
  proof -
    have "approval_row_ok r" using ok map_of_SomeD [OF c(2)] by (force simp: approvals_ok_def)
    then show ?thesis using c(1) by (simp add: approval_row_ok_def conversation_decision_def)
  qed
  moreover have "ap_revision row = 1 \<or> ap_revision row = 2" using good assms(3) by (auto simp: approval_row_ok_def)
  moreover have "\<exists>t. ap_decided row = Some t \<and> t < ap_expires row" using good assms(3) by (auto simp: approval_row_ok_def)
  ultimately show ?thesis unfolding conversation_decision_def by metis
qed

theorem approval_allowed_by_decision_witness:
  "(\<exists>t. ap_decided example_allowed_row = Some t \<and> t < ap_expires example_allowed_row) \<and>
   ap_status example_allowed_row = ''allowed''"
proof -
  have "map_of (ad_approvals (sy_db (approval_acts [example_request, example_decision]
      (approval_start example_approval_log)))) (example_uuid CHR ''6'') = Some example_allowed_row"
    unfolding example_decided by simp
  moreover have "ap_status example_allowed_row = ''allowed''" by (simp add: example_allowed_row_def)
  ultimately show ?thesis using approval_allowed_by_decision [OF refl] by blast
qed



end
