(* ===== verification/Go_Paths.thy ===== *)
theory Go_Paths
  imports Text_Bounds
begin

text \<open>
  More of the Go standard library: \<open>strings.Fields\<close>, \<open>FieldsFunc\<close>, \<open>Split\<close> and
  \<open>Join\<close>, and \<open>Clean\<close>, \<open>Base\<close> and \<open>Ext\<close> of package path.
\<close>

section \<open>Fields\<close>

text \<open>
  \<open>word_end sep s\<close> is the length of the longest prefix of \<open>s\<close> whose runes are not
  separators; a rune is given with the bytes that follow it, so that a separator is recognised
  at its first byte.
\<close>

function word_end :: "(string \<Rightarrow> bool) \<Rightarrow> string \<Rightarrow> nat" where
  "word_end sep s =
     (if s = [] \<or> sep (take (next_width s) s) then 0
      else next_width s + word_end sep (drop (next_width s) s))"
  by pat_completeness auto
termination
  by (relation "measure (\<lambda>(sep, s). length s)") auto

declare word_end.simps [simp del]

lemma word_end_pos: "s \<noteq> [] \<Longrightarrow> \<not> sep (take (next_width s) s) \<Longrightarrow> 0 < word_end sep s"
  by (simp add: word_end.simps [of sep s])

text \<open>\<open>strings.FieldsFunc\<close>: the maximal runs of runes that are not separators.\<close>

function fields_func :: "(string \<Rightarrow> bool) \<Rightarrow> string \<Rightarrow> string list" where
  "fields_func sep s =
     (if s = [] then []
      else if sep (take (next_width s) s) then fields_func sep (drop (next_width s) s)
      else take (word_end sep s) s # fields_func sep (drop (word_end sep s) s))"
  by pat_completeness auto
termination
  by (relation "measure (\<lambda>(sep, s). length s)") (auto simp: word_end_pos)

declare fields_func.simps [simp del]

definition is_space_rune :: "string \<Rightarrow> bool" where
  "is_space_rune r \<longleftrightarrow> r \<in> set space_codes"

definition go_fields :: "string \<Rightarrow> string list" where
  "go_fields s = fields_func is_space_rune s"

section \<open>Split and Join\<close>

fun split_on :: "char \<Rightarrow> string \<Rightarrow> string list" where
  "split_on c [] = [[]]"
| "split_on c (x # xs) =
     (if x = c then [] # split_on c xs
      else (case split_on c xs of [] \<Rightarrow> [[x]] | w # ws \<Rightarrow> (x # w) # ws))"

fun join_with :: "string \<Rightarrow> string list \<Rightarrow> string" where
  "join_with sep [] = []"
| "join_with sep [w] = w"
| "join_with sep (w # ws) = w @ sep @ join_with sep ws"

section \<open>Paths\<close>

definition clean_step :: "bool \<Rightarrow> string list \<Rightarrow> string \<Rightarrow> string list" where
  "clean_step rooted out element =
     (if element = [] \<or> element = ''.'' then out
      else if element = ''..''
      then (if out \<noteq> [] \<and> last out \<noteq> ''..'' then butlast out
            else if rooted then out else out @ [''..''])
      else out @ [element])"

definition path_clean :: "string \<Rightarrow> string" where
  "path_clean s =
     (let rooted = (s \<noteq> [] \<and> hd s = CHR ''/'');
          out = foldl (clean_step rooted) [] (split_on (CHR ''/'') s);
          cleaned = (if rooted then ''/'' else []) @ join_with ''/'' out
      in if cleaned = [] then ''.'' else cleaned)"

definition path_base :: "string \<Rightarrow> string" where
  "path_base s =
     (if s = [] then ''.''
      else let stripped = rev (dropWhile (\<lambda>c. c = CHR ''/'') (rev s))
           in if stripped = [] then ''/'' else last (split_on (CHR ''/'') stripped))"

definition path_ext :: "string \<Rightarrow> string" where
  "path_ext s =
     (let element = rev (takeWhile (\<lambda>c. c \<noteq> CHR ''/'') (rev s));
          parts = split_on (CHR ''.'') element
      in if length parts \<le> 1 then [] else ''.'' @ last parts)"

lemma path_examples:
  "path_clean ''scripts/../SKILL.md'' = ''SKILL.md''"
  "path_clean ''/../a//b/'' = ''/a/b''"
  "path_clean ''../a'' = ''../a''"
  "path_base ''out/report.pdf'' = ''report.pdf''"
  "path_base ''a//'' = ''a''"
  "path_ext ''out.d/report.tar.gz'' = ''.gz''"
  "path_ext ''out.d/report'' = []"
  by code_simp+

end
