(* ===== verification/Local_Tools.thy ===== *)
theory Local_Tools
  imports Agent_Approval Agent_Goal Go_Paths
begin

text \<open>
  The local tools of an agent turn (internal/chat/local\_skill\_runtime.go,
  local\_skill\_selection.go, local\_skill\_tool\_loop.go, local\_workspace\_tools.go and
  local\_job\_tools.go): installed skills and the order in which they must be loaded, the terminal
  with its approvals, workspace files, published artifacts and background jobs.

  What a tool does to the machine is behind the Go interface \<open>localToolExecutor\<close>, here a
  record of operations on a state \<open>'s\<close>; the package skillsupply (reading and re-hashing an
  installed skill), the artifact publisher, the JSON decoder and encoder, the hash, the MIME table and
  the Unicode classes are fields of the records of operations and of the environment.  The
  presentation of a call in the process trace, its live output and its duration are not modelled.
\<close>

section \<open>Data\<close>

record runtime_skill =
  sk_InstallationID :: string
  sk_Name :: string
  sk_Description :: string
  sk_Version :: string
  sk_PackageFingerprint :: string
  sk_ActivationSource :: string
  sk_RootPath :: string
  sk_Files :: "string list"

record local_config =
  lc_RuntimeMode :: string
  lc_RuntimeRoot :: string
  lc_CallTimeout :: int
  lc_MaxOutput :: int
  lc_MaxCalls :: int

datatype tool_error =
    Canceled
  | DeadlineExceeded
  | ApprovalPersistence
  | ApprovalRequired
  | CommandBlocked
  | InvalidCommand
  | RuntimeBusy
  | JobNotFound
  | JobLimit
  | JobScopeInvalid
  | ExecutorClosed
  | WorkspaceVersionConflict
  | WorkspaceFileNotFound
  | WorkspaceFileTooLarge
  | WorkspaceInvalidUTF8
  | WorkspaceEditConflict
  | WorkspaceInvalidPath
  | WorkspaceInvalidInput
  | PackageChanged
  | RuntimeUnavailable
  | OtherError string

record exec_request =
  rq_Command :: string
  rq_WorkingDir :: string
  rq_TimeoutSeconds :: int
  rq_SkillsRoot :: string
  rq_ActiveSkillRoot :: string
  rq_Approved :: bool

record exec_result =
  xr_ExitCode :: int
  xr_Stdout :: string
  xr_Stderr :: string
  xr_TimedOut :: bool
  xr_Truncated :: bool
  xr_DurationMillis :: int

text \<open>A job snapshot, with the value that the JSON encoder sees.\<close>

record job_snapshot =
  js_ID :: string
  js_Status :: string
  js_Value :: any_value

record file_write_result =
  fw_Path :: string
  fw_Version :: string
  fw_Size :: int

record artifact_snapshot =
  as_Path :: string
  as_Body :: string
  as_Version :: string

record workspace_artifact =
  wa_FileID :: string
  wa_FileName :: string
  wa_MimeType :: string
  wa_Size :: int
  wa_SHA256 :: string

record workspace_file =
  wf_WorkspaceID :: string
  wf_Path :: string
  wf_FileName :: string
  wf_MimeType :: string
  wf_Size :: int
  wf_Version :: string

type_synonym job_scope = "string \<times> string"

record 's tool_executor =
  ex_Execute :: "exec_request \<Rightarrow> 's \<Rightarrow> (tool_error + exec_result) \<times> 's"
  ex_StartJob :: "job_scope \<Rightarrow> exec_request \<Rightarrow> 's \<Rightarrow> (tool_error + job_snapshot) \<times> 's"
  ex_ListJobs :: "job_scope \<Rightarrow> 's \<Rightarrow> (tool_error + any_value) \<times> 's"
  ex_JobOutput :: "job_scope \<Rightarrow> string \<Rightarrow> bool \<Rightarrow> int \<Rightarrow> 's \<Rightarrow> (tool_error + job_snapshot) \<times> 's"
  ex_KillJob :: "job_scope \<Rightarrow> string \<Rightarrow> 's \<Rightarrow> (tool_error + job_snapshot) \<times> 's"
  ex_ReadFile :: "string \<Rightarrow> int \<Rightarrow> int \<Rightarrow> 's \<Rightarrow> (tool_error + any_value) \<times> 's"
  ex_WriteFile :: "string \<Rightarrow> string \<Rightarrow> string \<Rightarrow> 's \<Rightarrow> (tool_error + file_write_result) \<times> 's"
  ex_EditFile :: "string \<Rightarrow> string \<Rightarrow> string \<Rightarrow> bool \<Rightarrow> string \<Rightarrow> 's \<Rightarrow> (tool_error + file_write_result) \<times> 's"
  ex_SearchFiles :: "string \<Rightarrow> string \<Rightarrow> string \<Rightarrow> int \<Rightarrow> 's \<Rightarrow> (tool_error + any_value) \<times> 's"
  ex_ReadArtifact :: "string \<Rightarrow> int \<Rightarrow> 's \<Rightarrow> (tool_error + artifact_snapshot) \<times> 's"
  ex_Publish :: "string \<Rightarrow> string \<Rightarrow> string \<Rightarrow> string \<Rightarrow> 's \<Rightarrow> (tool_error + workspace_artifact) \<times> 's"
  ex_DeleteArtifact :: "string \<Rightarrow> 's \<Rightarrow> 's"
  ex_ReadSkill :: "runtime_skill \<Rightarrow> string \<Rightarrow> 's \<Rightarrow> tool_error + string"
  ex_ValidateSkill :: "runtime_skill \<Rightarrow> 's \<Rightarrow> bool"

record terminal_arguments =
  ta_Command :: string
  ta_Skill :: string
  ta_WorkingDir :: string
  ta_TimeoutSeconds :: int
  ta_RunInBackground :: bool
  ta_OutputFiles :: "string list"

record local_env =
  le_marshal :: "any_value \<Rightarrow> string"
  le_hash :: "any_value \<Rightarrow> string"
  le_base64 :: "string \<Rightarrow> string"
  le_lower :: "string \<Rightarrow> string"
  le_alnum :: "string \<Rightarrow> bool"
  le_mime :: "string \<Rightarrow> string"
  le_parse_media :: "string \<Rightarrow> string option"
  le_decode_empty :: "string \<Rightarrow> unit option"
  le_decode_name :: "string \<Rightarrow> string option"
  le_decode_view :: "string \<Rightarrow> (string \<times> string) option"
  le_decode_terminal :: "string \<Rightarrow> terminal_arguments option"
  le_decode_read :: "string \<Rightarrow> (string \<times> int \<times> int) option"
  le_decode_write :: "string \<Rightarrow> (string \<times> string \<times> string) option"
  le_decode_edit :: "string \<Rightarrow> (string \<times> string \<times> string \<times> bool \<times> string) option"
  le_decode_search :: "string \<Rightarrow> (string \<times> string \<times> string \<times> int) option"
  le_decode_publish :: "string \<Rightarrow> (string \<times> string option \<times> string option) option"
  le_decode_output :: "string \<Rightarrow> (string \<times> bool \<times> int) option"
  le_decode_job :: "string \<Rightarrow> string option"

text \<open>
  What one call meets outside the executor: whether the consumer takes its events, what the
  approval authority answers to the request and to the wait.
\<close>

record local_tick =
  lt_announced :: bool
  lt_reported :: bool
  lt_request :: "tool_error + agent_approval"
  lt_shown :: bool
  lt_wait :: "tool_error + agent_approval"
  lt_resumed :: bool

record local_runtime =
  lr_enabled :: bool
  lr_config :: local_config
  lr_skills :: "runtime_skill list"
  lr_byName :: "(string, runtime_skill) gomap"
  lr_catalogRevision :: string
  lr_loaded :: "(string, string) gomap"
  lr_required :: "string list"
  lr_calls :: int
  lr_jobScope :: job_scope
  lr_publisher :: bool
  lr_artifactMaxBytes :: int
  lr_artifactBytes :: int
  lr_publishedArtifacts :: "workspace_artifact list"
  lr_publishedByVersion :: "(string, workspace_artifact) gomap"
  lr_workspaceID :: string
  lr_workspaceFiles :: "workspace_file list"
  lr_workspaceFileIndex :: "(string, nat) gomap"
  lr_pendingJobFiles :: "(string, string list) gomap"
  lr_approvals :: bool

definition maxLocalSkillListItems :: nat where "maxLocalSkillListItems = 64"
definition maxLocalSkillDescriptionBytes :: int where "maxLocalSkillDescriptionBytes = 512"
definition maxLocalSkillToolResultMetadata :: nat where "maxLocalSkillToolResultMetadata = 524288"
definition maxPublishedArtifactsPerTurn :: nat where "maxPublishedArtifactsPerTurn = 8"
definition maxWorkspaceFileReferences :: nat where "maxWorkspaceFileReferences = 8"
definition maxWorkspaceReferenceBytes :: int where "maxWorkspaceReferenceBytes = 52428800"

section \<open>Names\<close>

definition canonicalLocalToolName :: "string \<Rightarrow> string" where
  "canonicalLocalToolName value =
     (let name = trim_space value
      in if name = ''terminal'' then ''bash''
         else if name = ''file_read'' then ''read''
         else if name = ''file_write'' then ''write''
         else if name = ''file_edit'' then ''edit''
         else if name = ''file_search'' then ''grep''
         else name)"

definition localSkillToolAllowsParallel :: "string \<Rightarrow> bool" where
  "localSkillToolAllowsParallel name \<longleftrightarrow>
     trim_space name \<in> {''read'', ''grep'', ''file_read'', ''file_search'', ''job_list'', ''job_output'', ''skill_view''}"

definition localSkillClassification :: "string \<Rightarrow> string" where
  "localSkillClassification name =
     (if name \<in> {''bash'', ''terminal''} then ''execute''
      else if name \<in> {''write'', ''edit'', ''file_write'', ''file_edit'', ''publish_file''} then ''write''
      else if name = ''job_kill'' then ''execute''
      else ''read'')"

definition localSkillViewPathAllowed :: "string \<Rightarrow> bool" where
  "localSkillViewPathAllowed value0 =
     (let value = trim_space value0
      in value = ''SKILL.md'' \<or>
         path_clean value = value \<and>
         (has_prefix ''scripts/'' value \<or> has_prefix ''references/'' value \<or> has_prefix ''assets/'' value))"

section \<open>The runtime of a run\<close>

definition localSkillCatalogRevision :: "local_env \<Rightarrow> runtime_skill list \<Rightarrow> string" where
  "localSkillCatalogRevision env skills =
     ''sha256:'' @
     le_hash env (AnyList (map (\<lambda>sk. AnyList (map AnyString
       [trim_space (sk_Name sk), trim_space (sk_Version sk), join_with '' '' (go_fields (sk_Description sk)),
        trim_space (sk_PackageFingerprint sk), trim_space (sk_ActivationSource sk)])) skills))"

definition sorted_skills :: "runtime_skill list \<Rightarrow> runtime_skill list" where
  "sorted_skills skills = sort_key (\<lambda>sk. trim_space (sk_Name sk)) skills"

definition skills_by_name :: "runtime_skill list \<Rightarrow> (string, runtime_skill) gomap" where
  "skills_by_name skills =
     fold (\<lambda>sk m. if trim_space (sk_Name sk) \<noteq> [] then AList.update (trim_space (sk_Name sk)) sk m else m) skills []"

definition newLocalSkillToolRuntime :: "local_env \<Rightarrow> bool \<Rightarrow> local_config \<Rightarrow> runtime_skill list \<Rightarrow> local_runtime option" where
  "newLocalSkillToolRuntime env enabled config skills0 =
     (if \<not> enabled then None
      else let skills = sorted_skills skills0
           in Some \<lparr>lr_enabled = enabled, lr_config = config, lr_skills = skills, lr_byName = skills_by_name skills,
                    lr_catalogRevision = localSkillCatalogRevision env skills, lr_loaded = [], lr_required = [],
                    lr_calls = 0, lr_jobScope = ([], []), lr_publisher = False, lr_artifactMaxBytes = 0,
                    lr_artifactBytes = 0, lr_publishedArtifacts = [], lr_publishedByVersion = [],
                    lr_workspaceID = [], lr_workspaceFiles = [], lr_workspaceFileIndex = [],
                    lr_pendingJobFiles = [], lr_approvals = False\<rparr>)"

definition refreshCatalog :: "local_env \<Rightarrow> runtime_skill list \<Rightarrow> local_runtime \<Rightarrow> local_runtime" where
  "refreshCatalog env skills0 rt =
     (let skills = sorted_skills skills0
      in rt\<lparr>lr_skills := skills, lr_byName := skills_by_name skills,
            lr_catalogRevision := localSkillCatalogRevision env skills, lr_required := []\<rparr>)"

definition skillsAvailable :: "local_runtime \<Rightarrow> bool" where
  "skillsAvailable rt \<longleftrightarrow> lr_enabled rt \<and> lr_byName rt \<noteq> []"

definition bindApprovalRuntime :: "bool \<Rightarrow> local_runtime \<Rightarrow> local_runtime" where
  "bindApprovalRuntime approvals rt = rt\<lparr>lr_approvals := approvals\<rparr>"

definition bindJobScope :: "string \<Rightarrow> string \<Rightarrow> local_runtime \<Rightarrow> local_runtime" where
  "bindJobScope userID conversationID rt = rt\<lparr>lr_jobScope := (trim_space userID, trim_space conversationID)\<rparr>"

definition bindWorkspace :: "string \<Rightarrow> local_runtime \<Rightarrow> local_runtime" where
  "bindWorkspace workspaceID rt =
     (let rt1 = rt\<lparr>lr_workspaceID := trim_space workspaceID\<rparr>
      in if lr_workspaceID rt1 \<noteq> [] then rt1\<lparr>lr_workspaceFileIndex := [], lr_pendingJobFiles := []\<rparr> else rt1)"

definition recordPendingJobFiles :: "string \<Rightarrow> string list \<Rightarrow> local_runtime \<Rightarrow> local_runtime" where
  "recordPendingJobFiles jobID paths rt =
     (if lr_workspaceID rt = [] \<or> trim_space jobID = [] \<or> paths = [] then rt
      else rt\<lparr>lr_pendingJobFiles := AList.update (trim_space jobID) paths (lr_pendingJobFiles rt)\<rparr>)"

definition pendingFilesForJob :: "string \<Rightarrow> local_runtime \<Rightarrow> string list" where
  "pendingFilesForJob jobID rt =
     (case map_of (lr_pendingJobFiles rt) (trim_space jobID) of None \<Rightarrow> [] | Some paths \<Rightarrow> paths)"

definition clearPendingJobFiles :: "string \<Rightarrow> local_runtime \<Rightarrow> local_runtime" where
  "clearPendingJobFiles jobID rt =
     rt\<lparr>lr_pendingJobFiles := AList.delete (trim_space jobID) (lr_pendingJobFiles rt)\<rparr>"

definition bindArtifactPublisher :: "bool \<Rightarrow> int \<Rightarrow> local_runtime \<Rightarrow> local_runtime" where
  "bindArtifactPublisher publisher maxBytes rt =
     (if \<not> publisher \<or> maxBytes < 1 then rt
      else rt\<lparr>lr_publisher := True, lr_artifactMaxBytes := maxBytes, lr_publishedByVersion := []\<rparr>)"

definition artifactPublishingAvailable :: "local_runtime \<Rightarrow> bool" where
  "artifactPublishingAvailable rt \<longleftrightarrow> lr_enabled rt \<and> lr_publisher rt \<and> lr_artifactMaxBytes rt > 0"

definition publishToolAvailable :: "local_runtime \<Rightarrow> bool" where
  "publishToolAvailable rt \<longleftrightarrow> artifactPublishingAvailable rt \<and> lr_workspaceID rt = []"

definition local_handles :: "local_runtime \<Rightarrow> string \<Rightarrow> bool" where
  "local_handles rt value =
     (if \<not> lr_enabled rt then False
      else let name = trim_space value
           in if name \<in> {''bash'', ''read'', ''write'', ''edit'', ''grep'', ''job_list'', ''job_output'', ''job_kill''}
              then True
              else if name \<in> {''terminal'', ''file_read'', ''file_write'', ''file_edit'', ''file_search''} then True
              else if name = ''publish_file'' then publishToolAvailable rt
              else if name \<in> {''skill'', ''skills_list'', ''skill_view''} then skillsAvailable rt
              else False)"

definition requiredSkillName :: "local_runtime \<Rightarrow> string \<times> local_runtime" where
  "requiredSkillName rt =
     (if \<not> skillsAvailable rt then ([], rt)
      else let required = dropWhile (\<lambda>name. lookup_str (lr_loaded rt) name = lr_catalogRevision rt) (lr_required rt)
           in (case required of [] \<Rightarrow> [] | name # _ \<Rightarrow> name, rt\<lparr>lr_required := required\<rparr>))"

definition requiresSkillLoad :: "local_runtime \<Rightarrow> bool \<times> local_runtime" where
  "requiresSkillLoad rt = (case requiredSkillName rt of (name, rt') \<Rightarrow> (name \<noteq> [], rt'))"

section \<open>Selecting the skills of a message\<close>

definition gesture_char :: "char \<Rightarrow> bool" where
  "gesture_char c \<longleftrightarrow> (let n = of_char c :: nat in (0x61 \<le> n \<and> n \<le> 0x7A) \<or> (0x30 \<le> n \<and> n \<le> 0x39))"

text \<open>The pattern \<open>^[a-z0-9]+(?:-[a-z0-9]+)*$\<close>.\<close>

definition localSkillGestureName :: "string \<Rightarrow> bool" where
  "localSkillGestureName name = list_all (\<lambda>part. part \<noteq> [] \<and> list_all gesture_char part) (split_on (CHR ''-'') name)"

definition localSkillInvocationNames :: "string \<Rightarrow> string list" where
  "localSkillInvocationNames value =
     rev (fold (\<lambda>field acc.
       if length field < 2 \<or> hd field \<noteq> CHR ''/'' then acc
       else let name = trim_prefix ''skill:'' (tl field)
            in if \<not> localSkillGestureName name \<or> name \<in> set acc then acc else name # acc) (go_fields value) [])"

definition localSkillNameMentioned :: "local_env \<Rightarrow> string \<Rightarrow> string \<Rightarrow> bool" where
  "localSkillNameMentioned env value name0 =
     (let name = to_lower (le_lower env) (trim_space name0)
      in name \<noteq> [] \<and>
         name \<in> set (fields_func (\<lambda>r. \<not> le_alnum env r \<and> r \<noteq> ''-'') (to_lower (le_lower env) value)))"

definition stopwords :: "string list" where
  "stopwords = [''the'', ''and'', ''for'', ''with'', ''from'', ''this'', ''that'', ''use'', ''using'', ''create'',
                ''make'', ''agent'', ''skill'', ''tool'', ''file'', ''files'']"

definition add_term :: "local_env \<Rightarrow> string \<Rightarrow> string list \<Rightarrow> string list" where
  "add_term env term0 terms =
     (if length terms \<ge> 64 then terms
      else let t = to_lower (le_lower env) (trim_space term0)
           in if length (go_runes t) < 2 \<or> t \<in> set stopwords \<or> t \<in> set terms then terms else terms @ [t])"

text \<open>A rune from U+4E00 to U+9FFF.\<close>

definition is_cjk :: "string \<Rightarrow> bool" where
  "is_cjk r \<longleftrightarrow> length r = 3 \<and> [CHR 0xE4, CHR 0xB8, CHR 0x80] \<le> r \<and> r \<le> [CHR 0xE9, CHR 0xBF, CHR 0xBF]"

definition add_bigrams :: "local_env \<Rightarrow> string list \<Rightarrow> string list \<Rightarrow> string list" where
  "add_bigrams env run terms = fold (\<lambda>(a, b). add_term env (a @ b)) (zip run (tl run)) terms"

definition localSkillLexicalTerms :: "local_env \<Rightarrow> string \<Rightarrow> string list" where
  "localSkillLexicalTerms env value =
     (let terms = fold (add_term env) (fields_func (\<lambda>r. \<not> le_alnum env r) value) [];
          (run, terms) = fold (\<lambda>r (run, terms). if is_cjk r then (run @ [r], terms) else ([], add_bigrams env run terms))
            (go_runes value) ([], terms)
      in add_bigrams env run terms)"

text \<open>Every query term that occurs in the candidate counts once, and once more if it is in its name.\<close>

definition skill_score :: "local_env \<Rightarrow> string list \<Rightarrow> runtime_skill \<Rightarrow> nat" where
  "skill_score env query sk =
     (let name = trim_space (sk_Name sk);
          nameTerms = localSkillLexicalTerms env name;
          candidate = localSkillLexicalTerms env (name @ '' '' @ sk_Description sk);
          shared = filter (\<lambda>t. t \<in> set candidate) query
      in length shared + length (filter (\<lambda>t. t \<in> set nameTerms) shared))"

definition long_shared_term :: "local_env \<Rightarrow> string list \<Rightarrow> runtime_skill \<Rightarrow> bool" where
  "long_shared_term env query sk =
     list_ex (\<lambda>t. t \<in> set (localSkillLexicalTerms env (trim_space (sk_Name sk) @ '' '' @ sk_Description sk)) \<and>
                   length (go_runes t) \<ge> 5) query"

definition best_skill :: "local_env \<Rightarrow> string list \<Rightarrow> local_runtime \<Rightarrow> runtime_skill
    \<Rightarrow> string \<times> nat \<times> bool \<Rightarrow> string \<times> nat \<times> bool" where
  "best_skill env query rt sk best =
     (case best of (bestName, bestScore, tied) \<Rightarrow>
       let name = trim_space (sk_Name sk); score = skill_score env query sk
       in if lookup_str (lr_loaded rt) name = lr_catalogRevision rt then best
          else if score < 2 \<and> \<not> (score = 1 \<and> length (lr_skills rt) = 1 \<and> long_shared_term env query sk) then best
          else if score > bestScore then (name, score, False)
          else if score = bestScore then (bestName, bestScore, True)
          else best)"

definition matchRequiredSkills :: "local_env \<Rightarrow> string \<Rightarrow> local_runtime \<Rightarrow> string list" where
  "matchRequiredSkills env userText rt =
     (if \<not> lr_enabled rt \<or> trim_space userText = [] then []
      else let required = map (\<lambda>sk. trim_space (sk_Name sk)) (filter (\<lambda>sk.
                 lookup_str (lr_loaded rt) (trim_space (sk_Name sk)) \<noteq> lr_catalogRevision rt \<and>
                 localSkillNameMentioned env userText (trim_space (sk_Name sk))) (lr_skills rt))
           in if required \<noteq> [] then required
              else (case fold (best_skill env (localSkillLexicalTerms env userText) rt) (lr_skills rt) ([], 0, False) of
                      (bestName, _, tied) \<Rightarrow> if bestName = [] \<or> tied then [] else [bestName]))"

text \<open>The slash invocations of the message, loaded one after the other.\<close>

fun inject_skills ::
  "'s tool_executor \<Rightarrow> string list \<Rightarrow> any_value list \<Rightarrow> local_runtime \<Rightarrow> 's
   \<Rightarrow> (tool_error + any_value list) \<times> local_runtime" where
  "inject_skills ex [] injections rt s = (Inr injections, rt)"
| "inject_skills ex (name # names) injections rt s =
     (case map_of (lr_byName rt) name of
        None \<Rightarrow> inject_skills ex names injections rt s
      | Some sk \<Rightarrow>
          (case ex_ReadSkill ex sk ''SKILL.md'' s of
             Inl _ \<Rightarrow> (Inl RuntimeUnavailable, rt)
           | Inr body \<Rightarrow>
               if \<not> valid_utf8 body then (Inl RuntimeUnavailable, rt)
               else inject_skills ex names
                      (injections @ [AnyMap [(''name'', AnyString name),
                                             (''catalogRevision'', AnyString (lr_catalogRevision rt)),
                                             (''content'', AnyString body)]])
                      (rt\<lparr>lr_loaded := AList.update name (lr_catalogRevision rt) (lr_loaded rt)\<rparr>) s))"

definition prepareUserPrompt ::
  "local_env \<Rightarrow> 's tool_executor \<Rightarrow> string \<Rightarrow> string \<Rightarrow> local_runtime \<Rightarrow> 's \<Rightarrow> (tool_error + string) \<times> local_runtime" where
  "prepareUserPrompt env ex base userText rt s =
     (if \<not> lr_enabled rt then (Inr base, rt)
      else
        (case inject_skills ex (localSkillInvocationNames userText) [] rt s of
           (Inl e, rt1) \<Rightarrow> (Inl e, rt1)
         | (Inr injections, rt1) \<Rightarrow>
             let rt2 = rt1\<lparr>lr_required := matchRequiredSkills env userText rt1\<rparr>
             in if injections = [] then (Inr base, rt2)
                else let base = trim_space base; base = (if base \<noteq> [] then base @ [CHR 0x0A, CHR 0x0A] else base)
                     in (Inr (base @ ''<user_authorized_skill_instructions>'' @
                              le_marshal env (AnyMap [(''untrustedUserAuthorizedSkillInstructions'', AnyBool True),
                                                      (''skills'', AnyList injections)]) @
                              ''</user_authorized_skill_instructions>''), rt2)))"

section \<open>Results\<close>

definition localSkillFailureResult :: "local_env \<Rightarrow> tool_call \<Rightarrow> string \<Rightarrow> tool_result" where
  "localSkillFailureResult env call category =
     \<lparr>tr_CallID = tc_ID call, tr_Name = tc_Name call,
      tr_Content = le_marshal env (AnyMap [(''untrustedLocalSkillResult'', AnyBool True), (''isError'', AnyBool True),
                                           (''error'', AnyString (trim_space category))]),
      tr_IsError = True\<rparr>"

definition localSkillSuccessResult :: "local_env \<Rightarrow> tool_call \<Rightarrow> (string \<times> any_value) list \<Rightarrow> tool_result" where
  "localSkillSuccessResult env call payload =
     (let encoded = le_marshal env (AnyMap (payload @ [(''untrustedLocalSkillResult'', AnyBool True)]))
      in if length encoded > maxLocalSkillToolResultMetadata \<and>
            tc_Name call \<notin> {''skill'', ''skill_view'', ''bash'', ''job_output''}
         then localSkillFailureResult env call ''result_too_large''
         else \<lparr>tr_CallID = tc_ID call, tr_Name = tc_Name call, tr_Content = encoded, tr_IsError = False\<rparr>)"

text \<open>What a call returns: its result, its failure category, and an error that ends the run.\<close>

type_synonym call_end = "tool_result \<times> string \<times> tool_error option"

definition call_failed :: "local_env \<Rightarrow> tool_call \<Rightarrow> string \<Rightarrow> call_end" where
  "call_failed env call category = (localSkillFailureResult env call category, category, None)"

definition call_done :: "local_env \<Rightarrow> tool_call \<Rightarrow> (string \<times> any_value) list \<Rightarrow> call_end" where
  "call_done env call payload = (localSkillSuccessResult env call payload, [], None)"

definition call_fatal :: "tool_error \<Rightarrow> call_end" where
  "call_fatal e = (no_result, [], Some e)"

definition localTerminalFailureCategory :: "tool_error \<Rightarrow> string" where
  "localTerminalFailureCategory e =
     (case e of CommandBlocked \<Rightarrow> ''command_blocked'' | ApprovalRequired \<Rightarrow> ''approval_required''
      | RuntimeBusy \<Rightarrow> ''runtime_busy'' | InvalidCommand \<Rightarrow> ''arguments_invalid'' | _ \<Rightarrow> ''execution_failed'')"

definition localTerminalResultFailureCategory :: "exec_result \<Rightarrow> string" where
  "localTerminalResultFailureCategory r =
     (if xr_TimedOut r then ''timeout'' else if xr_ExitCode r \<noteq> 0 then ''nonzero_exit'' else [])"

definition localSkillFatalCode :: "tool_error \<Rightarrow> string" where
  "localSkillFatalCode e =
     (case e of ApprovalPersistence \<Rightarrow> ''AGENT_APPROVAL_PERSISTENCE_FAILED''
      | DeadlineExceeded \<Rightarrow> ''LOCAL_SKILL_BUDGET_EXHAUSTED'' | _ \<Rightarrow> ''LOCAL_SKILL_CANCELED'')"

definition workspaceToolFailureCategory :: "tool_error \<Rightarrow> string" where
  "workspaceToolFailureCategory e =
     (case e of WorkspaceVersionConflict \<Rightarrow> ''version_conflict'' | WorkspaceFileNotFound \<Rightarrow> ''file_not_found''
      | WorkspaceFileTooLarge \<Rightarrow> ''file_too_large'' | WorkspaceInvalidUTF8 \<Rightarrow> ''invalid_utf8''
      | WorkspaceEditConflict \<Rightarrow> ''edit_conflict'' | WorkspaceInvalidPath \<Rightarrow> ''path_invalid''
      | WorkspaceInvalidInput \<Rightarrow> ''arguments_invalid'' | _ \<Rightarrow> ''execution_failed'')"

definition backgroundJobToolFailureCategory :: "tool_error \<Rightarrow> string" where
  "backgroundJobToolFailureCategory e =
     (case e of JobNotFound \<Rightarrow> ''job_not_found'' | JobLimit \<Rightarrow> ''job_limit_reached''
      | JobScopeInvalid \<Rightarrow> ''arguments_invalid'' | WorkspaceInvalidInput \<Rightarrow> ''arguments_invalid''
      | ExecutorClosed \<Rightarrow> ''runtime_closed'' | _ \<Rightarrow> localTerminalFailureCategory e)"

definition workspaceToolResult :: "local_env \<Rightarrow> tool_call \<Rightarrow> tool_error + any_value \<Rightarrow> call_end" where
  "workspaceToolResult env call outcome =
     (case outcome of
        Inr payload \<Rightarrow> call_done env call [(''result'', payload)]
      | Inl e \<Rightarrow> if e = Canceled \<or> e = DeadlineExceeded then call_fatal e
                 else call_failed env call (workspaceToolFailureCategory e))"

definition backgroundJobToolResult :: "local_env \<Rightarrow> tool_call \<Rightarrow> tool_error + any_value \<Rightarrow> call_end" where
  "backgroundJobToolResult env call outcome =
     (case outcome of
        Inr payload \<Rightarrow> call_done env call [(''result'', payload), (''durability'', AnyString ''process_local'')]
      | Inl e \<Rightarrow> if e = Canceled \<or> e = DeadlineExceeded then call_fatal e
                 else call_failed env call (backgroundJobToolFailureCategory e))"

definition workspace_file_value :: "workspace_file \<Rightarrow> any_value" where
  "workspace_file_value w = AnyMap
     [(''workspaceId'', AnyString (wf_WorkspaceID w)), (''path'', AnyString (wf_Path w)),
      (''fileName'', AnyString (wf_FileName w)), (''mimeType'', AnyString (wf_MimeType w)),
      (''size'', AnyInt (wf_Size w)), (''version'', AnyString (wf_Version w))]"

definition backgroundJobToolResultWithWorkspaceFiles ::
  "local_env \<Rightarrow> tool_call \<Rightarrow> job_snapshot \<Rightarrow> workspace_file list \<Rightarrow> tool_result" where
  "backgroundJobToolResultWithWorkspaceFiles env call job files =
     localSkillSuccessResult env call
       ([(''result'', js_Value job), (''durability'', AnyString ''process_local'')] @
        (if files \<noteq> [] then [(''workspaceFiles'', AnyList (map workspace_file_value files))] else []))"

definition terminal_payload :: "exec_result \<Rightarrow> (string \<times> any_value) list" where
  "terminal_payload r =
     [(''exitCode'', AnyInt (xr_ExitCode r)), (''stdout'', AnyString (xr_Stdout r)),
      (''stderr'', AnyString (xr_Stderr r)), (''timedOut'', AnyBool (xr_TimedOut r)),
      (''truncated'', AnyBool (xr_Truncated r)), (''durationMillis'', AnyInt (xr_DurationMillis r))]"

definition localTerminalToolResult :: "local_env \<Rightarrow> tool_call \<Rightarrow> exec_result \<Rightarrow> string \<Rightarrow> tool_result" where
  "localTerminalToolResult env call r failure =
     (if failure = [] then localSkillSuccessResult env call (terminal_payload r)
      else \<lparr>tr_CallID = tc_ID call, tr_Name = tc_Name call,
            tr_Content = le_marshal env (AnyMap (terminal_payload r @
              [(''untrustedLocalSkillResult'', AnyBool True), (''isError'', AnyBool True),
               (''error'', AnyString (trim_space failure))])),
            tr_IsError = True\<rparr>)"

definition localTerminalToolResultWithWorkspaceFiles ::
  "local_env \<Rightarrow> tool_call \<Rightarrow> exec_result \<Rightarrow> workspace_file list \<Rightarrow> tool_result" where
  "localTerminalToolResultWithWorkspaceFiles env call r files =
     localSkillSuccessResult env call (terminal_payload r @
       (if files \<noteq> [] then [(''workspaceFiles'', AnyList (map workspace_file_value files))] else []))"

section \<open>Workspace files and artifacts\<close>

definition workspaceReferenceMIMEType :: "local_env \<Rightarrow> string \<Rightarrow> string" where
  "workspaceReferenceMIMEType env filePath =
     (let contentType = le_mime env (to_lower (le_lower env) (path_ext filePath))
      in if contentType = [] then ''application/octet-stream''
         else (case le_parse_media env contentType of
                 None \<Rightarrow> ''application/octet-stream''
               | Some mediaType \<Rightarrow> if mediaType = [] then ''application/octet-stream'' else mediaType))"

definition recordWorkspaceFile :: "local_env \<Rightarrow> workspace_file \<Rightarrow> local_runtime \<Rightarrow> local_runtime" where
  "recordWorkspaceFile env reference0 rt =
     (if lr_workspaceID rt = [] then rt
      else
        let r1 = reference0\<lparr>wf_WorkspaceID := lr_workspaceID rt, wf_Path := trim_space (wf_Path reference0)\<rparr>
        in if wf_Path r1 = [] \<or> wf_Version r1 = [] then rt
           else
             let r2 = (if wf_FileName r1 = [] then r1\<lparr>wf_FileName := path_base (wf_Path r1)\<rparr> else r1);
                 r3 = (if wf_MimeType r2 = [] then r2\<lparr>wf_MimeType := workspaceReferenceMIMEType env (wf_Path r2)\<rparr> else r2)
             in (case map_of (lr_workspaceFileIndex rt) (wf_Path r3) of
                   Some index \<Rightarrow> rt\<lparr>lr_workspaceFiles := (lr_workspaceFiles rt)[index := r3]\<rparr>
                 | None \<Rightarrow>
                     if length (lr_workspaceFiles rt) \<ge> maxWorkspaceFileReferences then rt
                     else rt\<lparr>lr_workspaceFileIndex :=
                               AList.update (wf_Path r3) (length (lr_workspaceFiles rt)) (lr_workspaceFileIndex rt),
                             lr_workspaceFiles := lr_workspaceFiles rt @ [r3]\<rparr>))"

fun capture_files ::
  "local_env \<Rightarrow> 's tool_executor \<Rightarrow> string list \<Rightarrow> string list \<Rightarrow> workspace_file list \<Rightarrow> local_runtime \<Rightarrow> 's
   \<Rightarrow> (tool_error + workspace_file list) \<times> local_runtime \<times> 's" where
  "capture_files env ex [] seen references rt s = (Inr references, rt, s)"
| "capture_files env ex (path # paths) seen references rt s =
     (let filePath = trim_space path
      in if filePath = [] then (Inl WorkspaceInvalidInput, rt, s)
         else
           (case ex_ReadArtifact ex filePath maxWorkspaceReferenceBytes s of
              (Inl e, s') \<Rightarrow> (Inl e, rt, s')
            | (Inr snapshot, s') \<Rightarrow>
                if as_Path snapshot \<in> set seen then capture_files env ex paths seen references rt s'
                else
                  let reference = \<lparr>wf_WorkspaceID = lr_workspaceID rt, wf_Path = as_Path snapshot,
                                   wf_FileName = path_base (as_Path snapshot),
                                   wf_MimeType = workspaceReferenceMIMEType env (as_Path snapshot),
                                   wf_Size = int (length (as_Body snapshot)), wf_Version = as_Version snapshot\<rparr>
                  in capture_files env ex paths (as_Path snapshot # seen) (references @ [reference])
                       (recordWorkspaceFile env reference rt) s'))"

definition captureWorkspaceFiles ::
  "local_env \<Rightarrow> 's tool_executor \<Rightarrow> string list \<Rightarrow> local_runtime \<Rightarrow> 's
   \<Rightarrow> (tool_error + workspace_file list) \<times> local_runtime \<times> 's" where
  "captureWorkspaceFiles env ex paths rt s =
     (if lr_workspaceID rt = [] \<or> paths = [] then (Inr [], rt, s)
      else if length paths > maxWorkspaceFileReferences then (Inl WorkspaceInvalidInput, rt, s)
      else capture_files env ex paths [] [] rt s)"

definition normalizeArtifactDisplayName :: "string \<Rightarrow> string option \<Rightarrow> string option" where
  "normalizeArtifactDisplayName workspacePath supplied =
     (let name = (case supplied of None \<Rightarrow> path_base workspacePath | Some v \<Rightarrow> trim_space v)
      in if name = [] \<or> name = ''.'' \<or> name = ''..'' \<or> length name > 255 \<or>
            list_ex (\<lambda>c. c \<in> {CHR ''/'', CHR 0x5C, CHR 0x00}) name
         then None else Some name)"

definition normalizeArtifactContentType :: "local_env \<Rightarrow> string \<Rightarrow> string option \<Rightarrow> string option" where
  "normalizeArtifactContentType env fileName supplied =
     (let given = (case supplied of None \<Rightarrow> [] | Some v \<Rightarrow> trim_space v);
          contentType = (if given = [] then le_mime env (path_ext fileName) else given)
      in if contentType = [] then Some ''application/octet-stream''
         else (case le_parse_media env contentType of
                 None \<Rightarrow> None
               | Some mediaType \<Rightarrow> if mediaType = [] \<or> length mediaType > 255 then None else Some mediaType))"

definition publishedArtifactToolResult ::
  "local_env \<Rightarrow> tool_call \<Rightarrow> artifact_snapshot \<Rightarrow> workspace_artifact \<Rightarrow> bool \<Rightarrow> tool_result" where
  "publishedArtifactToolResult env call snapshot artifact already =
     localSkillSuccessResult env call [(''result'', AnyMap
       [(''path'', AnyString (as_Path snapshot)), (''version'', AnyString (as_Version snapshot)),
        (''fileId'', AnyString (wa_FileID artifact)), (''fileName'', AnyString (wa_FileName artifact)),
        (''contentType'', AnyString (wa_MimeType artifact)), (''size'', AnyInt (wa_Size artifact)),
        (''sha256'', AnyString (wa_SHA256 artifact)), (''alreadyPublished'', AnyBool already)])]"

definition executePublishFileToolCall ::
  "local_env \<Rightarrow> 's tool_executor \<Rightarrow> tool_call \<Rightarrow> local_runtime \<Rightarrow> 's \<Rightarrow> call_end \<times> local_runtime \<times> 's" where
  "executePublishFileToolCall env ex call rt s =
     (case decodeStrictToolArguments (le_decode_publish env) (tc_Arguments call) of
        None \<Rightarrow> (call_failed env call ''arguments_invalid'', rt, s)
      | Some (path, suppliedName, suppliedType) \<Rightarrow>
          if \<not> artifactPublishingAvailable rt then (call_failed env call ''arguments_invalid'', rt, s)
          else
            (case ex_ReadArtifact ex path (lr_artifactMaxBytes rt) s of
               (Inl e, s1) \<Rightarrow> (workspaceToolResult env call (Inl e), rt, s1)
             | (Inr snapshot, s1) \<Rightarrow>
                 if as_Body snapshot = [] then (call_failed env call ''empty_file'', rt, s1)
                 else
                   let key = as_Path snapshot @ [CHR 0x00] @ as_Version snapshot
                   in (case map_of (lr_publishedByVersion rt) key of
                         Some artifact \<Rightarrow>
                           ((publishedArtifactToolResult env call snapshot artifact True, [], None), rt, s1)
                       | None \<Rightarrow>
                           if length (lr_publishedArtifacts rt) \<ge> maxPublishedArtifactsPerTurn
                           then (call_failed env call ''artifact_count_exhausted'', rt, s1)
                           else if int (length (as_Body snapshot)) > lr_artifactMaxBytes rt - lr_artifactBytes rt
                           then (call_failed env call ''artifact_bytes_exhausted'', rt, s1)
                           else
                             (case normalizeArtifactDisplayName (as_Path snapshot) suppliedName of
                                None \<Rightarrow> (call_failed env call ''arguments_invalid'', rt, s1)
                              | Some displayName \<Rightarrow>
                                  (case normalizeArtifactContentType env displayName suppliedType of
                                     None \<Rightarrow> (call_failed env call ''arguments_invalid'', rt, s1)
                                   | Some contentType \<Rightarrow>
                                       (case ex_Publish ex (snd (lr_jobScope rt)) displayName contentType
                                               (as_Body snapshot) s1 of
                                          (Inl e, s2) \<Rightarrow> (call_failed env call ''publish_failed'', rt, s2)
                                        | (Inr artifact, s2) \<Rightarrow>
                                            if trim_space (wa_FileID artifact) = []
                                            then (call_failed env call ''publish_failed'', rt, s2)
                                            else ((publishedArtifactToolResult env call snapshot artifact False, [], None),
                                                  rt\<lparr>lr_artifactBytes := lr_artifactBytes rt + int (length (as_Body snapshot)),
                                                     lr_publishedArtifacts := lr_publishedArtifacts rt @ [artifact],
                                                     lr_publishedByVersion :=
                                                       AList.update key artifact (lr_publishedByVersion rt)\<rparr>, s2)))))))"

text \<open>After the turn: the artifacts that no message links to are deleted again.\<close>

fun discard_artifacts ::
  "'s tool_executor \<Rightarrow> string list \<Rightarrow> workspace_artifact list \<Rightarrow> 's \<Rightarrow> workspace_artifact list \<times> 's" where
  "discard_artifacts ex linkedIDs [] s = ([], s)"
| "discard_artifacts ex linkedIDs (artifact # artifacts) s =
     (if trim_space (wa_FileID artifact) \<in> set linkedIDs
      then (case discard_artifacts ex linkedIDs artifacts s of (kept, s') \<Rightarrow> (artifact # kept, s'))
      else discard_artifacts ex linkedIDs artifacts (ex_DeleteArtifact ex (wa_FileID artifact) s))"

definition discardUnlinkedPublishedArtifacts ::
  "'s tool_executor \<Rightarrow> string list \<Rightarrow> local_runtime \<Rightarrow> 's \<Rightarrow> local_runtime \<times> 's" where
  "discardUnlinkedPublishedArtifacts ex linked rt s =
     (if \<not> lr_publisher rt \<or> lr_publishedArtifacts rt = [] then (rt, s)
      else (case discard_artifacts ex (map trim_space linked) (lr_publishedArtifacts rt) s of
              (kept, s') \<Rightarrow> (rt\<lparr>lr_publishedArtifacts := kept\<rparr>, s')))"

section \<open>Executing a call\<close>

definition written_file :: "local_env \<Rightarrow> tool_error + file_write_result \<Rightarrow> local_runtime \<Rightarrow> local_runtime" where
  "written_file env outcome rt =
     (case outcome of
        Inl _ \<Rightarrow> rt
      | Inr w \<Rightarrow> recordWorkspaceFile env
          \<lparr>wf_WorkspaceID = [], wf_Path = fw_Path w, wf_FileName = path_base (fw_Path w),
           wf_MimeType = workspaceReferenceMIMEType env (fw_Path w), wf_Size = fw_Size w,
           wf_Version = fw_Version w\<rparr> rt)"

definition write_result_value :: "tool_error + file_write_result \<Rightarrow> tool_error + any_value" where
  "write_result_value outcome =
     map_sum id (\<lambda>w. AnyMap [(''path'', AnyString (fw_Path w)), (''version'', AnyString (fw_Version w)),
                             (''size'', AnyInt (fw_Size w))]) outcome"

definition executeWorkspaceToolCall ::
  "local_env \<Rightarrow> 's tool_executor \<Rightarrow> tool_call \<Rightarrow> local_runtime \<Rightarrow> 's \<Rightarrow> call_end \<times> local_runtime \<times> 's" where
  "executeWorkspaceToolCall env ex call rt s =
     (if tc_Name call \<in> {''read'', ''file_read''}
      then
        (case decodeStrictToolArguments (le_decode_read env) (tc_Arguments call) of
           None \<Rightarrow> (call_failed env call ''arguments_invalid'', rt, s)
         | Some (path, offset, limit) \<Rightarrow>
             (case ex_ReadFile ex path offset limit s of
                (outcome, s') \<Rightarrow> (workspaceToolResult env call outcome, rt, s')))
      else if tc_Name call \<in> {''write'', ''file_write''}
      then
        (case decodeStrictToolArguments (le_decode_write env) (tc_Arguments call) of
           None \<Rightarrow> (call_failed env call ''arguments_invalid'', rt, s)
         | Some (path, content, expectedVersion) \<Rightarrow>
             (case ex_WriteFile ex path content expectedVersion s of
                (outcome, s') \<Rightarrow>
                  (workspaceToolResult env call (write_result_value outcome), written_file env outcome rt, s')))
      else if tc_Name call \<in> {''edit'', ''file_edit''}
      then
        (case decodeStrictToolArguments (le_decode_edit env) (tc_Arguments call) of
           None \<Rightarrow> (call_failed env call ''arguments_invalid'', rt, s)
         | Some (path, oldText, newText, replaceAll, expectedVersion) \<Rightarrow>
             (case ex_EditFile ex path oldText newText replaceAll expectedVersion s of
                (outcome, s') \<Rightarrow>
                  (workspaceToolResult env call (write_result_value outcome), written_file env outcome rt, s')))
      else if tc_Name call \<in> {''grep'', ''file_search''}
      then
        (case decodeStrictToolArguments (le_decode_search env) (tc_Arguments call) of
           None \<Rightarrow> (call_failed env call ''arguments_invalid'', rt, s)
         | Some (path, query, glob, maxResults) \<Rightarrow>
             (case ex_SearchFiles ex path query glob maxResults s of
                (outcome, s') \<Rightarrow> (workspaceToolResult env call outcome, rt, s')))
      else if tc_Name call = ''publish_file'' then executePublishFileToolCall env ex call rt s
      else (call_failed env call ''tool_not_available'', rt, s))"

definition output_failure :: "tool_error \<Rightarrow> string" where
  "output_failure e =
     (let category = workspaceToolFailureCategory e
      in if category = ''file_not_found'' then ''output_file_not_found'' else category)"

definition maxJobOutputWait :: int where "maxJobOutputWait = 10000000000"

definition executeBackgroundJobToolCall ::
  "local_env \<Rightarrow> 's tool_executor \<Rightarrow> tool_call \<Rightarrow> local_runtime \<Rightarrow> 's \<Rightarrow> call_end \<times> local_runtime \<times> 's" where
  "executeBackgroundJobToolCall env ex call rt s =
     (if tc_Name call = ''job_list''
      then
        (case decodeStrictToolArguments (le_decode_empty env) (tc_Arguments call) of
           None \<Rightarrow> (call_failed env call ''arguments_invalid'', rt, s)
         | Some _ \<Rightarrow>
             (case ex_ListJobs ex (lr_jobScope rt) s of
                (outcome, s') \<Rightarrow>
                  (backgroundJobToolResult env call (map_sum id (\<lambda>jobs. AnyMap [(''jobs'', jobs),
                     (''durability'', AnyString ''process_local'')]) outcome), rt, s')))
      else if tc_Name call = ''job_output''
      then
        (case decodeStrictToolArguments (le_decode_output env) (tc_Arguments call) of
           None \<Rightarrow> (call_failed env call ''arguments_invalid'', rt, s)
         | Some (jobID, wait, timeoutSeconds) \<Rightarrow>
             let timeout = wrap64 (timeoutSeconds * 1000000000);
                 waitTimeout = (if wait \<and> timeout = 0 then maxJobOutputWait else timeout)
             in (case ex_JobOutput ex (lr_jobScope rt) jobID wait waitTimeout s of
                   (Inl e, s1) \<Rightarrow> (backgroundJobToolResult env call (Inl e), rt, s1)
                 | (Inr job, s1) \<Rightarrow>
                     let paths = pendingFilesForJob (js_ID job) rt
                     in if js_Status job = ''completed'' \<and> paths \<noteq> []
                        then
                          (case captureWorkspaceFiles env ex paths rt s1 of
                             (Inl e, rt1, s2) \<Rightarrow> (call_failed env call (output_failure e), rt1, s2)
                           | (Inr files, rt1, s2) \<Rightarrow>
                               ((backgroundJobToolResultWithWorkspaceFiles env call job files, [], None),
                                clearPendingJobFiles (js_ID job) rt1, s2))
                        else
                          (backgroundJobToolResult env call (Inr (js_Value job)),
                           if js_Status job \<in> {''failed'', ''killed''} then clearPendingJobFiles (js_ID job) rt else rt,
                           s1)))
      else if tc_Name call = ''job_kill''
      then
        (case decodeStrictToolArguments (le_decode_job env) (tc_Arguments call) of
           None \<Rightarrow> (call_failed env call ''arguments_invalid'', rt, s)
         | Some jobID \<Rightarrow>
             (case ex_KillJob ex (lr_jobScope rt) jobID s of
                (outcome, s') \<Rightarrow> (backgroundJobToolResult env call (map_sum id js_Value outcome), rt, s')))
      else (call_failed env call ''tool_not_available'', rt, s))"

subsection \<open>The terminal\<close>

text \<open>The events carry the status and the call status that the execution had when it was sent.\<close>

type_synonym status_event = "string \<times> string"

definition approval_resumed :: "local_tick \<Rightarrow> agent_approval \<Rightarrow> status_event list \<Rightarrow> (tool_error + agent_approval) \<times> status_event list" where
  "approval_resumed tick approval events =
     (if chatAgentApprovalAllowsExecution approval
      then if \<not> lt_resumed tick then (Inl Canceled, events) else (Inr approval, events @ [(''running'', ''running'')])
      else (Inr approval, events))"

definition awaitTerminalApproval :: "local_tick \<Rightarrow> (tool_error + agent_approval) \<times> status_event list" where
  "awaitTerminalApproval tick =
     (case lt_request tick of
        Inl _ \<Rightarrow> (Inl ApprovalPersistence, [])
      | Inr approval \<Rightarrow>
          if aa_Status approval \<noteq> ''pending'' then approval_resumed tick approval []
          else if \<not> lt_shown tick then (Inl Canceled, [])
          else
            (case lt_wait tick of
               Inl e \<Rightarrow> (Inl (if e = Canceled \<or> e = DeadlineExceeded then e else ApprovalPersistence),
                         [(''awaiting_approval'', ''waiting_approval'')])
             | Inr resolved \<Rightarrow> approval_resumed tick resolved [(''awaiting_approval'', ''waiting_approval'')]))"

definition approvalFailureCategory :: "agent_approval \<Rightarrow> string" where
  "approvalFailureCategory a = (if aa_Status a = ''expired'' then ''approval_expired'' else ''approval_denied'')"

text \<open>
  A request that the executor refuses for want of an approval is submitted once more, marked as
  approved, if the approval authority allows it.  The result is the outcome of the last submission,
  or what ends the call without one.
\<close>

definition with_approval ::
  "local_env \<Rightarrow> tool_call \<Rightarrow> local_tick \<Rightarrow> bool \<Rightarrow> (exec_request \<Rightarrow> 's \<Rightarrow> (tool_error + 'r) \<times> 's) \<Rightarrow> exec_request \<Rightarrow> 's
   \<Rightarrow> (call_end + tool_error + 'r) \<times> status_event list \<times> 's" where
  "with_approval env call tick approvals submit request s =
     (case submit request s of
        (outcome, s1) \<Rightarrow>
          (case outcome of
             Inl e \<Rightarrow>
               if \<not> (e = ApprovalRequired \<and> approvals) then (Inr (Inl e), [], s1)
               else
                 (case awaitTerminalApproval tick of
                    (Inl e', events) \<Rightarrow> (Inl (call_fatal e'), events, s1)
                  | (Inr approval, events) \<Rightarrow>
                      if \<not> chatAgentApprovalAllowsExecution approval
                      then (Inl (call_failed env call (approvalFailureCategory approval)), events, s1)
                      else (case submit (request\<lparr>rq_Approved := True\<rparr>) s1 of
                              (outcome', s2) \<Rightarrow> (Inr outcome', events, s2)))
           | Inr r \<Rightarrow> (Inr (Inr r), [], s1)))"

definition executeTerminalCall ::
  "local_env \<Rightarrow> 's tool_executor \<Rightarrow> local_tick \<Rightarrow> tool_call \<Rightarrow> local_runtime \<Rightarrow> 's
   \<Rightarrow> call_end \<times> status_event list \<times> local_runtime \<times> 's" where
  "executeTerminalCall env ex tick call rt s =
     (case decodeStrictToolArguments (le_decode_terminal env) (tc_Arguments call) of
        None \<Rightarrow> (call_failed env call ''arguments_invalid'', [], rt, s)
      | Some arguments \<Rightarrow>
          let skill = trim_space (ta_Skill arguments);
              found = map_of (lr_byName rt) skill
          in if skill \<noteq> [] \<and> found = None then (call_failed env call ''skill_not_found'', [], rt, s)
             else if skill \<noteq> [] \<and> \<not> ex_ValidateSkill ex (the found) s
             then (call_failed env call ''package_drift'', [], rt, s)
             else
               let request = \<lparr>rq_Command = ta_Command arguments, rq_WorkingDir = ta_WorkingDir arguments,
                              rq_TimeoutSeconds = ta_TimeoutSeconds arguments,
                              rq_SkillsRoot = lc_RuntimeRoot (lr_config rt),
                              rq_ActiveSkillRoot = (if skill = [] then [] else sk_RootPath (the found)),
                              rq_Approved = False\<rparr>
               in if ta_RunInBackground arguments
                  then
                    (case with_approval env call tick (lr_approvals rt) (ex_StartJob ex (lr_jobScope rt)) request s of
                       (Inl ended, events, s') \<Rightarrow> (ended, events, rt, s')
                     | (Inr outcome, events, s') \<Rightarrow>
                         (backgroundJobToolResult env call (map_sum id js_Value outcome), events,
                          (case outcome of Inl _ \<Rightarrow> rt
                           | Inr job \<Rightarrow> recordPendingJobFiles (js_ID job) (ta_OutputFiles arguments) rt), s'))
                  else
                    (case with_approval env call tick (lr_approvals rt) (ex_Execute ex) request s of
                       (Inl ended, events, s') \<Rightarrow> (ended, events, rt, s')
                     | (Inr (Inl e), events, s') \<Rightarrow>
                         (if e = Canceled \<or> e = DeadlineExceeded then call_fatal e
                          else call_failed env call (localTerminalFailureCategory e), events, rt, s')
                     | (Inr (Inr r), events, s') \<Rightarrow>
                         let failure = localTerminalResultFailureCategory r
                         in if failure \<noteq> [] then ((localTerminalToolResult env call r failure, failure, None), events, rt, s')
                            else
                              (case captureWorkspaceFiles env ex (ta_OutputFiles arguments) rt s' of
                                 (Inl e, rt1, s1) \<Rightarrow>
                                   ((localTerminalToolResult env call r (output_failure e), output_failure e, None),
                                    events, rt1, s1)
                               | (Inr files, rt1, s1) \<Rightarrow>
                                   ((localTerminalToolResultWithWorkspaceFiles env call r files, [], None),
                                    events, rt1, s1))))"

subsection \<open>Skills\<close>

definition skill_read_failure :: "string \<Rightarrow> tool_error \<Rightarrow> string" where
  "skill_read_failure missing e = (if e = PackageChanged \<or> e = RuntimeUnavailable then ''package_drift'' else missing)"

definition executeSkillCall ::
  "local_env \<Rightarrow> 's tool_executor \<Rightarrow> tool_call \<Rightarrow> local_runtime \<Rightarrow> 's \<Rightarrow> call_end \<times> local_runtime" where
  "executeSkillCall env ex call rt s =
     (case decodeStrictToolArguments (le_decode_name env) (tc_Arguments call) of
        None \<Rightarrow> (call_failed env call ''arguments_invalid'', rt)
      | Some name0 \<Rightarrow>
          let name = trim_space name0
          in (case map_of (lr_byName rt) name of
                None \<Rightarrow> (call_failed env call ''skill_not_found'', rt)
              | Some skill \<Rightarrow>
                  if lookup_str (lr_loaded rt) name = lr_catalogRevision rt
                  then (call_done env call [(''name'', AnyString name),
                          (''catalogRevision'', AnyString (lr_catalogRevision rt)), (''alreadyLoaded'', AnyBool True)], rt)
                  else
                    (case ex_ReadSkill ex skill ''SKILL.md'' s of
                       Inl e \<Rightarrow> (call_failed env call (skill_read_failure ''skill_not_found'' e), rt)
                     | Inr body \<Rightarrow>
                         if \<not> valid_utf8 body then (call_failed env call ''package_drift'', rt)
                         else (call_done env call [(''name'', AnyString name), (''version'', AnyString (sk_Version skill)),
                                 (''catalogRevision'', AnyString (lr_catalogRevision rt)), (''content'', AnyString body)],
                               rt\<lparr>lr_loaded := AList.update name (lr_catalogRevision rt) (lr_loaded rt)\<rparr>))))"

definition executeSkillsListCall :: "local_env \<Rightarrow> tool_call \<Rightarrow> local_runtime \<Rightarrow> call_end" where
  "executeSkillsListCall env call rt =
     (case decodeStrictToolArguments (le_decode_empty env) (tc_Arguments call) of
        None \<Rightarrow> call_failed env call ''arguments_invalid''
      | Some _ \<Rightarrow>
          let items = map (\<lambda>skill. AnyMap
                [(''name'', AnyString (truncateProcessUTF8 (sk_Name skill) 128)),
                 (''version'', AnyString (truncateProcessUTF8 (sk_Version skill) 128)),
                 (''description'', AnyString (truncateProcessUTF8 (sk_Description skill) maxLocalSkillDescriptionBytes)),
                 (''fileCount'', AnyInt (int (length (sk_Files skill))))]) (take maxLocalSkillListItems (lr_skills rt))
          in call_done env call [(''skills'', AnyList items), (''shown'', AnyInt (int (length items))),
                                 (''total'', AnyInt (int (length (lr_skills rt))))])"

definition executeSkillViewCall ::
  "local_env \<Rightarrow> 's tool_executor \<Rightarrow> tool_call \<Rightarrow> local_runtime \<Rightarrow> 's \<Rightarrow> call_end" where
  "executeSkillViewCall env ex call rt s =
     (case decodeStrictToolArguments (le_decode_view env) (tc_Arguments call) of
        None \<Rightarrow> call_failed env call ''arguments_invalid''
      | Some (name0, path0) \<Rightarrow>
          let name = trim_space name0; path1 = trim_space path0;
              path = (if path1 = [] then ''SKILL.md'' else path1)
          in (case map_of (lr_byName rt) name of
                None \<Rightarrow> call_failed env call ''skill_or_file_not_found''
              | Some skill \<Rightarrow>
                  if \<not> localSkillViewPathAllowed path then call_failed env call ''skill_or_file_not_found''
                  else
                    (case ex_ReadSkill ex skill path s of
                       Inl e \<Rightarrow> call_failed env call (skill_read_failure ''skill_or_file_not_found'' e)
                     | Inr body \<Rightarrow>
                         call_done env call [(''name'', AnyString name), (''path'', AnyString path),
                           (''encoding'', AnyString (if valid_utf8 body then ''utf-8'' else ''base64'')),
                           (''content'', AnyString (if valid_utf8 body then body else le_base64 env body))])))"

subsection \<open>Dispatch\<close>

definition executeLocalCall ::
  "local_env \<Rightarrow> 's tool_executor \<Rightarrow> local_tick \<Rightarrow> tool_call \<Rightarrow> local_runtime \<Rightarrow> 's
   \<Rightarrow> call_end \<times> status_event list \<times> local_runtime \<times> 's" where
  "executeLocalCall env ex tick call rt s =
     (let name = trim_space (tc_Name call)
      in if trim_space (tc_FailureCategory call) \<noteq> [] then (call_failed env call ''arguments_invalid'', [], rt, s)
         else if name \<in> {''read'', ''write'', ''edit'', ''grep'', ''file_read'', ''file_write'', ''file_edit'',
                         ''file_search'', ''publish_file''}
         then (case executeWorkspaceToolCall env ex call rt s of (ended, rt', s') \<Rightarrow> (ended, [], rt', s'))
         else if name \<in> {''job_list'', ''job_output'', ''job_kill''}
         then (case executeBackgroundJobToolCall env ex call rt s of (ended, rt', s') \<Rightarrow> (ended, [], rt', s'))
         else if name = ''skill''
         then (case executeSkillCall env ex call rt s of (ended, rt') \<Rightarrow> (ended, [], rt', s))
         else if name = ''skills_list'' then (executeSkillsListCall env call rt, [], rt, s)
         else if name = ''skill_view'' then (executeSkillViewCall env ex call rt s, [], rt, s)
         else if name \<in> {''bash'', ''terminal''} then executeTerminalCall env ex tick call rt s
         else (call_failed env call ''tool_not_available'', [], rt, s))"

text \<open>
  \<open>execute_local\<close> wraps a call in the events that announce and report it.  It ends in a run
  failure, or in a cancellation when the consumer is gone.
\<close>

datatype local_run_error = RunContextCanceled | LocalRunFailure string tool_error

definition execute_local ::
  "local_env \<Rightarrow> 's tool_executor \<Rightarrow> local_tick \<Rightarrow> tool_call \<Rightarrow> local_runtime \<Rightarrow> 's
   \<Rightarrow> (tool_result \<times> local_run_error option) \<times> (status_event \<times> string) list \<times> local_runtime \<times> 's" where
  "execute_local env ex tick call rt s =
     (let started = ((''running'', ''running''), [])
      in if \<not> lt_announced tick then ((no_result, Some RunContextCanceled), [], rt, s)
         else
           (case executeLocalCall env ex tick call rt s of
              ((result, failure, fatal), events, rt', s') \<Rightarrow>
                let sent = started # map (\<lambda>e. (e, [])) events
                in (case fatal of
                      Some e \<Rightarrow>
                        ((result, Some (LocalRunFailure (localSkillFatalCode e) e)),
                         sent @ [if e = DeadlineExceeded then ((''failed'', ''failed''), ''run_timeout'')
                                 else ((''cancelled'', ''canceled''), [])], rt', s')
                    | None \<Rightarrow>
                        if \<not> lt_reported tick then ((no_result, Some RunContextCanceled), sent, rt', s')
                        else ((result, None),
                              sent @ [if failure \<noteq> [] then ((''failed'', ''failed''), failure)
                                      else ((''completed'', ''succeeded''), [])], rt', s'))))"

end
