(* ===== verification/Tool_Registry.thy ===== *)
theory Tool_Registry
  imports Chat_Types
begin

text \<open>
  The tool registry of an agent turn (internal/chat/chat_tool_registry.go): which tool a name in
  a provider's answer denotes, which tools are advertised, and how results are projected back.
  A name that two sources claim denotes no tool at all.  The code never builds a nil registry,
  so the guards for a nil receiver are left out.
\<close>

section \<open>Registrations\<close>

datatype tool_risk = RiskRead | RiskWrite | RiskExecute | RiskExternal

datatype tool_backend =
    BackendWeb
  | BackendKnowledge
  | BackendMemory
  | BackendMCP
  | BackendLocalSkill
  | BackendGoal
  | BackendResource
  | BackendOther string

datatype tool_approval = ApprovalNone | ApprovalMCPPolicy | ApprovalLocalPolicy

datatype tool_presentation = PresentationSearch | PresentationTool

record tool_definition =
  td_Type :: string
  td_Name :: string
  td_Description :: string
  td_Parameters :: any_map
  td_Strict :: bool

record tool_registration =
  tg_Name :: string
  tg_Definition :: "tool_definition option"
  tg_Backend :: tool_backend
  tg_RiskClass :: tool_risk
  tg_Timeout :: int
  tg_MaxOutputBytes :: int
  tg_AllowParallel :: bool
  tg_ApprovalRule :: tool_approval
  tg_Presentation :: tool_presentation
  tg_FirstTaskStep :: bool
  tg_ProjectForModel :: "(tool_result \<Rightarrow> tool_result) option"

record tool_registry =
  rg_ordered :: "tool_registration list"
  rg_byName :: "(string, tool_registration) gomap"
  rg_colliding :: "string list"
  rg_collisions :: "(string, tool_registration list) gomap"
  rg_requiredLocalSkill :: bool

definition empty_registry :: "bool \<Rightarrow> tool_registry" where
  "empty_registry required =
     \<lparr>rg_ordered = [], rg_byName = [], rg_colliding = [], rg_collisions = [], rg_requiredLocalSkill = required\<rparr>"

definition register_tool :: "tool_registration \<Rightarrow> tool_registry \<Rightarrow> bool \<times> tool_registry" where
  "register_tool registration g =
     (let name = normalizedToolName (tg_Name registration)
      in if name = ''unknown'' \<or> tg_ProjectForModel registration = None then (False, g)
         else
           let r = registration\<lparr>tg_Name := name\<rparr>;
               g1 = g\<lparr>rg_ordered := rg_ordered g @ [r]\<rparr>
           in if name \<in> set (rg_colliding g)
              then (False, g1\<lparr>rg_collisions :=
                      AList.update name
                        ((case map_of (rg_collisions g) name of None \<Rightarrow> [] | Some rs \<Rightarrow> rs) @ [r])
                        (rg_collisions g)\<rparr>)
              else
                (case map_of (rg_byName g) name of
                   Some existing \<Rightarrow>
                     (False, g1\<lparr>rg_byName := AList.delete name (rg_byName g),
                                rg_colliding := List.insert name (rg_colliding g),
                                rg_collisions := AList.update name [existing, r] (rg_collisions g)\<rparr>)
                 | None \<Rightarrow> (True, g1\<lparr>rg_byName := AList.update name r (rg_byName g)\<rparr>)))"

definition register_all :: "tool_registration list \<Rightarrow> tool_registry \<Rightarrow> tool_registry" where
  "register_all rs g = fold (\<lambda>r g. snd (register_tool r g)) rs g"

definition forTaskStep :: "int \<Rightarrow> tool_registry \<Rightarrow> tool_registry" where
  "forTaskStep taskStep g =
     (if taskStep \<le> 1 then g
      else register_all (filter (\<lambda>r. \<not> tg_FirstTaskStep r) (rg_ordered g))
             (empty_registry (rg_requiredLocalSkill g)))"

definition lookup_tool :: "tool_registry \<Rightarrow> string \<Rightarrow> tool_registration option" where
  "lookup_tool g value =
     (let name = normalizedToolName value
      in if name \<in> set (rg_colliding g) then None else map_of (rg_byName g) name)"

definition tool_definitions :: "tool_registry \<Rightarrow> int \<Rightarrow> tool_definition list" where
  "tool_definitions g taskStep =
     List.map_filter
       (\<lambda>r. case tg_Definition r of
          None \<Rightarrow> None
        | Some d \<Rightarrow>
            if tg_FirstTaskStep r \<and> taskStep > 1 then None
            else if lookup_tool g (tg_Name r) = None then None
            else Some d)
       (rg_ordered g)"

definition projectResult :: "tool_registry \<Rightarrow> tool_result \<Rightarrow> tool_result" where
  "projectResult g result =
     (case lookup_tool g (tr_Name result) of
        None \<Rightarrow> result
      | Some r \<Rightarrow> (case tg_ProjectForModel r of None \<Rightarrow> result | Some project \<Rightarrow> project result))"

definition projectResults :: "tool_registry \<Rightarrow> (nat, tool_result) gomap \<Rightarrow> (nat, tool_result) gomap" where
  "projectResults g results = map (\<lambda>(index, result). (index, projectResult g result)) results"

text \<open>A call left out of a batch is the zero value of its type.\<close>

definition no_call :: tool_call where
  "no_call = \<lparr>tc_ChoiceIndex = 0, tc_CallIndex = 0, tc_ID = [], tc_SyntheticID = False, tc_Name = [],
              tc_Arguments = [], tc_FailureCategory = []\<rparr>"

definition callsForBackend :: "tool_registry \<Rightarrow> tool_backend \<Rightarrow> tool_call list \<Rightarrow> tool_call list" where
  "callsForBackend g backend calls =
     map (\<lambda>call. case lookup_tool g (tc_Name call) of
            None \<Rightarrow> no_call
          | Some r \<Rightarrow> if tg_Backend r = backend then call else no_call) calls"

text \<open>The JSON encoder of the standard library is a parameter.\<close>

definition chatToolFailureResult :: "(any_value \<Rightarrow> string) \<Rightarrow> tool_call \<Rightarrow> string \<Rightarrow> tool_result" where
  "chatToolFailureResult encode call category =
     \<lparr>tr_CallID = tc_ID call, tr_Name = tc_Name call,
      tr_Content = encode (AnyMap [(''untrustedChatToolResult'', AnyBool True), (''isError'', AnyBool True),
                                   (''error'', AnyString (trim_space category))]),
      tr_IsError = True\<rparr>"

definition identityChatToolResult :: "tool_result \<Rightarrow> tool_result" where
  "identityChatToolResult result = result"

section \<open>What a name denotes\<close>

text \<open>
  The reference: the registrations that are accepted, under their normalised names, and the one
  that has a given name if there is exactly one.
\<close>

definition accepted :: "tool_registration \<Rightarrow> bool" where
  "accepted r \<longleftrightarrow> normalizedToolName (tg_Name r) \<noteq> ''unknown'' \<and> tg_ProjectForModel r \<noteq> None"

definition accepted_tools :: "tool_registration list \<Rightarrow> tool_registration list" where
  "accepted_tools rs = map (\<lambda>r. r\<lparr>tg_Name := normalizedToolName (tg_Name r)\<rparr>) (filter accepted rs)"

definition named :: "string \<Rightarrow> tool_registration list \<Rightarrow> tool_registration list" where
  "named name rs = filter (\<lambda>r. tg_Name r = name) rs"

definition denoted :: "string \<Rightarrow> tool_registration list \<Rightarrow> tool_registration option" where
  "denoted name rs = (case named name rs of [r] \<Rightarrow> Some r | _ \<Rightarrow> None)"

text \<open>The registry state that stands for the accepted registrations \<open>rs\<close>.\<close>

definition registry_of :: "tool_registration list \<Rightarrow> tool_registry \<Rightarrow> bool" where
  "registry_of rs g \<longleftrightarrow>
     rg_ordered g = rs \<and>
     (\<forall>name. map_of (rg_byName g) name = denoted name rs) \<and>
     (\<forall>name. name \<in> set (rg_colliding g) \<longleftrightarrow> 2 \<le> length (named name rs)) \<and>
     (\<forall>name. map_of (rg_collisions g) name = (if 2 \<le> length (named name rs) then Some (named name rs) else None))"

lemma named_append: "named name (rs @ [r]) = named name rs @ (if tg_Name r = name then [r] else [])"
  by (simp add: named_def)

lemma denoted_cases:
  obtains (none) "named name rs = []" "denoted name rs = None"
  | (one) r where "named name rs = [r]" "denoted name rs = Some r"
  | (many) "2 \<le> length (named name rs)" "denoted name rs = None"
proof (cases "named name rs")
  case Nil
  then show ?thesis using none by (simp add: denoted_def)
next
  case (Cons r tl)
  then show ?thesis using one many by (cases tl) (simp_all add: denoted_def)
qed

lemma denoted_append_other: "tg_Name r \<noteq> name \<Longrightarrow> denoted name (rs @ [r]) = denoted name rs"
  by (simp add: denoted_def named_append)

lemma registry_of_empty: "registry_of [] (empty_registry q)"
  by (simp add: registry_of_def empty_registry_def denoted_def named_def)

lemma registry_of_register:
  assumes inv: "registry_of rs g" and ok: "accepted r"
  shows "registry_of (rs @ [r\<lparr>tg_Name := normalizedToolName (tg_Name r)\<rparr>]) (snd (register_tool r g))"
proof -
  let ?n = "normalizedToolName (tg_Name r)"
  let ?r = "r\<lparr>tg_Name := ?n\<rparr>"
  note I = inv [unfolded registry_of_def]
  have other: "n \<noteq> ?n \<Longrightarrow> denoted n (rs @ [?r]) = denoted n rs" for n
    by (rule denoted_append_other) simp
  have val: "?n \<noteq> ''unknown''" "tg_ProjectForModel r \<noteq> None"
    using ok by (simp_all add: accepted_def)
  show ?thesis
  proof (cases rule: denoted_cases [of ?n rs])
    case none
    then have "?n \<notin> set (rg_colliding g)" "map_of (rg_byName g) ?n = None" using I by auto
    then show ?thesis using I none val other
      by (auto simp: registry_of_def register_tool_def Let_def update_conv' denoted_def named_append)
  next
    case (one e)
    then have "?n \<notin> set (rg_colliding g)" "map_of (rg_byName g) ?n = Some e" using I by auto
    then show ?thesis using I one val other
      by (auto simp: registry_of_def register_tool_def Let_def update_conv' delete_conv' denoted_def named_append)
  next
    case many
    then have "?n \<in> set (rg_colliding g)" "map_of (rg_collisions g) ?n = Some (named ?n rs)"
      "map_of (rg_byName g) ?n = None" using I by auto
    moreover have "denoted ?n (rs @ [?r]) = None"
      using many by (auto simp: denoted_def named_append split: list.split)
    moreover from this have "denoted n (rs @ [?r]) = denoted n rs" for n
      using other many by (cases "n = ?n") simp_all
    ultimately show ?thesis using I many val
      by (auto simp: registry_of_def register_tool_def Let_def update_conv' named_append)
  qed
qed

lemma register_rejected: "\<not> accepted r \<Longrightarrow> register_tool r g = (False, g)"
  by (auto simp: accepted_def register_tool_def Let_def)

lemma registry_of_all:
  "registry_of rs0 g \<Longrightarrow> registry_of (rs0 @ accepted_tools rs) (register_all rs g)"
proof (induction rs arbitrary: rs0 g)
  case Nil
  then show ?case by (simp add: register_all_def accepted_tools_def)
next
  case (Cons r rs)
  show ?case
  proof (cases "accepted r")
    case True
    from Cons.IH [OF registry_of_register [OF Cons.prems True]] show ?thesis
      by (simp add: register_all_def accepted_tools_def True)
  next
    case False
    with Cons.IH [OF Cons.prems] show ?thesis
      by (simp add: register_all_def accepted_tools_def register_rejected)
  qed
qed

lemma register_all_correct: "registry_of (accepted_tools rs) (register_all rs (empty_registry q))"
  using registry_of_all [OF registry_of_empty] by simp

lemma lookup_denoted: "registry_of rs g \<Longrightarrow> lookup_tool g value = denoted (normalizedToolName value) rs"
  by (cases rule: denoted_cases [of "normalizedToolName value" rs])
     (auto simp: registry_of_def lookup_tool_def Let_def)

lemma register_all_required: "rg_requiredLocalSkill (register_all rs g) = rg_requiredLocalSkill g"
proof (induction rs arbitrary: g)
  case (Cons r rs)
  have "rg_requiredLocalSkill (snd (register_tool r g)) = rg_requiredLocalSkill g"
    by (simp add: register_tool_def Let_def split: option.split)
  with Cons show ?case by (simp add: register_all_def)
qed (simp add: register_all_def)

text \<open>
  Normalising a name again changes nothing, unless the cut at 128 bytes left a trailing space.
\<close>

definition name_stable :: "tool_registration \<Rightarrow> bool" where
  "name_stable r \<longleftrightarrow> normalizedToolName (normalizedToolName (tg_Name r)) = normalizedToolName (tg_Name r)"

lemma accepted_tools_again:
  assumes "list_all name_stable rs"
  shows "accepted_tools (filter P (accepted_tools rs)) = filter P (accepted_tools rs)"
proof -
  let ?norm = "\<lambda>r. r\<lparr>tg_Name := normalizedToolName (tg_Name r)\<rparr>"
  have fixed: "accepted r \<and> ?norm r = r" if "r \<in> set (accepted_tools rs)" for r
  proof -
    from that obtain r0 where r0: "r0 \<in> set rs" "accepted r0" "r = ?norm r0"
      by (auto simp: accepted_tools_def)
    with assms have "normalizedToolName (tg_Name r) = tg_Name r"
      by (auto simp: list_all_iff name_stable_def)
    with r0 show ?thesis by (auto simp: accepted_def)
  qed
  have "filter accepted (filter P (accepted_tools rs)) = filter P (accepted_tools rs)"
    by (rule filter_True) (use fixed in auto)
  then have "accepted_tools (filter P (accepted_tools rs)) = map ?norm (filter P (accepted_tools rs))"
    by (simp add: accepted_tools_def [of "filter P (accepted_tools rs)"])
  also have "\<dots> = filter P (accepted_tools rs)"
    by (rule map_idI) (use fixed in auto)
  finally show ?thesis .
qed

lemma denoted_self: "r \<in> set rs \<Longrightarrow> denoted (tg_Name r) rs \<noteq> None \<longleftrightarrow> denoted (tg_Name r) rs = Some r"
proof (cases rule: denoted_cases [of "tg_Name r" rs])
  case (one e)
  assume "r \<in> set rs"
  then have "r \<in> set (named (tg_Name r) rs)" by (simp add: named_def)
  with one show ?thesis by simp
qed simp_all

text \<open>The reference for the advertised definitions.\<close>

definition advertised :: "tool_registration list \<Rightarrow> int \<Rightarrow> tool_definition list" where
  "advertised rs taskStep =
     List.map_filter
       (\<lambda>r. if (tg_FirstTaskStep r \<and> taskStep > 1) \<or> denoted (tg_Name r) rs \<noteq> Some r then None
            else tg_Definition r) rs"

lemma map_filter_cong:
  "(\<And>x. x \<in> set xs \<Longrightarrow> f x = g x) \<Longrightarrow> List.map_filter f xs = List.map_filter g xs"
  by (induction xs) (simp_all add: map_filter_simps split: option.split)

lemma tool_definitions_advertised:
  assumes inv: "registry_of rs g" and fixed: "\<And>r. r \<in> set rs \<Longrightarrow> normalizedToolName (tg_Name r) = tg_Name r"
  shows "tool_definitions g taskStep = advertised rs taskStep"
proof -
  have ordered: "rg_ordered g = rs" using inv by (simp add: registry_of_def)
  have "(case tg_Definition r of None \<Rightarrow> None
      | Some d \<Rightarrow> if tg_FirstTaskStep r \<and> taskStep > 1 then None
                  else if lookup_tool g (tg_Name r) = None then None else Some d) =
    (if (tg_FirstTaskStep r \<and> taskStep > 1) \<or> denoted (tg_Name r) rs \<noteq> Some r then None else tg_Definition r)"
    if "r \<in> set rs" for r
    using lookup_denoted [OF inv, of "tg_Name r"] fixed [OF that] denoted_self [OF that]
    by (auto split: option.split)
  then show ?thesis
    unfolding tool_definitions_def advertised_def ordered by (rule map_filter_cong)
qed

text \<open>
  C29: The registry is built incrementally, moving a name from the table of available tools to
  the table of collisions when a second tool claims it.  It is equivalent to the plain reading: a
  name denotes a tool exactly if one accepted registration has that normalised name, both in the
  registry of the first task step and, among the registrations that outlive it, in the registry
  of a later step; and what is advertised to the model is exactly the definitions of the tools
  that are denoted by their own name.
\<close>

theorem registry_resolves_unique:
  assumes "list_all name_stable rs"
  shows "lookup_tool (register_all rs (empty_registry q)) value =
           denoted (normalizedToolName value) (accepted_tools rs) \<and>
         tool_definitions (register_all rs (empty_registry q)) step = advertised (accepted_tools rs) step \<and>
         lookup_tool (forTaskStep step (register_all rs (empty_registry q))) value =
           denoted (normalizedToolName value)
             (filter (\<lambda>r. step \<le> 1 \<or> \<not> tg_FirstTaskStep r) (accepted_tools rs))"
proof -
  note inv = register_all_correct [of rs q]
  have "normalizedToolName (tg_Name r) = tg_Name r" if "r \<in> set (accepted_tools rs)" for r
    using that assms by (auto simp: accepted_tools_def list_all_iff name_stable_def)
  then have defs: "tool_definitions (register_all rs (empty_registry q)) step = advertised (accepted_tools rs) step"
    by (rule tool_definitions_advertised [OF inv])
  have ordered: "rg_ordered (register_all rs (empty_registry q)) = accepted_tools rs"
    using inv by (simp add: registry_of_def)
  have later: "registry_of (filter (\<lambda>r. \<not> tg_FirstTaskStep r) (accepted_tools rs))
      (register_all (filter (\<lambda>r. \<not> tg_FirstTaskStep r) (accepted_tools rs)) (empty_registry q'))" for q'
    using register_all_correct [of "filter (\<lambda>r. \<not> tg_FirstTaskStep r) (accepted_tools rs)" q']
    by (simp add: accepted_tools_again [OF assms])
  show ?thesis
    using lookup_denoted [OF inv] lookup_denoted [OF later] defs
    by (simp add: forTaskStep_def ordered)
qed

definition example_tool :: "string \<Rightarrow> tool_backend \<Rightarrow> bool \<Rightarrow> tool_registration" where
  "example_tool name backend first =
     \<lparr>tg_Name = name,
      tg_Definition = Some \<lparr>td_Type = ''function'', td_Name = name, td_Description = [],
                            td_Parameters = [], td_Strict = True\<rparr>,
      tg_Backend = backend, tg_RiskClass = RiskRead, tg_Timeout = 0, tg_MaxOutputBytes = 1048576,
      tg_AllowParallel = False, tg_ApprovalRule = ApprovalNone, tg_Presentation = PresentationSearch,
      tg_FirstTaskStep = first, tg_ProjectForModel = Some identityChatToolResult\<rparr>"

definition example_tools :: "tool_registration list" where
  "example_tools = [example_tool ''search_memory'' BackendMemory True, example_tool ''search_web'' BackendWeb False,
                    example_tool ''search_web'' BackendMCP False]"

lemma example_tool_names:
  "normalizedToolName ''search_memory'' = ''search_memory''" "normalizedToolName ''search_web'' = ''search_web''"
  by (simp_all add: trim_space_printable printable_def normalizedToolName_def) (code_simp, code_simp)

theorem registry_resolves_unique_witness:
  "lookup_tool (register_all example_tools (empty_registry False)) ''search_memory'' =
     Some (example_tool ''search_memory'' BackendMemory True) \<and>
   lookup_tool (register_all example_tools (empty_registry False)) ''search_web'' = None"
proof -
  have "list_all name_stable example_tools"
    by (simp add: example_tools_def name_stable_def example_tool_def example_tool_names)
  from registry_resolves_unique [OF this, of False "''search_memory''" 0]
    registry_resolves_unique [OF this, of False "''search_web''" 0]
  show ?thesis
    by (simp add: example_tool_names example_tools_def accepted_tools_def accepted_def example_tool_def denoted_def
          named_def)
qed

text \<open>
  The exception is real: a name of 127 letters, a space and a letter is cut after the space.  The
  registry resolves the full name, but does not advertise the tool, because looking the cut name
  up again trims the space.
\<close>

definition example_letters :: string where
  "example_letters = replicate 127 (CHR ''a'')"

definition example_long_tool :: tool_registration where
  "example_long_tool = example_tool (example_letters @ '' b'') BackendMCP False"

lemma example_letters_facts: "length example_letters = 127" "is_ascii example_letters" "example_letters \<noteq> []"
    "hd example_letters = CHR ''a''" "last example_letters = CHR ''a''" "rev example_letters = example_letters"
  by (simp_all add: example_letters_def is_ascii_def list_all_iff)

lemma long_name_cut: "normalizedToolName (example_letters @ '' b'') = example_letters @ '' ''"
proof -
  have t: "trim_space (example_letters @ '' b'') = example_letters @ '' b''"
    by (rule trim_space_printable) (simp_all add: example_letters_facts printable_def)
  have "valid_utf8 (example_letters @ '' '')"
    by (rule valid_utf8_ascii) (simp add: example_letters_facts is_ascii_def [of "'' ''"])
  then show ?thesis
    by (simp add: normalizedToolName_def t truncateProcessUTF8_def maxToolNameBytes_def example_letters_facts
          shrink_right.simps [of "example_letters @ '' ''"])
qed

lemma long_name_again: "normalizedToolName (example_letters @ '' '') = example_letters"
proof -
  have "strip space_codes (example_letters @ '' '') = example_letters @ '' ''"
    by (intro strip_fixed disjI2 lead_code_printable space_codes_unprintable)
       (simp_all add: example_letters_facts printable_def)
  moreover have "strip (map rev space_codes) (CHR '' '' # example_letters) = example_letters"
  proof -
    have "strip (map rev space_codes) example_letters = example_letters"
      by (intro strip_fixed disjI2 lead_code_printable space_codes_unprintable)
         (simp_all add: example_letters_facts printable_def)
    moreover have "lead_code (map rev space_codes) (CHR '' '' # example_letters) = 1"
      by (simp add: lead_code_def space_codes_def upt_rec)
    ultimately show ?thesis by (simp add: strip.simps [of _ "CHR '' '' # _"])
  qed
  ultimately have "trim_space (example_letters @ '' '') = example_letters"
    by (simp add: trim_space_def example_letters_facts)
  then show ?thesis
    by (simp add: normalizedToolName_def truncateProcessUTF8_def maxToolNameBytes_def example_letters_facts)
qed

lemma long_name_not_advertised:
  "tool_definitions (snd (register_tool example_long_tool (empty_registry False))) 1 = [] \<and>
   lookup_tool (snd (register_tool example_long_tool (empty_registry False))) (tg_Name example_long_tool) \<noteq> None"
proof -
  have "example_letters @ '' '' \<noteq> ''unknown''"
    using example_letters_facts(1) by (auto dest: arg_cong [where f = length])
  then show ?thesis
    by (simp add: example_long_tool_def example_tool_def register_tool_def empty_registry_def long_name_cut Let_def
          tool_definitions_def lookup_tool_def long_name_again map_filter_simps)
qed

end
