(* ===== verification/Tool_Batch.thy ===== *)
theory Tool_Batch
  imports Tool_Registry
begin

text \<open>
  What the tool backends of a turn share: the loop that walks over the calls of a batch, taking up
  to four consecutive parallel calls at a time (internal/chat/chat_tool_scheduler.go,
  local\_skill\_tool\_loop.go and mcp\_tool\_loop.go have the same loop), and the contract that the
  scheduler relies on, as the locale \<open>tool_backend\<close>.
\<close>

section \<open>Groups of calls\<close>

definition maxParallelChatReadTools :: nat where "maxParallelChatReadTools = 4"

text \<open>
  The calls from the current offset to \<open>end\<close>: a serial call alone, or a parallel one with the
  parallel calls that follow it.
\<close>

definition next_group :: "('a \<Rightarrow> bool) \<Rightarrow> 'a list \<Rightarrow> 'a list" where
  "next_group par xs =
     (case xs of [] \<Rightarrow> []
      | x # rest \<Rightarrow> x # (if par x then take (maxParallelChatReadTools - 1) (takeWhile par rest) else []))"

lemma length_next_group: "xs \<noteq> [] \<Longrightarrow> 0 < length (next_group par xs)"
  by (cases xs) (simp_all add: next_group_def)

lemma drop_group_less: "xs \<noteq> [] \<Longrightarrow> length xs - length (next_group par xs) < length xs"
  using length_next_group [of xs par] by (cases xs) (simp_all add: diff_less)

lemma next_group_prefix: "next_group par xs = take (length (next_group par xs)) xs"
proof (cases xs)
  case (Cons x rest)
  have "take (length (take n (takeWhile par rest))) rest = take n (takeWhile par rest)" for n
    by (metis length_take min_def nle_le takeWhile_eq_take take_take length_takeWhile_le)
  with Cons show ?thesis by (simp add: next_group_def)
qed (simp add: next_group_def)

lemma next_group_le: "length (next_group par xs) \<le> maxParallelChatReadTools"
  by (cases xs) (auto simp: next_group_def maxParallelChatReadTools_def)

lemma next_group_kind: "(\<exists>x. next_group par xs = [x]) \<or> list_all par (next_group par xs)"
  by (cases xs) (auto simp: next_group_def list_all_iff dest: in_set_takeD set_takeWhileD)

lemma set_next_group: "set (next_group par xs) \<subseteq> set xs"
  by (cases xs) (auto simp: next_group_def dest: in_set_takeD set_takeWhileD)

lemma next_group_append: "next_group par xs @ drop (length (next_group par xs)) xs = xs"
  by (subst next_group_prefix) simp

text \<open>
  \<open>run_groups\<close> is the loop: \<open>step\<close> handles a group and says whether to go on.
\<close>

function run_groups :: "('a \<Rightarrow> bool) \<Rightarrow> ('a list \<Rightarrow> 'acc \<Rightarrow> 'acc \<times> bool) \<Rightarrow> 'a list \<Rightarrow> 'acc \<Rightarrow> 'acc" where
  "run_groups par step xs acc =
     (if xs = [] then acc
      else (case step (next_group par xs) acc of
              (acc', continue) \<Rightarrow>
                if continue then run_groups par step (drop (length (next_group par xs)) xs) acc' else acc'))"
  by pat_completeness auto
termination
  by (relation "measure (\<lambda>(par, step, xs, acc). length xs)") (auto simp: drop_group_less)

declare run_groups.simps [simp del]

lemma run_groups_Nil [simp]: "run_groups par step [] acc = acc"
  by (simp add: run_groups.simps)

text \<open>The groups of the whole list, and what the loop does over them.\<close>

function groups :: "('a \<Rightarrow> bool) \<Rightarrow> 'a list \<Rightarrow> 'a list list" where
  "groups par xs =
     (if xs = [] then []
      else next_group par xs # groups par (drop (length (next_group par xs)) xs))"
  by pat_completeness auto
termination
  by (relation "measure (\<lambda>(par, xs). length xs)") (auto simp: drop_group_less)

declare groups.simps [simp del]

lemma concat_groups: "concat (groups par xs) = xs"
proof (induction par xs rule: groups.induct)
  case (1 par xs)
  show ?case
  proof (cases "xs = []")
    case False
    have "concat (groups par xs) = next_group par xs @ drop (length (next_group par xs)) xs"
      using 1 False by (simp add: groups.simps [of par xs])
    also have "\<dots> = xs"
      by (subst next_group_prefix) simp
    finally show ?thesis .
  qed (simp add: groups.simps)
qed

lemma groups_shape:
  "g \<in> set (groups par xs) \<Longrightarrow>
   g \<noteq> [] \<and> length g \<le> maxParallelChatReadTools \<and> ((\<exists>x. g = [x]) \<or> list_all par g)"
proof (induction par xs rule: groups.induct)
  case (1 par xs)
  then show ?case
    using next_group_le [of par xs] next_group_kind [of par xs] length_next_group [of xs par]
    by (auto simp: groups.simps [of par xs] split: if_splits)
qed

text \<open>An invariant of the loop: whatever every group keeps, the loop keeps.\<close>

lemma run_groups_invariant:
  assumes "P acc"
    and "\<And>g acc. P acc \<Longrightarrow> set g \<subseteq> set xs \<Longrightarrow> P (fst (step g acc))"
  shows "P (run_groups par step xs acc)"
  using assms
proof (induction par step xs acc rule: run_groups.induct)
  case (1 par step xs acc)
  obtain acc' continue where st: "step (next_group par xs) acc = (acc', continue)" by fastforce
  have P': "P acc'"
    using "1.prems"(2) [OF "1.prems"(1) set_next_group, of par] st by simp
  have sub: "set g \<subseteq> set (drop (length (next_group par xs)) xs) \<Longrightarrow> set g \<subseteq> set xs" for g
    by (erule subset_trans) (rule set_drop_subset)
  show ?case
  proof (cases "xs = [] \<or> \<not> continue")
    case True
    then have "run_groups par step xs acc = acc \<or> run_groups par step xs acc = acc'"
      using st by (cases "xs = []") (simp_all add: run_groups.simps [of par step xs acc])
    then show ?thesis using "1.prems"(1) P' by metis
  next
    case False
    have "P (run_groups par step (drop (length (next_group par xs)) xs) acc')"
    proof (rule "1.IH" [OF _ st [symmetric] _ P'])
      show "xs \<noteq> []" and continue using False by simp_all
      show "P (fst (step g a))" if "P a" "set g \<subseteq> set (drop (length (next_group par xs)) xs)" for g a
        by (rule "1.prems"(2) [OF that(1) sub [OF that(2)]])
    qed
    with False st show ?thesis by (simp add: run_groups.simps [of par step xs acc])
  qed
qed

text \<open>
  When the loop stops only if \<open>failed\<close>, an unfailed run has visited every element: whatever each
  visited group establishes for its elements and later groups keep, holds of all.
\<close>

lemma run_groups_visits:
  assumes stop: "\<And>g acc. set g \<subseteq> set xs \<Longrightarrow> \<not> snd (step g acc) \<Longrightarrow> failed (fst (step g acc))"
    and once: "\<And>g acc x. set g \<subseteq> set xs \<Longrightarrow> x \<in> set g \<Longrightarrow> \<not> failed (fst (step g acc)) \<Longrightarrow> Q x (fst (step g acc))"
    and keep: "\<And>g acc x. set g \<subseteq> set xs \<Longrightarrow> Q x acc \<Longrightarrow> Q x (fst (step g acc))"
    and stays: "\<And>g acc. set g \<subseteq> set xs \<Longrightarrow> failed acc \<Longrightarrow> failed (fst (step g acc))"
    and good: "\<not> failed (run_groups par step xs acc)"
    and "x \<in> set xs"
  shows "Q x (run_groups par step xs acc)"
  using assms
proof (induction par step xs acc rule: run_groups.induct)
  case (1 par step xs acc)
  obtain acc' continue where st: "step (next_group par xs) acc = (acc', continue)" by fastforce
  let ?rest = "drop (length (next_group par xs)) xs"
  have ne: "xs \<noteq> []" using "1.prems"(6) by auto
  have sub: "set g \<subseteq> set ?rest \<Longrightarrow> set g \<subseteq> set xs" for g
    by (erule subset_trans) (rule set_drop_subset)
  note head = set_next_group [of par xs]
  have unfold: "run_groups par step xs acc = (if continue then run_groups par step ?rest acc' else acc')"
    using ne st by (simp add: run_groups.simps [of par step xs acc])
  show ?case
  proof (cases continue)
    case False
    then have "failed acc'" using "1.prems"(1) [OF head, of acc] st by simp
    with "1.prems"(5) unfold False show ?thesis by simp
  next
    case True
    show ?thesis
    proof (cases "x \<in> set ?rest")
      case True
      have "Q x (run_groups par step ?rest acc')"
      proof (rule "1.IH" [OF ne st [symmetric] \<open>continue\<close> _ _ _ _ _ True])
        fix g a y
        assume g: "set g \<subseteq> set ?rest"
        show "\<not> snd (step g a) \<Longrightarrow> failed (fst (step g a))" by (rule "1.prems"(1) [OF sub [OF g]])
        show "y \<in> set g \<Longrightarrow> \<not> failed (fst (step g a)) \<Longrightarrow> Q y (fst (step g a))" by (rule "1.prems"(2) [OF sub [OF g]])
        show "Q y a \<Longrightarrow> Q y (fst (step g a))" by (rule "1.prems"(3) [OF sub [OF g]])
        show "failed a \<Longrightarrow> failed (fst (step g a))" by (rule "1.prems"(4) [OF sub [OF g]])
      next
        show "\<not> failed (run_groups par step ?rest acc')"
          using "1.prems"(5) unfold \<open>continue\<close> by simp
      qed
      with unfold \<open>continue\<close> show ?thesis by simp
    next
      case False
      have "x \<in> set (next_group par xs) \<union> set ?rest"
        using "1.prems"(6) by (metis next_group_append set_append)
      with False have x: "x \<in> set (next_group par xs)" by simp
      have keep_run: "Q x (run_groups par step ?rest a)" if "Q x a" for a
        by (rule run_groups_invariant [where P = "Q x", OF that]) (use "1.prems"(3) sub in blast)
      show ?thesis
      proof (cases "failed acc'")
        case False
        then have "Q x acc'" using "1.prems"(2) [OF head x, of acc] st by simp
        with keep_run unfold \<open>continue\<close> show ?thesis by simp
      next
        case True
        have "failed (run_groups par step ?rest acc')"
          by (rule run_groups_invariant [where P = failed, OF True]) (use "1.prems"(4) sub in blast)
        with "1.prems"(5) unfold \<open>continue\<close> show ?thesis by simp
      qed
    qed
  qed
qed

section \<open>The contract of a backend\<close>

record batch_run =
  br_results :: "(nat, tool_result) gomap"
  br_budget :: bool

text \<open>
  \<open>run calls st\<close> executes a batch; the error of the batch is an \<open>'e option\<close>.  A backend
  reports at most one result for an index, only for calls that have a name, and, unless it fails,
  each result bears the identifier of its call.
\<close>

locale tool_backend =
  fixes run :: "tool_call list \<Rightarrow> 'st \<Rightarrow> (batch_run \<times> 'e option) \<times> 'st"
    and inv :: "'st \<Rightarrow> bool"
  assumes inv_kept: "inv st \<Longrightarrow> inv (snd (run calls st))"
    and results_distinct: "inv st \<Longrightarrow> keys_distinct (br_results (fst (fst (run calls st))))"
    and results_named: "inv st \<Longrightarrow> map_of (br_results (fst (fst (run calls st)))) i = Some r \<Longrightarrow>
      i < length calls \<and> trim_space (tc_Name (calls ! i)) \<noteq> []"
    and results_owned: "inv st \<Longrightarrow> snd (fst (run calls st)) = None \<Longrightarrow>
      map_of (br_results (fst (fst (run calls st)))) i = Some r \<Longrightarrow> tr_CallID r = tc_ID (calls ! i)"

end
