(* ===== verification/Local_Batch.thy ===== *)
theory Local_Batch
  imports Local_Tools Tool_Batch
begin

text \<open>
  The batches of local tool calls (internal/chat/local\_skill\_tool\_loop.go): the batch in which
  the calls run, and the prelude in which nothing may run before a required skill is loaded.

  The members of a parallel group run at the same time in the code.  Here they take effect one
  after the other in the order in which they complete, \<open>rank\<close> giving the completion time of the
  call with a given index; the executor and the runtime guard their state with locks, so this is
  one of the interleavings the code allows at the grain of a whole call.
\<close>

record prepared_call =
  pc_index :: nat
  pc_call :: tool_call
  pc_number :: int

text \<open>\<open>ticks i\<close> is what the call with index \<open>i\<close> meets outside.\<close>

type_synonym 's local_progress = "(nat, tool_result) gomap \<times> local_run_error option \<times> local_runtime \<times> 's"

fun prepare_local ::
  "local_env \<Rightarrow> bool \<Rightarrow> nat \<Rightarrow> tool_call list \<Rightarrow> (nat, tool_result) gomap \<times> bool \<times> prepared_call list \<times> local_runtime
   \<Rightarrow> (nat, tool_result) gomap \<times> bool \<times> prepared_call list \<times> local_runtime" where
  "prepare_local env completionDriven i [] acc = acc"
| "prepare_local env completionDriven i (call # calls) (results, budget, prepared, rt) =
     (if \<not> local_handles rt (tc_Name call)
      then prepare_local env completionDriven (i + 1) calls (results, budget, prepared, rt)
      else if \<not> completionDriven \<and> lr_calls rt \<ge> lc_MaxCalls (lr_config rt)
      then prepare_local env completionDriven (i + 1) calls
             (AList.update i (localSkillFailureResult env call ''budget_exhausted'') results, True, prepared, rt)
      else let rt1 = rt\<lparr>lr_calls := lr_calls rt + 1\<rparr>
           in prepare_local env completionDriven (i + 1) calls
                (results, budget, prepared @ [\<lparr>pc_index = i, pc_call = call, pc_number = lr_calls rt1\<rparr>], rt1))"

definition complete_local ::
  "local_env \<Rightarrow> 's tool_executor \<Rightarrow> (nat \<Rightarrow> local_tick) \<Rightarrow> prepared_call \<Rightarrow> 's local_progress \<Rightarrow> 's local_progress" where
  "complete_local env ex ticks p acc =
     (case acc of (results, fatal, rt, s) \<Rightarrow>
       (case execute_local env ex (ticks (pc_index p)) (pc_call p) rt s of
          ((result, err), _, rt', s') \<Rightarrow>
            (AList.update (pc_index p) result results, if fatal = None then err else fatal, rt', s')))"

definition local_group ::
  "local_env \<Rightarrow> 's tool_executor \<Rightarrow> (nat \<Rightarrow> local_tick) \<Rightarrow> (nat \<Rightarrow> nat) \<Rightarrow> prepared_call list \<Rightarrow> 's local_progress
   \<Rightarrow> 's local_progress \<times> bool" where
  "local_group env ex ticks rank g acc =
     (let acc' = fold (complete_local env ex ticks) (sort_key (\<lambda>p. rank (pc_index p)) g) acc
      in (acc', fst (snd acc') = None))"

definition executeLocalSkillBatch ::
  "local_env \<Rightarrow> 's tool_executor \<Rightarrow> (nat \<Rightarrow> local_tick) \<Rightarrow> (nat \<Rightarrow> nat) \<Rightarrow> bool \<Rightarrow> tool_call list
   \<Rightarrow> local_runtime \<times> 's \<Rightarrow> (batch_run \<times> local_run_error option) \<times> local_runtime \<times> 's" where
  "executeLocalSkillBatch env ex ticks rank completionDriven calls st =
     (case st of (rt, s) \<Rightarrow>
        if \<not> lr_enabled rt then ((\<lparr>br_results = [], br_budget = False\<rparr>, None), rt, s)
        else
          (case prepare_local env completionDriven 0 calls ([], False, [], rt) of
             (results, budget, prepared, rt1) \<Rightarrow>
               (case run_groups (\<lambda>p. localSkillToolAllowsParallel (tc_Name (pc_call p)))
                       (local_group env ex ticks rank) prepared (results, None, rt1, s) of
                  (results', fatal, rt2, s') \<Rightarrow>
                    ((\<lparr>br_results = results', br_budget = budget\<rparr>, fatal), rt2, s'))))"

text \<open>The prelude: only a call of \<open>skill\<close> for the required skill is executed.\<close>

fun required_from ::
  "local_env \<Rightarrow> 's tool_executor \<Rightarrow> (nat \<Rightarrow> local_tick) \<Rightarrow> bool \<Rightarrow> string \<Rightarrow> nat \<Rightarrow> tool_call list
   \<Rightarrow> (nat, tool_result) gomap \<Rightarrow> bool \<Rightarrow> local_runtime \<Rightarrow> 's
   \<Rightarrow> (batch_run \<times> local_run_error option) \<times> local_runtime \<times> 's" where
  "required_from env ex ticks completionDriven requiredName i [] results budget rt s =
     ((\<lparr>br_results = results, br_budget = budget\<rparr>, None), rt, s)"
| "required_from env ex ticks completionDriven requiredName i (call # calls) results budget rt s =
     (if \<not> completionDriven \<and> lr_calls rt \<ge> lc_MaxCalls (lr_config rt)
      then required_from env ex ticks completionDriven requiredName (i + 1) calls
             (AList.update i (localSkillFailureResult env call ''budget_exhausted'') results) True rt s
      else
        let rt1 = rt\<lparr>lr_calls := lr_calls rt + 1\<rparr>;
            refuse = required_from env ex ticks completionDriven requiredName (i + 1) calls
              (AList.update i (localSkillFailureResult env call ''skill_required_before_action'') results) budget rt1 s
        in if trim_space (tc_Name call) \<noteq> ''skill'' then refuse
           else if (case decodeStrictToolArguments (le_decode_name env) (tc_Arguments call) of
                      None \<Rightarrow> False | Some name \<Rightarrow> trim_space name \<noteq> requiredName)
           then refuse
           else
             (case execute_local env ex (ticks i) call rt1 s of
                ((result, err), _, rt2, s2) \<Rightarrow>
                  if err \<noteq> None
                  then ((\<lparr>br_results = AList.update i result results, br_budget = budget\<rparr>, err), rt2, s2)
                  else required_from env ex ticks completionDriven requiredName (i + 1) calls
                         (AList.update i result results) budget rt2 s2))"

definition executeRequiredLocalSkillBatch ::
  "local_env \<Rightarrow> 's tool_executor \<Rightarrow> (nat \<Rightarrow> local_tick) \<Rightarrow> bool \<Rightarrow> tool_call list \<Rightarrow> local_runtime \<times> 's
   \<Rightarrow> (batch_run \<times> local_run_error option) \<times> local_runtime \<times> 's" where
  "executeRequiredLocalSkillBatch env ex ticks completionDriven calls st =
     (case st of (rt, s) \<Rightarrow>
        if \<not> lr_enabled rt then ((\<lparr>br_results = [], br_budget = False\<rparr>, None), rt, s)
        else
          (case requiredSkillName rt of
             (requiredName, rt1) \<Rightarrow>
               if requiredName = [] then ((\<lparr>br_results = [], br_budget = False\<rparr>, None), rt1, s)
               else required_from env ex ticks completionDriven requiredName 0 calls [] False rt1 s))"

section \<open>Every result belongs to its call\<close>

definition owned :: "tool_call \<Rightarrow> call_end \<Rightarrow> bool" where
  "owned call e \<longleftrightarrow> (case e of (r, _, fatal) \<Rightarrow> fatal = None \<longrightarrow> tr_CallID r = tc_ID call)"

lemma owned_basic [simp]:
  "owned call (call_failed env call category)" "owned call (call_done env call payload)"
  "owned call (call_fatal e)"
  "owned call (localSkillSuccessResult env call payload, failure, x)"
  "owned call (localSkillFailureResult env call category, failure, x)"
  by (simp_all add: owned_def call_failed_def call_done_def call_fatal_def localSkillFailureResult_def
      localSkillSuccessResult_def Let_def)

lemma owned_results [simp]:
  "owned call (workspaceToolResult env call outcome)" "owned call (backgroundJobToolResult env call outcome')"
  "owned call (localTerminalToolResult env call r failure, failure', x)"
  "owned call (localTerminalToolResultWithWorkspaceFiles env call r files, failure', x)"
  "owned call (publishedArtifactToolResult env call snapshot artifact already, failure', x)"
  "owned call (backgroundJobToolResultWithWorkspaceFiles env call job files, failure', x)"
      apply (simp add: workspaceToolResult_def split: sum.split)
     apply (simp add: backgroundJobToolResult_def split: sum.split)
    apply (simp add: localTerminalToolResult_def)
    apply (simp add: owned_def)
   apply (simp_all add: localTerminalToolResultWithWorkspaceFiles_def publishedArtifactToolResult_def
      backgroundJobToolResultWithWorkspaceFiles_def)
  done

text \<open>Case rules that descend into the branches of an operation.\<close>

lemma branch_if: "(b \<Longrightarrow> P x) \<Longrightarrow> (\<not> b \<Longrightarrow> P y) \<Longrightarrow> P (if b then x else y)"
  by simp

lemma branch_option: "(x = None \<Longrightarrow> P a) \<Longrightarrow> (\<And>v. x = Some v \<Longrightarrow> P (f v)) \<Longrightarrow> P (case x of None \<Rightarrow> a | Some v \<Rightarrow> f v)"
  by (cases x) simp_all

lemma branch_sum:
  "(\<And>v. x = Inl v \<Longrightarrow> P (f v)) \<Longrightarrow> (\<And>v. x = Inr v \<Longrightarrow> P (g v)) \<Longrightarrow> P (case x of Inl v \<Rightarrow> f v | Inr v \<Rightarrow> g v)"
  by (cases x) simp_all

lemma branch_prod: "(\<And>a b. x = (a, b) \<Longrightarrow> P (f a b)) \<Longrightarrow> P (case x of (a, b) \<Rightarrow> f a b)"
  by (cases x) simp

definition owned_end :: "tool_call \<Rightarrow> call_end \<times> 'x \<Rightarrow> bool" where
  "owned_end call e = owned call (fst e)"

lemma owned_end_pair [simp]: "owned_end call (e, x) = owned call e"
  by (simp add: owned_end_def)

lemmas branches = branch_if [where P = "owned_end c" for c] branch_option [where P = "owned_end c" for c]
  branch_sum [where P = "owned_end c" for c] branch_prod [where P = "owned_end c" for c]

lemmas end_branches = branch_if [where P = "owned c" for c] branch_option [where P = "owned c" for c]
  branch_sum [where P = "owned c" for c] branch_prod [where P = "owned c" for c]

lemma owned_publish: "owned_end call (executePublishFileToolCall env ex call rt s)"
  unfolding executePublishFileToolCall_def Let_def by (intro branches; simp)

lemma owned_workspace: "owned_end call (executeWorkspaceToolCall env ex call rt s)"
  unfolding executeWorkspaceToolCall_def Let_def by (intro branches owned_publish; simp)

lemma owned_job: "owned_end call (executeBackgroundJobToolCall env ex call rt s)"
  unfolding executeBackgroundJobToolCall_def Let_def by (intro branches; simp)

lemma owned_skill: "owned_end call (executeSkillCall env ex call rt s)"
  unfolding executeSkillCall_def Let_def by (intro branches; simp)

lemma owned_skill_reads: "owned call (executeSkillsListCall env call rt)" "owned call (executeSkillViewCall env ex call rt s)"
  unfolding executeSkillsListCall_def executeSkillViewCall_def Let_def by (intro end_branches; simp)+

lemma owned_approval:
  "with_approval env call tick approvals submit request s = (Inl ended, x) \<Longrightarrow> owned call ended"
  by (auto simp: with_approval_def split: prod.splits sum.splits if_splits)

lemma owned_terminal: "owned_end call (executeTerminalCall env ex tick call rt s)"
  unfolding executeTerminalCall_def Let_def by (intro branches; simp add: owned_approval)

lemma owned_local: "owned_end call (executeLocalCall env ex tick call rt s)"
  unfolding executeLocalCall_def Let_def
  using owned_workspace [of call env ex rt s] owned_job [of call env ex rt s] owned_skill [of call env ex rt s]
  by (intro branches owned_terminal; simp add: owned_skill_reads)

lemma execute_local_owned:
  "execute_local env ex tick call rt s = ((r, None), events, rt', s') \<Longrightarrow> tr_CallID r = tc_ID call"
  using owned_local [of call env ex tick rt s]
  by (auto simp: execute_local_def owned_def owned_end_def Let_def split: prod.splits option.splits if_splits)

section \<open>The batch keeps the contract of a backend\<close>

lemma local_handles_calls [simp]: "local_handles (rt\<lparr>lr_calls := n\<rparr>) name = local_handles rt name"
  by (simp add: local_handles_def publishToolAvailable_def artifactPublishingAvailable_def skillsAvailable_def Let_def)

lemma local_handles_named: "local_handles rt name \<Longrightarrow> trim_space name \<noteq> []"
  by (auto simp: local_handles_def Let_def split: if_splits)

definition handled_call :: "(string \<Rightarrow> bool) \<Rightarrow> tool_call list \<Rightarrow> nat \<Rightarrow> bool" where
  "handled_call handles calls k \<longleftrightarrow> k < length calls \<and> handles (tc_Name (calls ! k))"

definition results_ok :: "(string \<Rightarrow> bool) \<Rightarrow> tool_call list \<Rightarrow> bool \<Rightarrow> (nat, tool_result) gomap \<Rightarrow> bool" where
  "results_ok handles calls failed results \<longleftrightarrow> keys_distinct results \<and>
     (\<forall>k r. map_of results k = Some r \<longrightarrow> handled_call handles calls k \<and> (\<not> failed \<longrightarrow> tr_CallID r = tc_ID (calls ! k)))"

definition prepared_ok :: "(string \<Rightarrow> bool) \<Rightarrow> tool_call list \<Rightarrow> prepared_call \<Rightarrow> bool" where
  "prepared_ok handles calls p \<longleftrightarrow> handled_call handles calls (pc_index p) \<and> pc_call p = calls ! pc_index p"

lemma results_ok_Nil [simp]: "results_ok handles calls failed []"
  by (simp add: results_ok_def)

lemma results_ok_update:
  "results_ok handles calls failed results \<Longrightarrow> handled_call handles calls k \<Longrightarrow>
   (\<not> failed' \<Longrightarrow> tr_CallID r = tc_ID (calls ! k)) \<Longrightarrow> (failed \<Longrightarrow> failed') \<Longrightarrow>
   results_ok handles calls failed' (AList.update k r results)"
  by (auto simp: results_ok_def update_conv')

lemma prepare_local_ok:
  assumes "drop i calls0 = calls" "results_ok handles calls0 False results" "list_all (prepared_ok handles calls0) prepared"
    and "local_handles rt = handles" "prepare_local env cd i calls (results, budget, prepared, rt) = (results', budget', prepared', rt')"
  shows "results_ok handles calls0 False results' \<and> list_all (prepared_ok handles calls0) prepared'"
  using assms
proof (induction calls arbitrary: i results budget prepared rt)
  case Nil
  then show ?case by simp
next
  case (Cons call calls)
  have i: "i < length calls0" "calls0 ! i = call" "drop (i + 1) calls0 = calls"
    by (rule drop_Cons_step [OF Cons.prems(1)])+
  show ?case
  proof (cases "handles (tc_Name call)")
    case False
    then show ?thesis using Cons.IH [OF i(3) Cons.prems(2,3,4)] Cons.prems(4,5) by (auto simp: Let_def)
  next
    case True
    then have h: "handled_call handles calls0 i" using i by (simp add: handled_call_def)
    have own: "tr_CallID (localSkillFailureResult env call c) = tc_ID (calls0 ! i)" for c
      by (simp add: localSkillFailureResult_def i)
    show ?thesis
    proof (cases "\<not> cd \<and> lr_calls rt \<ge> lc_MaxCalls (lr_config rt)")
      case b: True
      have "results_ok handles calls0 False (AList.update i (localSkillFailureResult env call ''budget_exhausted'') results)"
        by (rule results_ok_update [OF Cons.prems(2) h own]) simp
      from Cons.IH [OF i(3) this Cons.prems(3,4)] show ?thesis
        using Cons.prems(4,5) True b by auto
    next
      case False
      let ?rt = "rt\<lparr>lr_calls := lr_calls rt + 1\<rparr>"
      let ?p = "\<lparr>pc_index = i, pc_call = call, pc_number = lr_calls ?rt\<rparr>"
      have "list_all (prepared_ok handles calls0) (prepared @ [?p])"
        using Cons.prems(3) h i unfolding prepared_ok_def by simp
      moreover have "local_handles ?rt = handles" using Cons.prems(4) by (simp add: fun_eq_iff)
      ultimately show ?thesis
        using Cons.IH [OF i(3) Cons.prems(2), of "prepared @ [?p]" ?rt budget] Cons.prems(4,5) True False
        by (auto simp: Let_def)
    qed
  qed
qed

definition progress_ok :: "(string \<Rightarrow> bool) \<Rightarrow> tool_call list \<Rightarrow> 's local_progress \<Rightarrow> bool" where
  "progress_ok handles calls acc \<longleftrightarrow> (case acc of (results, fatal, _) \<Rightarrow> results_ok handles calls (fatal \<noteq> None) results)"

lemma complete_local_ok:
  assumes "prepared_ok handles calls p" "progress_ok handles calls acc"
  shows "progress_ok handles calls (complete_local env ex ticks p acc)"
proof -
  obtain results fatal rt s where acc: "acc = (results, fatal, rt, s)" by (cases acc)
  obtain result err events rt' s' where run:
    "execute_local env ex (ticks (pc_index p)) (pc_call p) rt s = ((result, err), events, rt', s')"
    by (metis surj_pair)
  have "err = None \<Longrightarrow> tr_CallID result = tc_ID (pc_call p)"
    using run execute_local_owned by metis
  then have "results_ok handles calls ((if fatal = None then err else fatal) \<noteq> None)
      (AList.update (pc_index p) result results)"
    using assms acc by (intro results_ok_update [of handles calls "fatal \<noteq> None"])
      (auto simp: progress_ok_def prepared_ok_def split: if_splits)
  then show ?thesis by (simp add: complete_local_def acc run progress_ok_def)
qed

lemma fold_invariant_in:
  "(\<And>x a. x \<in> set xs \<Longrightarrow> I a \<Longrightarrow> I (f x a)) \<Longrightarrow> I a \<Longrightarrow> I (fold f xs a)"
  by (induction xs arbitrary: a) simp_all

lemma local_group_ok:
  fixes acc :: "'a local_progress"
  assumes "progress_ok handles calls acc" "list_all (prepared_ok handles calls) g"
  shows "progress_ok handles calls (fst (local_group env ex ticks rank g acc))"
  unfolding local_group_def Let_def fst_conv
proof (rule fold_invariant_in)
  fix p and a :: "'a local_progress"
  assume "p \<in> set (sort_key (\<lambda>p. rank (pc_index p)) g)" "progress_ok handles calls a"
  with assms(2) show "progress_ok handles calls (complete_local env ex ticks p a)"
    by (intro complete_local_ok) (simp_all add: list_all_iff)
qed (rule assms(1))

lemma local_batch_ok:
  "results_ok (local_handles (fst st)) calls (snd (fst (executeLocalSkillBatch env ex ticks rank cd calls st)) \<noteq> None)
     (br_results (fst (fst (executeLocalSkillBatch env ex ticks rank cd calls st))))"
proof (cases st)
  case (Pair rt s)
  show ?thesis
  proof (cases "lr_enabled rt")
    case True
    obtain results budget prepared rt1 where p:
      "prepare_local env cd 0 calls ([], False, [], rt) = (results, budget, prepared, rt1)"
      by (metis surj_pair)
    have ok: "results_ok (local_handles rt) calls False results" "list_all (prepared_ok (local_handles rt) calls) prepared"
      using prepare_local_ok [OF _ _ _ refl p, of calls] by simp_all
    let ?run = "run_groups (\<lambda>p. localSkillToolAllowsParallel (tc_Name (pc_call p)))
                  (local_group env ex ticks rank) prepared (results, None, rt1, s)"
    have "progress_ok (local_handles rt) calls ?run"
    proof (rule run_groups_invariant)
      show "progress_ok (local_handles rt) calls (results, None, rt1, s)"
        using ok by (simp add: progress_ok_def)
      show "progress_ok (local_handles rt) calls (fst (local_group env ex ticks rank g acc))"
        if "progress_ok (local_handles rt) calls acc" "set g \<subseteq> set prepared" for g acc
        by (rule local_group_ok [OF that(1)]) (use that(2) ok(2) in \<open>auto simp: list_all_iff\<close>)
    qed
    then show ?thesis
      using True by (auto simp: executeLocalSkillBatch_def Pair p progress_ok_def split: prod.splits)
  qed (simp add: executeLocalSkillBatch_def Pair)
qed

interpretation local_backend: tool_backend "executeLocalSkillBatch env ex ticks rank cd" "\<lambda>_. True"
  for env ex ticks rank cd
proof
  fix calls i r and st :: "local_runtime \<times> 'a"
  let ?res = "executeLocalSkillBatch env ex ticks rank cd calls st"
  note ok = local_batch_ok [of st calls env ex ticks rank cd, unfolded results_ok_def handled_call_def]
  show "keys_distinct (br_results (fst (fst ?res)))" using ok by blast
  show "i < length calls \<and> trim_space (tc_Name (calls ! i)) \<noteq> []" if "map_of (br_results (fst (fst ?res))) i = Some r"
    using ok that local_handles_named by blast
  show "tr_CallID r = tc_ID (calls ! i)" if "snd (fst ?res) = None" "map_of (br_results (fst (fst ?res))) i = Some r"
    using ok that by blast
qed simp

end
