(* ===== verification/Local_Properties.thy ===== *)
theory Local_Properties
  imports Local_Batch
begin

text \<open>
  What the batches of local tool calls guarantee: nothing runs before a required skill is loaded,
  a command is marked as approved only after the approval authority allowed it, and the files and
  artifacts of a turn stay within their limits.
\<close>

section \<open>The prelude\<close>

definition skill_of_call :: "local_env \<Rightarrow> tool_call \<Rightarrow> string option" where
  "skill_of_call env call =
     (if trim_space (tc_Name call) = ''skill''
      then map_option trim_space (decodeStrictToolArguments (le_decode_name env) (tc_Arguments call)) else None)"

definition loads_only :: "string \<Rightarrow> local_runtime \<Rightarrow> local_runtime \<Rightarrow> bool" where
  "loads_only name rt rt' \<longleftrightarrow>
     (\<exists>calls loaded. rt' = rt\<lparr>lr_calls := calls, lr_loaded := loaded\<rparr> \<and>
        (\<forall>other. other \<noteq> name \<longrightarrow> lookup_str loaded other = lookup_str (lr_loaded rt) other) \<and>
        lookup_str loaded name \<in> {lookup_str (lr_loaded rt) name, lr_catalogRevision rt})"

lemma loads_onlyI:
  "rt' = rt\<lparr>lr_calls := calls, lr_loaded := loaded\<rparr> \<Longrightarrow>
   (\<And>other. other \<noteq> name \<Longrightarrow> lookup_str loaded other = lookup_str (lr_loaded rt) other) \<Longrightarrow>
   lookup_str loaded name \<in> {lookup_str (lr_loaded rt) name, lr_catalogRevision rt} \<Longrightarrow> loads_only name rt rt'"
  unfolding loads_only_def by blast

lemma loads_onlyE:
  assumes "loads_only name rt rt'"
  obtains calls loaded where "rt' = rt\<lparr>lr_calls := calls, lr_loaded := loaded\<rparr>"
    "\<And>other. other \<noteq> name \<Longrightarrow> lookup_str loaded other = lookup_str (lr_loaded rt) other"
    "lookup_str loaded name \<in> {lookup_str (lr_loaded rt) name, lr_catalogRevision rt}"
  using assms unfolding loads_only_def by blast

lemma loads_only_refl [simp]: "loads_only name rt rt"
  by (rule loads_onlyI [where calls = "lr_calls rt" and loaded = "lr_loaded rt"]) simp_all

lemma loads_only_calls: "loads_only name rt rt' \<Longrightarrow> loads_only name rt (rt'\<lparr>lr_calls := n\<rparr>)"
  by (erule loads_onlyE, rule loads_onlyI [where calls = n], simp) simp_all

lemma loads_only_load:
  "loads_only name rt rt' \<Longrightarrow>
   loads_only name rt (rt'\<lparr>lr_loaded := AList.update name (lr_catalogRevision rt') (lr_loaded rt')\<rparr>)"
  by (erule loads_onlyE, rule loads_onlyI, simp) simp_all

lemma execute_skill:
  assumes "trim_space (tc_Name call) = ''skill''"
    and "execute_local env ex tick call rt s = ((r, err), events, rt', s')"
  shows "s' = s \<and>
     (rt' = rt \<or> (\<exists>name. skill_of_call env call = Some name \<and>
        rt' = rt\<lparr>lr_loaded := AList.update name (lr_catalogRevision rt) (lr_loaded rt)\<rparr>)) \<and>
     (err = None \<longrightarrow> \<not> tr_IsError r \<longrightarrow>
        (\<exists>name. skill_of_call env call = Some name \<and> lookup_str (lr_loaded rt') name = lr_catalogRevision rt))"
proof -
  have fails: "call_failed env call c = (res, f, e) \<Longrightarrow> tr_IsError res" for c res f e
    by (auto simp: call_failed_def localSkillFailureResult_def)
  obtain e rt1 where sk: "executeSkillCall env ex call rt s = (e, rt1)" by fastforce
  have skill: "(rt1 = rt \<or> (\<exists>name. skill_of_call env call = Some name \<and>
        rt1 = rt\<lparr>lr_loaded := AList.update name (lr_catalogRevision rt) (lr_loaded rt)\<rparr>)) \<and>
     (\<not> tr_IsError (fst e) \<longrightarrow>
        (\<exists>name. skill_of_call env call = Some name \<and> lookup_str (lr_loaded rt1) name = lr_catalogRevision rt))"
    using sk assms(1)
    by (auto simp: executeSkillCall_def skill_of_call_def Let_def call_failed_def localSkillFailureResult_def
        split: option.splits sum.splits if_splits)
  have call: "executeLocalCall env ex tick call rt s =
      (if trim_space (tc_FailureCategory call) \<noteq> [] then (call_failed env call ''arguments_invalid'', [], rt, s)
       else (e, [], rt1, s))"
    using assms(1) sk by (simp add: executeLocalCall_def)
  show ?thesis
  proof (cases "trim_space (tc_FailureCategory call) \<noteq> []")
    case True
    then show ?thesis
      using assms(2) call
      by (auto simp: execute_local_def call_failed_def localSkillFailureResult_def Let_def split: if_splits)
  next
    case False
    obtain res f fatal where e: "e = (res, f, fatal)" by (cases e)
    show ?thesis
      using assms(2) call False skill e
      by (auto simp: execute_local_def Let_def split: if_splits option.splits)
  qed
qed

definition prelude_ok :: "local_env \<Rightarrow> string \<Rightarrow> tool_call list \<Rightarrow> local_runtime \<Rightarrow> (nat, tool_result) gomap \<Rightarrow> local_runtime \<Rightarrow> bool" where
  "prelude_ok env name calls rt0 results rt \<longleftrightarrow> loads_only name rt0 rt \<and>
     (\<forall>k r. map_of results k = Some r \<longrightarrow> \<not> tr_IsError r \<longrightarrow>
        k < length calls \<and> skill_of_call env (calls ! k) = Some name \<and>
        lookup_str (lr_loaded rt) name = lr_catalogRevision rt0)"

lemma loads_only_revision: "loads_only name rt rt' \<Longrightarrow> lr_catalogRevision rt' = lr_catalogRevision rt"
  by (erule loads_onlyE) simp

lemma prelude_ok_refused:
  "prelude_ok env name calls rt0 results rt \<Longrightarrow> tr_IsError r \<Longrightarrow> rt' = rt \<or> rt' = rt\<lparr>lr_calls := n\<rparr> \<Longrightarrow>
   prelude_ok env name calls rt0 (AList.update i r results) rt'"
  by (auto simp: prelude_ok_def update_conv' loads_only_calls)

lemma failure_is_error [simp]: "tr_IsError (localSkillFailureResult env call c)"
  by (simp add: localSkillFailureResult_def)

lemma required_from_prelude:
  assumes "drop i calls0 = calls" "prelude_ok env name calls0 rt0 results rt"
    and "required_from env ex ticks cd name i calls results budget rt s = ((run, err), rt', s')"
  shows "s' = s \<and> loads_only name rt0 rt' \<and>
         (err = None \<longrightarrow> prelude_ok env name calls0 rt0 (br_results run) rt')"
  using assms
proof (induction calls arbitrary: i results budget rt)
  case Nil
  then show ?case by (auto simp: prelude_ok_def)
next
  case (Cons call calls)
  note i = drop_Cons_step [OF Cons.prems(1)]
  let ?rt = "rt\<lparr>lr_calls := lr_calls rt + 1\<rparr>"
  let ?refuse = "\<lambda>c. AList.update i (localSkillFailureResult env call c) results"
  have refused: "prelude_ok env name calls0 rt0 (?refuse c) rt" "prelude_ok env name calls0 rt0 (?refuse c) ?rt" for c
    by (rule prelude_ok_refused [OF Cons.prems(2), where n = "lr_calls rt + 1"]; simp)+
  show ?case
  proof (cases "\<not> cd \<and> lr_calls rt \<ge> lc_MaxCalls (lr_config rt)")
    case True
    then show ?thesis
      using Cons.IH [OF i(3) refused(1)] Cons.prems(3) by auto
  next
    case False
    show ?thesis
    proof (cases "skill_of_call env call = Some name \<or>
        trim_space (tc_Name call) = ''skill'' \<and> skill_of_call env call = None")
      case go: False
      then have "trim_space (tc_Name call) \<noteq> ''skill'' \<or>
          (case decodeStrictToolArguments (le_decode_name env) (tc_Arguments call) of
             None \<Rightarrow> False | Some n \<Rightarrow> trim_space n \<noteq> name)"
        by (auto simp: skill_of_call_def split: if_splits option.splits)
      then have "required_from env ex ticks cd name (i + 1) calls (?refuse ''skill_required_before_action'') budget ?rt s
          = ((run, err), rt', s')"
        using Cons.prems(3) False by (simp add: Let_def split: if_splits)
      from Cons.IH [OF i(3) refused(2) this] show ?thesis .
    next
      case go: True
      then have sk: "trim_space (tc_Name call) = ''skill''"
        by (auto simp: skill_of_call_def split: if_splits)
      have name: "skill_of_call env call = Some n \<Longrightarrow> n = name" for n using go by auto
      obtain r e events rt2 s2 where run: "execute_local env ex (ticks i) call ?rt s = ((r, e), events, rt2, s2)"
        by (metis surj_pair)
      note ex = execute_skill [OF sk run]
      have lo: "loads_only name rt0 rt2"
      proof -
        have base: "loads_only name rt0 ?rt" using Cons.prems(2) by (simp add: prelude_ok_def loads_only_calls)
        from ex name have "rt2 = ?rt \<or> rt2 = ?rt\<lparr>lr_loaded := AList.update name (lr_catalogRevision ?rt) (lr_loaded ?rt)\<rparr>"
          by auto
        with base loads_only_load [OF base] show ?thesis by auto
      qed
      have step: "(if e \<noteq> None then ((\<lparr>br_results = AList.update i r results, br_budget = budget\<rparr>, e), rt2, s2)
          else required_from env ex ticks cd name (i + 1) calls (AList.update i r results) budget rt2 s2)
          = ((run, err), rt', s')"
      proof -
        have "\<not> (case decodeStrictToolArguments (le_decode_name env) (tc_Arguments call) of
            None \<Rightarrow> False | Some n \<Rightarrow> trim_space n \<noteq> name)"
          using go sk by (auto simp: skill_of_call_def split: option.splits)
        then show ?thesis using Cons.prems(3) False sk run by (simp add: Let_def)
      qed
      show ?thesis
      proof (cases e)
        case (Some x)
        with step ex lo show ?thesis by auto
      next
        case None
        have "prelude_ok env name calls0 rt0 (AList.update i r results) rt2"
          unfolding prelude_ok_def
        proof (intro conjI allI impI lo)
          fix k r'
          assume k: "map_of (AList.update i r results) k = Some r'" "\<not> tr_IsError r'"
          have "k < length calls0 \<and> skill_of_call env (calls0 ! k) = Some name \<and>
              lookup_str (lr_loaded rt2) name = lr_catalogRevision rt0"
          proof (cases "k = i")
            case True
            with k ex None name i loads_only_revision [OF lo] show ?thesis
              using Cons.prems(2) by (auto simp: update_conv' prelude_ok_def dest: loads_only_revision)
          next
            case other: False
            then have "k < length calls0 \<and> skill_of_call env (calls0 ! k) = Some name \<and>
                lookup_str (lr_loaded rt) name = lr_catalogRevision rt0"
              using k Cons.prems(2) by (auto simp: update_conv' prelude_ok_def)
            moreover have "lr_catalogRevision rt = lr_catalogRevision rt0"
              using Cons.prems(2) by (auto simp: prelude_ok_def dest: loads_only_revision)
            ultimately show ?thesis using ex name by auto
          qed
          then show "k < length calls0" "skill_of_call env (calls0 ! k) = Some name"
              "lookup_str (lr_loaded rt2) name = lr_catalogRevision rt0" by simp_all
        qed
        with Cons.IH [OF i(3) this] step None ex show ?thesis by auto
      qed
    qed
  qed
qed

lemma required_name_runtime:
  "requiredSkillName rt = (name, rt0) \<Longrightarrow> \<exists>names. rt0 = rt\<lparr>lr_required := names\<rparr>"
proof -
  assume "requiredSkillName rt = (name, rt0)"
  then have "rt0 = rt \<or> (\<exists>names. rt0 = rt\<lparr>lr_required := names\<rparr>)"
    by (auto simp: requiredSkillName_def Let_def split: if_splits)
  then show ?thesis by (metis local_runtime.surjective local_runtime.update_convs(7))
qed

text \<open>
  C30: As long as a skill is required, a batch of calls does nothing else.  Whatever calls the
  model makes, the executor's state is untouched (no command, file, job or artifact operation
  runs), no skill but the required one is loaded, and, if the batch ends without an error, a
  result that is not an error belongs to a call that loads exactly the required skill, after which
  that skill counts as loaded under the current catalog.
\<close>

theorem required_skill_gate:
  assumes "requiredSkillName rt = (name, rt0)" "name \<noteq> []"
    and run: "executeRequiredLocalSkillBatch env ex ticks cd calls (rt, s) = ((run, err), rt', s')"
  shows "s' = s \<and>
         (\<forall>other. other \<noteq> name \<longrightarrow> lookup_str (lr_loaded rt') other = lookup_str (lr_loaded rt) other) \<and>
         (\<forall>k r. err = None \<longrightarrow> map_of (br_results run) k = Some r \<longrightarrow> \<not> tr_IsError r \<longrightarrow>
            k < length calls \<and> skill_of_call env (calls ! k) = Some name \<and>
            lookup_str (lr_loaded rt') name = lr_catalogRevision rt)"
proof -
  have "lr_enabled rt" using assms(1,2) by (auto simp: requiredSkillName_def skillsAvailable_def split: if_splits)
  then have from0: "required_from env ex ticks cd name 0 calls [] False rt0 s = ((run, err), rt', s')"
    using assms by (simp add: executeRequiredLocalSkillBatch_def)
  obtain names where rt0: "rt0 = rt\<lparr>lr_required := names\<rparr>"
    using required_name_runtime [OF assms(1)] by blast
  have "prelude_ok env name calls rt0 [] rt0" by (simp add: prelude_ok_def)
  from required_from_prelude [OF _ this from0]
  have "s' = s" "loads_only name rt0 rt'" "err = None \<Longrightarrow> prelude_ok env name calls rt0 (br_results run) rt'"
    by simp_all
  then show ?thesis
    by (auto simp: rt0 prelude_ok_def elim!: loads_onlyE)
qed

subsection \<open>An example\<close>

definition example_local_env :: local_env where
  "example_local_env =
     \<lparr>le_marshal = (\<lambda>_. ''{}''), le_hash = (\<lambda>_. ''0''), le_base64 = id, le_lower = id, le_alnum = (\<lambda>_. True),
      le_mime = (\<lambda>_. ''text/plain''), le_parse_media = Some, le_decode_empty = (\<lambda>_. Some ()), le_decode_name = Some,
      le_decode_view = (\<lambda>_. None),
      le_decode_terminal = (\<lambda>c. Some \<lparr>ta_Command = c, ta_Skill = [], ta_WorkingDir = [], ta_TimeoutSeconds = 0,
                                       ta_RunInBackground = False, ta_OutputFiles = []\<rparr>),
      le_decode_read = (\<lambda>p. Some (p, 0, 0)), le_decode_write = (\<lambda>p. Some (p, ''x'', ''absent'')),
      le_decode_edit = (\<lambda>_. None), le_decode_search = (\<lambda>_. None), le_decode_publish = (\<lambda>p. Some (p, None, None)),
      le_decode_output = (\<lambda>_. None), le_decode_job = (\<lambda>_. None)\<rparr>"

text \<open>A machine that counts the commands it has run and asks for an approval before each.\<close>

definition example_executor :: "nat tool_executor" where
  "example_executor =
     \<lparr>ex_Execute = (\<lambda>rq n. if rq_Approved rq
        then (Inr \<lparr>xr_ExitCode = 0, xr_Stdout = ''ok'', xr_Stderr = [], xr_TimedOut = False, xr_Truncated = False,
                   xr_DurationMillis = 1\<rparr>, Suc n)
        else (Inl ApprovalRequired, n)),
      ex_StartJob = (\<lambda>_ _ n. (Inl JobLimit, n)), ex_ListJobs = (\<lambda>_ n. (Inr (AnyList []), n)),
      ex_JobOutput = (\<lambda>_ _ _ _ n. (Inl JobNotFound, n)), ex_KillJob = (\<lambda>_ _ n. (Inl JobNotFound, n)),
      ex_ReadFile = (\<lambda>_ _ _ n. (Inr AnyNil, n)),
      ex_WriteFile = (\<lambda>p c v n. (Inr \<lparr>fw_Path = p, fw_Version = ''1'', fw_Size = int (length c)\<rparr>, n)),
      ex_EditFile = (\<lambda>_ _ _ _ _ n. (Inl WorkspaceEditConflict, n)), ex_SearchFiles = (\<lambda>_ _ _ _ n. (Inr AnyNil, n)),
      ex_ReadArtifact = (\<lambda>p _ n. (Inr \<lparr>as_Path = p, as_Body = ''body'', as_Version = ''1''\<rparr>, n)),
      ex_Publish = (\<lambda>_ f m b n. (Inr \<lparr>wa_FileID = f, wa_FileName = f, wa_MimeType = m, wa_Size = int (length b),
                                        wa_SHA256 = []\<rparr>, n)),
      ex_DeleteArtifact = (\<lambda>_ n. n), ex_ReadSkill = (\<lambda>_ _ _. Inr ''guide''), ex_ValidateSkill = (\<lambda>_ _. True)\<rparr>"

definition example_config :: local_config where
  "example_config = \<lparr>lc_RuntimeMode = ''local_direct'', lc_RuntimeRoot = ''/skills'', lc_CallTimeout = 60000000000,
                     lc_MaxOutput = 65536, lc_MaxCalls = 16\<rparr>"

definition example_skill :: runtime_skill where
  "example_skill = \<lparr>sk_InstallationID = ''i'', sk_Name = ''pdf'', sk_Description = ''reads'', sk_Version = ''1'',
                    sk_PackageFingerprint = ''f'', sk_ActivationSource = ''inventory'', sk_RootPath = ''/skills/pdf'',
                    sk_Files = [''SKILL.md'']\<rparr>"

definition example_local_runtime :: local_runtime where
  "example_local_runtime =
     (the (newLocalSkillToolRuntime example_local_env True example_config [example_skill]))
       \<lparr>lr_required := [''pdf''], lr_approvals := True\<rparr>"

definition local_call :: "string \<Rightarrow> string \<Rightarrow> tool_call" where
  "local_call name arguments = no_call\<lparr>tc_ID := ''c'', tc_Name := name, tc_Arguments := arguments\<rparr>"

definition example_approval :: agent_approval where
  "example_approval =
     \<lparr>aa_ID = ''a'', aa_TurnID = ''t'', aa_UserID = ''u'', aa_ConversationID = ''c'', aa_MessageID = ''m'', aa_RunID = ''r'',
      aa_ExecutionID = ''e'', aa_ToolName = ''bash'', aa_RiskClass = ''execute'', aa_Status = ''allowed'',
      aa_Decision = ''allow_once'', aa_Revision = 2, aa_AllowConversation = True, aa_ExpiresAt = 9, aa_CreatedAt = 1,
      aa_DecidedAt = Some 2\<rparr>"

definition example_local_tick :: local_tick where
  "example_local_tick =
     \<lparr>lt_announced = True, lt_reported = True, lt_request = Inr example_approval, lt_shown = True,
      lt_wait = Inl Canceled, lt_resumed = True\<rparr>"

lemma example_local_names:
  "trim_space ''pdf'' = ''pdf''" "trim_space ''skill'' = ''skill''" "trim_space ''bash'' = ''bash''"
  "trim_space ''ls'' = ''ls''" "trim_space ''write'' = ''write''" "trim_space ''notes.txt'' = ''notes.txt''"
  by (simp_all add: trim_space_printable printable_def)

lemma example_local_runtime_facts:
  "lr_enabled example_local_runtime" "lr_config example_local_runtime = example_config"
  "lr_byName example_local_runtime = [(''pdf'', example_skill)]"
  "lr_loaded example_local_runtime = []" "lr_required example_local_runtime = [''pdf'']"
  "lr_calls example_local_runtime = 0" "lr_approvals example_local_runtime"
  "lr_catalogRevision example_local_runtime = ''sha256:0''" "lr_workspaceID example_local_runtime = []"
  by (simp_all add: example_local_runtime_def newLocalSkillToolRuntime_def Let_def sorted_skills_def
      skills_by_name_def example_skill_def example_local_names localSkillCatalogRevision_def example_local_env_def)

lemmas example_local = example_local_names example_local_runtime_facts

theorem required_skill_gate_witness:
  "snd (snd (executeRequiredLocalSkillBatch example_local_env example_executor (\<lambda>_. example_local_tick) True
      [local_call ''bash'' ''ls'', local_call ''skill'' ''pdf''] (example_local_runtime, 7))) = 7 \<and>
   fst (requiredSkillName example_local_runtime) = ''pdf''"
proof -
  let ?batch = "executeRequiredLocalSkillBatch example_local_env example_executor (\<lambda>_. example_local_tick) True
      [local_call ''bash'' ''ls'', local_call ''skill'' ''pdf''] (example_local_runtime, 7)"
  obtain rt0 where req: "requiredSkillName example_local_runtime = (''pdf'', rt0)"
    by (simp add: requiredSkillName_def skillsAvailable_def example_local Let_def)
  obtain run err rt' s' where b: "?batch = ((run, err), rt', s')"
    by (metis surj_pair)
  from required_skill_gate [OF req _ b] show ?thesis by (simp add: b req)
qed

section \<open>Approved commands\<close>

text \<open>
  A property of the executor's state that its operations keep, commands and jobs apart, is kept by
  every call that is not a terminal call.
\<close>

locale executor_frame =
  fixes ex :: "'s tool_executor" and R :: "'s \<Rightarrow> bool"
  assumes frame_list: "R s \<Longrightarrow> R (snd (ex_ListJobs ex scope s))"
    and frame_output: "R s \<Longrightarrow> R (snd (ex_JobOutput ex scope job wait timeout s))"
    and frame_kill: "R s \<Longrightarrow> R (snd (ex_KillJob ex scope job s))"
    and frame_read: "R s \<Longrightarrow> R (snd (ex_ReadFile ex path offset limit s))"
    and frame_write: "R s \<Longrightarrow> R (snd (ex_WriteFile ex path content version s))"
    and frame_edit: "R s \<Longrightarrow> R (snd (ex_EditFile ex path old new every version s))"
    and frame_search: "R s \<Longrightarrow> R (snd (ex_SearchFiles ex path query glob results s))"
    and frame_artifact: "R s \<Longrightarrow> R (snd (ex_ReadArtifact ex path limit s))"
    and frame_publish: "R s \<Longrightarrow> R (snd (ex_Publish ex conversation name type body s))"

definition ends_in :: "('s \<Rightarrow> bool) \<Rightarrow> 'a \<times> 'b \<times> 's \<Rightarrow> bool" where
  "ends_in R x \<longleftrightarrow> R (snd (snd x))"

lemma ends_in_pair [simp]: "ends_in R (a, b, s) = R s"
  by (simp add: ends_in_def)

lemmas end_state_branches = branch_if [where P = "ends_in R" for R] branch_option [where P = "ends_in R" for R]
  branch_sum [where P = "ends_in R" for R] branch_prod [where P = "ends_in R" for R]

lemma snd_eqD: "x = (a, b) \<Longrightarrow> Q (snd x) \<Longrightarrow> Q b"
  by simp

context executor_frame
begin

lemma capture_frame: "R s \<Longrightarrow> ends_in R (capture_files env ex paths seen references rt s)"
proof (induction paths arbitrary: seen references rt s)
  case (Cons path paths)
  obtain outcome s1 where a: "ex_ReadArtifact ex (trim_space path) maxWorkspaceReferenceBytes s = (outcome, s1)"
    by fastforce
  have "R s1" by (rule snd_eqD [where Q = R, OF a frame_artifact [OF Cons.prems]])
  with Cons a show ?case by (simp add: Let_def split: sum.split)
qed simp

lemma captureWorkspaceFiles_frame: "R s \<Longrightarrow> ends_in R (captureWorkspaceFiles env ex paths rt s)"
  using capture_frame [of s env paths] by (simp add: captureWorkspaceFiles_def)

lemma publish_frame:
  assumes "R s"
  shows "ends_in R (executePublishFileToolCall env ex call rt s)"
proof -
  obtain path suppliedName suppliedType outcome s1 where d:
    "(case decodeStrictToolArguments (le_decode_publish env) (tc_Arguments call) of
        None \<Rightarrow> ([], None, None) | Some v \<Rightarrow> v) = (path, suppliedName, suppliedType)"
    "ex_ReadArtifact ex path (lr_artifactMaxBytes rt) s = (outcome, s1)"
    by (metis surj_pair)
  have s1: "R s1" by (rule snd_eqD [where Q = R, OF d(2) frame_artifact [OF assms]])
  have s2: "R s2" if "ex_Publish ex conversation name type body s1 = (published, s2)" for conversation name type body published s2
    by (rule snd_eqD [where Q = R, OF that frame_publish [OF s1]])
  show ?thesis
    using assms s1 s2 d
    by (auto simp: executePublishFileToolCall_def Let_def split: option.split sum.split prod.split)
qed

lemma workspace_frame:
  assumes "R s"
  shows "ends_in R (executeWorkspaceToolCall env ex call rt s)"
proof -
  note ops = snd_eqD [where Q = R, OF _ frame_read [OF assms]] snd_eqD [where Q = R, OF _ frame_write [OF assms]]
    snd_eqD [where Q = R, OF _ frame_edit [OF assms]] snd_eqD [where Q = R, OF _ frame_search [OF assms]]
  show ?thesis
    unfolding executeWorkspaceToolCall_def
    by (intro end_state_branches publish_frame [OF assms]; (simp add: assms)?; erule ops)
qed

lemma job_frame:
  assumes "R s"
  shows "ends_in R (executeBackgroundJobToolCall env ex call rt s)"
proof -
  note ops = snd_eqD [where Q = R, OF _ frame_list [OF assms]] snd_eqD [where Q = R, OF _ frame_kill [OF assms]]
  have out: "R s1" if "ex_JobOutput ex scope job wait timeout s = (outcome, s1)" for scope job wait timeout outcome s1
    by (rule snd_eqD [where Q = R, OF that frame_output [OF assms]])
  have capture: "R s2" if "ex_JobOutput ex scope job wait timeout s = (outcome, s1)"
      "captureWorkspaceFiles env ex paths rt s1 = (files, rt1, s2)"
    for scope job wait timeout outcome s1 paths files rt1 s2
    using captureWorkspaceFiles_frame [OF out [OF that(1)], of env paths rt] by (simp add: that(2))
  show ?thesis
    unfolding executeBackgroundJobToolCall_def Let_def
    by (intro end_state_branches; (simp add: assms)?; (erule ops | erule out | erule (1) capture)?)
qed

end

text \<open>An executor that also records the commands and jobs submitted to it.\<close>

definition logging :: "'s tool_executor \<Rightarrow> ('s \<times> exec_request list) tool_executor" where
  "logging ex =
     \<lparr>ex_Execute = (\<lambda>rq (s, l). case ex_Execute ex rq s of (r, s') \<Rightarrow> (r, s', l @ [rq])),
      ex_StartJob = (\<lambda>scope rq (s, l). case ex_StartJob ex scope rq s of (r, s') \<Rightarrow> (r, s', l @ [rq])),
      ex_ListJobs = (\<lambda>scope (s, l). apsnd (\<lambda>s'. (s', l)) (ex_ListJobs ex scope s)),
      ex_JobOutput = (\<lambda>scope job wait timeout (s, l). apsnd (\<lambda>s'. (s', l)) (ex_JobOutput ex scope job wait timeout s)),
      ex_KillJob = (\<lambda>scope job (s, l). apsnd (\<lambda>s'. (s', l)) (ex_KillJob ex scope job s)),
      ex_ReadFile = (\<lambda>path offset limit (s, l). apsnd (\<lambda>s'. (s', l)) (ex_ReadFile ex path offset limit s)),
      ex_WriteFile = (\<lambda>path content version (s, l). apsnd (\<lambda>s'. (s', l)) (ex_WriteFile ex path content version s)),
      ex_EditFile = (\<lambda>path old new every version (s, l).
        apsnd (\<lambda>s'. (s', l)) (ex_EditFile ex path old new every version s)),
      ex_SearchFiles = (\<lambda>path query glob results (s, l). apsnd (\<lambda>s'. (s', l)) (ex_SearchFiles ex path query glob results s)),
      ex_ReadArtifact = (\<lambda>path limit (s, l). apsnd (\<lambda>s'. (s', l)) (ex_ReadArtifact ex path limit s)),
      ex_Publish = (\<lambda>conversation name type body (s, l).
        apsnd (\<lambda>s'. (s', l)) (ex_Publish ex conversation name type body s)),
      ex_DeleteArtifact = (\<lambda>file (s, l). (ex_DeleteArtifact ex file s, l)),
      ex_ReadSkill = (\<lambda>skill path (s, l). ex_ReadSkill ex skill path s),
      ex_ValidateSkill = (\<lambda>skill (s, l). ex_ValidateSkill ex skill s)\<rparr>"

interpretation log_frame: executor_frame "logging ex" "\<lambda>st. snd st = log" for ex :: "'s tool_executor" and log
  by unfold_locales (auto simp: logging_def)

text \<open>The approval that a call obtained, at once or by waiting.\<close>

definition allowed_by :: "local_tick \<Rightarrow> agent_approval \<Rightarrow> bool" where
  "allowed_by tick a \<longleftrightarrow> chatAgentApprovalAllowsExecution a \<and>
     (lt_request tick = Inr a \<or>
      (\<exists>p. lt_request tick = Inr p \<and> aa_Status p = ''pending'' \<and> lt_wait tick = Inr a))"

definition submitted_by :: "local_env \<Rightarrow> local_tick \<Rightarrow> tool_call \<Rightarrow> exec_request list \<Rightarrow> bool" where
  "submitted_by env tick call new \<longleftrightarrow>
     (\<forall>rq \<in> set new. rq_Approved rq \<longrightarrow>
        rq\<lparr>rq_Approved := False\<rparr> \<in> set new \<and> (\<exists>a. allowed_by tick a) \<and>
        trim_space (tc_Name call) \<in> {''bash'', ''terminal''} \<and>
        (\<exists>arguments. decodeStrictToolArguments (le_decode_terminal env) (tc_Arguments call) = Some arguments \<and>
           ta_Command arguments = rq_Command rq))"

lemma awaitTerminalApproval_allowed:
  "awaitTerminalApproval tick = (Inr a, events) \<Longrightarrow> chatAgentApprovalAllowsExecution a \<Longrightarrow> allowed_by tick a"
  by (auto simp: awaitTerminalApproval_def approval_resumed_def allowed_by_def split: sum.splits if_splits)

lemma with_approval_log:
  assumes submit: "\<And>rq s l. snd (snd (submit rq (s, l))) = l @ [rq]"
    and call: "with_approval env call tick approvals submit request (s, l) = (x, events, s', l')"
  shows "l' = l @ [request] \<or> (\<exists>a. allowed_by tick a) \<and> l' = l @ [request, request\<lparr>rq_Approved := True\<rparr>]"
proof -
  obtain outcome s1 l1 where first: "submit request (s, l) = (outcome, s1, l1)" by (metis surj_pair)
  obtain outcome' s2 l2 where again: "submit (request\<lparr>rq_Approved := True\<rparr>) (s1, l1) = (outcome', s2, l2)"
    by (metis surj_pair)
  have logs: "l1 = l @ [request]" "l2 = l1 @ [request\<lparr>rq_Approved := True\<rparr>]"
    using submit [of request s l] submit [of "request\<lparr>rq_Approved := True\<rparr>" s1 l1] first again by simp_all
  show ?thesis
    using call first again logs awaitTerminalApproval_allowed
    by (auto simp: with_approval_def split: sum.splits prod.splits if_splits)
qed

lemma terminal_log:
  assumes name: "trim_space (tc_Name call) \<in> {''bash'', ''terminal''}"
    and call: "executeTerminalCall env (logging ex) tick call rt (s, l) = (ended, events, rt', s', l')"
  shows "\<exists>new. l' = l @ new \<and> submitted_by env tick call new"
proof (cases "decodeStrictToolArguments (le_decode_terminal env) (tc_Arguments call)")
  case None
  with call have "l' = l @ []" by (simp add: executeTerminalCall_def)
  then show ?thesis by (intro exI [of _ "[]"]) (simp add: submitted_by_def)
next
  case (Some arguments)
  have new: "\<exists>new. l2 = l @ new \<and> submitted_by env tick call new"
    if w: "with_approval env call tick approvals submit request (s, l) = (x, events', s2, l2)"
      and submit: "\<And>rq s l. snd (snd (submit rq (s, l))) = l @ [rq]"
      and request: "rq_Command request = ta_Command arguments" "\<not> rq_Approved request"
    for approvals submit request x events' s2 l2
  proof -
    consider "l2 = l @ [request]"
      | "\<exists>a. allowed_by tick a" "l2 = l @ [request, request\<lparr>rq_Approved := True\<rparr>]"
      using with_approval_log [OF submit w] by blast
    then show ?thesis
    proof cases
      case 1
      then show ?thesis using request by (intro exI [of _ "[request]"]) (simp add: submitted_by_def)
    next
      case 2
      moreover have "request\<lparr>rq_Approved := False\<rparr> = request" using request by simp
      ultimately show ?thesis using Some name request
        by (intro exI [of _ "[request, request\<lparr>rq_Approved := True\<rparr>]"]) (simp add: submitted_by_def)
    qed
  qed
  have execute: "snd (snd (ex_Execute (logging ex) rq (s, l))) = l @ [rq]" for rq s l
    by (simp add: logging_def split: prod.split)
  have job: "snd (snd (ex_StartJob (logging ex) scope rq (s, l))) = l @ [rq]" for scope rq s l
    by (simp add: logging_def split: prod.split)
  have capture: "l3 = l2" if "captureWorkspaceFiles env (logging ex) paths rt1 (s2, l2) = (y, rt2, s3, l3)"
    for paths rt1 s2 l2 y rt2 s3 l3
    using log_frame.captureWorkspaceFiles_frame [where s = "(s2, l2)" and log = l2 and ex = ex and env = env and paths = paths and rt = rt1] that by simp
  have quiet: "\<exists>new. l = l @ new \<and> submitted_by env tick call new"
    by (intro exI [of _ "[]"]) (simp add: submitted_by_def)
  let ?request = "\<lparr>rq_Command = ta_Command arguments, rq_WorkingDir = ta_WorkingDir arguments,
      rq_TimeoutSeconds = ta_TimeoutSeconds arguments, rq_SkillsRoot = lc_RuntimeRoot (lr_config rt),
      rq_ActiveSkillRoot = (if trim_space (ta_Skill arguments) = [] then []
        else sk_RootPath (the (map_of (lr_byName rt) (trim_space (ta_Skill arguments))))),
      rq_Approved = False\<rparr>"
  obtain x1 e1 s1 l1 where fore:
    "with_approval env call tick (lr_approvals rt) (ex_Execute (logging ex)) ?request (s, l) = (x1, e1, s1, l1)"
    by (metis surj_pair)
  obtain x2 e2 s2 l2 where bg:
    "with_approval env call tick (lr_approvals rt) (ex_StartJob (logging ex) (lr_jobScope rt)) ?request (s, l)
       = (x2, e2, s2, l2)"
    by (metis surj_pair)
  have "l' = l \<or> l' = l1 \<or> l' = l2"
    using call Some fore bg capture
    by (auto simp: executeTerminalCall_def Let_def split: if_splits sum.splits prod.splits)
  then show ?thesis
    using quiet new [OF fore execute] new [OF bg job] by auto
qed

lemma local_call_log:
  assumes "executeLocalCall env (logging ex) tick call rt (s, l) = (ended, events, rt', s', l')"
  shows "\<exists>new. l' = l @ new \<and> submitted_by env tick call new"
proof (cases "trim_space (tc_Name call) \<in> {''bash'', ''terminal''} \<and> trim_space (tc_FailureCategory call) = []")
  case True
  then have "executeTerminalCall env (logging ex) tick call rt (s, l) = (ended, events, rt', s', l')"
    using assms by (auto simp: executeLocalCall_def Let_def)
  with True show ?thesis by (intro terminal_log) simp_all
next
  case False
  obtain e1 rt1 s1 l1 where w: "executeWorkspaceToolCall env (logging ex) call rt (s, l) = (e1, rt1, s1, l1)"
    by (metis surj_pair)
  obtain e2 rt2 s2 l2 where j: "executeBackgroundJobToolCall env (logging ex) call rt (s, l) = (e2, rt2, s2, l2)"
    by (metis surj_pair)
  have "l1 = l" "l2 = l"
    using log_frame.workspace_frame [where s = "(s, l)" and log = l and ex = ex and env = env and call = call and rt = rt]
      log_frame.job_frame [where s = "(s, l)" and log = l and ex = ex and env = env and call = call and rt = rt] w j
    by simp_all
  moreover have "l' = l \<or> l' = l1 \<or> l' = l2"
    using assms False w j
    by (auto simp: executeLocalCall_def Let_def split: if_splits prod.splits)
  ultimately show ?thesis by (intro exI [of _ "[]"]) (auto simp: submitted_by_def)
qed

lemma execute_local_log:
  assumes "execute_local env (logging ex) tick call rt (s, l) = (out, events, rt', s', l')"
  shows "\<exists>new. l' = l @ new \<and> submitted_by env tick call new"
proof (cases "lt_announced tick")
  case False
  then show ?thesis using assms
    by (intro exI [of _ "[]"]) (simp add: execute_local_def submitted_by_def)
next
  case True
  obtain ended events1 rt1 s1 l1 where c:
    "executeLocalCall env (logging ex) tick call rt (s, l) = (ended, events1, rt1, s1, l1)"
    by (metis surj_pair)
  have "l' = l1"
    using assms True c by (auto simp: execute_local_def Let_def split: prod.splits option.splits if_splits)
  with local_call_log [OF c] show ?thesis by simp
qed

definition decided_log :: "local_env \<Rightarrow> (nat \<Rightarrow> local_tick) \<Rightarrow> tool_call list \<Rightarrow> exec_request list \<Rightarrow> bool" where
  "decided_log env ticks calls log \<longleftrightarrow>
     (\<forall>rq \<in> set log. rq_Approved rq \<longrightarrow> rq\<lparr>rq_Approved := False\<rparr> \<in> set log \<and>
        (\<exists>i < length calls. (\<exists>a. allowed_by (ticks i) a) \<and> trim_space (tc_Name (calls ! i)) \<in> {''bash'', ''terminal''} \<and>
           (\<exists>arguments. decodeStrictToolArguments (le_decode_terminal env) (tc_Arguments (calls ! i)) = Some arguments \<and>
              ta_Command arguments = rq_Command rq)))"

lemma decided_log_append:
  assumes "decided_log env ticks calls log" "submitted_by env (ticks i) (calls ! i) new" "i < length calls"
  shows "decided_log env ticks calls (log @ new)"
  using assms unfolding decided_log_def submitted_by_def by (metis Un_iff set_append)

text \<open>
  C31: A command reaches the executor marked as approved only after the approval authority allowed
  it.  In every batch, for every such submission there is a terminal call of the batch with exactly
  this command that obtained an approval allowing its execution, and the same submission was made
  without the mark before (the executor refused it for want of an approval).
\<close>

theorem approved_commands_decided:
  assumes "executeLocalSkillBatch env (logging ex) ticks rank cd calls (rt, s, []) = (out, rt', s', log)"
  shows "decided_log env ticks calls log"
proof (cases "lr_enabled rt")
  case False
  with assms show ?thesis by (simp add: executeLocalSkillBatch_def decided_log_def)
next
  case True
  obtain results budget prepared rt1 where p:
    "prepare_local env cd 0 calls ([], False, [], rt) = (results, budget, prepared, rt1)"
    by (metis surj_pair)
  have prep: "list_all (prepared_ok (local_handles rt) calls) prepared"
    using prepare_local_ok [OF _ _ _ refl p, of calls] by simp
  define P :: "('a \<times> exec_request list) local_progress \<Rightarrow> bool"
    where "P = (\<lambda>(results, fatal, rt, s, log). decided_log env ticks calls log)"
  have complete: "P (complete_local env (logging ex) ticks p acc)"
    if p: "prepared_ok (local_handles rt) calls p" and acc: "P acc" for p acc
  proof -
    obtain results fatal rt0 s0 l0 where a: "acc = (results, fatal, rt0, s0, l0)" by (metis surj_pair)
    obtain r err events rt1 s1 l1 where run:
      "execute_local env (logging ex) (ticks (pc_index p)) (pc_call p) rt0 (s0, l0) = ((r, err), events, rt1, s1, l1)"
      by (metis surj_pair)
    from execute_local_log [OF run] obtain new where
      "l1 = l0 @ new" "submitted_by env (ticks (pc_index p)) (pc_call p) new" by blast
    then have "decided_log env ticks calls l1"
      using p acc a decided_log_append [of env ticks calls l0 "pc_index p" new]
      by (simp add: prepared_ok_def handled_call_def P_def)
    then show ?thesis by (simp add: complete_local_def a run P_def)
  qed
  have group: "P (fst (local_group env (logging ex) ticks rank g acc))" if "P acc" "set g \<subseteq> set prepared" for g acc
    unfolding local_group_def Let_def fst_conv
  proof (rule fold_invariant_in)
    fix p and a :: "('a \<times> exec_request list) local_progress"
    assume "p \<in> set (sort_key (\<lambda>p. rank (pc_index p)) g)" "P a"
    with that(2) prep show "P (complete_local env (logging ex) ticks p a)"
      by (intro complete) (auto simp: list_all_iff)
  qed (rule that(1))
  have "P (run_groups (\<lambda>p. localSkillToolAllowsParallel (tc_Name (pc_call p)))
             (local_group env (logging ex) ticks rank) prepared (results, None, rt1, s, []))"
    by (rule run_groups_invariant) (simp add: P_def decided_log_def, rule group)
  then show ?thesis
    using assms True by (auto simp: executeLocalSkillBatch_def p P_def split: prod.splits)
qed

text \<open>The command of the example runs once it is approved: the log has both submissions.\<close>

lemma example_terminal_log:
  "snd (snd (snd (executeLocalSkillBatch example_local_env (logging example_executor) (\<lambda>_. example_local_tick) id True
     [local_call ''bash'' ''ls''] (example_local_runtime, 7, [])))) =
   [\<lparr>rq_Command = ''ls'', rq_WorkingDir = [], rq_TimeoutSeconds = 0, rq_SkillsRoot = ''/skills'',
     rq_ActiveSkillRoot = [], rq_Approved = False\<rparr>,
    \<lparr>rq_Command = ''ls'', rq_WorkingDir = [], rq_TimeoutSeconds = 0, rq_SkillsRoot = ''/skills'',
     rq_ActiveSkillRoot = [], rq_Approved = True\<rparr>]"
  by (simp add: executeLocalSkillBatch_def local_call_def no_call_def local_handles_def example_local
      run_groups.simps next_group_def localSkillToolAllowsParallel_def local_group_def complete_local_def
      execute_local_def executeLocalCall_def executeTerminalCall_def decodeStrictToolArguments_def maxToolParamsBytes_def
      example_local_env_def with_approval_def logging_def example_executor_def example_local_tick_def
      awaitTerminalApproval_def approval_resumed_def example_approval_def chatAgentApprovalAllowsExecution_def
      localTerminalResultFailureCategory_def captureWorkspaceFiles_def example_config_def)

theorem approved_commands_decided_witness:
  "decided_log example_local_env (\<lambda>_. example_local_tick) [local_call ''bash'' ''ls'']
     (snd (snd (snd (executeLocalSkillBatch example_local_env (logging example_executor) (\<lambda>_. example_local_tick) id True
       [local_call ''bash'' ''ls''] (example_local_runtime, 7, [])))))"
proof -
  obtain out rt' s' log where b: "executeLocalSkillBatch example_local_env (logging example_executor)
      (\<lambda>_. example_local_tick) id True [local_call ''bash'' ''ls''] (example_local_runtime, 7, []) = (out, rt', s', log)"
    by (metis surj_pair)
  from approved_commands_decided [OF b] show ?thesis by (simp add: b)
qed

end
