(* ===== verification/Local_Limits.thy ===== *)
theory Local_Limits
  imports Local_Properties
begin

text \<open>
  The limits of a turn's local tools: at most eight published artifacts within the byte budget, at
  most eight referenced workspace files, indexed by their path, and no more calls than the
  configuration allows.
\<close>

definition files_indexed :: "(string, nat) gomap \<Rightarrow> workspace_file list \<Rightarrow> bool" where
  "files_indexed index files \<longleftrightarrow>
     (\<forall>path k. map_of index path = Some k \<longleftrightarrow> k < length files \<and> wf_Path (files ! k) = path)"

definition local_runtime_ok :: "int \<Rightarrow> local_config \<Rightarrow> local_runtime \<Rightarrow> bool" where
  "local_runtime_ok calls config rt \<longleftrightarrow>
     lr_calls rt = calls \<and> lr_config rt = config \<and>
     length (lr_publishedArtifacts rt) \<le> maxPublishedArtifactsPerTurn \<and>
     0 \<le> lr_artifactBytes rt \<and> lr_artifactBytes rt \<le> max 0 (lr_artifactMaxBytes rt) \<and>
     length (lr_workspaceFiles rt) \<le> maxWorkspaceFileReferences \<and>
     files_indexed (lr_workspaceFileIndex rt) (lr_workspaceFiles rt) \<and>
     list_all (\<lambda>w. wf_WorkspaceID w = lr_workspaceID rt) (lr_workspaceFiles rt) \<and>
     list_all (\<lambda>w. wf_Path w \<noteq> [] \<and> wf_Version w \<noteq> []) (lr_workspaceFiles rt)"





definition runtime_ends_in :: "(local_runtime \<Rightarrow> bool) \<Rightarrow> 'a \<times> local_runtime \<times> 's \<Rightarrow> bool" where
  "runtime_ends_in I x \<longleftrightarrow> I (fst (snd x))"

lemma runtime_ends_in_pair [simp]: "runtime_ends_in I (a, rt, s) = I rt"
  by (simp add: runtime_ends_in_def)





lemma pending_ok [simp]:
  "local_runtime_ok calls config (recordPendingJobFiles job paths rt) = local_runtime_ok calls config rt"
  "local_runtime_ok calls config (clearPendingJobFiles job rt) = local_runtime_ok calls config rt"
  "local_runtime_ok calls config (rt\<lparr>lr_loaded := loaded\<rparr>) = local_runtime_ok calls config rt"
  by (simp_all add: recordPendingJobFiles_def clearPendingJobFiles_def local_runtime_ok_def)


















end
