(* ===== verification/Mcp_Service.thy ===== *)
theory Mcp_Service
  imports Chat_Types Go_Paths
begin

text \<open>
  The MCP client service (internal/mcpclient): how the external tools of a run are chosen and
  frozen.  The first part has the data and the checks on one server or tool (types.go,
  validation.go, manifest.go), the second the choice of servers (service.go, auto\_activation.go)
  and the frozen run that the tool calls of an agent turn go through.

  What the service asks of others is in the record \<open>mcp_world\<close>: the answers of the
  repository, of the credential vault and of the connected servers.  The hash, the JSON encoder and
  decoder, the JSON schema library, the UUID parser and the Unicode tables are in \<open>mcp_env\<close>.
  Display icons and the command line of a local server are not modelled.
\<close>

section \<open>Data\<close>

text \<open>
  Go errors are compared with \<open>errors.Is\<close>: an error is the list of the sentinel errors
  that it wraps.
\<close>

datatype mcp_sentinel =
    McpDisabled
  | McpRemoteDisabled
  | McpStdioDisabled
  | McpRepositoryRequired
  | McpServerNotFound
  | McpServerNotReady
  | McpServerNeedsAuth
  | McpServerUnavailable
  | McpSelectionInvalid
  | McpSelectionLimit
  | McpToolNotFound
  | McpToolUnsupported
  | McpToolArgumentsInvalid
  | McpToolBudget
  | McpResponseTooLarge
  | McpCredentialRequired
  | McpCredentialInvalid
  | McpOutcomeUnknown
  | McpManifestInvalid
  | CtxCanceled
  | CtxDeadlineExceeded

type_synonym mcp_error = "mcp_sentinel list"

definition errors_is :: "mcp_error \<Rightarrow> mcp_sentinel \<Rightarrow> bool" where
  "errors_is e s = List.member e s"

record server_ref =
  ref_Source :: string
  ref_ID :: string

definition ref_key :: "server_ref \<Rightarrow> string" where
  "ref_key r = ref_Source r @ '':'' @ ref_ID r"

record mcp_tool =
  mt_ServerRef :: server_ref
  mt_Name :: string
  mt_Alias :: string
  mt_Title :: string
  mt_Description :: string
  mt_InputSchema :: any_map
  mt_Classification :: string
  mt_Supported :: bool
  mt_Unsupported :: string

text \<open>A tool as a server lists it.\<close>

record raw_tool =
  rw_Name :: string
  rw_Title :: string
  rw_Description :: string
  rw_Schema :: any_value

record mcp_grant =
  gr_ScopeType :: string
  gr_ScopeID :: string

record marketplace_artifact =
  ma_Provider :: string
  ma_Identifier :: string
  ma_Version :: string
  ma_DeploymentHash :: string

text \<open>The dynamic types that the service tests for in the metadata of a server.\<close>

datatype meta_value =
    MetaStrings "string list"
  | MetaPolicy "(string, string) gomap"
  | MetaArtifact marketplace_artifact
  | MetaDynamic any_value
  | MetaValue any_value

type_synonym metadata = "(string, meta_value) gomap"

record mcp_server =
  sv_Ref :: server_ref
  sv_Name :: string
  sv_Description :: string
  sv_Transport :: string
  sv_EndpointURL :: string
  sv_Command :: "string list option"
  sv_AuthType :: string
  sv_HeaderSecret :: string
  sv_Status :: string
  sv_HasCredential :: bool
  sv_CanManage :: bool
  sv_ConfigurationFields :: "string list"
  sv_ToolCount :: int
  sv_UnsupportedCount :: int
  sv_LastErrorCode :: string
  sv_ValidatedAt :: "int option"
  sv_Grants :: "mcp_grant list"
  sv_OwnerUserID :: string
  sv_Tools :: "mcp_tool list"
  sv_Metadata :: metadata

record selection_server =
  sl_Ref :: server_ref
  sl_DisabledTools :: "string list"

record mcp_selection =
  se_ConversationID :: string
  se_Mode :: string
  se_Revision :: int
  se_Servers :: "selection_server list"

record workspace_selection =
  ws_WorkspaceID :: string
  ws_Revision :: int
  ws_Servers :: "selection_server list"

record mcp_scope =
  sc_ConversationID :: string
  sc_UserID :: string
  sc_WorkspaceID :: string
  sc_TeamID :: string

record snapshot_server =
  ns_Ref :: server_ref
  ns_Name :: string
  ns_Transport :: string
  ns_ActivationSource :: string
  ns_Tools :: "mcp_tool list"

record run_snapshot =
  rs_RunID :: string
  rs_UserID :: string
  rs_ConversationID :: string
  rs_MessageID :: string
  rs_SelectionRevision :: int
  rs_Servers :: "snapshot_server list"
  rs_Hash :: string
  rs_CreatedAt :: int
  rs_ExpiresAt :: int

record prepared_run =
  pr_Snapshot :: run_snapshot
  pr_servers :: "(string, mcp_server) gomap"
  pr_aliases :: "(string, mcp_tool) gomap"

definition no_run :: prepared_run where
  "no_run =
     \<lparr>pr_Snapshot = \<lparr>rs_RunID = [], rs_UserID = [], rs_ConversationID = [], rs_MessageID = [],
                     rs_SelectionRevision = 0, rs_Servers = [], rs_Hash = [],
                     rs_CreatedAt = zero_time, rs_ExpiresAt = zero_time\<rparr>,
      pr_servers = [], pr_aliases = []\<rparr>"

definition run_enabled :: "prepared_run \<Rightarrow> bool" where
  "run_enabled run = (rs_Servers (pr_Snapshot run) \<noteq> [])"

record stored_credential =
  st_HeaderValue :: string
  st_AccessToken :: string
  st_RefreshToken :: string
  st_ExpiresAt :: int
  st_Environment :: "(string, string) gomap"

record mcp_config =
  mc_Enabled :: bool
  mc_RemoteEnabled :: bool
  mc_StdioEnabled :: bool
  mc_AdministratorUserID :: string
  mc_PrivateServerLimit :: int
  mc_ConversationLimit :: int
  mc_MaxExposedTools :: int
  mc_MaxCallsPerRun :: int
  mc_MaxRoundsPerRun :: int
  mc_MaxConcurrentPerUser :: int
  mc_MaxOAuthFlows :: int
  mc_CallTimeout :: int
  mc_RunTimeout :: int
  mc_AuditRetention :: int
  mc_CleanupInterval :: int
  mc_MaxInlineResultBytes :: int
  mc_MaxResultItemBytes :: int
  mc_MaxResultCallBytes :: int

record mcp_env =
  me_lower :: "string \<Rightarrow> string"
  me_letter :: "string \<Rightarrow> bool"
  me_digit :: "string \<Rightarrow> bool"
  me_han :: "string \<Rightarrow> bool"
  me_sha256 :: "string \<Rightarrow> string"
  me_uuid :: "string \<Rightarrow> bool"
  me_marshal :: "any_value \<Rightarrow> string option"
  me_object :: "string \<Rightarrow> any_map option"
  me_schema_ok :: "any_map \<Rightarrow> bool"
  me_validate :: "any_map \<Rightarrow> any_map \<Rightarrow> bool"

definition seconds :: "int \<Rightarrow> int" where "seconds n = n * 1000000000"

definition positive_or :: "int \<Rightarrow> int \<Rightarrow> int" where
  "positive_or value fallback = (if value \<le> 0 then fallback else value)"

definition DefaultConfig :: mcp_config where
  "DefaultConfig =
     \<lparr>mc_Enabled = False, mc_RemoteEnabled = False, mc_StdioEnabled = False, mc_AdministratorUserID = [],
      mc_PrivateServerLimit = 20, mc_ConversationLimit = 8, mc_MaxExposedTools = 32, mc_MaxCallsPerRun = 32,
      mc_MaxRoundsPerRun = 8, mc_MaxConcurrentPerUser = 4, mc_MaxOAuthFlows = 5, mc_CallTimeout = seconds 30,
      mc_RunTimeout = seconds 120, mc_AuditRetention = seconds (90 * 24 * 3600), mc_CleanupInterval = seconds 3600,
      mc_MaxInlineResultBytes = 262144, mc_MaxResultItemBytes = 26214400, mc_MaxResultCallBytes = 52428800\<rparr>"

definition normalizeConfig :: "mcp_config \<Rightarrow> mcp_config" where
  "normalizeConfig c =
     c\<lparr>mc_PrivateServerLimit := positive_or (mc_PrivateServerLimit c) (mc_PrivateServerLimit DefaultConfig),
       mc_ConversationLimit := positive_or (mc_ConversationLimit c) (mc_ConversationLimit DefaultConfig),
       mc_MaxExposedTools := (if mc_MaxExposedTools c \<le> 1 then mc_MaxExposedTools DefaultConfig else mc_MaxExposedTools c),
       mc_MaxCallsPerRun := positive_or (mc_MaxCallsPerRun c) (mc_MaxCallsPerRun DefaultConfig),
       mc_MaxRoundsPerRun := positive_or (mc_MaxRoundsPerRun c) (mc_MaxRoundsPerRun DefaultConfig),
       mc_MaxConcurrentPerUser := positive_or (mc_MaxConcurrentPerUser c) (mc_MaxConcurrentPerUser DefaultConfig),
       mc_MaxOAuthFlows := positive_or (mc_MaxOAuthFlows c) (mc_MaxOAuthFlows DefaultConfig),
       mc_CallTimeout := positive_or (mc_CallTimeout c) (mc_CallTimeout DefaultConfig),
       mc_RunTimeout := positive_or (mc_RunTimeout c) (mc_RunTimeout DefaultConfig),
       mc_AuditRetention := positive_or (mc_AuditRetention c) (mc_AuditRetention DefaultConfig),
       mc_CleanupInterval := positive_or (mc_CleanupInterval c) (mc_CleanupInterval DefaultConfig),
       mc_MaxInlineResultBytes := positive_or (mc_MaxInlineResultBytes c) (mc_MaxInlineResultBytes DefaultConfig),
       mc_MaxResultItemBytes := positive_or (mc_MaxResultItemBytes c) (mc_MaxResultItemBytes DefaultConfig),
       mc_MaxResultCallBytes := positive_or (mc_MaxResultCallBytes c) (mc_MaxResultCallBytes DefaultConfig)\<rparr>"

section \<open>Tools\<close>

fun normalize_strings :: "nat \<Rightarrow> nat \<Rightarrow> string list \<Rightarrow> string list \<Rightarrow> string list" where
  "normalize_strings maximum maxBytes result [] = result"
| "normalize_strings maximum maxBytes result (v # vs) =
     (let value = trim_space v
      in if value = [] \<or> length value > maxBytes then normalize_strings maximum maxBytes result vs
         else if List.member result value then normalize_strings maximum maxBytes result vs
         else if length (result @ [value]) = maximum then result @ [value]
         else normalize_strings maximum maxBytes (result @ [value]) vs)"

definition normalizeStrings :: "string list \<Rightarrow> nat \<Rightarrow> nat \<Rightarrow> string list" where
  "normalizeStrings values maximum maxBytes = normalize_strings maximum maxBytes [] values"

text \<open>Bytes: ASCII classes, hexadecimal, and trimming a set of ASCII characters.\<close>

definition alpha :: "char \<Rightarrow> bool" where
  "alpha c = (let n = of_char c :: nat in (0x41 \<le> n \<and> n \<le> 0x5A) \<or> (0x61 \<le> n \<and> n \<le> 0x7A))"

definition alias_char :: "char \<Rightarrow> bool" where
  "alias_char c = (alpha c \<or> (let n = of_char c :: nat in 0x30 \<le> n \<and> n \<le> 0x39) \<or> c = CHR ''_'')"

definition hex_digit :: "nat \<Rightarrow> char" where
  "hex_digit n = (if n < 10 then char_of (48 + n) else char_of (87 + n))"

definition hex_encode :: "string \<Rightarrow> string" where
  "hex_encode s = concat (map (\<lambda>c. let n = of_char c :: nat in [hex_digit (n div 16), hex_digit (n mod 16)]) s)"

definition trim_chars :: "char list \<Rightarrow> string \<Rightarrow> string" where
  "trim_chars cs s = rev (dropWhile (List.member cs) (rev (dropWhile (List.member cs) s)))"

text \<open>Replacing each rune that is not allowed in an alias.\<close>

definition alias_rune :: "string \<Rightarrow> string" where
  "alias_rune r = (case r of [c] \<Rightarrow> if alias_char c then [c] else ''_'' | _ \<Rightarrow> ''_'')"

definition maxToolNameBytes :: nat where "maxToolNameBytes = 256"
definition maxToolDescriptionBytes :: nat where "maxToolDescriptionBytes = 4096"
definition maxToolSchemaBytes :: nat where "maxToolSchemaBytes = 32 * 1024"
definition maxProviderAliasBytes :: int where "maxProviderAliasBytes = 64"

definition alias_base :: "string \<Rightarrow> string" where
  "alias_base name =
     (let base = trim_chars ''_'' (concat (map alias_rune (go_runes (trim_space name))))
      in if base = [] \<or> \<not> alpha (hd base) then ''tool_'' @ base else base)"

definition toolAlias :: "mcp_env \<Rightarrow> server_ref \<Rightarrow> string \<Rightarrow> string" where
  "toolAlias env ref name =
     (let prefix = hex_encode (take 6 (me_sha256 env (ref_key ref)));
          base = alias_base name;
          suffix = hex_encode (take 4 (me_sha256 env name));
          maximum = max 1 (maxProviderAliasBytes - int (length ''mcp__'') - int (length prefix) - int (length suffix));
          cut = (if int (length base) > maximum then take (nat maximum) base else base)
      in ''mcp_'' @ prefix @ ''_'' @ cut @ ''_'' @ suffix)"

definition normalizeClassification :: "mcp_env \<Rightarrow> string \<Rightarrow> string" where
  "normalizeClassification env value =
     (let v = to_lower (me_lower env) (trim_space value)
      in if v = ''read'' then ''read'' else if v = ''write'' then ''write'' else ''unknown'')"

text \<open>The schema keywords that providers do not take.\<close>

definition schema_type :: "any_map \<Rightarrow> string option" where
  "schema_type m = (case map_of m ''type'' of Some (AnyString s) \<Rightarrow> Some s | _ \<Rightarrow> None)"

definition forbidden_keywords :: "string list" where
  "forbidden_keywords =
     [''$ref'', ''$dynamicRef'', ''oneOf'', ''anyOf'', ''allOf'', ''not'', ''if'', ''then'', ''else'']"

function validateToolSchema :: "any_map \<Rightarrow> nat \<Rightarrow> bool" where
  "validateToolSchema schema depth =
     (if depth > 12 then False
      else if schema_type schema = None \<or> (depth = 0 \<and> schema_type schema \<noteq> Some ''object'') then False
      else if list_ex (\<lambda>keyword. map_of schema keyword \<noteq> None) forbidden_keywords then False
      else
        (case map_of schema ''properties'' of
           None \<Rightarrow> True
         | Some (AnyMap properties) \<Rightarrow>
             length properties \<le> 128 \<and>
             list_all
               (\<lambda>(key, raw). trim_space key \<noteq> [] \<and> length key \<le> 256 \<and>
                  (case raw of
                     AnyMap child \<Rightarrow>
                       (schema_type child = Some ''array'' \<longrightarrow>
                          (case map_of child ''items'' of
                             Some (AnyMap items) \<Rightarrow> validateToolSchema items (depth + 1)
                           | _ \<Rightarrow> True)) \<and>
                       (schema_type child = Some ''object'' \<longrightarrow> validateToolSchema child (depth + 1))
                   | _ \<Rightarrow> False)) properties
         | Some _ \<Rightarrow> False))"
  by pat_completeness auto
termination
  by (relation "measure (\<lambda>(schema, depth). 13 - depth)") auto

declare validateToolSchema.simps [simp del]

definition resolveToolSchema :: "mcp_env \<Rightarrow> any_map \<Rightarrow> bool" where
  "resolveToolSchema env schema =
     (me_marshal env (AnyMap schema) \<noteq> None \<and> schema_type schema = Some ''object'' \<and> me_schema_ok env schema)"

definition normalizeTool :: "mcp_env \<Rightarrow> server_ref \<Rightarrow> raw_tool \<Rightarrow> string \<Rightarrow> mcp_tool" where
  "normalizeTool env ref raw classification =
     (let name = trim_space (rw_Name raw);
          description = trim_space (rw_Description raw);
          tool = \<lparr>mt_ServerRef = ref, mt_Name = name, mt_Alias = toolAlias env ref name,
                  mt_Title = trim_space (rw_Title raw), mt_Description = description, mt_InputSchema = [],
                  mt_Classification =
                    normalizeClassification env (if ref_Source ref = ''private'' then ''unknown'' else classification),
                  mt_Supported = True, mt_Unsupported = []\<rparr>;
          unsupported = (\<lambda>reason. tool\<lparr>mt_Supported := False, mt_Unsupported := reason\<rparr>)
      in if name = [] \<or> length name > maxToolNameBytes then unsupported ''invalid_name''
         else if length description > maxToolDescriptionBytes then unsupported ''description_too_large''
         else
           (case me_marshal env (rw_Schema raw) of
              None \<Rightarrow> unsupported ''schema_too_large''
            | Some encoded \<Rightarrow>
                if length encoded > maxToolSchemaBytes then unsupported ''schema_too_large''
                else
                  (case me_object env encoded of
                     None \<Rightarrow> unsupported ''schema_not_object''
                   | Some normalized \<Rightarrow>
                       if \<not> validateToolSchema normalized 0 then unsupported ''schema_unsupported''
                       else if \<not> resolveToolSchema env normalized then unsupported ''schema_invalid''
                       else tool\<lparr>mt_InputSchema := normalized\<rparr>)))"

text \<open>A tool that is not supported has no schema.\<close>

definition ValidateToolArguments :: "mcp_env \<Rightarrow> mcp_tool \<Rightarrow> any_map \<Rightarrow> mcp_error option" where
  "ValidateToolArguments env tool arguments =
     (if \<not> mt_Supported tool \<or> mt_InputSchema tool = [] then Some [McpToolUnsupported]
      else if \<not> resolveToolSchema env (mt_InputSchema tool) then Some [McpToolUnsupported]
      else if \<not> me_validate env (mt_InputSchema tool) arguments then Some [McpToolArgumentsInvalid]
      else None)"

definition sortedTools :: "mcp_tool list \<Rightarrow> mcp_tool list" where
  "sortedTools tools = sort_key (\<lambda>t. (ref_key (mt_ServerRef t), mt_Name t)) tools"

text \<open>\<open>sort.SearchStrings\<close>: binary search.\<close>

function search_strings :: "string list \<Rightarrow> string \<Rightarrow> nat \<Rightarrow> nat \<Rightarrow> nat" where
  "search_strings names x i j =
     (if i < j
      then let h = (i + j) div 2
           in if names ! h < x then search_strings names x (h + 1) j else search_strings names x i h
      else i)"
  by pat_completeness auto
termination
  by (relation "measure (\<lambda>(names, x, i, j). j - i)") auto

declare search_strings.simps [simp del]

definition manifestToolAllowed :: "mcp_server \<Rightarrow> string \<Rightarrow> bool" where
  "manifestToolAllowed server name =
     (if ref_Source (sv_Ref server) \<noteq> ''manifest'' \<and> ref_Source (sv_Ref server) \<noteq> ''private'' then True
      else (case map_of (sv_Metadata server) ''allowedTools'' of
              None \<Rightarrow> True
            | Some (MetaStrings names) \<Rightarrow>
                let n = trim_space name; index = search_strings names n 0 (length names)
                in index < length names \<and> names ! index = n
            | Some _ \<Rightarrow> False))"

definition count_supported :: "mcp_tool list \<Rightarrow> int" where
  "count_supported tools = int (length (filter mt_Supported tools))"

definition count_unsupported :: "mcp_tool list \<Rightarrow> int" where
  "count_unsupported tools = int (length (filter (\<lambda>t. \<not> mt_Supported t) tools))"

definition filterManifestAllowedTools :: "mcp_server \<Rightarrow> mcp_server" where
  "filterManifestAllowedTools server =
     (if ref_Source (sv_Ref server) \<noteq> ''manifest'' \<or> map_of (sv_Metadata server) ''allowedTools'' = None then server
      else let filtered = filter (\<lambda>t. manifestToolAllowed server (mt_Name t)) (sv_Tools server)
           in server\<lparr>sv_Tools := filtered, sv_ToolCount := count_supported filtered,
                     sv_UnsupportedCount := count_unsupported filtered\<rparr>)"


section \<open>Servers\<close>

text \<open>
  The world around the service.  \<open>mw_connect\<close> is what a server lists, given the credential:
  \<open>None\<close> if it cannot be reached.
\<close>

record mcp_world =
  mw_repo :: bool
  mw_catalog :: "(string, mcp_server) gomap"
  mw_manifest :: "(string, mcp_server) gomap"
  mw_scope :: "string \<Rightarrow> string \<Rightarrow> mcp_error + mcp_scope"
  mw_selection :: "string \<Rightarrow> string \<Rightarrow> mcp_error + mcp_selection option"
  mw_workspace :: "string \<Rightarrow> string \<Rightarrow> mcp_error + workspace_selection option"
  mw_private_list :: "string \<Rightarrow> mcp_error + mcp_server list"
  mw_shared_list :: "string \<Rightarrow> string \<Rightarrow> mcp_error + mcp_server list"
  mw_private :: "string \<Rightarrow> string \<Rightarrow> string \<Rightarrow> mcp_error + mcp_server"
  mw_has_credential :: "string \<Rightarrow> server_ref \<Rightarrow> mcp_error + bool"
  mw_load :: "string \<Rightarrow> server_ref \<Rightarrow> mcp_error + stored_credential"
  mw_refresh :: "string \<Rightarrow> mcp_server \<Rightarrow> mcp_error + string"
  mw_dynamic :: "mcp_server \<Rightarrow> mcp_error + mcp_server"
  mw_connect :: "mcp_server \<Rightarrow> string \<Rightarrow> raw_tool list option"
  mw_save :: "run_snapshot \<Rightarrow> mcp_error option"
  mw_hash :: "run_snapshot \<Rightarrow> mcp_error + string"
  mw_now :: int

definition service_available :: "mcp_config \<Rightarrow> mcp_world \<Rightarrow> mcp_error option" where
  "service_available c w =
     (if \<not> mc_Enabled c then Some [McpDisabled]
      else if \<not> mw_repo w then Some [McpRepositoryRequired] else None)"

definition requireTransportEnabled :: "mcp_config \<Rightarrow> mcp_server \<Rightarrow> mcp_error option" where
  "requireTransportEnabled c server =
     (if sv_Transport server = ''streamable_http''
      then (if mc_RemoteEnabled c then None else Some [McpRemoteDisabled])
      else if sv_Transport server = ''stdio''
      then (if mc_StdioEnabled c then None else Some [McpStdioDisabled])
      else Some [McpServerUnavailable])"

definition manifest_id :: "string \<Rightarrow> bool" where
  "manifest_id s =
     (let lower = (\<lambda>c. let n = of_char c :: nat in (0x61 \<le> n \<and> n \<le> 0x7A) \<or> (0x30 \<le> n \<and> n \<le> 0x39))
      in s \<noteq> [] \<and> lower (hd s) \<and> length s \<le> 128 \<and>
         list_all (\<lambda>c. lower c \<or> List.member ''._-'' c) (tl s))"

definition validServerRef :: "mcp_env \<Rightarrow> server_ref \<Rightarrow> bool" where
  "validServerRef env ref =
     (if trim_space (ref_ID ref) = [] \<or> length (ref_ID ref) > 128 then False
      else if ref_Source ref = ''catalog'' \<or> ref_Source ref = ''manifest'' then manifest_id (ref_ID ref)
      else if ref_Source ref = ''private'' then me_uuid env (trim_space (ref_ID ref))
      else False)"

definition manifestGranted :: "mcp_server \<Rightarrow> mcp_scope \<Rightarrow> bool" where
  "manifestGranted server scope =
     list_ex (\<lambda>grant.
       gr_ScopeType grant = ''global'' \<or>
       (gr_ScopeType grant = ''workspace'' \<and> sc_WorkspaceID scope \<noteq> [] \<and> gr_ScopeID grant = sc_WorkspaceID scope) \<or>
       (gr_ScopeType grant = ''team'' \<and> sc_TeamID scope \<noteq> [] \<and> gr_ScopeID grant = sc_TeamID scope))
     (sv_Grants server)"

definition sharedServer :: "mcp_world \<Rightarrow> server_ref \<Rightarrow> mcp_error + mcp_server" where
  "sharedServer w ref =
     (case (if ref_Source ref = ''catalog'' then map_of (mw_catalog w) (ref_ID ref)
            else if ref_Source ref = ''manifest'' then map_of (mw_manifest w) (ref_ID ref) else None) of
        None \<Rightarrow> Inl [McpServerNotFound] | Some server \<Rightarrow> Inr server)"

definition meta_string :: "metadata \<Rightarrow> string \<Rightarrow> string" where
  "meta_string m k = (case map_of m k of Some (MetaValue (AnyString s)) \<Rightarrow> s | _ \<Rightarrow> [])"

definition provenance_string :: "metadata \<Rightarrow> string \<Rightarrow> string" where
  "provenance_string m k =
     (case map_of m ''marketplace'' of
        Some (MetaValue (AnyMap provenance)) \<Rightarrow>
          (case map_of provenance k of Some (AnyString s) \<Rightarrow> s | _ \<Rightarrow> [])
      | _ \<Rightarrow> [])"

definition marketplaceArtifactFromServer :: "mcp_server \<Rightarrow> marketplace_artifact option" where
  "marketplaceArtifactFromServer server =
     (case map_of (sv_Metadata server) ''marketplaceArtifact'' of Some (MetaArtifact a) \<Rightarrow> Some a | _ \<Rightarrow> None)"

definition privateRunnerArtifact :: "mcp_world \<Rightarrow> mcp_server \<Rightarrow> mcp_error + mcp_server" where
  "privateRunnerArtifact w server =
     (let m = sv_Metadata server; artifactID = trim_space (meta_string m ''runnerArtifactId'')
      in if ref_Source (sv_Ref server) \<noteq> ''private'' \<or> sv_Transport server \<noteq> ''stdio'' \<or>
            (sv_AuthType server \<noteq> ''none'' \<and> sv_AuthType server \<noteq> ''env'')
         then Inl [McpServerUnavailable]
         else if \<not> manifest_id artifactID \<or> sv_EndpointURL server \<noteq> ''runner://'' @ artifactID
         then Inl [McpServerUnavailable]
         else
           (case (case sharedServer w \<lparr>ref_Source = ''manifest'', ref_ID = artifactID\<rparr> of
                    Inl _ \<Rightarrow> mw_dynamic w server | Inr artifact \<Rightarrow> Inr artifact) of
              Inl _ \<Rightarrow> Inl [McpServerUnavailable]
            | Inr artifact \<Rightarrow>
                if sv_Transport artifact \<noteq> ''stdio'' \<or> sv_Command artifact = None then Inl [McpServerUnavailable]
                else
                  (case marketplaceArtifactFromServer artifact of
                     None \<Rightarrow> Inl [McpServerUnavailable]
                   | Some approved \<Rightarrow>
                       if ma_DeploymentHash approved = [] \<or>
                          provenance_string m ''provider'' \<noteq> ma_Provider approved \<or>
                          provenance_string m ''identifier'' \<noteq> ma_Identifier approved \<or>
                          provenance_string m ''version'' \<noteq> ma_Version approved \<or>
                          provenance_string m ''deploymentHash'' \<noteq> ma_DeploymentHash approved
                       then Inl [McpServerUnavailable]
                       else Inr artifact)))"

text \<open>Indexing a map of strings that may be absent.\<close>

definition tool_policy :: "metadata \<Rightarrow> string \<Rightarrow> string" where
  "tool_policy m name =
     (case map_of m ''toolPolicy'' of Some (MetaPolicy policy) \<Rightarrow> lookup_str policy name | _ \<Rightarrow> [])"

definition bindPrivateRunnerToolPolicy :: "mcp_env \<Rightarrow> mcp_tool list \<Rightarrow> mcp_server \<Rightarrow> mcp_tool list" where
  "bindPrivateRunnerToolPolicy env tools artifact =
     map (\<lambda>t. t\<lparr>mt_Classification := normalizeClassification env (tool_policy (sv_Metadata artifact) (mt_Name t))\<rparr>)
       (filter (\<lambda>t. manifestToolAllowed artifact (mt_Name t)) tools)"

definition bindPrivateRunnerArtifactAuthority :: "mcp_server \<Rightarrow> mcp_server \<Rightarrow> mcp_server" where
  "bindPrivateRunnerArtifactAuthority server artifact =
     (let m = AList.delete ''allowedTools'' (sv_Metadata server)
      in server\<lparr>sv_Metadata :=
           (case map_of (sv_Metadata artifact) ''allowedTools'' of
              Some (MetaStrings allowed) \<Rightarrow> AList.update ''allowedTools'' (MetaStrings allowed) m
            | _ \<Rightarrow> m)\<rparr>)"

definition configuration_fields :: "mcp_server \<Rightarrow> string list" where
  "configuration_fields artifact = (case sv_Command artifact of None \<Rightarrow> [] | Some names \<Rightarrow> names)"

definition bindPrivateServerDisplay :: "mcp_env \<Rightarrow> mcp_world \<Rightarrow> mcp_server \<Rightarrow> mcp_server" where
  "bindPrivateServerDisplay env w server =
     (if sv_Transport server \<noteq> ''stdio'' then server
      else
        (case privateRunnerArtifact w server of
           Inl _ \<Rightarrow> server
         | Inr artifact \<Rightarrow>
             let s1 = server\<lparr>sv_Name := sv_Name artifact, sv_ConfigurationFields := configuration_fields artifact\<rparr>;
                 s2 = bindPrivateRunnerArtifactAuthority s1 artifact
             in s2\<lparr>sv_Tools := bindPrivateRunnerToolPolicy env (sv_Tools s2) artifact\<rparr>))"

definition serverForUser ::
  "mcp_env \<Rightarrow> mcp_config \<Rightarrow> mcp_world \<Rightarrow> string \<Rightarrow> server_ref \<Rightarrow> mcp_scope \<Rightarrow> mcp_error + mcp_server" where
  "serverForUser env c w userID ref scope =
     (if \<not> validServerRef env ref then Inl [McpServerNotFound]
      else if ref_Source ref = ''catalog'' then sharedServer w ref
      else if ref_Source ref = ''manifest''
      then (case sharedServer w ref of
              Inl _ \<Rightarrow> Inl [McpServerNotFound]
            | Inr server \<Rightarrow>
                if \<not> manifestGranted server scope then Inl [McpServerNotFound]
                else Inr (filterManifestAllowedTools server))
      else if ref_Source ref = ''private''
      then
        (let administrator = (if me_uuid env (trim_space (mc_AdministratorUserID c)) then mc_AdministratorUserID c else userID)
         in (case mw_private w userID administrator (ref_ID ref) of
               Inl e \<Rightarrow> Inl e
             | Inr server \<Rightarrow>
                 if sv_Transport server \<noteq> ''stdio'' then Inr server
                 else
                   (case privateRunnerArtifact w server of
                      Inl e \<Rightarrow> Inl e
                    | Inr artifact \<Rightarrow>
                        let s1 = server\<lparr>sv_Name := sv_Name artifact, sv_Command := sv_Command artifact\<rparr>;
                            s2 = (case map_of (sv_Metadata artifact) ''dynamicRunnerArtifact'' of
                                    Some (MetaDynamic d) \<Rightarrow>
                                      s1\<lparr>sv_Metadata := AList.update ''dynamicRunnerArtifactResolved'' (MetaDynamic d) (sv_Metadata s1)\<rparr>
                                  | _ \<Rightarrow> s1);
                            s3 = bindPrivateRunnerArtifactAuthority
                                   (s2\<lparr>sv_ConfigurationFields := configuration_fields artifact\<rparr>) artifact
                        in Inr (s3\<lparr>sv_Tools := bindPrivateRunnerToolPolicy env (sv_Tools s3) artifact\<rparr>))))
      else Inl [McpServerNotFound])"

text \<open>The credential that a connection presents; the vault holds one per user and server.\<close>

definition oauthExpirySafetyWindow :: int where "oauthExpirySafetyWindow = seconds 30"

definition connectionCredential ::
  "mcp_env \<Rightarrow> mcp_config \<Rightarrow> mcp_world \<Rightarrow> string \<Rightarrow> mcp_server \<Rightarrow> mcp_error + string" where
  "connectionCredential env c w userID server =
     (let user = (if ref_Source (sv_Ref server) = ''private'' \<and> sv_OwnerUserID server = mc_AdministratorUserID c
                  then sv_OwnerUserID server else userID)
      in if sv_AuthType server = ''none'' then Inr []
         else if sv_AuthType server = ''header'' \<and> sv_HeaderSecret server \<noteq> [] then Inr (sv_HeaderSecret server)
         else if sv_AuthType server = ''header'' \<or> sv_AuthType server = ''oauth'' \<or> sv_AuthType server = ''env''
         then
           (case mw_load w user (sv_Ref server) of
              Inl e \<Rightarrow> Inl e
            | Inr stored \<Rightarrow>
                if sv_AuthType server = ''header''
                then (if st_HeaderValue stored = [] then Inl [McpCredentialRequired] else Inr (st_HeaderValue stored))
                else if sv_AuthType server = ''oauth''
                then
                  (if st_AccessToken stored = [] then Inl [McpCredentialRequired]
                   else if st_ExpiresAt stored \<noteq> zero_time \<and> \<not> mw_now w + oauthExpirySafetyWindow < st_ExpiresAt stored
                   then (if st_RefreshToken stored = [] then Inl [McpCredentialRequired] else mw_refresh w user server)
                   else Inr (st_AccessToken stored))
                else if st_Environment stored = [] then Inl [McpCredentialRequired]
                else (case me_marshal env (AnyMap (map (\<lambda>(k, v). (k, AnyString v)) (st_Environment stored))) of
                        None \<Rightarrow> Inl [McpCredentialInvalid] | Some encoded \<Rightarrow> Inr encoded))
         else Inl [McpCredentialInvalid])"

text \<open>
  Listing the tools of a server.  The remote connector applies the policy of manifest servers only,
  the connector of local servers that of any server.
\<close>

definition list_tools :: "mcp_env \<Rightarrow> mcp_server \<Rightarrow> raw_tool list \<Rightarrow> mcp_tool list" where
  "list_tools env server raws =
     sortedTools
       (map (\<lambda>raw. normalizeTool env (sv_Ref server) raw
                (if ref_Source (sv_Ref server) = ''manifest'' \<or> sv_Transport server = ''stdio''
                 then tool_policy (sv_Metadata server) (rw_Name raw) else ''unknown''))
         (filter (\<lambda>raw. manifestToolAllowed server (rw_Name raw)) raws))"

definition discoverTools ::
  "mcp_env \<Rightarrow> mcp_config \<Rightarrow> mcp_world \<Rightarrow> mcp_server \<Rightarrow> string \<Rightarrow> mcp_error + mcp_server" where
  "discoverTools env c w server credential =
     (case requireTransportEnabled c server of
        Some e \<Rightarrow> Inl e
      | None \<Rightarrow>
          (case mw_connect w server credential of
             None \<Rightarrow> Inl [McpServerUnavailable]
           | Some raws \<Rightarrow>
               let tools = list_tools env server raws
               in Inr (server\<lparr>sv_Tools := tools, sv_ToolCount := count_supported tools,
                             sv_UnsupportedCount := count_unsupported tools, sv_Status := ''ready'',
                             sv_LastErrorCode := [], sv_ValidatedAt := Some (mw_now w)\<rparr>)))"


text \<open>
  The shared servers: loading the built-in catalog and the manifest, and checking them at start.
\<close>

fun load_catalog :: "mcp_env \<Rightarrow> mcp_server list \<Rightarrow> (string, mcp_server) gomap \<Rightarrow> mcp_error + (string, mcp_server) gomap" where
  "load_catalog env [] loaded = Inr loaded"
| "load_catalog env (server0 # servers) loaded =
     (let server = (if ref_Source (sv_Ref server0) = [] then server0\<lparr>sv_Ref := (sv_Ref server0)\<lparr>ref_Source := ''catalog''\<rparr>\<rparr>
                    else server0)
      in if ref_Source (sv_Ref server) \<noteq> ''catalog'' \<or> \<not> validServerRef env (sv_Ref server) then Inl [McpManifestInvalid]
         else if map_of loaded (ref_ID (sv_Ref server)) \<noteq> None then Inl [McpManifestInvalid]
         else load_catalog env servers (AList.update (ref_ID (sv_Ref server)) server loaded))"

fun load_manifest :: "mcp_env \<Rightarrow> mcp_server list \<Rightarrow> (string, mcp_server) gomap \<Rightarrow> mcp_error + (string, mcp_server) gomap" where
  "load_manifest env [] loaded = Inr loaded"
| "load_manifest env (server # servers) loaded =
     (if ref_Source (sv_Ref server) \<noteq> ''manifest'' \<or> \<not> validServerRef env (sv_Ref server) then Inl [McpManifestInvalid]
      else if map_of loaded (ref_ID (sv_Ref server)) \<noteq> None then Inl [McpManifestInvalid]
      else load_manifest env servers (AList.update (ref_ID (sv_Ref server)) server loaded))"

definition NewService ::
  "mcp_env \<Rightarrow> mcp_config \<Rightarrow> mcp_world \<Rightarrow> mcp_server list \<Rightarrow> mcp_server list \<Rightarrow> mcp_error + (mcp_config \<times> mcp_world)" where
  "NewService env config w catalog manifest =
     (let c = normalizeConfig config
      in if mc_Enabled c \<and> \<not> mw_repo w then Inl [McpRepositoryRequired]
         else (case load_catalog env catalog [] of
                 Inl e \<Rightarrow> Inl e
               | Inr cat \<Rightarrow>
                   (case load_manifest env manifest [] of
                      Inl e \<Rightarrow> Inl e
                    | Inr man \<Rightarrow> Inr (c, w\<lparr>mw_catalog := cat, mw_manifest := man\<rparr>))))"

definition setSharedServer :: "mcp_server \<Rightarrow> mcp_world \<Rightarrow> mcp_world" where
  "setSharedServer server w =
     (if ref_Source (sv_Ref server) = ''catalog''
      then w\<lparr>mw_catalog := AList.update (ref_ID (sv_Ref server)) server (mw_catalog w)\<rparr>
      else if ref_Source (sv_Ref server) = ''manifest''
      then w\<lparr>mw_manifest := AList.update (ref_ID (sv_Ref server)) server (mw_manifest w)\<rparr>
      else w)"

definition validate_shared ::
  "mcp_env \<Rightarrow> mcp_config \<Rightarrow> server_ref \<Rightarrow> mcp_error list \<times> mcp_world \<Rightarrow> mcp_error list \<times> mcp_world" where
  "validate_shared env c ref acc =
     (case acc of (failures, w) \<Rightarrow>
       (case sharedServer w ref of
          Inl e \<Rightarrow> (failures @ [e], w)
        | Inr server \<Rightarrow>
            if marketplaceArtifactFromServer server \<noteq> None then (failures, w)
            else if sv_AuthType server = ''oauth''
            then (failures, setSharedServer (server\<lparr>sv_Status := ''needs_auth''\<rparr>) w)
            else
              (case discoverTools env c w server (if sv_AuthType server = ''header'' then sv_HeaderSecret server else []) of
                 Inl _ \<Rightarrow> (failures @ [[McpServerUnavailable]],
                           setSharedServer (server\<lparr>sv_Status := ''unavailable'', sv_LastErrorCode := ''preflight_failed''\<rparr>) w)
               | Inr discovered \<Rightarrow> (failures, setSharedServer discovered w))))"

definition ValidateSharedServers :: "mcp_env \<Rightarrow> mcp_config \<Rightarrow> mcp_world \<Rightarrow> mcp_error list \<times> mcp_world" where
  "ValidateSharedServers env c w =
     (case service_available c w of
        Some e \<Rightarrow> ([e], w)
      | None \<Rightarrow>
          let refs = (\<lambda>source m. map (\<lambda>i. \<lparr>ref_Source = source, ref_ID = i\<rparr>) (sort_key (\<lambda>x. x) (map fst m)));
              acc = fold (validate_shared env c) (refs ''catalog'' (mw_catalog w)) ([], w)
          in fold (validate_shared env c) (refs ''manifest'' (mw_manifest (snd acc))) acc)"

section \<open>The servers of a conversation\<close>

fun with_credentials ::
  "mcp_config \<Rightarrow> mcp_world \<Rightarrow> string \<Rightarrow> mcp_server list \<Rightarrow> mcp_error + mcp_server list" where
  "with_credentials c w userID [] = Inr []"
| "with_credentials c w userID (server # servers) =
     (let user = (if ref_Source (sv_Ref server) = ''private'' \<and> sv_OwnerUserID server = mc_AdministratorUserID c
                  then sv_OwnerUserID server else userID);
          has = (sv_HasCredential server \<or> sv_AuthType server = ''none'' \<or>
                 (sv_AuthType server = ''header'' \<and> sv_HeaderSecret server \<noteq> []))
      in (case (if \<not> has \<and> sv_AuthType server \<noteq> ''none'' then mw_has_credential w user (sv_Ref server) else Inr has) of
            Inl e \<Rightarrow> Inl e
          | Inr found \<Rightarrow>
              (case with_credentials c w userID servers of
                 Inl e \<Rightarrow> Inl e
               | Inr rest \<Rightarrow> Inr (server\<lparr>sv_HasCredential := found\<rparr> # rest))))"

definition IsAdministrator :: "mcp_env \<Rightarrow> mcp_config \<Rightarrow> string \<Rightarrow> bool" where
  "IsAdministrator env c userID =
     (me_uuid env (trim_space userID) \<and> me_uuid env (trim_space (mc_AdministratorUserID c)) \<and>
      userID = mc_AdministratorUserID c)"

definition ListServers ::
  "mcp_env \<Rightarrow> mcp_config \<Rightarrow> mcp_world \<Rightarrow> string \<Rightarrow> string \<Rightarrow> mcp_error + mcp_server list" where
  "ListServers env c w userID conversationID =
     (case service_available c w of
        Some e \<Rightarrow> Inl e
      | None \<Rightarrow>
          (case mw_private_list w userID of
             Inl e \<Rightarrow> Inl e
           | Inr private0 \<Rightarrow>
               (case (if me_uuid env (trim_space (mc_AdministratorUserID c))
                      then mw_shared_list w userID (mc_AdministratorUserID c) else Inr []) of
                  Inl e \<Rightarrow> Inl e
                | Inr shared \<Rightarrow>
                    (case (if conversationID \<noteq> [] then mw_scope w userID conversationID
                           else Inr \<lparr>sc_ConversationID = [], sc_UserID = [], sc_WorkspaceID = [], sc_TeamID = []\<rparr>) of
                       Inl e \<Rightarrow> Inl e
                     | Inr scope \<Rightarrow>
                         let visible = filter (\<lambda>s. marketplaceArtifactFromServer s = None \<and> manifestGranted s scope)
                                         (map snd (mw_manifest w));
                             own = map (\<lambda>s. let t = bindPrivateServerDisplay env w s
                                            in t\<lparr>sv_CanManage := IsAdministrator env c userID \<and> sv_OwnerUserID t = userID\<rparr>)
                                     (private0 @ shared)
                         in (case with_credentials c w userID (map snd (mw_catalog w) @ visible @ own) of
                               Inl e \<Rightarrow> Inl e
                             | Inr servers \<Rightarrow> Inr (sort_key (\<lambda>s. ref_key (sv_Ref s)) servers))))))"

text \<open>Servers that an agent run adds because the query mentions them.\<close>

fun find_index :: "string \<Rightarrow> string \<Rightarrow> nat option" where
  "find_index name [] = (if name = [] then Some 0 else None)"
| "find_index name (x # xs) = (if has_prefix (x # xs) name then Some 0 else map_option Suc (find_index name xs))"

definition mcpIdentifierRune :: "mcp_env \<Rightarrow> string \<Rightarrow> bool" where
  "mcpIdentifierRune env r = (me_letter env r \<or> me_digit env r \<or> r = ''_'')"

definition mcpContainsHan :: "mcp_env \<Rightarrow> string \<Rightarrow> bool" where
  "mcpContainsHan env value = list_ex (me_han env) (go_runes value)"

function mentioned_from :: "mcp_env \<Rightarrow> string \<Rightarrow> string \<Rightarrow> nat \<Rightarrow> bool" where
  "mentioned_from env value name offset =
     (if name = [] \<or> offset + length name > length value then False
      else
        (case find_index name (drop offset value) of
           None \<Rightarrow> False
         | Some k \<Rightarrow>
             let index = offset + k; stop = index + length name;
                 leftBounded = (index = 0 \<or> \<not> mcpIdentifierRune env (last (go_runes (take index value))));
                 rightBounded = (stop = length value \<or>
                   \<not> mcpIdentifierRune env (take (next_width (drop stop value)) (drop stop value)))
             in if leftBounded \<and> rightBounded then True else mentioned_from env value name stop))"
  by pat_completeness auto
termination
proof (relation "measure (\<lambda>(env, value, name, offset). length value - offset)")
  fix env :: mcp_env and s name :: string and offset k index stop :: nat and left right
  assume "\<not> (name = [] \<or> offset + length name > length s)"
    and *: "index = offset + k" "stop = index + length name"
  then have "length name \<noteq> 0" "offset + length name \<le> length s" by auto
  then have "0 < length name" "offset < length s" by linarith+
  with * show "((env, s, name, stop), env, s, name, offset) \<in> measure (\<lambda>(env, value, name, offset). length value - offset)"
    by (auto intro: diff_less_mono2)
qed simp

declare mentioned_from.simps [simp del]

definition mcpNameMentioned :: "mcp_env \<Rightarrow> string \<Rightarrow> string \<Rightarrow> bool" where
  "mcpNameMentioned env value0 name0 =
     (let value = to_lower (me_lower env) value0; name = to_lower (me_lower env) (trim_space name0)
      in if name = [] then False
         else if mcpContainsHan env name then contains value name
         else mentioned_from env value name 0)"

definition activation_stopwords :: "string list" where
  "activation_stopwords =
     [''the'', ''and'', ''for'', ''with'', ''from'', ''this'', ''that'', ''use'', ''using'', ''agent'', ''mcp'', ''tool'']"

definition add_activation_term :: "mcp_env \<Rightarrow> string \<Rightarrow> string list \<Rightarrow> string list" where
  "add_activation_term env term0 terms =
     (if length terms \<ge> 96 then terms
      else let t = to_lower (me_lower env) (trim_space term0)
           in if length (go_runes t) < 2 \<or> List.member activation_stopwords t then terms
              else if List.member terms t then terms else terms @ [t])"

definition mcpActivationTerms :: "mcp_env \<Rightarrow> string \<Rightarrow> string list" where
  "mcpActivationTerms env value =
     fold (\<lambda>t terms.
        let terms1 = add_activation_term env t terms; runes = go_runes t
        in if mcpContainsHan env t
           then fold (\<lambda>i ts. add_activation_term env (runes ! i @ runes ! (i + 1)) ts) [0..<length runes - 1] terms1
           else terms1)
       (fields_func (\<lambda>r. \<not> me_letter env r \<and> \<not> me_digit env r) value) []"

definition maxRunOnlyMCPActivations :: nat where "maxRunOnlyMCPActivations = 2"

definition activation_score :: "mcp_env \<Rightarrow> string \<Rightarrow> mcp_server \<Rightarrow> int" where
  "activation_score env query server =
     (let nameTerms = mcpActivationTerms env (sv_Name server);
          haystack = sv_Name server @ '' '' @ sv_Description server @
            concat (map (\<lambda>t. '' '' @ mt_Name t @ '' '' @ mt_Title t @ '' '' @ mt_Description t) (sv_Tools server));
          candidates = mcpActivationTerms env haystack
      in (if mcpNameMentioned env query (sv_Name server) then 8 else 0) +
         sum_list (map (\<lambda>t. if \<not> List.member candidates t then 0
                            else if List.member nameTerms t then 2 else 1)
           (mcpActivationTerms env query)))"

definition matchRunOnlyServers ::
  "mcp_env \<Rightarrow> mcp_config \<Rightarrow> mcp_world \<Rightarrow> string \<Rightarrow> string \<Rightarrow> selection_server list \<Rightarrow> string
   \<Rightarrow> mcp_error + selection_server list" where
  "matchRunOnlyServers env c w userID conversationID selected query0 =
     (let query = trim_space query0
      in if query = [] then Inr []
         else
           (case ListServers env c w userID conversationID of
              Inl e \<Rightarrow> Inl e
            | Inr servers \<Rightarrow>
                let keys = map (\<lambda>s. ref_key (sl_Ref s)) selected;
                    eligible = filter (\<lambda>s. \<not> (List.member keys (ref_key (sv_Ref s)) \<or> sv_Status s \<noteq> ''ready'' \<or>
                                               (sv_AuthType s \<noteq> ''none'' \<and> \<not> sv_HasCredential s))) servers;
                    scored = filter (\<lambda>(s, n). n \<ge> 2) (map (\<lambda>s. (s, activation_score env query s)) eligible);
                    best = take maxRunOnlyMCPActivations (sort_key (\<lambda>(s, n). (- n, ref_key (sv_Ref s))) scored)
                in Inr (map (\<lambda>(s, n). \<lparr>sl_Ref = sv_Ref s, sl_DisabledTools = []\<rparr>) best)))"

section \<open>The frozen run\<close>

fun validate_selected ::
  "mcp_env \<Rightarrow> mcp_config \<Rightarrow> mcp_world \<Rightarrow> string \<Rightarrow> mcp_scope \<Rightarrow> string list \<Rightarrow> selection_server list \<Rightarrow> mcp_error option" where
  "validate_selected env c w userID scope seen [] = None"
| "validate_selected env c w userID scope seen (selected # rest) =
     (if \<not> validServerRef env (sl_Ref selected) then Some [McpSelectionInvalid]
      else if List.member seen (ref_key (sl_Ref selected)) then Some [McpSelectionInvalid]
      else
        (case serverForUser env c w userID (sl_Ref selected) scope of
           Inl e \<Rightarrow> Some e
         | Inr server \<Rightarrow>
             if list_ex (\<lambda>name. \<not> List.member (map mt_Name (sv_Tools server)) name)
                  (normalizeStrings (sl_DisabledTools selected) 512 maxToolNameBytes)
             then Some [McpToolNotFound]
             else validate_selected env c w userID scope (ref_key (sl_Ref selected) # seen) rest))"

definition validateSelectionServers ::
  "mcp_env \<Rightarrow> mcp_config \<Rightarrow> mcp_world \<Rightarrow> string \<Rightarrow> mcp_scope \<Rightarrow> selection_server list \<Rightarrow> mcp_error option" where
  "validateSelectionServers env c w userID scope servers =
     (if int (length servers) > mc_ConversationLimit c then Some [McpSelectionLimit]
      else validate_selected env c w userID scope [] servers)"

definition normalizeSelectionServers :: "selection_server list \<Rightarrow> selection_server list" where
  "normalizeSelectionServers servers =
     sort_key (\<lambda>s. ref_key (sl_Ref s))
       (map (\<lambda>s. s\<lparr>sl_DisabledTools := sort_key (\<lambda>x. x) (normalizeStrings (sl_DisabledTools s) 512 maxToolNameBytes)\<rparr>)
         servers)"

definition bindManifestRunnerInstance :: "mcp_env \<Rightarrow> mcp_server \<Rightarrow> string \<Rightarrow> string \<Rightarrow> string \<Rightarrow> mcp_server" where
  "bindManifestRunnerInstance env server userID conversationID runID =
     (if ref_Source (sv_Ref server) \<noteq> ''manifest'' \<or> sv_Transport server \<noteq> ''stdio'' \<or>
         map_of (sv_Metadata server) ''runnerInstanceScope'' \<noteq> Some (MetaValue (AnyString ''run''))
      then server
      else
        let bound = (if trim_space runID = [] then ''preflight'' else trim_space runID);
            digest = me_sha256 env (ref_key (sv_Ref server) @ [char_of (0::nat)] @ trim_space userID @
                       [char_of (0::nat)] @ trim_space conversationID @ [char_of (0::nat)] @ bound)
        in server\<lparr>sv_Metadata :=
             AList.update ''runnerInstanceId'' (MetaValue (AnyString (''mcp-run-'' @ hex_encode digest))) (sv_Metadata server)\<rparr>)"

text \<open>The tools of one server, joining the aliases frozen so far.\<close>

fun freeze_tools ::
  "string list \<Rightarrow> mcp_tool list \<Rightarrow> (string, mcp_tool) gomap \<Rightarrow> mcp_tool list
   \<Rightarrow> mcp_error + ((string, mcp_tool) gomap \<times> mcp_tool list)" where
  "freeze_tools disabled [] aliases enabled = Inr (aliases, enabled)"
| "freeze_tools disabled (tool # tools) aliases enabled =
     (if \<not> mt_Supported tool \<or> List.member disabled (mt_Name tool) then freeze_tools disabled tools aliases enabled
      else if (case map_of aliases (mt_Alias tool) of
                 None \<Rightarrow> False
               | Some existing \<Rightarrow> ref_key (mt_ServerRef existing) \<noteq> ref_key (mt_ServerRef tool))
      then Inl [McpToolUnsupported]
      else freeze_tools disabled tools (AList.update (mt_Alias tool) tool aliases) (enabled @ [tool]))"

definition select_server ::
  "mcp_env \<Rightarrow> mcp_config \<Rightarrow> mcp_world \<Rightarrow> string \<Rightarrow> string \<Rightarrow> string \<Rightarrow> mcp_scope \<Rightarrow> server_ref \<Rightarrow> mcp_error + mcp_server" where
  "select_server env c w userID conversationID runID scope ref =
     (case serverForUser env c w userID ref scope of
        Inl e \<Rightarrow> Inl e
      | Inr server0 \<Rightarrow>
          let server = bindManifestRunnerInstance env server0 userID conversationID runID
          in (case requireTransportEnabled c server of
                Some e \<Rightarrow> Inl e
              | None \<Rightarrow>
                  (case (if ref_Source (sv_Ref server) \<noteq> ''private'' \<and> sv_Tools server = []
                         then (case connectionCredential env c w userID server of
                                 Inl e \<Rightarrow> Inl e
                               | Inr credential \<Rightarrow> discoverTools env c w server credential)
                         else Inr server) of
                     Inl e \<Rightarrow> Inl e
                   | Inr ready \<Rightarrow>
                       if sv_Status ready \<noteq> ''ready'' then Inl [McpServerNotReady]
                       else (case connectionCredential env c w userID ready of Inl e \<Rightarrow> Inl e | Inr _ \<Rightarrow> Inr ready))))"

fun freeze_servers ::
  "mcp_env \<Rightarrow> mcp_config \<Rightarrow> mcp_world \<Rightarrow> string \<Rightarrow> string \<Rightarrow> string \<Rightarrow> mcp_scope \<Rightarrow> (string, string) gomap
   \<Rightarrow> selection_server list \<Rightarrow> prepared_run \<Rightarrow> mcp_error + prepared_run" where
  "freeze_servers env c w userID conversationID runID scope sources [] run = Inr run"
| "freeze_servers env c w userID conversationID runID scope sources (selected # rest) run =
     (case select_server env c w userID conversationID runID scope (sl_Ref selected) of
        Inl e \<Rightarrow> Inl e
      | Inr server \<Rightarrow>
          (case freeze_tools (sl_DisabledTools selected) (sortedTools (sv_Tools server)) (pr_aliases run) [] of
             Inl e \<Rightarrow> Inl e
           | Inr (aliases, enabled) \<Rightarrow>
               let s = server\<lparr>sv_Tools := enabled\<rparr>;
                   frozen = \<lparr>ns_Ref = sv_Ref s, ns_Name = sv_Name s, ns_Transport = sv_Transport s,
                             ns_ActivationSource = lookup_str sources (ref_key (sl_Ref selected)), ns_Tools = enabled\<rparr>;
                   snapshot = pr_Snapshot run
               in freeze_servers env c w userID conversationID runID scope sources rest
                    (run\<lparr>pr_aliases := aliases,
                         pr_servers := AList.update (ref_key (sv_Ref s)) s (pr_servers run),
                         pr_Snapshot := snapshot\<lparr>rs_Servers := rs_Servers snapshot @ [frozen]\<rparr>\<rparr>)))"

definition mark_sources :: "string \<Rightarrow> selection_server list \<Rightarrow> (string, string) gomap \<Rightarrow> (string, string) gomap" where
  "mark_sources source servers sources = fold (\<lambda>s m. AList.update (ref_key (sl_Ref s)) source m) servers sources"

text \<open>The servers that the conversation selects, with the revision and where each came from.\<close>

definition effective_selection ::
  "mcp_world \<Rightarrow> string \<Rightarrow> string \<Rightarrow> mcp_scope \<Rightarrow> mcp_error + (selection_server list \<times> int \<times> (string, string) gomap)" where
  "effective_selection w userID conversationID scope =
     (case mw_selection w userID conversationID of
        Inl e \<Rightarrow> Inl e
      | Inr found \<Rightarrow>
          let selection = (case found of
                Some s \<Rightarrow> s
              | None \<Rightarrow> \<lparr>se_ConversationID = conversationID, se_Mode = ''inherit'', se_Revision = 0, se_Servers = []\<rparr>);
              sources = mark_sources ''user_selected'' (se_Servers selection) []
          in if se_Mode selection \<noteq> ''inherit'' then Inr (se_Servers selection, se_Revision selection, sources)
             else if sc_WorkspaceID scope = [] then Inr ([], se_Revision selection, sources)
             else
               (case mw_workspace w userID (sc_WorkspaceID scope) of
                  Inl e \<Rightarrow> Inl e
                | Inr None \<Rightarrow> Inr ([], se_Revision selection, sources)
                | Inr (Some workspace) \<Rightarrow>
                    Inr (ws_Servers workspace, ws_Revision workspace,
                         mark_sources ''workspace_default'' (ws_Servers workspace) sources)))"

definition defaultSnapshotLifetime :: int where "defaultSnapshotLifetime = seconds (24 * 3600)"

definition stamp_run :: "mcp_world \<Rightarrow> string \<Rightarrow> string \<Rightarrow> string \<Rightarrow> string \<Rightarrow> int \<Rightarrow> prepared_run \<Rightarrow> prepared_run" where
  "stamp_run w userID conversationID messageID runID revision run =
     (let snapshot = pr_Snapshot run
      in run\<lparr>pr_Snapshot := snapshot\<lparr>
           rs_Servers := sort_key (\<lambda>s. ref_key (ns_Ref s)) (rs_Servers snapshot),
           rs_RunID := runID, rs_UserID := userID, rs_ConversationID := conversationID, rs_MessageID := messageID,
           rs_SelectionRevision := max revision 1, rs_CreatedAt := mw_now w,
           rs_ExpiresAt := mw_now w + defaultSnapshotLifetime\<rparr>\<rparr>)"

definition prepareRun ::
  "mcp_env \<Rightarrow> mcp_config \<Rightarrow> mcp_world \<Rightarrow> string \<Rightarrow> string \<Rightarrow> string \<Rightarrow> string \<Rightarrow> bool \<Rightarrow> string
   \<Rightarrow> mcp_error + prepared_run" where
  "prepareRun env c w userID conversationID messageID runID persist query =
     (case service_available c w of
        Some e \<Rightarrow> Inl e
      | None \<Rightarrow>
          if \<not> me_uuid env (trim_space userID) \<or> \<not> me_uuid env (trim_space conversationID) \<or>
             (messageID \<noteq> [] \<and> \<not> me_uuid env (trim_space messageID))
          then Inl [McpSelectionInvalid]
          else
            (case mw_scope w userID conversationID of
               Inl e \<Rightarrow> Inl e
             | Inr scope \<Rightarrow>
                 (case effective_selection w userID conversationID scope of
                    Inl e \<Rightarrow> Inl e
                  | Inr (selected, revision, sources) \<Rightarrow>
                      (case matchRunOnlyServers env c w userID conversationID selected query of
                         Inl e \<Rightarrow> Inl e
                       | Inr automatic \<Rightarrow>
                           let servers = selected @ automatic
                           in if servers = [] then Inr no_run
                              else
                                (case validateSelectionServers env c w userID scope servers of
                                   Some e \<Rightarrow> Inl e
                                 | None \<Rightarrow>
                                     (case freeze_servers env c w userID conversationID runID scope
                                             (mark_sources ''agent_auto'' automatic sources)
                                             (normalizeSelectionServers servers) no_run of
                                        Inl e \<Rightarrow> Inl e
                                      | Inr frozen \<Rightarrow>
                                          let run = stamp_run w userID conversationID messageID runID revision frozen
                                          in if \<not> persist then Inr run
                                             else
                                               (case mw_hash w (pr_Snapshot run) of
                                                  Inl e \<Rightarrow> Inl e
                                                | Inr hash \<Rightarrow>
                                                    let saved = run\<lparr>pr_Snapshot := (pr_Snapshot run)\<lparr>rs_Hash := hash\<rparr>\<rparr>
                                                    in (case mw_save w (pr_Snapshot saved) of
                                                          Some e \<Rightarrow> Inl e
                                                        | None \<Rightarrow> Inr saved))))))))"

text \<open>\<open>PrepareRun\<close>, \<open>PrepareAgentRun\<close> and \<open>Preflight\<close>.\<close>

definition PrepareAgentRun ::
  "mcp_env \<Rightarrow> mcp_config \<Rightarrow> mcp_world \<Rightarrow> string \<Rightarrow> string \<Rightarrow> string \<Rightarrow> string \<Rightarrow> string \<Rightarrow> mcp_error + prepared_run" where
  "PrepareAgentRun env c w userID conversationID messageID runID query =
     (if \<not> me_uuid env (trim_space runID) then Inl [McpSelectionInvalid]
      else prepareRun env c w userID conversationID messageID runID True query)"

definition PrepareRun ::
  "mcp_env \<Rightarrow> mcp_config \<Rightarrow> mcp_world \<Rightarrow> string \<Rightarrow> string \<Rightarrow> string \<Rightarrow> string \<Rightarrow> mcp_error + prepared_run" where
  "PrepareRun env c w userID conversationID messageID runID =
     (if \<not> me_uuid env (trim_space runID) then Inl [McpSelectionInvalid]
      else prepareRun env c w userID conversationID messageID runID True [])"

definition Preflight ::
  "mcp_env \<Rightarrow> mcp_config \<Rightarrow> mcp_world \<Rightarrow> string \<Rightarrow> string \<Rightarrow> mcp_error + prepared_run" where
  "Preflight env c w userID conversationID = prepareRun env c w userID conversationID [] [] False []"

section \<open>Which tools a provider sees\<close>

definition token_marks :: string where
  "token_marks = ''.,!?;:()[]{}'' @ [CHR 0x22, CHR 0x27]"

definition rank_score :: "mcp_env \<Rightarrow> string \<Rightarrow> mcp_tool \<Rightarrow> int" where
  "rank_score env query tool =
     (let haystack = to_lower (me_lower env) (mt_Name tool @ '' '' @ mt_Title tool @ '' '' @ mt_Description tool)
      in int (length (filter
           (\<lambda>token. let t = trim_chars token_marks token
                    in length t \<ge> 2 \<and> contains haystack t)
           (go_fields (to_lower (me_lower env) query)))))"

definition rankTools :: "mcp_env \<Rightarrow> mcp_tool list \<Rightarrow> string \<Rightarrow> mcp_tool list" where
  "rankTools env tools query = sort_key (\<lambda>t. (- rank_score env query t, mt_Alias t)) tools"

definition ToolsForProvider :: "mcp_env \<Rightarrow> mcp_config \<Rightarrow> prepared_run \<Rightarrow> string \<Rightarrow> mcp_tool list \<times> bool" where
  "ToolsForProvider env c run query =
     (let ranked = rankTools env (map snd (pr_aliases run)) query; limit = mc_MaxExposedTools c
      in if int (length ranked) \<le> limit then (ranked, False)
         else (take (nat (max (limit - 1) 1)) ranked, True))"

definition SearchTools :: "mcp_env \<Rightarrow> mcp_config \<Rightarrow> prepared_run \<Rightarrow> string \<Rightarrow> mcp_tool list" where
  "SearchTools env c run query =
     (let ranked = rankTools env (map snd (pr_aliases run)) query; limit = mc_MaxExposedTools c
      in if int (length ranked) > limit then take (nat limit) ranked else ranked)"

definition ToolForAlias :: "prepared_run \<Rightarrow> string \<Rightarrow> mcp_tool option" where
  "ToolForAlias run alias = map_of (pr_aliases run) (trim_space alias)"

end
