(* ===== verification/Mcp_Frozen.thy ===== *)
theory Mcp_Frozen
  imports Mcp_Service "HOL-Library.Multiset"
begin

text \<open>
  What the frozen run of the MCP service promises: its tools are authorised, and the number of
  tools that a provider sees is bounded and does not depend on the iteration order of a map.
\<close>

section \<open>The tables of shared servers\<close>

text \<open>A shared server is filed under its own reference.\<close>

definition filed :: "string \<Rightarrow> (string, mcp_server) gomap \<Rightarrow> bool" where
  "filed source m \<longleftrightarrow> (\<forall>(i, s) \<in> set m. sv_Ref s = \<lparr>ref_Source = source, ref_ID = i\<rparr>)"

definition shared_ok :: "mcp_world \<Rightarrow> bool" where
  "shared_ok w \<longleftrightarrow> filed ''catalog'' (mw_catalog w) \<and> filed ''manifest'' (mw_manifest w)"

lemma ref_eta: "\<lparr>ref_Source = ref_Source r, ref_ID = ref_ID r\<rparr> = r"
  by (cases r) simp

lemma filed_Nil [simp]: "filed source []"
  by (simp add: filed_def)

lemma filed_update [intro]:
  "filed source m \<Longrightarrow> ref_Source (sv_Ref s) = source \<Longrightarrow> filed source (AList.update (ref_ID (sv_Ref s)) s m)"
  using set_update_subset [of "ref_ID (sv_Ref s)" s m] ref_eta [of "sv_Ref s"]
  unfolding filed_def by fastforce

lemma filed_lookup: "filed source m \<Longrightarrow> map_of m i = Some s \<Longrightarrow> sv_Ref s = \<lparr>ref_Source = source, ref_ID = i\<rparr>"
  by (auto simp: filed_def dest: map_of_SomeD)

lemma load_catalog_filed:
  "load_catalog env servers loaded = Inr loaded' \<Longrightarrow> filed ''catalog'' loaded \<Longrightarrow> filed ''catalog'' loaded'"
proof (induction env servers loaded rule: load_catalog.induct)
  case (2 env server0 servers loaded)
  define server where
    "server = (if ref_Source (sv_Ref server0) = [] then server0\<lparr>sv_Ref := (sv_Ref server0)\<lparr>ref_Source := ''catalog''\<rparr>\<rparr> else server0)"
  have "ref_Source (sv_Ref server) = ''catalog''" "load_catalog env servers (AList.update (ref_ID (sv_Ref server)) server loaded) = Inr loaded'"
    using "2.prems"(1) by (simp_all add: server_def [symmetric] split: if_splits)
  moreover from "2.prems"(2) this(1) have "filed ''catalog'' (AList.update (ref_ID (sv_Ref server)) server loaded)" ..
  ultimately show ?case
    using "2.IH" [OF server_def] "2.prems"(1) by (simp add: server_def [symmetric] split: if_splits)
qed simp

lemma load_manifest_filed:
  "load_manifest env servers loaded = Inr loaded' \<Longrightarrow> filed ''manifest'' loaded \<Longrightarrow> filed ''manifest'' loaded'"
proof (induction env servers loaded rule: load_manifest.induct)
  case (2 env server servers loaded)
  then have "filed ''manifest'' (AList.update (ref_ID (sv_Ref server)) server loaded)"
    by (intro filed_update) (auto split: if_splits)
  with 2 show ?case by (simp split: if_splits)
qed simp

lemma NewService_shared_ok: "NewService env config w catalog manifest = Inr (c, w') \<Longrightarrow> shared_ok w'"
  using load_catalog_filed [of env catalog "[]"] load_manifest_filed [of env manifest "[]"]
  by (auto simp: NewService_def shared_ok_def Let_def split: if_splits sum.splits)

lemma setSharedServer_ok: "shared_ok w \<Longrightarrow> shared_ok (setSharedServer server w)"
  by (simp add: shared_ok_def setSharedServer_def filed_update)

lemma validate_shared_ok: "shared_ok (snd acc) \<Longrightarrow> shared_ok (snd (validate_shared env c ref acc))"
  by (cases acc) (auto simp: validate_shared_def setSharedServer_ok split: sum.splits option.splits)

lemma ValidateSharedServers_ok:
  assumes "shared_ok w"
  shows "shared_ok (snd (ValidateSharedServers env c w))"
proof -
  have "shared_ok (snd acc) \<Longrightarrow> shared_ok (snd (fold (validate_shared env c) refs acc))" for refs acc
    by (induction refs arbitrary: acc) (simp_all add: validate_shared_ok)
  with assms show ?thesis
    by (simp add: ValidateSharedServers_def Let_def split: option.split)
qed

lemma sharedServer_ref: "shared_ok w \<Longrightarrow> sharedServer w ref = Inr server \<Longrightarrow> sv_Ref server = ref"
  using ref_eta [of ref]
  by (auto simp: shared_ok_def sharedServer_def split: option.splits if_splits dest!: filed_lookup)

section \<open>The selected servers\<close>

text \<open>
  What holds of a server when its tools are frozen.  \<open>allowed_tool\<close> is the administrator's
  allow list.
\<close>

definition server_ready :: "mcp_config \<Rightarrow> mcp_scope \<Rightarrow> server_ref \<Rightarrow> mcp_server \<Rightarrow> bool" where
  "server_ready c scope ref server \<longleftrightarrow>
     sv_Status server = ''ready'' \<and> requireTransportEnabled c server = None \<and>
     (ref_Source ref = ''manifest'' \<longrightarrow>
        manifestGranted server scope \<and> list_all (\<lambda>t. manifestToolAllowed server (mt_Name t)) (sv_Tools server))"

lemma allowed_cong:
  "sv_Ref s' = sv_Ref s \<Longrightarrow> map_of (sv_Metadata s') ''allowedTools'' = map_of (sv_Metadata s) ''allowedTools'' \<Longrightarrow>
   manifestToolAllowed s' = manifestToolAllowed s"
  by (simp add: manifestToolAllowed_def fun_eq_iff)

lemma allowed_trim: "manifestToolAllowed server (trim_space name) = manifestToolAllowed server name"
  by (simp add: manifestToolAllowed_def Let_def split: option.split meta_value.split)

lemma set_sortedTools [simp]: "set (sortedTools tools) = set tools"
  by (simp add: sortedTools_def)

lemma normalizeTool_name: "mt_Name (normalizeTool env ref raw cl) = trim_space (rw_Name raw)"
  by (simp add: normalizeTool_def Let_def split: option.split)

lemma list_tools_allowed: "t \<in> set (list_tools env server raws) \<Longrightarrow> manifestToolAllowed server (mt_Name t)"
  by (auto simp: list_tools_def normalizeTool_name allowed_trim)

lemma filter_allowed:
  assumes "ref_Source (sv_Ref s) = ''manifest''"
  shows "list_all (\<lambda>t. manifestToolAllowed (filterManifestAllowedTools s) (mt_Name t)) (sv_Tools (filterManifestAllowedTools s))"
proof (cases "map_of (sv_Metadata s) ''allowedTools'' = None")
  case True
  then show ?thesis by (simp add: filterManifestAllowedTools_def manifestToolAllowed_def list_all_iff)
next
  case False
  have "manifestToolAllowed (filterManifestAllowedTools s) = manifestToolAllowed s"
    by (rule allowed_cong) (simp_all add: filterManifestAllowedTools_def Let_def)
  moreover have "sv_Tools (filterManifestAllowedTools s) = filter (\<lambda>t. manifestToolAllowed s (mt_Name t)) (sv_Tools s)"
    using False assms by (auto simp: filterManifestAllowedTools_def Let_def)
  ultimately show ?thesis by (simp add: list_all_iff)
qed

lemma filterManifest_fields [simp]:
  "sv_Ref (filterManifestAllowedTools s) = sv_Ref s" "sv_Grants (filterManifestAllowedTools s) = sv_Grants s"
  "sv_Transport (filterManifestAllowedTools s) = sv_Transport s"
  by (simp_all add: filterManifestAllowedTools_def Let_def)

lemma bindInstance_fields [simp]:
  "sv_Ref (bindManifestRunnerInstance env s u cv r) = sv_Ref s"
  "sv_Grants (bindManifestRunnerInstance env s u cv r) = sv_Grants s"
  "sv_Transport (bindManifestRunnerInstance env s u cv r) = sv_Transport s"
  "sv_Tools (bindManifestRunnerInstance env s u cv r) = sv_Tools s"
  "map_of (sv_Metadata (bindManifestRunnerInstance env s u cv r)) ''allowedTools'' = map_of (sv_Metadata s) ''allowedTools''"
  by (simp_all add: bindManifestRunnerInstance_def Let_def update_conv')

lemma granted_cong: "sv_Grants s' = sv_Grants s \<Longrightarrow> manifestGranted s' = manifestGranted s"
  by (simp add: manifestGranted_def fun_eq_iff)

lemma serverForUser_manifest:
  assumes "shared_ok w" "serverForUser env c w userID ref scope = Inr server" "ref_Source ref = ''manifest''"
  shows "sv_Ref server = ref" "manifestGranted server scope"
    "list_all (\<lambda>t. manifestToolAllowed server (mt_Name t)) (sv_Tools server)"
proof -
  from assms(2,3) obtain base where base: "sharedServer w ref = Inr base" "manifestGranted base scope"
    "server = filterManifestAllowedTools base"
    by (auto simp: serverForUser_def split: if_splits sum.splits)
  then show ref: "sv_Ref server = ref" using sharedServer_ref [OF assms(1) base(1)] by simp
  show "manifestGranted server scope" using base granted_cong [of server base] by simp
  show "list_all (\<lambda>t. manifestToolAllowed server (mt_Name t)) (sv_Tools server)"
    using ref assms(3) unfolding base(3) by (intro filter_allowed) simp
qed

lemma discoverTools_fields:
  assumes "discoverTools env c w s credential = Inr s'"
  shows "sv_Ref s' = sv_Ref s" "sv_Grants s' = sv_Grants s" "sv_Transport s' = sv_Transport s"
    "list_all (\<lambda>t. manifestToolAllowed s' (mt_Name t)) (sv_Tools s')"
proof -
  from assms obtain raws where s': "s' = s\<lparr>sv_Tools := list_tools env s raws,
      sv_ToolCount := count_supported (list_tools env s raws),
      sv_UnsupportedCount := count_unsupported (list_tools env s raws), sv_Status := ''ready'',
      sv_LastErrorCode := [], sv_ValidatedAt := Some (mw_now w)\<rparr>"
    by (auto simp: discoverTools_def Let_def split: option.splits)
  then show "sv_Ref s' = sv_Ref s" "sv_Grants s' = sv_Grants s" "sv_Transport s' = sv_Transport s" by simp_all
  have "manifestToolAllowed s' = manifestToolAllowed s" by (rule allowed_cong) (simp_all add: s')
  then show "list_all (\<lambda>t. manifestToolAllowed s' (mt_Name t)) (sv_Tools s')"
    using list_tools_allowed by (auto simp: s' list_all_iff)
qed

lemma transport_cong: "sv_Transport s' = sv_Transport s \<Longrightarrow> requireTransportEnabled c s' = requireTransportEnabled c s"
  by (simp add: requireTransportEnabled_def)

lemma select_server_ready:
  assumes ok: "shared_ok w" and sel: "select_server env c w userID conversationID runID scope ref = Inr server"
  shows "server_ready c scope ref server"
proof -
  obtain s0 where s0: "serverForUser env c w userID ref scope = Inr s0"
    using sel by (auto simp: select_server_def split: sum.splits)
  let ?s = "bindManifestRunnerInstance env s0 userID conversationID runID"
  have tr: "requireTransportEnabled c ?s = None"
    using sel s0 by (auto simp: select_server_def Let_def split: option.splits)
  have from_s: "(server = ?s \<or> (\<exists>cr. discoverTools env c w ?s cr = Inr server)) \<and> sv_Status server = ''ready''"
    using sel s0 tr by (auto simp: select_server_def Let_def split: if_splits sum.splits)
  have same: "sv_Grants server = sv_Grants s0" "sv_Transport server = sv_Transport s0" "sv_Ref server = sv_Ref s0"
    using from_s discoverTools_fields [of env c w ?s _ server] by auto
  have tools: "list_all (\<lambda>t. manifestToolAllowed server (mt_Name t)) (sv_Tools server)" if "ref_Source ref = ''manifest''"
  proof (cases "server = ?s")
    case True
    have "manifestToolAllowed ?s = manifestToolAllowed s0" by (rule allowed_cong) simp_all
    then show ?thesis using serverForUser_manifest(3) [OF ok s0 that] True by simp
  next
    case False
    then show ?thesis using from_s discoverTools_fields(4) by blast
  qed
  have "requireTransportEnabled c server = None"
    using tr transport_cong [of server ?s c] same(2) by simp
  moreover have "manifestGranted server scope" if "ref_Source ref = ''manifest''"
    using serverForUser_manifest(2) [OF ok s0 that] granted_cong [OF same(1)] by simp
  ultimately show ?thesis using tools from_s by (simp add: server_ready_def)
qed

section \<open>The frozen tools\<close>

lemma freeze_tools_sources:
  "freeze_tools disabled tools aliases enabled = Inr (aliases', enabled') \<Longrightarrow> (a, t) \<in> set aliases' \<Longrightarrow>
   (a, t) \<in> set aliases \<or> (t \<in> set tools \<and> a = mt_Alias t \<and> mt_Supported t \<and> mt_Name t \<notin> set disabled)"
proof (induction disabled tools aliases enabled rule: freeze_tools.induct)
  case (2 disabled tool tools aliases enabled)
  show ?case
  proof (cases "\<not> mt_Supported tool \<or> List.member disabled (mt_Name tool)")
    case True
    then show ?thesis using "2.IH"(1) "2.prems" by auto
  next
    case False
    then show ?thesis
      using "2.IH"(2) "2.prems" set_update_subset [of "mt_Alias tool" tool aliases]
      by (fastforce simp: split: if_splits)
  qed
qed simp

definition frozen_from ::
  "mcp_env \<Rightarrow> mcp_config \<Rightarrow> mcp_world \<Rightarrow> string \<Rightarrow> string \<Rightarrow> string \<Rightarrow> mcp_scope \<Rightarrow> selection_server list \<Rightarrow> string \<times> mcp_tool \<Rightarrow> bool" where
  "frozen_from env c w userID conversationID runID scope servers entry \<longleftrightarrow>
     (\<exists>s \<in> set servers. \<exists>server.
        select_server env c w userID conversationID runID scope (sl_Ref s) = Inr server \<and>
        snd entry \<in> set (sv_Tools server) \<and> fst entry = mt_Alias (snd entry) \<and> mt_Supported (snd entry) \<and>
        mt_Name (snd entry) \<notin> set (sl_DisabledTools s))"

lemma freeze_servers_sources:
  "freeze_servers env c w userID conversationID runID scope sources servers run = Inr run' \<Longrightarrow>
   entry \<in> set (pr_aliases run') \<Longrightarrow>
   entry \<in> set (pr_aliases run) \<or> frozen_from env c w userID conversationID runID scope servers entry"
proof (induction env c w userID conversationID runID scope sources servers run rule: freeze_servers.induct)
  case (2 env c w userID conversationID runID scope sources selected rest run)
  from "2.prems"(1) obtain server aliases enabled where
    sel: "select_server env c w userID conversationID runID scope (sl_Ref selected) = Inr server"
    and ft: "freeze_tools (sl_DisabledTools selected) (sortedTools (sv_Tools server)) (pr_aliases run) [] = Inr (aliases, enabled)"
    by (auto split: sum.splits)
  from "2.IH" [OF sel ft refl refl refl refl] "2.prems" sel ft
  have "entry \<in> set aliases \<or> frozen_from env c w userID conversationID runID scope rest entry"
    by (simp add: Let_def)
  then show ?case
  proof
    assume "entry \<in> set aliases"
    with freeze_tools_sources [OF ft, of "fst entry" "snd entry"] sel show ?thesis
      by (auto simp: frozen_from_def)
  qed (auto simp: frozen_from_def)
qed simp

lemma normalize_selected:
  "s \<in> set (normalizeSelectionServers servers) \<Longrightarrow>
   \<exists>s0 \<in> set servers. sl_Ref s = sl_Ref s0 \<and>
     set (sl_DisabledTools s) = set (normalizeStrings (sl_DisabledTools s0) 512 maxToolNameBytes)"
  by (auto simp: normalizeSelectionServers_def)

lemma stamp_run_aliases [simp]: "pr_aliases (stamp_run w u cv m r n run) = pr_aliases run"
  by (simp add: stamp_run_def Let_def)

lemma no_run_aliases [simp]: "pr_aliases no_run = []"
  by (simp add: no_run_def)

lemma prepareRun_frozen:
  assumes "prepareRun env c w userID conversationID messageID runID persist query = Inr run" "run \<noteq> no_run"
  obtains scope selected revision sources automatic frozen where
    "mw_scope w userID conversationID = Inr scope"
    "effective_selection w userID conversationID scope = Inr (selected, revision, sources)"
    "matchRunOnlyServers env c w userID conversationID selected query = Inr automatic"
    "validateSelectionServers env c w userID scope (selected @ automatic) = None"
    "freeze_servers env c w userID conversationID runID scope (mark_sources ''agent_auto'' automatic sources)
       (normalizeSelectionServers (selected @ automatic)) no_run = Inr frozen"
    "pr_aliases run = pr_aliases frozen" "pr_servers run = pr_servers frozen"
  using assms
  by (auto simp: prepareRun_def Let_def stamp_run_def split: option.splits if_splits sum.splits prod.splits)


text \<open>
  C33: Every tool of a frozen run was allowed to be there: it is supported, filed under its own
  alias, and offered by a server that the selection of the conversation or of its workspace, or the
  automatic activation, names; this server is ready and its transport enabled; the tool is
  not among the tools that the selection switched off; and for a server of the operator's
  manifest, the conversation's scope is granted and the tool is on the allow list, even when the tools
  had to be discovered while the run was prepared.
\<close>

theorem frozen_tools_authorised:
  assumes "shared_ok w"
    and "prepareRun env c w userID conversationID messageID runID persist query = Inr run"
    and "map_of (pr_aliases run) alias = Some tool"
  shows "alias = mt_Alias tool \<and> mt_Supported tool \<and>
    (\<exists>scope selected revision sources automatic s server.
       mw_scope w userID conversationID = Inr scope \<and>
       effective_selection w userID conversationID scope = Inr (selected, revision, sources) \<and>
       matchRunOnlyServers env c w userID conversationID selected query = Inr automatic \<and>
       s \<in> set (selected @ automatic) \<and>
       select_server env c w userID conversationID runID scope (sl_Ref s) = Inr server \<and>
       server_ready c scope (sl_Ref s) server \<and> tool \<in> set (sv_Tools server) \<and>
       mt_Name tool \<notin> set (normalizeStrings (sl_DisabledTools s) 512 maxToolNameBytes))"
proof -
  have entry: "(alias, tool) \<in> set (pr_aliases run)" using assms(3) by (rule map_of_SomeD)
  then have "run \<noteq> no_run" by auto
  from prepareRun_frozen [OF assms(2) this] obtain scope selected revision sources automatic frozen where
    f: "mw_scope w userID conversationID = Inr scope"
    "effective_selection w userID conversationID scope = Inr (selected, revision, sources)"
    "matchRunOnlyServers env c w userID conversationID selected query = Inr automatic"
    "freeze_servers env c w userID conversationID runID scope (mark_sources ''agent_auto'' automatic sources)
       (normalizeSelectionServers (selected @ automatic)) no_run = Inr frozen"
    "pr_aliases run = pr_aliases frozen" by metis
  have "frozen_from env c w userID conversationID runID scope (normalizeSelectionServers (selected @ automatic)) (alias, tool)"
    using freeze_servers_sources [OF f(4), of "(alias, tool)"] entry f(5) by simp
  then obtain s1 server where s1: "s1 \<in> set (normalizeSelectionServers (selected @ automatic))"
    "select_server env c w userID conversationID runID scope (sl_Ref s1) = Inr server"
    "tool \<in> set (sv_Tools server)" "alias = mt_Alias tool" "mt_Supported tool" "mt_Name tool \<notin> set (sl_DisabledTools s1)"
    by (auto simp: frozen_from_def)
  with normalize_selected [OF s1(1)] obtain s where "s \<in> set (selected @ automatic)" "sl_Ref s1 = sl_Ref s"
    "mt_Name tool \<notin> set (normalizeStrings (sl_DisabledTools s) 512 maxToolNameBytes)" by auto
  with s1 select_server_ready [OF assms(1) s1(2)] f show ?thesis by auto
qed

definition example_mcp_env :: mcp_env where
  "example_mcp_env =
     \<lparr>me_lower = (\<lambda>s. s), me_letter = (\<lambda>r. list_all alpha r), me_digit = (\<lambda>_. False), me_han = (\<lambda>_. False),
      me_sha256 = (\<lambda>s. replicate 32 (CHR ''N'')), me_uuid = (\<lambda>s. s \<noteq> []), me_marshal = (\<lambda>_. Some ''{}''),
      me_object = (\<lambda>_. Some [(''type'', AnyString ''object'')]), me_schema_ok = (\<lambda>_. True), me_validate = (\<lambda>_ _. True)\<rparr>"

definition example_ref :: server_ref where
  "example_ref = \<lparr>ref_Source = ''manifest'', ref_ID = ''files''\<rparr>"

definition example_mcp_tool :: "string \<Rightarrow> string \<Rightarrow> mcp_tool" where
  "example_mcp_tool name classification =
     \<lparr>mt_ServerRef = example_ref, mt_Name = name, mt_Alias = ''mcp_'' @ name, mt_Title = [], mt_Description = [],
      mt_InputSchema = [(''type'', AnyString ''object'')], mt_Classification = classification, mt_Supported = True,
      mt_Unsupported = []\<rparr>"

definition example_server :: mcp_server where
  "example_server =
     \<lparr>sv_Ref = example_ref, sv_Name = ''Files'', sv_Description = [], sv_Transport = ''streamable_http'',
      sv_EndpointURL = ''http://files.internal'', sv_Command = None, sv_AuthType = ''none'', sv_HeaderSecret = [],
      sv_Status = ''ready'', sv_HasCredential = True, sv_CanManage = False, sv_ConfigurationFields = [],
      sv_ToolCount = 3, sv_UnsupportedCount = 0, sv_LastErrorCode = [], sv_ValidatedAt = None,
      sv_Grants = [\<lparr>gr_ScopeType = ''global'', gr_ScopeID = []\<rparr>], sv_OwnerUserID = [],
      sv_Tools = [example_mcp_tool ''delete'' ''write'', example_mcp_tool ''read'' ''read'', example_mcp_tool ''wipe'' ''write''],
      sv_Metadata = [(''allowedTools'', MetaStrings [''delete'', ''read''])]\<rparr>"

definition example_selected :: selection_server where
  "example_selected = \<lparr>sl_Ref = example_ref, sl_DisabledTools = [''delete'']\<rparr>"

definition example_world :: mcp_world where
  "example_world =
     \<lparr>mw_repo = True, mw_catalog = [], mw_manifest = [(''files'', example_server)],
      mw_scope = (\<lambda>u v. Inr \<lparr>sc_ConversationID = v, sc_UserID = u, sc_WorkspaceID = [], sc_TeamID = []\<rparr>),
      mw_selection = (\<lambda>u v. Inr (Some \<lparr>se_ConversationID = v, se_Mode = ''custom'', se_Revision = 2,
                                       se_Servers = [example_selected]\<rparr>)),
      mw_workspace = (\<lambda>u v. Inr None), mw_private_list = (\<lambda>u. Inr []), mw_shared_list = (\<lambda>u v. Inr []),
      mw_private = (\<lambda>u v i. Inl [McpServerNotFound]), mw_has_credential = (\<lambda>u r. Inr False),
      mw_load = (\<lambda>u r. Inl [McpCredentialRequired]), mw_refresh = (\<lambda>u s. Inl [McpCredentialRequired]),
      mw_dynamic = (\<lambda>s. Inl [McpServerUnavailable]), mw_connect = (\<lambda>s cr. None), mw_save = (\<lambda>s. None),
      mw_hash = (\<lambda>s. Inr ''hash''), mw_now = 0\<rparr>"

definition example_mcp_config :: mcp_config where
  "example_mcp_config = (normalizeConfig DefaultConfig)\<lparr>mc_Enabled := True, mc_RemoteEnabled := True\<rparr>"

lemmas example_trim = trim_space_printable printable_def

lemma example_selection:
  "effective_selection example_world u v scope =
     Inr ([example_selected], 2, [(''manifest:files'', ''user_selected'')])"
  by (simp add: effective_selection_def example_world_def mark_sources_def example_selected_def example_ref_def ref_key_def)

lemma example_disabled: "normalizeStrings (sl_DisabledTools example_selected) 512 maxToolNameBytes = [''delete'']"
  by (simp add: normalizeStrings_def example_selected_def example_trim maxToolNameBytes_def)

lemma example_filtered:
  "filterManifestAllowedTools example_server =
     example_server\<lparr>sv_Tools := [example_mcp_tool ''delete'' ''write'', example_mcp_tool ''read'' ''read''],
                    sv_ToolCount := 2\<rparr>"
  by (simp add: filterManifestAllowedTools_def example_server_def example_ref_def manifestToolAllowed_def
      example_mcp_tool_def example_trim search_strings.simps count_supported_def count_unsupported_def)

lemma example_for_user:
  "serverForUser env c example_world u example_ref scope = Inr (filterManifestAllowedTools example_server)"
proof -
  have "validServerRef env example_ref"
    by (simp add: validServerRef_def example_ref_def example_trim manifest_id_def)
  then show ?thesis
    by (simp add: serverForUser_def example_world_def sharedServer_def example_server_def manifestGranted_def)
       (simp add: example_ref_def)
qed

lemma example_ref_valid: "validServerRef env example_ref"
  by (simp add: validServerRef_def example_ref_def example_trim manifest_id_def)

lemma example_select:
  "select_server example_mcp_env example_mcp_config example_world u v r scope example_ref =
     Inr (filterManifestAllowedTools example_server)"
  by (simp add: select_server_def example_for_user example_filtered)
     (simp add: example_server_def bindManifestRunnerInstance_def example_mcp_config_def requireTransportEnabled_def
      connectionCredential_def normalizeConfig_def DefaultConfig_def)

lemma example_validated:
  "validateSelectionServers example_mcp_env example_mcp_config example_world u scope [example_selected] = None"
  by (simp add: validateSelectionServers_def example_disabled example_for_user example_filtered example_mcp_config_def
      normalizeConfig_def DefaultConfig_def)
     (simp add: example_selected_def example_ref_valid example_for_user example_filtered example_mcp_tool_def positive_or_def
      example_disabled [unfolded example_selected_def, simplified])

lemma example_frozen:
  "\<exists>run. freeze_servers example_mcp_env example_mcp_config example_world u v r scope sources
           (normalizeSelectionServers [example_selected]) no_run = Inr run \<and>
     pr_aliases run = [(''mcp_read'', example_mcp_tool ''read'' ''read'')] \<and>
     pr_servers run = [(''manifest:files'', example_server\<lparr>sv_Tools := [example_mcp_tool ''read'' ''read''], sv_ToolCount := 2\<rparr>)]"
  apply (simp add: normalizeSelectionServers_def example_disabled)
  apply (simp add: example_selected_def example_select example_filtered Let_def)
  apply (simp add: sortedTools_def example_mcp_tool_def example_ref_def ref_key_def Let_def no_run_def example_server_def)
  done

definition example_run :: prepared_run where
  "example_run =
     (case prepareRun example_mcp_env example_mcp_config example_world ''u'' ''v'' ''m'' ''r'' True [] of
        Inl _ \<Rightarrow> no_run | Inr run \<Rightarrow> run)"

lemma example_prepared:
  "prepareRun example_mcp_env example_mcp_config example_world ''u'' ''v'' ''m'' ''r'' True [] = Inr example_run"
  "pr_aliases example_run = [(''mcp_read'', example_mcp_tool ''read'' ''read'')]"
  "pr_servers example_run =
     [(''manifest:files'', example_server\<lparr>sv_Tools := [example_mcp_tool ''read'' ''read''], sv_ToolCount := 2\<rparr>)]"
  "rs_UserID (pr_Snapshot example_run) = ''u''" "rs_RunID (pr_Snapshot example_run) = ''r''"
proof -
  have w: "mc_Enabled example_mcp_config" "mw_repo example_world" "mw_hash example_world s = Inr ''hash''"
    "mw_save example_world s = None"
    "mw_scope example_world u v = Inr \<lparr>sc_ConversationID = v, sc_UserID = u, sc_WorkspaceID = [], sc_TeamID = []\<rparr>" for s u v
    by (simp_all add: example_mcp_config_def example_world_def)
  have e: "me_uuid example_mcp_env s = (s \<noteq> [])" for s by (simp add: example_mcp_env_def)
  let ?scope = "\<lparr>sc_ConversationID = ''v'', sc_UserID = ''u'', sc_WorkspaceID = [], sc_TeamID = []\<rparr>"
  obtain run where run: "freeze_servers example_mcp_env example_mcp_config example_world ''u'' ''v'' ''r'' ?scope
      [(''manifest:files'', ''user_selected'')] (normalizeSelectionServers [example_selected]) no_run = Inr run"
    "pr_aliases run = [(''mcp_read'', example_mcp_tool ''read'' ''read'')]"
    "pr_servers run = [(''manifest:files'', example_server\<lparr>sv_Tools := [example_mcp_tool ''read'' ''read''], sv_ToolCount := 2\<rparr>)]"
    using example_frozen by blast
  have "\<exists>full. prepareRun example_mcp_env example_mcp_config example_world ''u'' ''v'' ''m'' ''r'' True [] = Inr full \<and>
     pr_aliases full = pr_aliases run \<and> pr_servers full = pr_servers run \<and>
     rs_UserID (pr_Snapshot full) = ''u'' \<and> rs_RunID (pr_Snapshot full) = ''r''"
    by (simp add: prepareRun_def w e service_available_def example_selection matchRunOnlyServers_def example_validated
        example_trim mark_sources_def run(1) stamp_run_def Let_def)
  then show "prepareRun example_mcp_env example_mcp_config example_world ''u'' ''v'' ''m'' ''r'' True [] = Inr example_run"
    "pr_aliases example_run = [(''mcp_read'', example_mcp_tool ''read'' ''read'')]"
    "pr_servers example_run =
       [(''manifest:files'', example_server\<lparr>sv_Tools := [example_mcp_tool ''read'' ''read''], sv_ToolCount := 2\<rparr>)]"
    "rs_UserID (pr_Snapshot example_run) = ''u''" "rs_RunID (pr_Snapshot example_run) = ''r''"
    using run(2,3) by (auto simp: example_run_def)
qed

theorem frozen_tools_authorised_witness:
  "mt_Supported (example_mcp_tool ''read'' ''read'') \<and>
   (\<exists>scope server. server_ready example_mcp_config scope example_ref server \<and>
      example_mcp_tool ''read'' ''read'' \<in> set (sv_Tools server))"
proof -
  have "shared_ok example_world"
    by (simp add: shared_ok_def filed_def example_world_def example_server_def example_ref_def)
  from frozen_tools_authorised [OF this example_prepared(1), of "''mcp_read''" "example_mcp_tool ''read'' ''read''"]
  show ?thesis
    by (fastforce simp: example_prepared(2) example_selection matchRunOnlyServers_def example_selected_def)
qed

section \<open>What a provider sees\<close>

lemma rank_mset [simp]: "set (rankTools env tools query) = set tools" "length (rankTools env tools query) = length tools"
  by (simp_all add: rankTools_def)

text \<open>
  The aliases of a run are the keys of a Go map, whose iteration order is random: the ranking is
  the same for every order.
\<close>

lemma rankTools_order:
  assumes "mset tools = mset tools'" "distinct (map mt_Alias tools)"
  shows "rankTools env tools query = rankTools env tools' query"
proof -
  have "inj_on (\<lambda>t. (- rank_score env query t, mt_Alias t)) (set tools)"
    using assms(2) by (auto simp: inj_on_def distinct_map)
  moreover have "mset tools = mset (rankTools env tools' query)"
    using assms(1) by (simp add: rankTools_def)
  ultimately show ?thesis
    unfolding rankTools_def [of env tools]
    by (intro sort_key_inj_key_eq) (simp_all add: rankTools_def)
qed

definition exposed :: "mcp_tool list \<times> bool \<Rightarrow> int" where
  "exposed shown = int (length (fst shown)) + (if snd shown then 1 else 0)"

text \<open>With the limit that the configuration guarantees, the search tool is counted in.\<close>

lemma exposure_bounded: "2 \<le> mc_MaxExposedTools c \<Longrightarrow> exposed (ToolsForProvider env c run query) \<le> mc_MaxExposedTools c"
  by (auto simp: exposed_def ToolsForProvider_def Let_def)

lemma normalizeConfig_exposed: "2 \<le> mc_MaxExposedTools (normalizeConfig c)"
  by (simp add: normalizeConfig_def DefaultConfig_def)

section \<open>Aliases\<close>

lemma length_hex_encode: "length (hex_encode s) = 2 * length s"
  by (induction s) (simp_all add: hex_encode_def Let_def)

text \<open>
  With a 32-byte hash an alias has at most 65 bytes, one more than the limit for which it is cut:
  the room left for the name counts five fixed characters, the format has six.
\<close>

lemma toolAlias_length:
  assumes "\<And>s. length (me_sha256 env s) = 32"
  shows "int (length (toolAlias env ref name)) \<le> maxProviderAliasBytes + 1"
  using assms by (auto simp: toolAlias_def Let_def length_hex_encode maxProviderAliasBytes_def)

lemma go_runes_ascii: "is_ascii s \<Longrightarrow> go_runes s = map (\<lambda>c. [c]) s"
proof (induction s)
  case (Cons c s)
  then have "rune_width (c # s) = Some 1" by (intro rune_width_ascii) (simp add: is_ascii_def)
  then have "next_width (c # s) = 1" by (simp add: next_width_def)
  then show ?case using Cons by (simp add: go_runes.simps [of "c # s"] is_ascii_def)
qed (simp add: go_runes.simps)

definition example_name :: string where
  "example_name = replicate 60 (CHR ''a'')"

lemma toolAlias_overlong: "int (length (toolAlias example_mcp_env example_ref example_name)) = maxProviderAliasBytes + 1"
proof -
  have ascii: "is_ascii example_name" by (simp add: example_name_def is_ascii_def list_all_iff)
  have trim: "trim_space example_name = example_name"
    by (rule trim_space_printable) (simp_all add: example_name_def printable_def)
  have "concat (map alias_rune (map (\<lambda>c. [c]) example_name)) = example_name"
    by (simp add: example_name_def alias_rune_def alias_char_def alpha_def numeral_eq_Suc)
  moreover have "trim_chars ''_'' example_name = example_name"
    by (simp add: trim_chars_def example_name_def dropWhile_replicate)
  moreover have "example_name \<noteq> []" "hd example_name = CHR ''a''" by (simp_all add: example_name_def)
  ultimately have "alias_base example_name = example_name"
    by (simp add: alias_base_def trim go_runes_ascii [OF ascii] alpha_def)
  then show ?thesis
    by (simp add: toolAlias_def length_hex_encode maxProviderAliasBytes_def example_mcp_env_def)
       (simp add: example_name_def Let_def length_hex_encode)
qed

end
