(* ===== verification/Mcp_Execution.thy ===== *)
theory Mcp_Execution
  imports Mcp_Frozen
begin

text \<open>
  One call of an external tool (internal/mcpclient/execution.go and the result conversion of
  connector.go): the audit record, the argument check, the attempts, the bounded and stored result.

  \<open>exec_tick\<close> is what the call meets outside: the answers of the repository, of the
  semaphores (which may be abandoned when the context ends), of the connection and the session at
  each attempt, of the object store, and the clock.  What the call does is its trace, a list of
  \<open>exec_effect\<close>.
\<close>

section \<open>Data\<close>

record call_record =
  cl_ID :: string
  cl_ConversationID :: string
  cl_MessageID :: string
  cl_RunID :: string
  cl_ServerRef :: server_ref
  cl_ToolName :: string
  cl_ToolAlias :: string
  cl_Classification :: string
  cl_Status :: string
  cl_Round :: int
  cl_Call :: int
  cl_ArgumentsSummary :: any_map
  cl_ResultSummary :: string
  cl_ErrorCode :: string
  cl_StartedAt :: "int option"
  cl_CompletedAt :: "int option"
  cl_DurationMillis :: int
  cl_RetainUntil :: int

record mcp_content =
  ct_Type :: string
  ct_Text :: string
  ct_JSON :: any_map
  ct_Data :: string
  ct_MIMEType :: string
  ct_URI :: string
  ct_Name :: string
  ct_ObjectKey :: string
  ct_ByteSize :: int

record call_result =
  rr_Content :: "mcp_content list"
  rr_ModelContent :: string
  rr_Summary :: string
  rr_IsError :: bool
  rr_FailureCategory :: string
  rr_OutcomeUnknown :: bool

definition no_result :: call_result where
  "no_result = \<lparr>rr_Content = [], rr_ModelContent = [], rr_Summary = [], rr_IsError = False,
                rr_FailureCategory = [], rr_OutcomeUnknown = False\<rparr>"

record execute_input =
  in_Alias :: string
  in_Arguments :: any_map
  in_ValidationFailure :: string
  in_Round :: int
  in_Call :: int

record execution_event =
  ee_CallID :: string
  ee_ServerRef :: server_ref
  ee_ServerName :: string
  ee_ToolName :: string
  ee_ToolAlias :: string
  ee_Classification :: string
  ee_Status :: string
  ee_Round :: int
  ee_Call :: int
  ee_Arguments :: any_map
  ee_FailureCategory :: string
  ee_DurationMillis :: int

text \<open>The content types of the protocol library.\<close>

datatype protocol_content =
    TextContent string
  | ImageContent string string
  | AudioContent string string
  | ResourceLink string string string
  | EmbeddedResource "(string \<times> string \<times> string \<times> string) option"
  | OtherContent

record protocol_result =
  pt_IsError :: bool
  pt_Content :: "protocol_content list"
  pt_Structured :: "any_value option"

record exec_tick =
  et_Created :: "mcp_error + string"
  et_Slot :: "mcp_error option"
  et_WriteSlot :: "mcp_error option"
  et_Connect :: "nat \<Rightarrow> mcp_error option"
  et_Reply :: "nat \<Rightarrow> mcp_error + protocol_result option"
  et_Expired :: "nat \<Rightarrow> bool"
  et_Objects :: bool
  et_Put :: "nat \<Rightarrow> bool"
  et_Finish :: "mcp_error option"
  et_Now :: int
  et_Started :: int
  et_Completed :: int

datatype exec_effect =
    Created call_record
  | Emitted execution_event
  | Sent nat string any_map
  | Stored string string
  | Deleted string
  | Finished call_record "mcp_content list" "string list" int

section \<open>Results\<close>

definition content0 :: mcp_content where
  "content0 = \<lparr>ct_Type = [], ct_Text = [], ct_JSON = [], ct_Data = [], ct_MIMEType = [], ct_URI = [], ct_Name = [],
              ct_ObjectKey = [], ct_ByteSize = 0\<rparr>"

fun protocol_contents :: "protocol_content list \<Rightarrow> mcp_content list option" where
  "protocol_contents [] = Some []"
| "protocol_contents (item # rest) =
     (case item of
        EmbeddedResource None \<Rightarrow> protocol_contents rest
      | OtherContent \<Rightarrow> None
      | _ \<Rightarrow>
          (case protocol_contents rest of
             None \<Rightarrow> None
           | Some contents \<Rightarrow>
               Some ((case item of
                 TextContent text \<Rightarrow> content0\<lparr>ct_Type := ''text'', ct_Text := text, ct_ByteSize := int (length text)\<rparr>
               | ImageContent bytes mime \<Rightarrow>
                   content0\<lparr>ct_Type := ''image'', ct_Data := bytes, ct_MIMEType := mime, ct_ByteSize := int (length bytes)\<rparr>
               | AudioContent bytes mime \<Rightarrow>
                   content0\<lparr>ct_Type := ''audio'', ct_Data := bytes, ct_MIMEType := mime, ct_ByteSize := int (length bytes)\<rparr>
               | ResourceLink uri name mime \<Rightarrow>
                   content0\<lparr>ct_Type := ''resource_link'', ct_URI := uri, ct_Name := name, ct_MIMEType := mime\<rparr>
               | EmbeddedResource (Some (uri, mime, text, blob)) \<Rightarrow>
                   (let c = content0\<lparr>ct_Type := ''resource'', ct_URI := uri, ct_MIMEType := mime\<rparr>
                    in if text \<noteq> [] then c\<lparr>ct_Text := text, ct_ByteSize := int (length text)\<rparr>
                       else if blob \<noteq> [] then c\<lparr>ct_Data := blob, ct_ByteSize := int (length blob)\<rparr>
                       else c)
               | _ \<Rightarrow> content0) # contents)))"

definition normalizeProtocolResult :: "mcp_env \<Rightarrow> protocol_result option \<Rightarrow> mcp_error + call_result" where
  "normalizeProtocolResult env result =
     (case result of
        None \<Rightarrow> Inl [McpServerUnavailable]
      | Some r \<Rightarrow>
          (case protocol_contents (pt_Content r) of
             None \<Rightarrow> Inl [McpResponseTooLarge]
           | Some contents \<Rightarrow>
               let normalized = no_result\<lparr>rr_IsError := pt_IsError r, rr_Content := contents\<rparr>
               in (case pt_Structured r of
                     None \<Rightarrow> Inr normalized
                   | Some structured \<Rightarrow>
                       (case me_marshal env structured of
                          None \<Rightarrow> Inl [McpResponseTooLarge]
                        | Some encoded \<Rightarrow>
                            let object = (case me_object env encoded of Some m \<Rightarrow> m | None \<Rightarrow> [(''value'', structured)])
                            in Inr (normalized\<lparr>rr_Content := contents @
                                 [content0\<lparr>ct_Type := ''json'', ct_JSON := object, ct_ByteSize := int (length encoded)\<rparr>]\<rparr>)))))"

definition maxModelResultBytes :: nat where "maxModelResultBytes = 32768"

definition ellipsis :: string where "ellipsis = [CHR 0xE2, CHR 0x80, CHR 0xA6]"

definition boundedUTF8 :: "string \<Rightarrow> int \<Rightarrow> string" where
  "boundedUTF8 value maximum =
     (if int (length value) \<le> maximum then value else shrink_right (take (nat maximum) value) @ ellipsis)"

definition normalizeResultItem :: "mcp_env \<Rightarrow> mcp_content \<Rightarrow> (mcp_content \<times> string) option" where
  "normalizeResultItem env item0 =
     (let item = item0\<lparr>ct_Type := trim_space (ct_Type item0), ct_MIMEType := trim_space (ct_MIMEType item0),
                       ct_URI := trim_space (ct_URI item0), ct_Name := trim_space (ct_Name item0)\<rparr>;
          done = (\<lambda>raw. Some (item\<lparr>ct_ByteSize := int (length raw)\<rparr>, raw))
      in if length (ct_MIMEType item) > 256 \<or> list_ex (\<lambda>ch. ch = CHR 0x0D \<or> ch = CHR 0x0A) (ct_MIMEType item) \<or>
            length (ct_URI item) > 8192 \<or> length (ct_Name item) > 1024
         then None
         else if ct_Type item = ''text'' then done (ct_Text item)
         else if ct_Type item = ''json''
         then (case me_marshal env (AnyMap (ct_JSON item)) of None \<Rightarrow> None | Some raw \<Rightarrow> done raw)
         else if ct_Type item = ''image'' \<or> ct_Type item = ''audio''
         then (if ct_MIMEType item = [] then None else done (ct_Data item))
         else if ct_Type item = ''resource''
         then done (if ct_Data item \<noteq> [] then ct_Data item else ct_Text item)
         else if ct_Type item = ''resource_link'' then done []
         else None)"

definition modelProjection :: "mcp_content \<Rightarrow> string \<Rightarrow> any_map" where
  "modelProjection item raw =
     (''type'', AnyString (ct_Type item)) #
     (if ct_Type item = ''text'' \<or> ct_Type item = ''resource'' then [(''text'', AnyString (boundedUTF8 raw 8192))]
      else if ct_Type item = ''json'' then [(''json'', AnyString (boundedUTF8 raw 8192))]
      else if ct_Type item = ''image'' \<or> ct_Type item = ''audio''
      then [(''mimeType'', AnyString (ct_MIMEType item)), (''byteSize'', AnyInt (int (length raw))),
            (''note'', AnyString ''binary artifact omitted from model context'')]
      else if ct_Type item = ''resource_link''
      then [(''uri'', AnyString (ct_URI item)), (''name'', AnyString (ct_Name item)),
            (''note'', AnyString ''link not fetched'')]
      else [])"

definition pad3 :: "nat \<Rightarrow> string" where
  "pad3 n = (let digits = nat_digits n in replicate (3 - length digits) (CHR ''0'') @ digits)"

definition object_key :: "call_record \<Rightarrow> nat \<Rightarrow> string" where
  "object_key call index =
     ''mcp-results/'' @ cl_ConversationID call @ ''/'' @ cl_ID call @ ''/'' @ pad3 (index + 1)"

definition stored_content_type :: "mcp_content \<Rightarrow> string" where
  "stored_content_type item =
     (if ct_MIMEType item \<noteq> [] then ct_MIMEType item
      else if ct_Type item = ''json'' then ''application/json'' else ''text/plain; charset=utf-8'')"

record bound_state =
  bs_Content :: "mcp_content list"
  bs_Keys :: "string list"
  bs_Total :: int
  bs_Inline :: int
  bs_Model :: "any_value list"

definition stores_item :: "mcp_config \<Rightarrow> int \<Rightarrow> mcp_content \<Rightarrow> int \<Rightarrow> bool" where
  "stores_item c inlineBytes item itemBytes =
     (ct_Type item = ''image'' \<or> ct_Type item = ''audio'' \<or>
      ((ct_Type item = ''text'' \<or> ct_Type item = ''json'' \<or> ct_Type item = ''resource'') \<and>
       inlineBytes + itemBytes > mc_MaxInlineResultBytes c))"

text \<open>
  The loop over the items of a result.  On an error the objects stored so far are deleted.
\<close>

fun bound_items ::
  "mcp_env \<Rightarrow> mcp_config \<Rightarrow> exec_tick \<Rightarrow> call_record \<Rightarrow> nat \<Rightarrow> mcp_content list \<Rightarrow> bound_state
   \<Rightarrow> (mcp_error + bound_state) \<times> exec_effect list" where
  "bound_items env c tick call index [] b = (Inr b, [])"
| "bound_items env c tick call index (item # items) b =
     (let cleanup = (if et_Objects tick then map Deleted (bs_Keys b) else [])
      in case normalizeResultItem env item of
           None \<Rightarrow> (Inl [McpResponseTooLarge], cleanup)
         | Some (normalized, raw) \<Rightarrow>
             let itemBytes = int (length raw); model = bs_Model b @ [AnyMap (modelProjection item raw)]
             in if itemBytes > mc_MaxResultItemBytes c \<or> bs_Total b + itemBytes > mc_MaxResultCallBytes c
                then (Inl [McpResponseTooLarge], cleanup)
                else if stores_item c (bs_Inline b) normalized itemBytes \<and> itemBytes > 0
                then
                  (if \<not> et_Objects tick then (Inl [McpServerUnavailable], cleanup)
                   else if \<not> et_Put tick index then (Inl [McpServerUnavailable], cleanup)
                   else
                     let key = object_key call index;
                         kept = normalized\<lparr>ct_ObjectKey := key, ct_Text := [], ct_JSON := [], ct_Data := []\<rparr>;
                         (outcome, effects) =
                           bound_items env c tick call (index + 1) items
                             (b\<lparr>bs_Content := bs_Content b @ [kept], bs_Keys := bs_Keys b @ [key],
                                bs_Total := bs_Total b + itemBytes, bs_Model := model\<rparr>)
                     in (outcome, Stored key (stored_content_type normalized) # effects))
                else
                  bound_items env c tick call (index + 1) items
                    (b\<lparr>bs_Content := bs_Content b @ [normalized], bs_Total := bs_Total b + itemBytes,
                       bs_Inline := bs_Inline b + itemBytes, bs_Model := model\<rparr>))"

definition boundAndStoreResult ::
  "mcp_env \<Rightarrow> mcp_config \<Rightarrow> exec_tick \<Rightarrow> call_record \<Rightarrow> call_result
   \<Rightarrow> (mcp_error + (call_result \<times> string list \<times> int)) \<times> exec_effect list" where
  "boundAndStoreResult env c tick call result =
     (case bound_items env c tick call 0 (rr_Content result)
             \<lparr>bs_Content = [], bs_Keys = [], bs_Total = 0, bs_Inline = 0, bs_Model = []\<rparr> of
        (Inl e, effects) \<Rightarrow> (Inl e, effects)
      | (Inr b, effects) \<Rightarrow>
          (case me_marshal env (AnyMap [(''untrustedMcpToolResult'', AnyBool True),
                                        (''isError'', AnyBool (rr_IsError result)), (''content'', AnyList (bs_Model b))]) of
             None \<Rightarrow> (Inl [McpResponseTooLarge], effects @ (if et_Objects tick then map Deleted (bs_Keys b) else []))
           | Some encoded \<Rightarrow>
               (Inr (no_result\<lparr>rr_IsError := rr_IsError result, rr_Content := bs_Content b,
                   rr_ModelContent :=
                     (if length encoded > maxModelResultBytes
                      then take maxModelResultBytes encoded @ [CHR 0x5C] @ ''n[truncated]'' else encoded),
                   rr_Summary := ''content_items='' @ itoa (int (length (bs_Content b))) @ '' bytes='' @ itoa (bs_Total b) @
                     '' artifacts='' @ itoa (int (length (bs_Keys b)))\<rparr>, bs_Keys b, bs_Total b), effects)))"

section \<open>Records and events\<close>

fun jsonValueKind :: "any_value \<Rightarrow> string" where
  "jsonValueKind AnyNil = ''null''"
| "jsonValueKind (AnyBool _) = ''boolean''"
| "jsonValueKind (AnyString _) = ''string''"
| "jsonValueKind (AnyInt _) = ''number''"
| "jsonValueKind (AnyFloat _ _) = ''number''"
| "jsonValueKind (AnyList _) = ''array''"
| "jsonValueKind (AnyMap _) = ''object''"

definition summarizeArguments :: "any_map \<Rightarrow> any_map" where
  "summarizeArguments arguments =
     List.map_filter
       (\<lambda>key. if length key > 256 then None
              else Some (key, AnyString (jsonValueKind (case map_of arguments key of None \<Rightarrow> AnyNil | Some v \<Rightarrow> v))))
       (take 32 (sort_key (\<lambda>x. x) (map fst arguments)))"

definition executionFailureCode :: "mcp_error \<Rightarrow> string" where
  "executionFailureCode e =
     (if errors_is e CtxCanceled then ''canceled''
      else if errors_is e CtxDeadlineExceeded then ''timeout''
      else if errors_is e McpToolArgumentsInvalid then ''arguments_invalid''
      else if errors_is e McpCredentialRequired \<or> errors_is e McpCredentialInvalid then ''authentication''
      else if errors_is e McpResponseTooLarge then ''result_too_large''
      else if errors_is e McpServerUnavailable then ''server_unavailable''
      else ''tool_failed'')"

definition maxPrivateServerNameBytes :: int where "maxPrivateServerNameBytes = 256"

definition boundedServerName :: "string \<Rightarrow> string" where
  "boundedServerName value0 =
     (let value = trim_space value0
      in if int (length value) \<le> maxPrivateServerNameBytes then value
         else boundedUTF8 value (maxPrivateServerNameBytes - int (length ellipsis)))"

definition eventFromCall :: "call_record \<Rightarrow> string \<Rightarrow> any_map \<Rightarrow> execution_event" where
  "eventFromCall call serverName arguments =
     \<lparr>ee_CallID = cl_ID call, ee_ServerRef = cl_ServerRef call, ee_ServerName = boundedServerName serverName,
      ee_ToolName = cl_ToolName call, ee_ToolAlias = cl_ToolAlias call, ee_Classification = cl_Classification call,
      ee_Status = cl_Status call, ee_Round = cl_Round call, ee_Call = cl_Call call,
      ee_Arguments = summarizeArguments arguments, ee_FailureCategory = [], ee_DurationMillis = cl_DurationMillis call\<rparr>"

definition milliseconds :: "int \<Rightarrow> int \<Rightarrow> int" where
  "milliseconds completed started = max (saturate64 (completed - started) div 1000000) 0"

definition finishExecutionFailure ::
  "exec_tick \<Rightarrow> call_record \<Rightarrow> string \<Rightarrow> any_map \<Rightarrow> mcp_error \<Rightarrow> bool \<Rightarrow> int
   \<Rightarrow> (call_result \<times> mcp_error option) \<times> exec_effect list" where
  "finishExecutionFailure tick call0 serverName arguments cause outcomeUnknown started =
     (let begun = (case cl_StartedAt call0 of None \<Rightarrow> started | Some t \<Rightarrow> t);
          code = (if outcomeUnknown then ''outcome_unknown'' else executionFailureCode cause);
          status = (if outcomeUnknown then ''outcome_unknown''
                    else if errors_is cause CtxCanceled then ''canceled'' else ''failed'');
          call = call0\<lparr>cl_StartedAt := Some begun, cl_CompletedAt := Some (et_Completed tick),
                       cl_DurationMillis := milliseconds (et_Completed tick) begun, cl_Status := status,
                       cl_ErrorCode := code, cl_ResultSummary := code\<rparr>
      in case et_Finish tick of
           Some e \<Rightarrow> ((no_result, Some e), [Finished call [] [] 0])
         | None \<Rightarrow>
             let event = (eventFromCall call serverName arguments)\<lparr>ee_FailureCategory := code\<rparr>;
                 result = no_result\<lparr>rr_FailureCategory := code, rr_OutcomeUnknown := outcomeUnknown, rr_IsError := True\<rparr>
             in ((result, Some (if outcomeUnknown then [McpOutcomeUnknown] else cause)),
                 [Finished call [] [] 0, Emitted event]))"

section \<open>The call\<close>

text \<open>A session refuses a tool that is not on the allow list before anything is sent.\<close>

definition session_call ::
  "mcp_env \<Rightarrow> exec_tick \<Rightarrow> mcp_server \<Rightarrow> mcp_tool \<Rightarrow> any_map \<Rightarrow> nat \<Rightarrow> (mcp_error + call_result) \<times> exec_effect list" where
  "session_call env tick server tool arguments attempt =
     (if \<not> manifestToolAllowed server (mt_Name tool) then (Inl [McpToolNotFound], [])
      else ((case et_Reply tick attempt of Inl e \<Rightarrow> Inl e | Inr r \<Rightarrow> normalizeProtocolResult env r),
            [Sent attempt (mt_Name tool) arguments]))"

text \<open>
  The attempts, \<open>left\<close> more after the current one; the flag says whether a session was asked.
\<close>

fun attempt_call ::
  "mcp_env \<Rightarrow> exec_tick \<Rightarrow> mcp_server \<Rightarrow> mcp_tool \<Rightarrow> any_map \<Rightarrow> nat \<Rightarrow> nat \<Rightarrow> bool
   \<Rightarrow> (mcp_error + call_result) \<times> bool \<times> exec_effect list" where
  "attempt_call env tick server tool arguments left attempt dispatched =
     (case et_Connect tick attempt of
        Some e \<Rightarrow>
          (case left of
             0 \<Rightarrow> (Inl e, dispatched, [])
           | Suc n \<Rightarrow>
               if et_Expired tick attempt then (Inl e, dispatched, [])
               else attempt_call env tick server tool arguments n (attempt + 1) dispatched)
      | None \<Rightarrow>
          (case session_call env tick server tool arguments attempt of
             (Inr result, effects) \<Rightarrow> (Inr result, True, effects)
           | (Inl e, effects) \<Rightarrow>
               (case left of
                  0 \<Rightarrow> (Inl e, True, effects)
                | Suc n \<Rightarrow>
                    if et_Expired tick attempt then (Inl e, True, effects)
                    else
                      (case attempt_call env tick server tool arguments n (attempt + 1) True of
                         (outcome, d, later) \<Rightarrow> (outcome, d, effects @ later)))))"

declare attempt_call.simps [simp del]

definition new_call :: "mcp_config \<Rightarrow> prepared_run \<Rightarrow> mcp_tool \<Rightarrow> execute_input \<Rightarrow> int \<Rightarrow> call_record" where
  "new_call c run tool input now =
     \<lparr>cl_ID = [], cl_ConversationID = rs_ConversationID (pr_Snapshot run), cl_MessageID = rs_MessageID (pr_Snapshot run),
      cl_RunID = rs_RunID (pr_Snapshot run), cl_ServerRef = mt_ServerRef tool, cl_ToolName = mt_Name tool,
      cl_ToolAlias = mt_Alias tool, cl_Classification = mt_Classification tool, cl_Status = ''queued'',
      cl_Round = in_Round input, cl_Call = in_Call input, cl_ArgumentsSummary = summarizeArguments (in_Arguments input),
      cl_ResultSummary = [], cl_ErrorCode = [], cl_StartedAt = None, cl_CompletedAt = None, cl_DurationMillis = 0,
      cl_RetainUntil = now + mc_AuditRetention c\<rparr>"

text \<open>What follows a reply of the tool.\<close>

definition finish_success ::
  "mcp_env \<Rightarrow> mcp_config \<Rightarrow> exec_tick \<Rightarrow> call_record \<Rightarrow> string \<Rightarrow> any_map \<Rightarrow> call_result
   \<Rightarrow> (call_result \<times> mcp_error option) \<times> exec_effect list" where
  "finish_success env c tick call serverName arguments result =
     (case boundAndStoreResult env c tick call result of
        (Inl e, effects) \<Rightarrow>
          (case finishExecutionFailure tick call serverName arguments e False (et_Started tick) of
             (r, last_effects) \<Rightarrow> (r, effects @ last_effects))
      | (Inr (bounded, keys, byteSize), effects) \<Rightarrow>
          let completed = call\<lparr>cl_CompletedAt := Some (et_Completed tick),
                cl_DurationMillis := milliseconds (et_Completed tick) (et_Started tick),
                cl_Status := (if rr_IsError bounded then ''failed'' else ''succeeded''),
                cl_ErrorCode := (if rr_IsError bounded then ''tool_error'' else cl_ErrorCode call),
                cl_ResultSummary := rr_Summary bounded\<rparr>;
              finished = Finished completed (rr_Content bounded) keys byteSize
          in case et_Finish tick of
               Some e \<Rightarrow> ((no_result, Some e), effects @ [finished] @ map Deleted keys)
             | None \<Rightarrow> ((bounded, None), effects @ [finished, Emitted (eventFromCall completed serverName [])]))"

text \<open>A semaphore is asked for under the trimmed user; waiting may end with the context.\<close>

definition acquire_slot :: "string \<Rightarrow> mcp_error option \<Rightarrow> mcp_error option" where
  "acquire_slot userID outcome = (if trim_space userID = [] then Some [McpSelectionInvalid] else outcome)"

definition run_call ::
  "mcp_env \<Rightarrow> mcp_config \<Rightarrow> mcp_world \<Rightarrow> exec_tick \<Rightarrow> string \<Rightarrow> mcp_server \<Rightarrow> mcp_tool \<Rightarrow> execute_input \<Rightarrow> call_record
   \<Rightarrow> (call_result \<times> mcp_error option) \<times> exec_effect list" where
  "run_call env c w tick userID server tool input call0 =
     (let arguments = in_Arguments input;
          call = call0\<lparr>cl_Status := ''running'', cl_StartedAt := Some (et_Started tick)\<rparr>;
          started = Emitted (eventFromCall call (sv_Name server) arguments);
          failed = (\<lambda>e unknown. finishExecutionFailure tick call (sv_Name server) arguments e unknown (et_Started tick))
      in case connectionCredential env c w userID server of
           Inl e \<Rightarrow> (case failed e False of (r, effects) \<Rightarrow> (r, started # effects))
         | Inr credential \<Rightarrow>
             (case attempt_call env tick server tool arguments (if mt_Classification tool = ''read'' then 1 else 0) 1 False of
                (Inl e, dispatched, sent) \<Rightarrow>
                  (case failed e (dispatched \<and> mt_Classification tool \<noteq> ''read'' \<and> \<not> errors_is e McpToolArgumentsInvalid) of
                     (r, effects) \<Rightarrow> (r, started # sent @ effects))
              | (Inr result, dispatched, sent) \<Rightarrow>
                  (case finish_success env c tick call (sv_Name server) arguments result of
                     (r, effects) \<Rightarrow> (r, started # sent @ effects))))"

text \<open>The checks between the audit record and the attempts.\<close>

definition checked_call ::
  "mcp_env \<Rightarrow> mcp_config \<Rightarrow> mcp_world \<Rightarrow> exec_tick \<Rightarrow> string \<Rightarrow> mcp_server \<Rightarrow> mcp_tool \<Rightarrow> execute_input \<Rightarrow> call_record
   \<Rightarrow> (call_result \<times> mcp_error option) \<times> exec_effect list" where
  "checked_call env c w tick userID server tool input call =
     (let failed = (\<lambda>e. finishExecutionFailure tick call (sv_Name server) (in_Arguments input) e False (et_Now tick))
      in if trim_space (in_ValidationFailure input) \<noteq> [] then failed [McpToolArgumentsInvalid]
         else
           (case ValidateToolArguments env tool (in_Arguments input) of
              Some e \<Rightarrow> failed e
            | None \<Rightarrow>
                (case acquire_slot userID (et_Slot tick) of
                   Some e \<Rightarrow> failed e
                 | None \<Rightarrow>
                     (case (if mt_Classification tool \<noteq> ''read'' then acquire_slot userID (et_WriteSlot tick) else None) of
                        Some e \<Rightarrow> failed e
                      | None \<Rightarrow> run_call env c w tick userID server tool input call))))"

definition Execute ::
  "mcp_env \<Rightarrow> mcp_config \<Rightarrow> mcp_world \<Rightarrow> exec_tick \<Rightarrow> string \<Rightarrow> prepared_run \<Rightarrow> execute_input
   \<Rightarrow> (call_result \<times> mcp_error option) \<times> exec_effect list" where
  "Execute env c w tick userID run input =
     (case service_available c w of
        Some e \<Rightarrow> ((no_result, Some e), [])
      | None \<Rightarrow>
          if rs_UserID (pr_Snapshot run) \<noteq> userID \<or> rs_RunID (pr_Snapshot run) = [] \<or> in_Round input < 1 \<or> in_Call input < 1
          then ((no_result, Some [McpSelectionInvalid]), [])
          else
            (case map_of (pr_aliases run) (in_Alias input) of
               None \<Rightarrow> ((no_result, Some [McpToolNotFound]), [])
             | Some tool \<Rightarrow>
                 (case map_of (pr_servers run) (ref_key (mt_ServerRef tool)) of
                    None \<Rightarrow> ((no_result, Some [McpServerNotFound]), [])
                  | Some server \<Rightarrow>
                      (case et_Created tick of
                         Inl e \<Rightarrow> ((no_result, Some e), [])
                       | Inr callID \<Rightarrow>
                           let call = (new_call c run tool input (et_Now tick))\<lparr>cl_ID := callID\<rparr>
                           in (case checked_call env c w tick userID server tool input call of
                                 (outcome, effects) \<Rightarrow>
                                   (outcome, Created call # Emitted (eventFromCall call (sv_Name server) (in_Arguments input)) # effects))))))"

section \<open>What a call leaves behind\<close>

text \<open>The statuses that the audit record and the emitted events take, the requests sent, the objects.\<close>

definition record_statuses :: "exec_effect list \<Rightarrow> string list" where
  "record_statuses effects =
     concat (map (\<lambda>e. case e of Created call \<Rightarrow> [cl_Status call] | Finished call _ _ _ \<Rightarrow> [cl_Status call] | _ \<Rightarrow> []) effects)"

definition event_statuses :: "exec_effect list \<Rightarrow> string list" where
  "event_statuses effects = concat (map (\<lambda>e. case e of Emitted event \<Rightarrow> [ee_Status event] | _ \<Rightarrow> []) effects)"

definition requests :: "exec_effect list \<Rightarrow> (string \<times> any_map) list" where
  "requests effects = concat (map (\<lambda>e. case e of Sent _ name arguments \<Rightarrow> [(name, arguments)] | _ \<Rightarrow> []) effects)"

definition stored_keys :: "exec_effect list \<Rightarrow> string list" where
  "stored_keys effects = concat (map (\<lambda>e. case e of Stored key _ \<Rightarrow> [key] | _ \<Rightarrow> []) effects)"

definition deleted_keys :: "exec_effect list \<Rightarrow> string list" where
  "deleted_keys effects = concat (map (\<lambda>e. case e of Deleted key \<Rightarrow> [key] | _ \<Rightarrow> []) effects)"

named_theorems effect_simps \<open>reading a trace\<close>

lemma trace_Nil [effect_simps]:
  "record_statuses [] = []" "event_statuses [] = []" "requests [] = []" "stored_keys [] = []" "deleted_keys [] = []"
  by (simp_all add: record_statuses_def event_statuses_def requests_def stored_keys_def deleted_keys_def)

lemma trace_append [effect_simps]:
  "record_statuses (xs @ ys) = record_statuses xs @ record_statuses ys"
  "event_statuses (xs @ ys) = event_statuses xs @ event_statuses ys"
  "requests (xs @ ys) = requests xs @ requests ys"
  "stored_keys (xs @ ys) = stored_keys xs @ stored_keys ys"
  "deleted_keys (xs @ ys) = deleted_keys xs @ deleted_keys ys"
  by (simp_all add: record_statuses_def event_statuses_def requests_def stored_keys_def deleted_keys_def)

lemma trace_Cons [effect_simps]:
  "record_statuses (e # ys) = (case e of Created call \<Rightarrow> [cl_Status call] | Finished call _ _ _ \<Rightarrow> [cl_Status call] | _ \<Rightarrow> []) @ record_statuses ys"
  "event_statuses (e # ys) = (case e of Emitted event \<Rightarrow> [ee_Status event] | _ \<Rightarrow> []) @ event_statuses ys"
  "requests (e # ys) = (case e of Sent _ name arguments \<Rightarrow> [(name, arguments)] | _ \<Rightarrow> []) @ requests ys"
  "stored_keys (e # ys) = (case e of Stored key _ \<Rightarrow> [key] | _ \<Rightarrow> []) @ stored_keys ys"
  "deleted_keys (e # ys) = (case e of Deleted key \<Rightarrow> [key] | _ \<Rightarrow> []) @ deleted_keys ys"
  by (simp_all add: record_statuses_def event_statuses_def requests_def stored_keys_def deleted_keys_def)

lemma trace_deletes [effect_simps]:
  "record_statuses (map Deleted keys) = []" "event_statuses (map Deleted keys) = []" "requests (map Deleted keys) = []"
  "stored_keys (map Deleted keys) = []" "deleted_keys (map Deleted keys) = keys"
  by (induction keys) (simp_all add: effect_simps)

lemma eventFromCall_status [simp]: "ee_Status (eventFromCall call name arguments) = cl_Status call"
  by (simp add: eventFromCall_def)

text \<open>Bounding a result only stores objects, and deletes all of them when it fails.\<close>

lemma bound_items_trace:
  "bound_items env c tick call index items b = (outcome, effects) \<Longrightarrow>
   et_Objects tick \<or> bs_Keys b = [] \<Longrightarrow>
   record_statuses effects = [] \<and> event_statuses effects = [] \<and> requests effects = [] \<and>
   (case outcome of
      Inl _ \<Rightarrow> deleted_keys effects = bs_Keys b @ stored_keys effects
    | Inr b' \<Rightarrow> deleted_keys effects = [] \<and> bs_Keys b' = bs_Keys b @ stored_keys effects \<and>
               (et_Objects tick \<or> bs_Keys b' = []))"
proof (induction items arbitrary: index b outcome effects)
  case (Cons item items)
  let ?cleanup = "if et_Objects tick then map Deleted (bs_Keys b) else []"
  have cleanup: "record_statuses ?cleanup = []" "event_statuses ?cleanup = []" "requests ?cleanup = []"
    "stored_keys ?cleanup = []" "deleted_keys ?cleanup = bs_Keys b"
    using Cons.prems(2) by (auto simp: effect_simps)
  show ?case
  proof (cases "normalizeResultItem env item")
    case None
    then show ?thesis using Cons.prems(1) cleanup by auto
  next
    case (Some nr)
    obtain normalized raw where nr: "nr = (normalized, raw)" by force
    note Some = Some [unfolded nr]
    let ?size = "int (length raw)"
    show ?thesis
    proof (cases "?size > mc_MaxResultItemBytes c \<or> bs_Total b + ?size > mc_MaxResultCallBytes c")
      case True
      then show ?thesis using Cons.prems(1) cleanup by (auto simp: Some Let_def)
    next
      case False
      show ?thesis
      proof (cases "stores_item c (bs_Inline b) normalized ?size \<and> ?size > 0")
        case True
        show ?thesis
        proof (cases "et_Objects tick \<and> et_Put tick index")
          case f: False
          then have "outcome = Inl [McpServerUnavailable] \<and> effects = ?cleanup"
            using Cons.prems(1) False True by (cases "et_Objects tick") (simp_all add: Some Let_def)
          then show ?thesis using cleanup by simp
        next
          case objects: True
          let ?b = "b\<lparr>bs_Content := bs_Content b @ [normalized\<lparr>ct_ObjectKey := object_key call index, ct_Text := [],
                ct_JSON := [], ct_Data := []\<rparr>], bs_Keys := bs_Keys b @ [object_key call index],
              bs_Total := bs_Total b + ?size, bs_Model := bs_Model b @ [AnyMap (modelProjection item raw)]\<rparr>"
          obtain o' e' where run: "bound_items env c tick call (index + 1) items ?b = (o', e')" by force
          have oe: "outcome = o'" "effects = Stored (object_key call index) (stored_content_type normalized) # e'"
            using Cons.prems(1) False True objects run by (simp_all add: Some Let_def)
          show ?thesis
            using Cons.IH [OF run] objects by (auto simp: oe effect_simps split: sum.splits)
        qed
      next
        case inline: False
        let ?b = "b\<lparr>bs_Content := bs_Content b @ [normalized], bs_Total := bs_Total b + ?size,
            bs_Inline := bs_Inline b + ?size, bs_Model := bs_Model b @ [AnyMap (modelProjection item raw)]\<rparr>"
        have "bound_items env c tick call (index + 1) items ?b = (outcome, effects)"
          using Cons.prems(1) False inline by (cases "raw = []") (simp_all add: Some Let_def)
        from Cons.IH [OF this] Cons.prems(2) show ?thesis by (cases outcome) auto
      qed
    qed
  qed
qed (simp add: effect_simps)


lemma boundAndStoreResult_trace:
  assumes "boundAndStoreResult env c tick call result = (outcome, effects)"
  shows "record_statuses effects = [] \<and> event_statuses effects = [] \<and> requests effects = [] \<and>
    (case outcome of
       Inl _ \<Rightarrow> deleted_keys effects = stored_keys effects
     | Inr (_, keys, _) \<Rightarrow> deleted_keys effects = [] \<and> keys = stored_keys effects)"
proof -
  let ?b0 = "\<lparr>bs_Content = [], bs_Keys = [], bs_Total = 0, bs_Inline = 0, bs_Model = []\<rparr>"
  obtain o' e' where run: "bound_items env c tick call 0 (rr_Content result) ?b0 = (o', e')" by force
  from bound_items_trace [OF run] assms show ?thesis
    by (auto simp: boundAndStoreResult_def run effect_simps split: sum.splits option.splits)
qed

text \<open>The ends of a call: one audit record with a final status, and its event once it is saved.\<close>

definition final_statuses :: "string list" where
  "final_statuses = [''succeeded'', ''failed'', ''canceled'', ''outcome_unknown'']"

definition ends :: "exec_tick \<Rightarrow> (call_result \<times> mcp_error option) \<times> exec_effect list \<Rightarrow> bool" where
  "ends tick run \<longleftrightarrow>
     (case run of ((result, err), effects) \<Rightarrow>
        \<exists>s \<in> set final_statuses.
          record_statuses effects = [s] \<and>
          event_statuses effects = (if et_Finish tick = None then [s] else []) \<and>
          requests effects = [] \<and>
          (if err = None then deleted_keys effects = [] else deleted_keys effects = stored_keys effects) \<and>
          (s = ''succeeded'' \<longrightarrow> err = et_Finish tick) \<and> (et_Finish tick \<noteq> None \<longrightarrow> err = et_Finish tick))"

lemma finish_failure_ends: "ends tick (finishExecutionFailure tick call name arguments cause unknown started)"
  by (cases "et_Finish tick")
     (auto simp: ends_def finishExecutionFailure_def Let_def effect_simps final_statuses_def)

lemma finish_success_ends: "ends tick (finish_success env c tick call name arguments result)"
proof -
  obtain outcome effects where bs: "boundAndStoreResult env c tick call result = (outcome, effects)" by force
  note trace = boundAndStoreResult_trace [OF bs]
  show ?thesis
  proof (cases outcome)
    case (Inl e)
    obtain r fs where ff: "finishExecutionFailure tick call name arguments e False (et_Started tick) = (r, fs)" by (metis surj_pair)
    then have "snd r \<noteq> None" "stored_keys fs = []" "deleted_keys fs = []"
      by (auto simp: finishExecutionFailure_def Let_def effect_simps split: option.splits)
    then show ?thesis
      using finish_failure_ends [of tick call name arguments e False "et_Started tick"] trace
      by (auto simp: ends_def finish_success_def bs Inl ff effect_simps)
  next
    case (Inr v)
    obtain bounded keys byteSize where v: "v = (bounded, keys, byteSize)" by (cases v)
    show ?thesis
      using trace by (cases "et_Finish tick")
        (auto simp: ends_def finish_success_def bs Inr v Let_def effect_simps final_statuses_def)
  qed
qed

text \<open>The attempts only send the call that was asked for, as often as they may.\<close>

lemma session_call_requests:
  "session_call env tick server tool arguments attempt = (outcome, effects) \<Longrightarrow>
   effects = [] \<or> (effects = [Sent attempt (mt_Name tool) arguments] \<and> manifestToolAllowed server (mt_Name tool))"
  by (auto simp: session_call_def split: if_splits)

lemma attempt_call_trace:
  "attempt_call env tick server tool arguments left attempt dispatched = (outcome, d, effects) \<Longrightarrow>
   record_statuses effects = [] \<and> event_statuses effects = [] \<and> stored_keys effects = [] \<and> deleted_keys effects = [] \<and>
   length (requests effects) \<le> left + 1 \<and>
   (\<forall>r \<in> set (requests effects). r = (mt_Name tool, arguments) \<and> manifestToolAllowed server (mt_Name tool)) \<and>
   (dispatched \<or> requests effects \<noteq> [] \<longrightarrow> d)"
proof (induction left arbitrary: attempt dispatched outcome d effects)
  case 0
  then show ?case
    by (auto simp: attempt_call.simps [of _ _ _ _ _ 0] effect_simps dest!: session_call_requests split: option.splits sum.splits prod.splits)
next
  case (Suc left)
  show ?case
  proof (cases "et_Connect tick attempt")
    case (Some e)
    then show ?thesis
      using Suc.prems Suc.IH [of "Suc attempt" dispatched outcome d effects]
      by (auto simp: attempt_call.simps [of _ _ _ _ _ "Suc left"] effect_simps split: if_splits)
  next
    case None
    obtain o1 e1 where call: "session_call env tick server tool arguments attempt = (o1, e1)" by force
    note once = session_call_requests [OF call]
    obtain o2 d2 e2 where later: "attempt_call env tick server tool arguments left (Suc attempt) True = (o2, d2, e2)"
      by (metis surj_pair)
    show ?thesis
      using Suc.prems Suc.IH [OF later] once
      by (auto simp: attempt_call.simps [of _ _ _ _ _ "Suc left"] None call later effect_simps split: sum.splits if_splits)
  qed
qed


text \<open>
  \<open>settles\<close> is the whole of a call after its audit record was created: at most one request,
  two for a tool that only reads, all of them the checked call; and a request without a reply leaves
  the outcome unknown, unless the tool only reads or refused the arguments.
\<close>

definition settles ::
  "mcp_env \<Rightarrow> exec_tick \<Rightarrow> mcp_server \<Rightarrow> mcp_tool \<Rightarrow> any_map \<Rightarrow> (call_result \<times> mcp_error option) \<times> exec_effect list \<Rightarrow> bool" where
  "settles env tick server tool arguments run \<longleftrightarrow>
     (case run of ((result, err), effects) \<Rightarrow>
        \<exists>s \<in> set final_statuses. \<exists>running \<in> {[], [''running'']}.
          record_statuses effects = [s] \<and>
          event_statuses effects = running @ (if et_Finish tick = None then [s] else []) \<and>
          (requests effects = [] \<or> running \<noteq> []) \<and>
          length (requests effects) \<le> (if mt_Classification tool = ''read'' then 2 else 1) \<and>
          (\<forall>r \<in> set (requests effects). r = (mt_Name tool, arguments) \<and> manifestToolAllowed server (mt_Name tool)) \<and>
          (if err = None then deleted_keys effects = [] else deleted_keys effects = stored_keys effects) \<and>
          (s = ''succeeded'' \<longrightarrow> err = et_Finish tick) \<and> (et_Finish tick \<noteq> None \<longrightarrow> err = et_Finish tick) \<and>
          (\<forall>e. mt_Classification tool \<noteq> ''read'' \<and> requests effects \<noteq> [] \<and> et_Reply tick 1 = Inl e \<and>
               \<not> errors_is e McpToolArgumentsInvalid \<longrightarrow>
             s = ''outcome_unknown'' \<and> (et_Finish tick = None \<longrightarrow> err = Some [McpOutcomeUnknown])))"

lemma ends_settles: "ends tick run \<Longrightarrow> settles env tick server tool arguments run"
  by (fastforce simp: ends_def settles_def split: prod.splits)

lemma finish_failure_unknown:
  "finishExecutionFailure tick call name arguments cause True started = ((result, err), effects) \<Longrightarrow>
   record_statuses effects = [''outcome_unknown''] \<and> (et_Finish tick = None \<longrightarrow> err = Some [McpOutcomeUnknown])"
  by (cases "et_Finish tick") (fastforce simp: finishExecutionFailure_def Let_def effect_simps)+

lemma attempt_once_reply:
  assumes "attempt_call env tick server tool arguments 0 1 False = (outcome, d, effects)"
    and "requests effects \<noteq> []" "et_Reply tick 1 = Inl e"
  shows "outcome = Inl e \<and> d"
  using assms
  by (auto simp: attempt_call.simps session_call_def effect_simps split: option.splits sum.splits if_splits)

lemma run_call_settles: "settles env tick server tool (in_Arguments input) (run_call env c w tick userID server tool input call0)"
proof -
  let ?call = "call0\<lparr>cl_Status := ''running'', cl_StartedAt := Some (et_Started tick)\<rparr>"
  let ?args = "in_Arguments input"
  let ?started = "Emitted (eventFromCall ?call (sv_Name server) ?args)"
  have wrap: "settles env tick server tool ?args (r, ?started # sent @ fs)"
    if fin: "ends tick (r, fs)"
      and sent: "record_statuses sent = []" "event_statuses sent = []" "stored_keys sent = []" "deleted_keys sent = []"
        "length (requests sent) \<le> (if mt_Classification tool = ''read'' then 2 else 1)"
        "\<forall>q \<in> set (requests sent). q = (mt_Name tool, ?args) \<and> manifestToolAllowed server (mt_Name tool)"
      and unknown: "\<And>e. mt_Classification tool \<noteq> ''read'' \<Longrightarrow> requests sent \<noteq> [] \<Longrightarrow> et_Reply tick 1 = Inl e \<Longrightarrow>
        \<not> errors_is e McpToolArgumentsInvalid \<Longrightarrow>
        record_statuses fs = [''outcome_unknown''] \<and> (et_Finish tick = None \<longrightarrow> snd r = Some [McpOutcomeUnknown])"
    for r fs sent
  proof -
    obtain result err where r: "r = (result, err)" by force
    from fin obtain s where s: "s \<in> set final_statuses" "record_statuses fs = [s]"
      "event_statuses fs = (if et_Finish tick = None then [s] else [])" "requests fs = []"
      "if err = None then deleted_keys fs = [] else deleted_keys fs = stored_keys fs"
      "s = ''succeeded'' \<longrightarrow> err = et_Finish tick" "et_Finish tick \<noteq> None \<longrightarrow> err = et_Finish tick"
      by (auto simp: ends_def r)
    show ?thesis
      unfolding settles_def r prod.case
      by (rule bexI [OF _ s(1)], rule bexI [of _ "[''running'']"])
         (use s(2-) sent unknown in \<open>auto simp: effect_simps r\<close>)
  qed
  show ?thesis
  proof (cases "connectionCredential env c w userID server")
    case (Inl e)
    obtain r fs where fs: "finishExecutionFailure tick ?call (sv_Name server) ?args e False (et_Started tick) = (r, fs)"
      by (metis surj_pair)
    have "settles env tick server tool ?args (r, ?started # [] @ fs)"
      by (rule wrap) (use finish_failure_ends [of tick ?call "sv_Name server" ?args e False "et_Started tick"] fs in
          \<open>auto simp: effect_simps\<close>)
    then show ?thesis by (simp add: run_call_def Inl fs)
  next
    case (Inr credential)
    let ?left = "if mt_Classification tool = ''read'' then 1 else 0"
    obtain outcome d sent where at: "attempt_call env tick server tool ?args ?left 1 False = (outcome, d, sent)"
      by (metis surj_pair)
    note trace = attempt_call_trace [OF at]
    have few: "length (requests sent) \<le> (if mt_Classification tool = ''read'' then 2 else 1)"
      using trace by (auto split: if_splits)
    have reply: "outcome = Inl e \<and> d" if "mt_Classification tool \<noteq> ''read''" "requests sent \<noteq> []" "et_Reply tick 1 = Inl e" for e
    proof -
      have "attempt_call env tick server tool ?args 0 1 False = (outcome, d, sent)" using at that(1) by simp
      from attempt_once_reply [OF this that(2,3)] show ?thesis .
    qed
    show ?thesis
    proof (cases outcome)
      case oe: (Inl e)
      let ?u = "d \<and> mt_Classification tool \<noteq> ''read'' \<and> \<not> errors_is e McpToolArgumentsInvalid"
      obtain r fs where fs: "finishExecutionFailure tick ?call (sv_Name server) ?args e ?u (et_Started tick) = (r, fs)"
        by (metis surj_pair)
      have "settles env tick server tool ?args (r, ?started # sent @ fs)"
      proof (rule wrap)
        show "ends tick (r, fs)" using finish_failure_ends fs by metis
        fix e'
        assume "mt_Classification tool \<noteq> ''read''" "requests sent \<noteq> []" "et_Reply tick 1 = Inl e'"
          "\<not> errors_is e' McpToolArgumentsInvalid"
        then have "?u" using reply oe by auto
        with fs have "finishExecutionFailure tick ?call (sv_Name server) ?args e True (et_Started tick) = ((fst r, snd r), fs)"
          by simp
        from finish_failure_unknown [OF this]
        show "record_statuses fs = [''outcome_unknown''] \<and> (et_Finish tick = None \<longrightarrow> snd r = Some [McpOutcomeUnknown])" .
      qed (use trace few in auto)
      then show ?thesis using at fs by (simp add: run_call_def Inr oe)
    next
      case ok: (Inr result)
      obtain r fs where fs: "finish_success env c tick ?call (sv_Name server) ?args result = (r, fs)"
        by (metis surj_pair)
      have "settles env tick server tool ?args (r, ?started # sent @ fs)"
      proof (rule wrap)
        show "ends tick (r, fs)" using finish_success_ends fs by metis
        fix e'
        assume "mt_Classification tool \<noteq> ''read''" "requests sent \<noteq> []" "et_Reply tick 1 = Inl e'"
        with reply ok show "record_statuses fs = [''outcome_unknown''] \<and> (et_Finish tick = None \<longrightarrow> snd r = Some [McpOutcomeUnknown])"
          by auto
      qed (use trace few in auto)
      then show ?thesis using at fs by (simp add: run_call_def Inr ok)
    qed
  qed
qed

text \<open>
  C34: A call of an external tool either never starts, and then reports an error, or leaves
  exactly one audit record that goes from queued to one final status, with the events queued, running
  if it got that far, and the final one once the record is saved.  What is sent is the checked call to
  the frozen tool, once, or twice if the tool only reads; when a request to another tool is not
  answered, the outcome is recorded as unknown and reported as such instead of being retried; and
  when the call ends in an error, every object that it stored has been deleted.
\<close>

theorem mcp_call_settled:
  assumes "Execute env c w tick userID run input = ((result, err), effects)"
  shows "(effects = [] \<and> err \<noteq> None) \<or>
    (\<exists>tool server rest.
       map_of (pr_aliases run) (in_Alias input) = Some tool \<and> rs_UserID (pr_Snapshot run) = userID \<and>
       map_of (pr_servers run) (ref_key (mt_ServerRef tool)) = Some server \<and>
       record_statuses effects = ''queued'' # record_statuses rest \<and>
       event_statuses effects = ''queued'' # event_statuses rest \<and>
       requests effects = requests rest \<and> stored_keys effects = stored_keys rest \<and> deleted_keys effects = deleted_keys rest \<and>
       settles env tick server tool (in_Arguments input) ((result, err), rest) \<and>
       (requests rest = [] \<or> ValidateToolArguments env tool (in_Arguments input) = None))"
proof (cases "effects = []")
  case True
  then show ?thesis
    using assms by (auto simp: Execute_def Let_def split: option.splits if_splits sum.splits prod.splits)
next
  case False
  let ?args = "in_Arguments input"
  from assms False obtain tool server callID where
    found: "rs_UserID (pr_Snapshot run) = userID" "map_of (pr_aliases run) (in_Alias input) = Some tool"
    "map_of (pr_servers run) (ref_key (mt_ServerRef tool)) = Some server" "et_Created tick = Inr callID"
    and start: "service_available c w = None" "\<not> (rs_RunID (pr_Snapshot run) = [] \<or> in_Round input < 1 \<or> in_Call input < 1)"
    by (auto simp: Execute_def split: option.splits if_splits sum.splits)
  define call where "call = (new_call c run tool input (et_Now tick))\<lparr>cl_ID := callID\<rparr>"
  obtain r rest where body: "checked_call env c w tick userID server tool input call = (r, rest)" by (metis surj_pair)
  have eq: "r = (result, err)" "effects = Created call # Emitted (eventFromCall call (sv_Name server) ?args) # rest"
    using assms found start body by (simp_all add: Execute_def call_def Let_def)
  have status: "cl_Status call = ''queued''" by (simp add: call_def new_call_def)
  have fails: "settles env tick server tool ?args (finishExecutionFailure tick call (sv_Name server) ?args e False (et_Now tick))"
    "requests (snd (finishExecutionFailure tick call (sv_Name server) ?args e False (et_Now tick))) = []" for e
    using finish_failure_ends [of tick call "sv_Name server" ?args e False "et_Now tick"] ends_settles
    by (auto simp: ends_def split: prod.splits)
  have "settles env tick server tool ?args (checked_call env c w tick userID server tool input call) \<and>
      (requests (snd (checked_call env c w tick userID server tool input call)) = [] \<or> ValidateToolArguments env tool ?args = None)"
    unfolding checked_call_def Let_def using fails run_call_settles by (auto split: option.splits)
  then have "settles env tick server tool ?args ((result, err), rest)"
    "requests rest = [] \<or> ValidateToolArguments env tool ?args = None"
    by (simp_all add: body eq(1))
  then show ?thesis using found eq(2) status by (auto simp: effect_simps)
qed

definition example_exec_tick :: exec_tick where
  "example_exec_tick =
     \<lparr>et_Created = Inr ''c1'', et_Slot = None, et_WriteSlot = None, et_Connect = (\<lambda>_. None),
      et_Reply = (\<lambda>_. Inr (Some \<lparr>pt_IsError = False, pt_Content = [TextContent ''ok''], pt_Structured = None\<rparr>)),
      et_Expired = (\<lambda>_. False), et_Objects = False, et_Put = (\<lambda>_. False), et_Finish = None,
      et_Now = 0, et_Started = 0, et_Completed = 5000000\<rparr>"

definition example_input :: execute_input where
  "example_input = \<lparr>in_Alias = ''mcp_read'', in_Arguments = [], in_ValidationFailure = [], in_Round = 1, in_Call = 1\<rparr>"

lemma example_execute:
  "\<exists>result effects.
     Execute example_mcp_env example_mcp_config example_world example_exec_tick ''u'' example_run example_input =
       ((result, None), effects) \<and> requests effects = [(''read'', [])] \<and>
     event_statuses effects = [''queued'', ''running'', ''succeeded'']"
proof -
  let ?server = "example_server\<lparr>sv_Tools := [example_mcp_tool ''read'' ''read''], sv_ToolCount := 2\<rparr>"
  let ?tool = "example_mcp_tool ''read'' ''read''"
  have ok: "service_available example_mcp_config example_world = None"
    by (simp add: service_available_def example_mcp_config_def example_world_def)
  have valid: "ValidateToolArguments example_mcp_env ?tool [] = None"
    by (simp add: ValidateToolArguments_def example_mcp_tool_def resolveToolSchema_def example_mcp_env_def schema_type_def)
  have cred: "connectionCredential example_mcp_env example_mcp_config example_world ''u'' ?server = Inr []"
    by (simp add: connectionCredential_def example_server_def)
  have allowed: "manifestToolAllowed ?server ''read''"
    by (simp add: manifestToolAllowed_def example_server_def example_ref_def example_trim search_strings.simps)
  have tool: "mt_Name ?tool = ''read''" "mt_Classification ?tool = ''read''" "ref_key (mt_ServerRef ?tool) = ''manifest:files''"
    by (simp_all add: example_mcp_tool_def example_ref_def ref_key_def)
  have reply: "normalizeProtocolResult example_mcp_env (Some \<lparr>pt_IsError = False, pt_Content = [TextContent ''ok''], pt_Structured = None\<rparr>) =
      Inr (no_result\<lparr>rr_Content := [content0\<lparr>ct_Type := ''text'', ct_Text := ''ok'', ct_ByteSize := 2\<rparr>]\<rparr>)"
    by (simp add: normalizeProtocolResult_def no_result_def)
  have attempt: "attempt_call example_mcp_env example_exec_tick ?server ?tool [] (Suc 0) (Suc 0) False =
      (Inr (no_result\<lparr>rr_Content := [content0\<lparr>ct_Type := ''text'', ct_Text := ''ok'', ct_ByteSize := 2\<rparr>]\<rparr>), True,
       [Sent (Suc 0) ''read'' []])"
    by (subst attempt_call.simps) (simp add: session_call_def example_exec_tick_def allowed tool reply)
  have item: "normalizeResultItem example_mcp_env (content0\<lparr>ct_Type := ''text'', ct_Text := ''ok'', ct_ByteSize := 2\<rparr>) =
      Some (content0\<lparr>ct_Type := ''text'', ct_Text := ''ok'', ct_ByteSize := 2\<rparr>, ''ok'')"
    by (simp add: normalizeResultItem_def content0_def example_trim)
  have limits: "mc_MaxInlineResultBytes example_mcp_config = 262144" "mc_MaxResultItemBytes example_mcp_config = 26214400"
    "mc_MaxResultCallBytes example_mcp_config = 52428800"
    by (simp_all add: example_mcp_config_def normalizeConfig_def DefaultConfig_def positive_or_def)
  have marshal: "me_marshal example_mcp_env v = Some ''{}''" for v by (simp add: example_mcp_env_def)
  have bounded: "\<exists>b. boundAndStoreResult example_mcp_env example_mcp_config example_exec_tick call
      (no_result\<lparr>rr_Content := [content0\<lparr>ct_Type := ''text'', ct_Text := ''ok'', ct_ByteSize := 2\<rparr>]\<rparr>) = (Inr (b, [], 2), []) \<and> \<not> rr_IsError b" for call
    by (simp add: boundAndStoreResult_def item limits stores_item_def marshal no_result_def)
  have input: "in_Alias example_input = ''mcp_read''" "in_Arguments example_input = []" "in_Round example_input = 1"
    "in_Call example_input = 1" "in_ValidationFailure example_input = []"
    by (simp_all add: example_input_def)
  have tick: "et_Created example_exec_tick = Inr ''c1''" "et_Slot example_exec_tick = None" "et_Finish example_exec_tick = None"
    by (simp_all add: example_exec_tick_def)
  have run: "\<exists>b effects. run_call example_mcp_env example_mcp_config example_world example_exec_tick ''u'' ?server ?tool example_input call =
      ((b, None), effects) \<and> requests effects = [(''read'', [])] \<and> event_statuses effects = [''running'', ''succeeded'']" for call
  proof -
    let ?call = "call\<lparr>cl_Status := ''running'', cl_StartedAt := Some (et_Started example_exec_tick)\<rparr>"
    obtain b where b: "boundAndStoreResult example_mcp_env example_mcp_config example_exec_tick ?call
      (no_result\<lparr>rr_Content := [content0\<lparr>ct_Type := ''text'', ct_Text := ''ok'', ct_ByteSize := 2\<rparr>]\<rparr>) = (Inr (b, [], 2), [])"
      "\<not> rr_IsError b" using bounded by blast
    show ?thesis
      using b by (simp add: run_call_def cred input tool attempt finish_success_def tick Let_def effect_simps)
  qed
  let ?call = "(new_call example_mcp_config example_run ?tool example_input (et_Now example_exec_tick))\<lparr>cl_ID := ''c1''\<rparr>"
  obtain b effects where b:
    "run_call example_mcp_env example_mcp_config example_world example_exec_tick ''u'' ?server ?tool example_input ?call = ((b, None), effects)"
    "requests effects = [(''read'', [])]" "event_statuses effects = [''running'', ''succeeded'']"
    using run by blast
  have "checked_call example_mcp_env example_mcp_config example_world example_exec_tick ''u'' ?server ?tool example_input ?call = ((b, None), effects)"
    using b(1) by (simp add: checked_call_def input valid acquire_slot_def tick tool example_trim)
  with b(2,3) show ?thesis
    by (simp add: Execute_def ok example_prepared input Let_def tool tick effect_simps) (simp add: new_call_def)
qed

theorem mcp_call_settled_witness:
  "\<exists>result effects.
     Execute example_mcp_env example_mcp_config example_world example_exec_tick ''u'' example_run example_input =
       ((result, None), effects) \<and> requests effects = [(''read'', [])] \<and>
     record_statuses effects = [''queued'', ''succeeded'']"
proof -
  obtain result effects where run:
    "Execute example_mcp_env example_mcp_config example_world example_exec_tick ''u'' example_run example_input =
       ((result, None), effects)" and seen: "requests effects = [(''read'', [])]"
    "event_statuses effects = [''queued'', ''running'', ''succeeded'']" using example_execute by blast
  have "record_statuses effects = [''queued'', ''succeeded'']"
    using mcp_call_settled [OF run] seen
    by (auto simp: settles_def example_exec_tick_def effect_simps)
  with run seen(1) show ?thesis by blast
qed

end
