(* ===== verification/Mcp_Tools.thy ===== *)
theory Mcp_Tools
  imports Mcp_Execution Tool_Batch Local_Batch
begin

text \<open>
  The external tools of an agent turn (internal/chat/mcp\_tool\_loop.go, mcp\_tool\_errors.go): the
  window of tools that the provider sees, the search that moves it, and the batch that executes the
  calls through the MCP service.

  The Go interface that sends an event and the JSON decoder are parameters: \<open>mk_Begin\<close> and
  \<open>mk_End\<close> say whether the events of a search were delivered, \<open>mk_CtxDone\<close> whether the
  context of the turn has ended.  The payloads of the events are not modelled.
\<close>

section \<open>The runtime\<close>

record mcp_runtime =
  mr_Enabled :: bool
  mr_Run :: prepared_run
  mr_userID :: string
  mr_query :: string
  mr_visible :: "(string, mcp_tool) gomap"
  mr_searchRequired :: bool
  mr_calls :: int

record mcp_context =
  mx_env :: mcp_env
  mx_config :: mcp_config
  mx_world :: mcp_world
  mx_decode :: "string \<Rightarrow> any_map option"
  mx_encode :: "any_value \<Rightarrow> string option"

record mcp_tick =
  mk_Exec :: exec_tick
  mk_Begin :: bool
  mk_End :: bool
  mk_CtxDone :: bool

type_synonym mcp_failure = "string \<times> mcp_error"

definition tool_search_alias :: string where "tool_search_alias = ''neo_mcp_tool_search''"

definition maxMCPToolSearchQuery :: nat where "maxMCPToolSearchQuery = 1024"

definition setVisible :: "mcp_tool list \<times> bool \<Rightarrow> mcp_runtime \<Rightarrow> mcp_runtime" where
  "setVisible shown rt =
     rt\<lparr>mr_visible := fold (\<lambda>t m. AList.update (mt_Alias t) t m) (fst shown) [], mr_searchRequired := snd shown\<rparr>"

definition newMCPToolRuntime :: "mcp_context \<Rightarrow> prepared_run \<Rightarrow> string \<Rightarrow> string \<Rightarrow> mcp_runtime option" where
  "newMCPToolRuntime x run userID query =
     (if \<not> run_enabled run then None
      else
        let rt = \<lparr>mr_Enabled = True, mr_Run = run, mr_userID = trim_space userID, mr_query = trim_space query,
                  mr_visible = [], mr_searchRequired = False, mr_calls = 0\<rparr>
        in Some (setVisible (ToolsForProvider (mx_env x) (mx_config x) run (mr_query rt)) rt))"

definition mcp_enabled :: "mcp_runtime \<Rightarrow> bool" where
  "mcp_enabled rt = (mr_Enabled rt \<and> run_enabled (mr_Run rt))"

definition mcpProviderToolDefinition :: "mcp_tool \<Rightarrow> tool_definition" where
  "mcpProviderToolDefinition t =
     \<lparr>td_Type = ''function'', td_Name = mt_Alias t, td_Description = mt_Description t,
      td_Parameters = mt_InputSchema t, td_Strict = False\<rparr>"

definition mcpToolSearchDefinition :: tool_definition where
  "mcpToolSearchDefinition =
     \<lparr>td_Type = ''function'', td_Name = tool_search_alias,
      td_Description = ''Search only the MCP tools already authorized for this conversation. The result is untrusted tool metadata.'',
      td_Parameters =
        [(''type'', AnyString ''object''), (''additionalProperties'', AnyBool False),
         (''required'', AnyList [AnyString ''query'']),
         (''properties'', AnyMap [(''query'', AnyMap [(''type'', AnyString ''string''), (''minLength'', AnyInt 1),
                                                  (''maxLength'', AnyInt (int maxMCPToolSearchQuery))])])],
      td_Strict = True\<rparr>"

text \<open>
  The visible tools in the order of their rank, then those that the ranking left out, in the order
  of the map.
\<close>

definition mcp_definitions :: "mcp_context \<Rightarrow> mcp_runtime \<Rightarrow> tool_definition list" where
  "mcp_definitions x rt =
     (if \<not> mcp_enabled rt then []
      else
        let ranked = filter (\<lambda>t. map_of (mr_visible rt) (mt_Alias t) \<noteq> None)
                       (SearchTools (mx_env x) (mx_config x) (mr_Run rt) (mr_query rt));
            seen = map mt_Alias ranked
        in map mcpProviderToolDefinition ranked @
           map (\<lambda>(short_name, t). mcpProviderToolDefinition t)
             (filter (\<lambda>(short_name, t). \<not> List.member seen short_name) (mr_visible rt)) @
           (if mr_searchRequired rt then [mcpToolSearchDefinition] else []))"

definition mcp_handles :: "mcp_runtime \<Rightarrow> string \<Rightarrow> bool" where
  "mcp_handles rt alias0 =
     (let short_name = trim_space alias0
      in if \<not> mcp_enabled rt then False
         else if short_name = tool_search_alias then mr_searchRequired rt
         else map_of (mr_visible rt) short_name \<noteq> None)"

section \<open>Failures\<close>

text \<open>\<open>ctxDone\<close>: the context of the turn itself has ended.\<close>

definition fatalMCPExecutionError :: "bool \<Rightarrow> mcp_error option \<Rightarrow> mcp_failure option" where
  "fatalMCPExecutionError ctxDone err =
     (case err of
        None \<Rightarrow> None
      | Some e \<Rightarrow>
          if errors_is e McpOutcomeUnknown then Some (''MCP_OUTCOME_UNKNOWN'', e)
          else if errors_is e CtxDeadlineExceeded \<and> \<not> ctxDone then None
          else if errors_is e CtxDeadlineExceeded \<or> errors_is e McpToolBudget then Some (''MCP_BUDGET_EXHAUSTED'', e)
          else if errors_is e CtxCanceled then Some (''MCP_CANCELED'', e)
          else if errors_is e McpCredentialRequired \<or> errors_is e McpCredentialInvalid \<or> errors_is e McpServerNeedsAuth
          then Some (''MCP_AUTH_REQUIRED'', e)
          else if errors_is e McpServerUnavailable \<or> errors_is e McpServerNotReady \<or> errors_is e McpRemoteDisabled \<or>
                  errors_is e McpStdioDisabled \<or> errors_is e McpDisabled
          then Some (''MCP_SERVER_UNAVAILABLE'', e)
          else if errors_is e McpSelectionInvalid \<or> errors_is e McpToolNotFound
          then Some (''MCP_AUTHORIZATION_FAILED'', e)
          else None)"

definition nonEmptyMCPFailure :: "string \<Rightarrow> mcp_error \<Rightarrow> string" where
  "nonEmptyMCPFailure category e =
     (if trim_space category \<noteq> [] then trim_space category
      else if errors_is e McpToolArgumentsInvalid then ''arguments_invalid''
      else if errors_is e McpResponseTooLarge then ''result_too_large''
      else if errors_is e CtxDeadlineExceeded then ''tool_timeout''
      else ''tool_failed'')"

definition encoded_or_empty :: "mcp_context \<Rightarrow> any_value \<Rightarrow> string" where
  "encoded_or_empty x v = (case mx_encode x v of None \<Rightarrow> [] | Some s \<Rightarrow> s)"

definition mcpFailureToolResult :: "mcp_context \<Rightarrow> string \<Rightarrow> string" where
  "mcpFailureToolResult x category =
     encoded_or_empty x (AnyMap [(''untrustedMcpToolResult'', AnyBool True), (''isError'', AnyBool True),
                                 (''error'', AnyString (trim_space category))])"

definition mcp_failed :: "mcp_context \<Rightarrow> tool_call \<Rightarrow> string \<Rightarrow> tool_result" where
  "mcp_failed x call category =
     \<lparr>tr_CallID = tc_ID call, tr_Name = tc_Name call, tr_Content = mcpFailureToolResult x category, tr_IsError = True\<rparr>"

text \<open>The decoder reads one JSON object and nothing after it.\<close>

definition decodeMCPArguments :: "mcp_context \<Rightarrow> string \<Rightarrow> any_map \<times> string" where
  "decodeMCPArguments x raw =
     (if trim_space raw = [] then ([], ''arguments_invalid'')
      else (case mx_decode x (trim_space raw) of None \<Rightarrow> ([], ''arguments_invalid'') | Some m \<Rightarrow> (m, [])))"

section \<open>The batch\<close>

type_synonym mcp_state = "mcp_runtime \<times> exec_effect list"

record mcp_prepared =
  mp_index :: nat
  mp_call :: tool_call
  mp_tool :: mcp_tool
  mp_arguments :: any_map
  mp_validationFail :: string
  mp_number :: int

definition search_items :: "mcp_tool list \<Rightarrow> any_value list" where
  "search_items tools =
     map (\<lambda>t. AnyMap [(''short_name'', AnyString (mt_Alias t)), (''name'', AnyString (mt_Name t)),
                      (''title'', AnyString (mt_Title t)), (''description'', AnyString (mt_Description t)),
                      (''classification'', AnyString (mt_Classification t))]) tools"

definition executeSearch ::
  "mcp_context \<Rightarrow> mcp_tick \<Rightarrow> tool_call \<Rightarrow> any_map \<Rightarrow> string \<Rightarrow> mcp_runtime
   \<Rightarrow> (tool_result \<times> mcp_failure option) \<times> mcp_runtime" where
  "executeSearch x tick call arguments validationFailure rt =
     (let empty = \<lparr>tr_CallID = [], tr_Name = [], tr_Content = [], tr_IsError = False\<rparr>;
          query = join_with '' '' (go_fields (case map_of arguments ''query'' of Some (AnyString s) \<Rightarrow> s | _ \<Rightarrow> []))
      in if \<not> mk_Begin tick then ((empty, Some ([], [CtxCanceled])), rt)
         else if validationFailure \<noteq> [] \<or> query = [] \<or> length query > maxMCPToolSearchQuery
         then ((mcp_failed x call ''arguments_invalid'', None), rt)
         else
           let limit = max (mc_MaxExposedTools (mx_config x) - 1) 1;
               tools = take (nat limit) (SearchTools (mx_env x) (mx_config x) (mr_Run rt) query);
               rt1 = setVisible (tools, True) (rt\<lparr>mr_query := query\<rparr>)
           in (case mx_encode x (AnyMap [(''untrustedMcpToolSearchResult'', AnyBool True),
                                         (''tools'', AnyList (search_items tools))]) of
                 None \<Rightarrow> ((empty, Some (''MCP_TOOL_FAILED'', [])), rt1)
               | Some encoded \<Rightarrow>
                   if \<not> mk_End tick then ((empty, Some ([], [CtxCanceled])), rt1)
                   else ((\<lparr>tr_CallID = tc_ID call, tr_Name = tc_Name call, tr_Content = encoded, tr_IsError = False\<rparr>,
                          None), rt1)))"

definition executeRemote ::
  "mcp_context \<Rightarrow> mcp_tick \<Rightarrow> int \<Rightarrow> mcp_prepared \<Rightarrow> mcp_runtime
   \<Rightarrow> (tool_result \<times> mcp_failure option) \<times> exec_effect list" where
  "executeRemote x tick round p rt =
     (case Execute (mx_env x) (mx_config x) (mx_world x) (mk_Exec tick) (mr_userID rt) (mr_Run rt)
             \<lparr>in_Alias = tc_Name (mp_call p), in_Arguments = mp_arguments p, in_ValidationFailure = mp_validationFail p,
              in_Round = round, in_Call = mp_number p\<rparr> of
        ((result, err), effects) \<Rightarrow>
          let call = mp_call p;
              base = \<lparr>tr_CallID = tc_ID call, tr_Name = tc_Name call, tr_Content = [], tr_IsError = False\<rparr>;
              provider =
                (if rr_ModelContent result \<noteq> []
                 then base\<lparr>tr_Content := rr_ModelContent result, tr_IsError := rr_IsError result\<rparr>
                 else (case err of
                         None \<Rightarrow> base
                       | Some e \<Rightarrow> mcp_failed x call (nonEmptyMCPFailure (rr_FailureCategory result) e)));
              fatal = fatalMCPExecutionError (mk_CtxDone tick) err;
              timed = (fatal = None \<and> (case err of None \<Rightarrow> False | Some e \<Rightarrow> errors_is e CtxDeadlineExceeded))
          in ((if timed then mcp_failed x call ''tool_timeout'' else provider, fatal), effects))"

record mcp_progress =
  mg_results :: "(nat, tool_result) gomap"
  mg_budget :: bool
  mg_prepared :: "mcp_prepared list"
  mg_fatal :: "mcp_failure option"
  mg_runtime :: mcp_runtime
  mg_effects :: "exec_effect list"

fun prepare_mcp ::
  "mcp_context \<Rightarrow> (nat \<Rightarrow> mcp_tick) \<Rightarrow> bool \<Rightarrow> nat \<Rightarrow> tool_call list \<Rightarrow> mcp_progress \<Rightarrow> mcp_progress" where
  "prepare_mcp x ticks completionDriven i [] g = g"
| "prepare_mcp x ticks completionDriven i (call # calls) g =
     (let short_name = trim_space (tc_Name call); rt = mg_runtime g
      in if \<not> mcp_handles rt short_name then prepare_mcp x ticks completionDriven (i + 1) calls g
         else if \<not> completionDriven \<and> mr_calls rt \<ge> mc_MaxCallsPerRun (mx_config x)
         then prepare_mcp x ticks completionDriven (i + 1) calls
                (g\<lparr>mg_results := AList.update i (mcp_failed x call ''budget_exhausted'') (mg_results g), mg_budget := True\<rparr>)
         else
           let rt1 = rt\<lparr>mr_calls := mr_calls rt + 1\<rparr>
           in (case decodeMCPArguments x (tc_Arguments call) of
                 (arguments, failure) \<Rightarrow>
                   if short_name = tool_search_alias
                   then
                     (case executeSearch x (ticks i) call arguments failure rt1 of
                        ((result, err), rt2) \<Rightarrow>
                          let g1 = g\<lparr>mg_results := AList.update i result (mg_results g), mg_runtime := rt2\<rparr>
                          in if err \<noteq> None then g1\<lparr>mg_fatal := err\<rparr>
                             else prepare_mcp x ticks completionDriven (i + 1) calls g1)
                   else
                     (case map_of (mr_visible rt1) short_name of
                        None \<Rightarrow> prepare_mcp x ticks completionDriven (i + 1) calls (g\<lparr>mg_runtime := rt1\<rparr>)
                      | Some tool \<Rightarrow>
                          prepare_mcp x ticks completionDriven (i + 1) calls
                            (g\<lparr>mg_runtime := rt1,
                               mg_prepared := mg_prepared g @
                                 [\<lparr>mp_index = i, mp_call = call, mp_tool = tool, mp_arguments = arguments,
                                   mp_validationFail = failure, mp_number = mr_calls rt1\<rparr>]\<rparr>))))"

definition complete_mcp ::
  "mcp_context \<Rightarrow> (nat \<Rightarrow> mcp_tick) \<Rightarrow> int \<Rightarrow> mcp_prepared \<Rightarrow> mcp_progress \<Rightarrow> mcp_progress" where
  "complete_mcp x ticks round p g =
     (case executeRemote x (ticks (mp_index p)) round p (mg_runtime g) of
        ((result, err), effects) \<Rightarrow>
          g\<lparr>mg_results := AList.update (mp_index p) result (mg_results g),
            mg_fatal := (if mg_fatal g = None then err else mg_fatal g),
            mg_effects := mg_effects g @ effects\<rparr>)"

definition mcp_group ::
  "mcp_context \<Rightarrow> (nat \<Rightarrow> mcp_tick) \<Rightarrow> (nat \<Rightarrow> nat) \<Rightarrow> int \<Rightarrow> mcp_prepared list \<Rightarrow> mcp_progress \<Rightarrow> mcp_progress \<times> bool" where
  "mcp_group x ticks rank round ps g =
     (let g' = fold (complete_mcp x ticks round) (sort_key (\<lambda>p. rank (mp_index p)) ps) g
      in (g', mg_fatal g' = None))"

definition executeMCPBatch ::
  "mcp_context \<Rightarrow> (nat \<Rightarrow> mcp_tick) \<Rightarrow> (nat \<Rightarrow> nat) \<Rightarrow> int \<Rightarrow> bool \<Rightarrow> tool_call list \<Rightarrow> mcp_state
   \<Rightarrow> (batch_run \<times> mcp_failure option) \<times> mcp_state" where
  "executeMCPBatch x ticks rank round completionDriven calls st =
     (case st of (rt, log) \<Rightarrow>
        if \<not> mcp_enabled rt then ((\<lparr>br_results = [], br_budget = False\<rparr>, None), st)
        else
          let g0 = prepare_mcp x ticks completionDriven 0 calls
                     \<lparr>mg_results = [], mg_budget = False, mg_prepared = [], mg_fatal = None, mg_runtime = rt, mg_effects = log\<rparr>;
              g = (if mg_fatal g0 \<noteq> None then g0
                   else run_groups (\<lambda>p. mt_Classification (mp_tool p) = ''read'') (mcp_group x ticks rank round) (mg_prepared g0) g0)
          in ((\<lparr>br_results = mg_results g, br_budget = mg_budget g\<rparr>, mg_fatal g), mg_runtime g, mg_effects g))"


section \<open>The window of visible tools\<close>

text \<open>
  Tools of a run have aliases; the runtime shows tools of its run, under their aliases, and with the
  search tool no more than the limit.
\<close>

definition aliased :: "prepared_run \<Rightarrow> bool" where
  "aliased run \<longleftrightarrow> (\<forall>t \<in> snd ` set (pr_aliases run). mt_Alias t \<noteq> [])"

definition window_ok :: "mcp_context \<Rightarrow> mcp_runtime \<Rightarrow> bool" where
  "window_ok x rt \<longleftrightarrow>
     aliased (mr_Run rt) \<and> keys_distinct (mr_visible rt) \<and>
     (\<forall>(a, t) \<in> set (mr_visible rt). a = mt_Alias t \<and> t \<in> snd ` set (pr_aliases (mr_Run rt))) \<and>
     int (length (mr_visible rt)) + (if mr_searchRequired rt then 1 else 0) \<le> mc_MaxExposedTools (mx_config x)"

lemma shown_fold:
  fixes ts :: "mcp_tool list" and m0 :: "(string, mcp_tool) gomap"
  shows "keys_distinct m0 \<Longrightarrow> \<forall>(a, t) \<in> set m0. a = mt_Alias t \<and> t \<in> T \<Longrightarrow> set ts \<subseteq> T \<Longrightarrow>
    m = fold (\<lambda>t m. AList.update (mt_Alias t) t m) ts m0 \<Longrightarrow>
    keys_distinct m \<and> (\<forall>(a, t) \<in> set m. a = mt_Alias t \<and> t \<in> T) \<and> length m \<le> length m0 + length ts"
proof (induction ts arbitrary: m0)
  case (Cons t ts)
  let ?m1 = "AList.update (mt_Alias t) t m0"
  have "\<forall>(a, t) \<in> set ?m1. a = mt_Alias t \<and> t \<in> T"
  proof clarify
    fix a u
    assume "(a, u) \<in> set ?m1"
    with set_update_subset [of "mt_Alias t" t m0] have "(a, u) = (mt_Alias t, t) \<or> (a, u) \<in> set m0" by blast
    with Cons.prems(2,3) show "a = mt_Alias u \<and> u \<in> T" by auto
  qed
  from Cons.IH [OF _ this] Cons.prems(1,3,4)
  have "keys_distinct m \<and> (\<forall>(a, t) \<in> set m. a = mt_Alias t \<and> t \<in> T) \<and> length m \<le> length ?m1 + length ts"
    by simp
  moreover have "length ?m1 \<le> length m0 + 1"
    by (simp add: gomap_length_update split: option.split)
  ultimately show ?case by simp
qed simp

lemma setVisible_window:
  assumes "aliased (mr_Run rt)" "set (fst shown) \<subseteq> snd ` set (pr_aliases (mr_Run rt))"
    "exposed shown \<le> mc_MaxExposedTools (mx_config x)"
  shows "window_ok x (setVisible shown rt)"
proof -
  note f = shown_fold [OF _ _ _ refl, of "[]" "snd ` set (pr_aliases (mr_Run rt))" "fst shown"]
  show ?thesis
    using f assms by (auto simp: window_ok_def setVisible_def exposed_def)
qed

lemma set_ranked: "t \<in> set (rankTools env tools query) \<longleftrightarrow> t \<in> set tools"
  by simp

lemma ToolsForProvider_from: "set (fst (ToolsForProvider env c run query)) \<subseteq> snd ` set (pr_aliases run)"
  by (auto simp: ToolsForProvider_def Let_def dest: in_set_takeD)

lemma SearchTools_from: "set (SearchTools env c run query) \<subseteq> snd ` set (pr_aliases run)"
  by (auto simp: SearchTools_def Let_def dest: in_set_takeD)

lemma new_window:
  "aliased run \<Longrightarrow> 2 \<le> mc_MaxExposedTools (mx_config x) \<Longrightarrow> newMCPToolRuntime x run userID query = Some rt \<Longrightarrow> window_ok x rt"
  by (auto simp: newMCPToolRuntime_def Let_def split: if_splits
      intro!: setVisible_window exposure_bounded dest: ToolsForProvider_from [THEN subsetD])

lemma executeSearch_window:
  assumes "window_ok x rt" "2 \<le> mc_MaxExposedTools (mx_config x)"
  shows "window_ok x (snd (executeSearch x tick call arguments failure rt))"
proof -
  have "window_ok x (setVisible (take (nat (max (mc_MaxExposedTools (mx_config x) - 1) 1))
      (SearchTools (mx_env x) (mx_config x) (mr_Run rt) query), True) (rt\<lparr>mr_query := query\<rparr>))" for query
  proof (rule setVisible_window)
    show "set (fst (take n (SearchTools (mx_env x) (mx_config x) (mr_Run rt) query), True))
        \<subseteq> snd ` set (pr_aliases (mr_Run (rt\<lparr>mr_query := query\<rparr>)))" for n
      using SearchTools_from [of "mx_env x" "mx_config x" "mr_Run rt" query] by (auto dest: in_set_takeD)
  qed (use assms in \<open>auto simp: window_ok_def exposed_def\<close>)
  with assms(1) show ?thesis
    by (simp add: executeSearch_def Let_def split: option.split)
qed

lemma window_calls [simp]: "window_ok x (rt\<lparr>mr_calls := n\<rparr>) = window_ok x rt"
  by (simp add: window_ok_def)

lemma handles_named: "window_ok x rt \<Longrightarrow> mcp_handles rt name \<Longrightarrow> trim_space name \<noteq> []"
  by (force simp: mcp_handles_def window_ok_def aliased_def tool_search_alias_def Let_def
      split: if_splits dest: map_of_SomeD)

section \<open>The batch keeps the contract of a backend\<close>

definition named_call :: "string \<Rightarrow> bool" where
  "named_call name \<longleftrightarrow> trim_space name \<noteq> []"

definition mcp_prepared_ok :: "tool_call list \<Rightarrow> mcp_prepared \<Rightarrow> bool" where
  "mcp_prepared_ok calls p \<longleftrightarrow> handled_call named_call calls (mp_index p) \<and> mp_call p = calls ! mp_index p"

definition mcp_progress_ok :: "mcp_context \<Rightarrow> tool_call list \<Rightarrow> mcp_progress \<Rightarrow> bool" where
  "mcp_progress_ok x calls g \<longleftrightarrow>
     results_ok named_call calls (mg_fatal g \<noteq> None) (mg_results g) \<and>
     list_all (mcp_prepared_ok calls) (mg_prepared g) \<and> window_ok x (mg_runtime g)"

lemma mcp_failed_id [simp]: "tr_CallID (mcp_failed x call category) = tc_ID call"
  by (simp add: mcp_failed_def)

lemma executeSearch_owned:
  "executeSearch x tick call arguments failure rt = ((result, None), rt') \<Longrightarrow> tr_CallID result = tc_ID call"
  by (auto simp: executeSearch_def Let_def split: if_splits option.splits)

lemma executeRemote_owned:
  "executeRemote x tick round p rt = ((result, err), effects) \<Longrightarrow> tr_CallID result = tc_ID (mp_call p)"
  by (auto simp: executeRemote_def Let_def split: if_splits option.splits prod.splits)

lemma prepare_mcp_ok:
  assumes "2 \<le> mc_MaxExposedTools (mx_config x)"
  shows "drop i calls0 = calls \<Longrightarrow> mcp_progress_ok x calls0 g \<Longrightarrow> mg_fatal g = None \<Longrightarrow>
    mcp_progress_ok x calls0 (prepare_mcp x ticks cd i calls g)"
proof (induction calls arbitrary: i g)
  case (Cons call calls)
  note i = drop_Cons_step [OF Cons.prems(1)]
  let ?short_name = "trim_space (tc_Name call)" and ?rt = "mg_runtime g"
  let ?rt1 = "?rt\<lparr>mr_calls := mr_calls ?rt + 1\<rparr>"
  have ok: "results_ok named_call calls0 False (mg_results g)" "list_all (mcp_prepared_ok calls0) (mg_prepared g)" "window_ok x ?rt"
    using Cons.prems(2,3) by (simp_all add: mcp_progress_ok_def)
  show ?case
  proof (cases "mcp_handles ?rt ?short_name")
    case False
    then show ?thesis using Cons.IH [OF i(3) Cons.prems(2,3)] by (simp add: Let_def)
  next
    case True
    then have h: "handled_call named_call calls0 i"
      using handles_named [OF ok(3), of ?short_name] i by (simp add: handled_call_def named_call_def)
    show ?thesis
    proof (cases "\<not> cd \<and> mr_calls ?rt \<ge> mc_MaxCallsPerRun (mx_config x)")
      case b: True
      let ?g = "g\<lparr>mg_results := AList.update i (mcp_failed x call ''budget_exhausted'') (mg_results g), mg_budget := True\<rparr>"
      have "mcp_progress_ok x calls0 ?g"
        using ok Cons.prems(3) results_ok_update [OF ok(1) h, of False] i
        by (simp add: mcp_progress_ok_def)
      then show ?thesis using Cons.IH [OF i(3), of ?g] Cons.prems(3) True b by (simp add: Let_def)
    next
      case nb: False
      obtain arguments failure where dec: "decodeMCPArguments x (tc_Arguments call) = (arguments, failure)" by force
      show ?thesis
      proof (cases "?short_name = tool_search_alias")
        case search: True
        obtain result err rt2 where ex: "executeSearch x (ticks i) call arguments failure ?rt1 = ((result, err), rt2)"
          by (metis surj_pair)
        have rt2: "window_ok x rt2" using executeSearch_window [of x ?rt1 "ticks i" call arguments failure] ok(3) assms ex by simp
        let ?g = "g\<lparr>mg_results := AList.update i result (mg_results g), mg_runtime := rt2\<rparr>"
        have res: "results_ok named_call calls0 (err \<noteq> None) (AList.update i result (mg_results g))"
        proof (rule results_ok_update [OF ok(1) h])
          show "tr_CallID result = tc_ID (calls0 ! i)" if "\<not> err \<noteq> None"
          proof -
            have "err = None" using that by blast
            with executeSearch_owned [of x "ticks i" call arguments failure ?rt1 result rt2] ex i show ?thesis by simp
          qed
        qed blast
        show ?thesis
        proof (cases "err = None")
          case None: True
          then have "mcp_progress_ok x calls0 ?g" using ok res rt2 Cons.prems(3) by (simp add: mcp_progress_ok_def)
          with None show ?thesis using Cons.IH [OF i(3), of ?g] Cons.prems(3) True nb dec search ex by (cases cd) (simp_all add: Let_def)
        next
          case False
          have "mcp_progress_ok x calls0 (?g\<lparr>mg_fatal := err\<rparr>)" using ok res rt2 by (simp add: mcp_progress_ok_def)
          with False show ?thesis using True nb dec search ex by (cases cd) (simp_all add: Let_def)
        qed
      next
        case ns: False
        show ?thesis
        proof (cases "map_of (mr_visible ?rt1) ?short_name")
          case None
          have "mcp_progress_ok x calls0 (g\<lparr>mg_runtime := ?rt1\<rparr>)" using ok Cons.prems(3) by (simp add: mcp_progress_ok_def)
          then show ?thesis using Cons.IH [OF i(3), of "g\<lparr>mg_runtime := ?rt1\<rparr>"] Cons.prems(3) True nb dec ns None
            by (cases cd) (simp_all add: Let_def)
        next
          case (Some tool)
          let ?p = "\<lparr>mp_index = i, mp_call = call, mp_tool = tool, mp_arguments = arguments, mp_validationFail = failure,
            mp_number = mr_calls ?rt1\<rparr>"
          let ?g = "g\<lparr>mg_runtime := ?rt1, mg_prepared := mg_prepared g @ [?p]\<rparr>"
          have "mcp_progress_ok x calls0 ?g"
            using ok Cons.prems(3) h i by (simp add: mcp_progress_ok_def mcp_prepared_ok_def)
          then show ?thesis using Cons.IH [OF i(3), of ?g] Cons.prems(3) True nb dec ns Some
            by (cases cd) (simp_all add: Let_def)
        qed
      qed
    qed
  qed
qed simp

lemma complete_mcp_ok:
  assumes "mcp_prepared_ok calls p" "mcp_progress_ok x calls g"
  shows "mcp_progress_ok x calls (complete_mcp x ticks round p g)"
proof -
  obtain result err effects where ex: "executeRemote x (ticks (mp_index p)) round p (mg_runtime g) = ((result, err), effects)"
    by (metis surj_pair)
  have "results_ok named_call calls ((if mg_fatal g = None then err else mg_fatal g) \<noteq> None)
      (AList.update (mp_index p) result (mg_results g))"
    using assms executeRemote_owned [OF ex]
    by (intro results_ok_update [of named_call calls "mg_fatal g \<noteq> None"])
       (auto simp: mcp_progress_ok_def mcp_prepared_ok_def split: if_splits)
  then show ?thesis using assms by (simp add: complete_mcp_def ex mcp_progress_ok_def)
qed

lemma mcp_group_ok:
  assumes "mcp_progress_ok x calls g" "list_all (mcp_prepared_ok calls) ps"
  shows "mcp_progress_ok x calls (fst (mcp_group x ticks rank round ps g))"
  unfolding mcp_group_def Let_def fst_conv
  by (rule fold_invariant_in) (use assms in \<open>auto simp: list_all_iff intro: complete_mcp_ok\<close>)

lemma mcp_batch_ok:
  assumes "2 \<le> mc_MaxExposedTools (mx_config x)" "window_ok x (fst st)"
  shows "results_ok named_call calls (snd (fst (executeMCPBatch x ticks rank round cd calls st)) \<noteq> None)
      (br_results (fst (fst (executeMCPBatch x ticks rank round cd calls st)))) \<and>
    window_ok x (fst (snd (executeMCPBatch x ticks rank round cd calls st)))"
proof (cases st)
  case (Pair rt log)
  show ?thesis
  proof (cases "mcp_enabled rt")
    case True
    define g0 where "g0 = prepare_mcp x ticks cd 0 calls
      \<lparr>mg_results = [], mg_budget = False, mg_prepared = [], mg_fatal = None, mg_runtime = rt, mg_effects = log\<rparr>"
    have g0: "mcp_progress_ok x calls g0"
      unfolding g0_def by (rule prepare_mcp_ok [OF assms(1)]) (use assms(2) in \<open>simp_all add: mcp_progress_ok_def Pair\<close>)
    have "mcp_progress_ok x calls (run_groups (\<lambda>p. mt_Classification (mp_tool p) = ''read'') (mcp_group x ticks rank round) (mg_prepared g0) g0)"
    proof (rule run_groups_invariant [where P = "mcp_progress_ok x calls", OF g0])
      show "mcp_progress_ok x calls (fst (mcp_group x ticks rank round ps g))"
        if "mcp_progress_ok x calls g" "set ps \<subseteq> set (mg_prepared g0)" for ps g
        by (rule mcp_group_ok [OF that(1)]) (use that(2) g0 in \<open>auto simp: mcp_progress_ok_def list_all_iff\<close>)
    qed
    with g0 True show ?thesis
      by (cases "mg_fatal g0 = None")
         (simp_all add: executeMCPBatch_def Pair g0_def [symmetric] Let_def mcp_progress_ok_def del: split_paired_Ex not_None_eq)
  qed (use assms in \<open>simp add: executeMCPBatch_def Pair\<close>)
qed

text \<open>The configuration of the service always allows two tools to be shown.\<close>

interpretation mcp_backend: tool_backend "executeMCPBatch x ticks rank round cd"
    "\<lambda>st. 2 \<le> mc_MaxExposedTools (mx_config x) \<and> window_ok x (fst st)"
  for x ticks rank round cd
proof
  fix calls i r and st :: mcp_state
  let ?res = "executeMCPBatch x ticks rank round cd calls st"
  let ?inv = "\<lambda>st :: mcp_state. 2 \<le> mc_MaxExposedTools (mx_config x) \<and> window_ok x (fst st)"
  note ok = mcp_batch_ok [of x st calls ticks rank round cd, unfolded results_ok_def handled_call_def named_call_def]
  show "?inv (snd ?res)" if "?inv st" using that ok by blast
  show "keys_distinct (br_results (fst (fst ?res)))" if "?inv st" using ok that by blast
  show "i < length calls \<and> trim_space (tc_Name (calls ! i)) \<noteq> []" if "?inv st" "map_of (br_results (fst (fst ?res))) i = Some r"
    using ok that by blast
  show "tr_CallID r = tc_ID (calls ! i)" if "?inv st" "snd (fst ?res) = None" "map_of (br_results (fst (fst ?res))) i = Some r"
    using ok that by blast
qed


section \<open>What the provider is offered\<close>

definition keyed :: "prepared_run \<Rightarrow> bool" where
  "keyed run \<longleftrightarrow> keys_distinct (pr_aliases run) \<and> (\<forall>(a, t) \<in> set (pr_aliases run). a = mt_Alias t)"

lemma SearchTools_distinct:
  assumes "keyed run"
  shows "distinct (map mt_Alias (SearchTools env c run query))"
proof -
  have "map mt_Alias (map snd (pr_aliases run)) = map fst (pr_aliases run)"
    using assms by (auto simp: keyed_def)
  moreover have "distinct (map fst (pr_aliases run))"
    using assms by (simp add: keyed_def keys_distinct_def)
  ultimately have "distinct (map mt_Alias (map snd (pr_aliases run)))" by metis
  moreover have "mset (map mt_Alias (rankTools env (map snd (pr_aliases run)) query)) = mset (map mt_Alias (map snd (pr_aliases run)))"
    by (simp add: rankTools_def multiset.map_comp)
  ultimately have "distinct (map mt_Alias (rankTools env (map snd (pr_aliases run)) query))"
    by (metis mset_eq_imp_distinct_iff)
  then show ?thesis by (simp add: SearchTools_def Let_def take_map [symmetric])
qed

text \<open>
  Every visible tool is offered once, and nothing else but the search tool, in whatever order the
  map of visible tools is walked: at most as many tools as the configuration allows.
\<close>

lemma mcp_definitions_bounded:
  assumes "keyed (mr_Run rt)" "window_ok x rt"
  shows "int (length (mcp_definitions x rt)) \<le> mc_MaxExposedTools (mx_config x)"
proof -
  let ?ranked = "filter (\<lambda>t. map_of (mr_visible rt) (mt_Alias t) \<noteq> None)
         (SearchTools (mx_env x) (mx_config x) (mr_Run rt) (mr_query rt))"
  let ?left = "filter (\<lambda>(short_name, t). short_name \<notin> set (map mt_Alias ?ranked)) (mr_visible rt)"
  have d: "distinct (map mt_Alias ?ranked)"
    using SearchTools_distinct [OF assms(1)] by (simp add: distinct_map_filter)
  have "distinct (map fst ?left)"
    using assms(2) by (simp add: window_ok_def keys_distinct_def distinct_map_filter)
  with d have both: "distinct (map mt_Alias ?ranked @ map fst ?left)" by auto
  moreover have "set (map mt_Alias ?ranked @ map fst ?left) \<subseteq> set (map fst (mr_visible rt))"
    by (auto simp: map_of_eq_None_iff)
  ultimately have "card (set (map mt_Alias ?ranked @ map fst ?left)) \<le> card (set (map fst (mr_visible rt)))"
    by (intro card_mono) simp_all
  also have "\<dots> \<le> length (map fst (mr_visible rt))" by (rule card_length)
  finally have "length ?ranked + length ?left \<le> length (mr_visible rt)"
    using distinct_card [OF both] by simp
  with assms(2) show ?thesis
    by (auto simp: mcp_definitions_def Let_def window_ok_def)
qed

text \<open>
  A call whose name has space around a visible short_name is accepted by the batch, but the service looks
  the raw name up: it is not found, and this ends the turn as an authorisation failure.
\<close>

lemma padded_name_fatal:
  assumes "map_of (pr_aliases (mr_Run rt)) (tc_Name (mp_call p)) = None"
    and "service_available (mx_config x) (mx_world x) = None"
    and "rs_UserID (pr_Snapshot (mr_Run rt)) = mr_userID rt" "rs_RunID (pr_Snapshot (mr_Run rt)) \<noteq> []"
    and "1 \<le> round" "1 \<le> mp_number p"
  shows "snd (fst (executeRemote x tick round p rt)) = Some (''MCP_AUTHORIZATION_FAILED'', [McpToolNotFound])"
  using assms by (simp add: executeRemote_def Execute_def Let_def fatalMCPExecutionError_def errors_is_def)

end
