(* ===== verification/Web_Properties.thy ===== *)
theory Web_Properties
  imports Web_Evidence
begin

text \<open>
  Properties of the Web evidence of a turn: the tool results stay within the budget, and a marker
  never changes its meaning while further searches are merged.
\<close>

section \<open>Numbers and markers\<close>

lemma nat_digits_inj: "nat_digits m = nat_digits n \<Longrightarrow> m = n"
proof (induction m arbitrary: n rule: less_induct)
  case (less m)
  have shape: "nat_digits k = (if k < 10 then [] else nat_digits (k div 10)) @ [char_of (48 + k mod 10)]" for k
    by (subst nat_digits.simps) simp
  have "char_of (48 + m mod 10) = (char_of (48 + n mod 10) :: char)"
    and front: "(if m < 10 then [] else nat_digits (m div 10)) = (if n < 10 then [] else nat_digits (n div 10))"
    using less.prems shape [of m] shape [of n] by auto
  from this(1) have "of_char (char_of (48 + m mod 10) :: char) = (of_char (char_of (48 + n mod 10) :: char) :: nat)"
    by (rule arg_cong)
  then have "(48 + m mod 10) mod 256 = (48 + n mod 10) mod 256" by (simp only: of_char_of)
  moreover have "48 + k mod 10 < 256" for k :: nat by (rule order_less_trans [of _ 58]) simp_all
  ultimately have last: "m mod 10 = n mod 10" by (simp only: mod_less add_left_cancel)
  show ?case
  proof (cases "m < 10")
    case True
    then have "n < 10" using front nat_digits_nonempty [of "n div 10"] by (metis (full_types))
    with True last show ?thesis by simp
  next
    case False
    then have "\<not> n < 10" "nat_digits (m div 10) = nat_digits (n div 10)"
      using front nat_digits_nonempty by (auto split: if_splits)
    moreover have "m div 10 < m" using False by simp
    ultimately have "m div 10 = n div 10" using less.IH by blast
    with last show ?thesis by (metis div_mult_mod_eq)
  qed
qed

lemma web_marker_inj: "web_marker i = web_marker j \<longleftrightarrow> i = j"
  by (auto simp: web_marker_def itoa_def dest: nat_digits_inj)

section \<open>Truncation\<close>

lemma truncateWebUTF8_trimmed [simp]: "trim_space (truncateWebUTF8 s n) = truncateWebUTF8 s n"
  by (simp add: truncateWebUTF8_def Let_def)

lemma truncateWebUTF8_bound: "0 < n \<Longrightarrow> int (length (truncateWebUTF8 s n)) \<le> n"
proof -
  assume n: "0 < n"
  have "length (trim_space (shrink_right (take (nat n) v))) \<le> nat n" for v
    using length_trim_space_le [of "shrink_right (take (nat n) v)"] prefix_length_le [OF shrink_right_prefix [of "take (nat n) v"]]
    by simp
  then have "int (length (trim_space (shrink_right (take (nat n) v)))) \<le> n" for v
    using n by (metis int_nat_eq nat_int_comparison(3) less_imp_le)
  with n show ?thesis by (simp add: truncateWebUTF8_def Let_def)
qed

lemma truncateWebUTF8_fixed: "trim_space s = s \<Longrightarrow> int (length s) \<le> n \<Longrightarrow> truncateWebUTF8 s n = s"
  by (auto simp: truncateWebUTF8_def Let_def dest: order_trans)

lemma search_runes_fits:
  "estimateProviderTextTokens (runes_text (take low runes)) \<le> maxTokens \<Longrightarrow>
   estimateProviderTextTokens (runes_text (take (search_runes runes maxTokens low high) runes)) \<le> maxTokens"
proof (induction runes maxTokens low high rule: search_runes.induct)
  case (1 runes maxTokens low high)
  then show ?case by (subst search_runes.simps) (simp add: Let_def)
qed

text \<open>The search stays within the bounds it is given.\<close>

lemma search_runes_bounds: "low \<le> high \<Longrightarrow> low \<le> search_runes runes maxTokens low high \<and> search_runes runes maxTokens low high \<le> high"
proof (induction runes maxTokens low high rule: search_runes.induct)
  case (1 runes maxTokens low high)
  show ?case
  proof (cases "low < high")
    case True
    let ?mid = "low + (high - low + 1) div 2"
    have mid: "low \<le> ?mid" "?mid \<le> high" "low \<le> ?mid - 1" "?mid - 1 \<le> high" using True by auto
    show ?thesis using "1.IH"(1) [OF True refl _ mid(2)] "1.IH"(2) [OF True refl _ mid(3)] True mid
      by (subst (1 2) search_runes.simps) (auto simp: Let_def)
  next
    case False
    with "1.prems" have "search_runes runes maxTokens low high = low" by (subst search_runes.simps) simp
    with False "1.prems" show ?thesis by simp
  qed
qed

section \<open>Prepared results\<close>

text \<open>Sources that the byte bounds leave as they are.\<close>

fun fits :: "int \<Rightarrow> web_source list \<Rightarrow> bool" where
  "fits remaining [] = True"
| "fits remaining (s # ss) \<longleftrightarrow>
     0 < remaining \<and> ws_Content s \<noteq> [] \<and> trim_space (ws_Content s) = ws_Content s \<and>
     int (length (ws_Content s)) \<le> min maxWebSourceSnippetBytes remaining \<and>
     fits (remaining - int (length (ws_Content s))) ss"

definition content_bytes :: "web_source list \<Rightarrow> int" where
  "content_bytes ss = sum_list (map (\<lambda>s. int (length (ws_Content s))) ss)"

lemma bound_sources_fits: "fits remaining (bound_sources remaining ss)"
proof (induction remaining ss rule: bound_sources.induct)
  case (2 remaining source sources)
  then show ?case
    using truncateWebUTF8_bound [of "min maxWebSourceSnippetBytes remaining" "ws_Content source"]
    by (simp add: Let_def maxWebSourceSnippetBytes_def)
qed simp

lemma bound_sources_append:
  "fits remaining xs \<Longrightarrow> bound_sources remaining (xs @ ys) = xs @ bound_sources (remaining - content_bytes xs) ys"
  by (induction xs arbitrary: remaining) (simp_all add: content_bytes_def Let_def truncateWebUTF8_fixed diff_diff_eq)

lemma bound_sources_urls: "subseq (map ws_URL (bound_sources remaining ss)) (map ws_URL ss)"
  by (induction remaining ss rule: bound_sources.induct) (auto simp: Let_def)

lemma title_source_fields [simp]: "ws_URL (title_source s) = ws_URL s" "ws_Content (title_source s) = ws_Content s"
  by (simp_all add: title_source_def Let_def)

lemma fits_title [simp]: "fits remaining (map title_source ss) = fits remaining ss"
  by (induction ss arbitrary: remaining) simp_all

lemma fits_content: "fits remaining ss \<Longrightarrow> s \<in> set ss \<Longrightarrow>
  ws_Content s \<noteq> [] \<and> trim_space (ws_Content s) = ws_Content s \<and> int (length (ws_Content s)) \<le> maxWebSourceSnippetBytes"
  by (induction ss arbitrary: remaining) auto

definition stable_url :: "web_env \<Rightarrow> web_source \<Rightarrow> bool" where
  "stable_url env s \<longleftrightarrow> ws_URL s \<noteq> [] \<and> normalizeResultURL env (ws_URL s) = ws_URL s"

definition prepared_sources :: "web_env \<Rightarrow> web_source list \<Rightarrow> bool" where
  "prepared_sources env ss \<longleftrightarrow>
     fits maxWebContextBytes ss \<and> distinct (map ws_URL ss) \<and> length ss \<le> MaxResults \<and> list_all (stable_url env) ss"

text \<open>The hypothesis on the URLs of a search: normalising one twice is normalising it once.\<close>

definition urls_settled :: "web_env \<Rightarrow> web_result \<Rightarrow> bool" where
  "urls_settled env r \<longleftrightarrow> list_all (\<lambda>s. normalizeResultURL env (normalizeResultURL env (ws_URL s)) = normalizeResultURL env (ws_URL s))
     (wr_Sources r)"

lemma keep_sources_extends: "\<exists>zs. keep_sources env limit ss kept = kept @ zs"
proof (induction env limit ss kept rule: keep_sources.induct)
  case (2 env limit source sources kept)
  then show ?case by (auto simp: Let_def)
qed simp

lemma keep_sources_ok:
  "distinct (map ws_URL kept) \<Longrightarrow> length kept \<le> limit \<Longrightarrow> list_all (stable_url env) kept \<Longrightarrow>
   \<forall>s \<in> set ss. normalizeResultURL env (normalizeResultURL env (ws_URL s)) = normalizeResultURL env (ws_URL s) \<Longrightarrow>
   distinct (map ws_URL (keep_sources env limit ss kept)) \<and> length (keep_sources env limit ss kept) \<le> limit \<and>
   list_all (stable_url env) (keep_sources env limit ss kept)"
proof (induction env limit ss kept rule: keep_sources.induct)
  case (2 env limit source sources kept)
  let ?s = "normalize_source env source"
  show ?case
  proof (cases "length kept \<ge> limit \<or> ws_URL ?s = [] \<or> ws_Content ?s = [] \<or> ws_URL ?s \<in> ws_URL ` set kept")
    case True
    then show ?thesis using "2.IH"(1) [OF _ refl] "2.prems" by (cases "length kept \<ge> limit") (simp_all add: Let_def)
  next
    case False
    have "stable_url env (title_source ?s)"
      using False "2.prems"(4) by (simp add: stable_url_def normalize_source_def)
    then show ?thesis
      using "2.IH"(2) [OF _ refl] False "2.prems" by (auto simp: Let_def)
  qed
qed simp

lemma normalize_source_fixed:
  "stable_url env s \<Longrightarrow> trim_space (ws_Content s) = ws_Content s \<Longrightarrow>
   int (length (ws_Content s)) \<le> maxWebSourceSnippetBytes \<Longrightarrow> normalize_source env s = s"
  by (simp add: normalize_source_def stable_url_def truncateUTF8_def web_limits)

lemma keep_sources_prepared:
  assumes "\<And>s. s \<in> set xs \<Longrightarrow> normalize_source env s = s \<and> ws_URL s \<noteq> [] \<and> ws_Content s \<noteq> []"
    and "distinct (map ws_URL (kept @ xs))" and "length kept + length xs \<le> limit"
  shows "keep_sources env limit (xs @ ys) kept = keep_sources env limit ys (kept @ map title_source xs)"
  using assms
proof (induction xs arbitrary: kept)
  case (Cons s xs)
  have s: "normalize_source env s = s" "ws_URL s \<noteq> []" "ws_Content s \<noteq> []" using Cons.prems(1) by simp_all
  have "ws_URL s \<notin> ws_URL ` set kept" "\<not> limit \<le> length kept" using Cons.prems(2,3) by auto
  with s have "keep_sources env limit ((s # xs) @ ys) kept = keep_sources env limit (xs @ ys) (kept @ [title_source s])"
    by (simp add: Let_def)
  also have "\<dots> = keep_sources env limit ys ((kept @ [title_source s]) @ map title_source xs)"
    by (rule Cons.IH) (use Cons.prems in auto)
  finally show ?case by simp
qed simp

lemma NormalizeResult_sources: "wr_Sources (NormalizeResult env r (int MaxResults)) = keep_sources env MaxResults (wr_Sources r) []"
  by (simp add: NormalizeResult_def normalizeResult_def MaxResults_def)

lemma prepare_sources: "wr_Sources (fst (prepareWebSearchResult env r)) = bound_sources maxWebContextBytes (keep_sources env MaxResults (wr_Sources r) [])"
  by (simp add: prepareWebSearchResult_def Let_def NormalizeResult_sources)

lemma prepare_citations: "snd (prepareWebSearchResult env r) = map (cite_source env) (enumerate 0 (wr_Sources (fst (prepareWebSearchResult env r))))"
  by (simp add: prepareWebSearchResult_def Let_def)

lemma prepared_prepare: "urls_settled env r \<Longrightarrow> prepared_sources env (wr_Sources (fst (prepareWebSearchResult env r)))"
proof -
  assume "urls_settled env r"
  then have k: "distinct (map ws_URL (keep_sources env MaxResults (wr_Sources r) []))"
      "length (keep_sources env MaxResults (wr_Sources r) []) \<le> MaxResults"
      "list_all (stable_url env) (keep_sources env MaxResults (wr_Sources r) [])"
    using keep_sources_ok [of "[]" MaxResults env "wr_Sources r"] by (simp_all add: urls_settled_def list_all_iff)
  let ?ss = "bound_sources maxWebContextBytes (keep_sources env MaxResults (wr_Sources r) [])"
  have sub: "subseq (map ws_URL ?ss) (map ws_URL (keep_sources env MaxResults (wr_Sources r) []))" by (rule bound_sources_urls)
  have "distinct (map ws_URL ?ss)" using sub k(1) by (metis distinct_nthsI subseq_conv_nths)
  moreover have "length ?ss \<le> MaxResults" using list_emb_length [OF sub] k(2) by simp
  moreover have "set (map ws_URL ?ss) \<subseteq> set (map ws_URL (keep_sources env MaxResults (wr_Sources r) []))"
    using sub by (metis set_nths_subset subseq_conv_nths)
  then have "list_all (stable_url env) ?ss" using k(3) by (fastforce simp: list_all_iff stable_url_def)
  ultimately show ?thesis by (simp add: prepare_sources prepared_sources_def bound_sources_fits)
qed

text \<open>Merging keeps the sources that are there, in their places.\<close>

lemma merge_keeps:
  assumes "prepared_sources env (wr_Sources current)"
  shows "\<exists>zs. wr_Sources (mergeWebSearchResults env current incoming) = map title_source (wr_Sources current) @ zs"
proof -
  let ?xs = "wr_Sources current"
  have xs: "normalize_source env s = s \<and> ws_URL s \<noteq> [] \<and> ws_Content s \<noteq> []" if "s \<in> set ?xs" for s
    using that assms fits_content [of maxWebContextBytes ?xs s] normalize_source_fixed [of env s]
    by (auto simp: prepared_sources_def list_all_iff stable_url_def)
  have "keep_sources env MaxResults (?xs @ wr_Sources incoming) [] = keep_sources env MaxResults (wr_Sources incoming) (map title_source ?xs)"
    using keep_sources_prepared [of ?xs env "[]" MaxResults] xs assms by (simp add: prepared_sources_def)
  moreover obtain zs where "keep_sources env MaxResults (wr_Sources incoming) (map title_source ?xs) = map title_source ?xs @ zs"
    using keep_sources_extends by blast
  ultimately have "wr_Sources (mergeWebSearchResults env current incoming) = bound_sources maxWebContextBytes (map title_source ?xs @ zs)"
    by (simp add: mergeWebSearchResults_def prepare_sources)
  also have "\<dots> = map title_source ?xs @ bound_sources (maxWebContextBytes - content_bytes (map title_source ?xs)) zs"
    by (rule bound_sources_append) (use assms in \<open>simp add: prepared_sources_def\<close>)
  finally show ?thesis by blast
qed

lemma prepare_prepared:
  "prepared_sources env (wr_Sources r) \<Longrightarrow> wr_Sources (fst (prepareWebSearchResult env r)) = map title_source (wr_Sources r)"
proof -
  assume p: "prepared_sources env (wr_Sources r)"
  have "normalize_source env s = s \<and> ws_URL s \<noteq> [] \<and> ws_Content s \<noteq> []" if "s \<in> set (wr_Sources r)" for s
    using that p fits_content [of maxWebContextBytes "wr_Sources r" s] normalize_source_fixed [of env s]
    by (auto simp: prepared_sources_def list_all_iff stable_url_def)
  then have "keep_sources env MaxResults (wr_Sources r) [] = map title_source (wr_Sources r)"
    using keep_sources_prepared [of "wr_Sources r" env "[]" MaxResults "[]"] p by (simp add: prepared_sources_def)
  then show ?thesis
    using bound_sources_append [of maxWebContextBytes "map title_source (wr_Sources r)" "[]"] p
    by (simp add: prepare_sources prepared_sources_def)
qed

lemma fit_sources_urls: "subseq (map ws_URL (fit_sources remaining ss)) (map ws_URL ss)"
  by (induction remaining ss rule: fit_sources.induct) (auto simp: Let_def)

lemma settled_stable: "list_all (stable_url env) (wr_Sources r) \<Longrightarrow> urls_settled env r"
  by (auto simp: urls_settled_def stable_url_def list_all_iff)

lemma budget_settled:
  "urls_settled env r \<Longrightarrow> urls_settled env (fst (prepareWebSearchResultForTokenBudget env r n))"
proof -
  assume "urls_settled env r"
  then have "list_all (stable_url env) (wr_Sources (fst (prepareWebSearchResult env r)))" (is "list_all _ ?ss")
    using prepared_prepare by (simp add: prepared_sources_def)
  moreover have "set (map ws_URL (fit_sources k ?ss)) \<subseteq> set (map ws_URL ?ss)" for k
    using fit_sources_urls by (metis set_nths_subset subseq_conv_nths)
  ultimately have "list_all (stable_url env) (fit_sources k ?ss)" for k
    by (fastforce simp: list_all_iff stable_url_def)
  then show ?thesis
    by (intro settled_stable) (simp add: prepareWebSearchResultForTokenBudget_def Let_def)
qed

section \<open>A search of a turn\<close>

text \<open>The budget is kept, and what is charged is the size of the text that the model gets.\<close>

lemma web_result_tokens:
  "web_result_loop env previous incoming maxTokens effective = (bounded, current, content, used) \<Longrightarrow>
   0 \<le> used \<and> used \<le> max 0 maxTokens \<and> (used \<noteq> 0 \<longrightarrow> used = estimateProviderTextTokens content)"
proof (induction env previous incoming maxTokens effective rule: web_result_loop.induct)
  case (1 env previous incoming maxTokens effective)
  then show ?case
    by (subst (asm) (2) web_result_loop.simps) (auto simp: Let_def split: if_splits)
qed

lemma web_result_current:
  "fst (snd (web_result_loop env previous incoming maxTokens effective)) = previous \<or>
   (\<exists>n. fst (snd (web_result_loop env previous incoming maxTokens effective)) =
        mergeWebSearchResults env previous (fst (prepareWebSearchResultForTokenBudget env incoming n)))"
proof (induction env previous incoming maxTokens effective rule: web_result_loop.induct)
  case (1 env previous incoming maxTokens effective)
  show ?case
  proof (cases "effective \<le> webContextEnvelopeTokens")
    case True
    then show ?thesis by (subst (1 2) web_result_loop.simps) simp
  next
    case False
    note IH = "1.IH" [OF False refl refl refl refl]
    show ?thesis
      using IH False by (subst (1 2) web_result_loop.simps) (auto simp: Let_def)
  qed
qed

text \<open>The searches of a turn, each with the budget it finds.\<close>

definition web_step :: "web_env \<Rightarrow> web_result \<times> int \<Rightarrow> web_result \<Rightarrow> web_result" where
  "web_step env search cumulative =
     fst (snd (boundedWebSearchSuccessToolResult env cumulative (fst search) (snd search)))"

definition web_turn :: "web_env \<Rightarrow> (web_result \<times> int) list \<Rightarrow> web_result \<Rightarrow> web_result" where
  "web_turn env searches cumulative = fold (web_step env) searches cumulative"

definition extends_sources :: "web_source list \<Rightarrow> web_source list \<Rightarrow> bool" where
  "extends_sources ss ts \<longleftrightarrow> prefix (map (\<lambda>s. (ws_URL s, ws_Content s)) ss) (map (\<lambda>s. (ws_URL s, ws_Content s)) ts)"

lemma extends_refl [simp]: "extends_sources ss ss"
  by (simp add: extends_sources_def)

lemma extends_trans: "extends_sources ss ts \<Longrightarrow> extends_sources ts us \<Longrightarrow> extends_sources ss us"
  unfolding extends_sources_def by (rule prefix_order.trans)

lemma extends_title: "extends_sources ss (map title_source ss @ zs)"
  by (simp add: extends_sources_def comp_def)

lemma web_step_extends:
  assumes "prepared_sources env (wr_Sources cumulative)" "urls_settled env (fst search)"
  shows "prepared_sources env (wr_Sources (web_step env search cumulative)) \<and>
    extends_sources (wr_Sources cumulative) (wr_Sources (web_step env search cumulative))"
proof -
  consider "web_step env search cumulative = cumulative"
    | n where "web_step env search cumulative =
        mergeWebSearchResults env cumulative (fst (prepareWebSearchResultForTokenBudget env (fst search) n))"
    using web_result_current unfolding web_step_def boundedWebSearchSuccessToolResult_def by blast
  then show ?thesis
  proof cases
    case 2
    let ?b = "fst (prepareWebSearchResultForTokenBudget env (fst search) n)"
    have "urls_settled env \<lparr>wr_Sources = wr_Sources cumulative @ wr_Sources ?b, wr_Images = wr_Images cumulative @ wr_Images ?b\<rparr>"
      using budget_settled [OF assms(2), of n] assms(1)
      by (auto simp: urls_settled_def prepared_sources_def stable_url_def list_all_iff)
    from prepared_prepare [OF this] have "prepared_sources env (wr_Sources (web_step env search cumulative))"
      by (simp add: 2 mergeWebSearchResults_def)
    moreover obtain zs where "wr_Sources (mergeWebSearchResults env cumulative ?b) = map title_source (wr_Sources cumulative) @ zs"
      using merge_keeps [OF assms(1)] by blast
    ultimately show ?thesis by (simp add: 2 extends_title)
  qed (simp add: assms)
qed

lemma web_turn_extends:
  "prepared_sources env (wr_Sources cumulative) \<Longrightarrow> \<forall>p \<in> set searches. urls_settled env (fst p) \<Longrightarrow>
   prepared_sources env (wr_Sources (web_turn env searches cumulative)) \<and>
   extends_sources (wr_Sources cumulative) (wr_Sources (web_turn env searches cumulative))"
proof (induction searches arbitrary: cumulative)
  case (Cons p searches)
  then show ?case
    using web_step_extends [of env cumulative p] extends_trans by (fastforce simp: web_turn_def)
qed (simp add: web_turn_def)

section \<open>Markers keep their meaning\<close>

text \<open>What a citation says of a source; the title may be shortened when it stands for a long URL.\<close>

definition cite_key :: "web_citation \<Rightarrow> string \<times> string \<times> string \<times> string" where
  "cite_key c = (wc_ID c, wc_Marker c, wc_URL c, wc_Snippet c)"

definition key_of :: "web_env \<Rightarrow> nat \<times> string \<times> string \<Rightarrow> string \<times> string \<times> string \<times> string" where
  "key_of env p = (case p of (index, url, content) \<Rightarrow> (webCitationID env url, web_marker (index + 1), url, content))"

lemma cite_keys:
  "prepared_sources env (wr_Sources r) \<Longrightarrow>
   map cite_key (snd (prepareWebSearchResult env r)) =
   map (key_of env) (enumerate 0 (map (\<lambda>s. (ws_URL s, ws_Content s)) (wr_Sources r)))"
  by (rule nth_equalityI)
     (simp_all add: prepare_citations prepare_prepared cite_key_def cite_source_def key_of_def nth_enumerate_eq)

lemma prefix_enumerate: "prefix xs ys \<Longrightarrow> prefix (enumerate n xs) (enumerate n ys)"
  by (auto simp: prefix_def enumerate_append_eq)

lemma prepared_markers:
  assumes "prepared_sources env (wr_Sources r)"
  shows "map wc_Marker (snd (prepareWebSearchResult env r)) = map web_marker [1..<length (wr_Sources r) + 1]"
    and "distinct (map wc_URL (snd (prepareWebSearchResult env r)))"
proof -
  show "map wc_Marker (snd (prepareWebSearchResult env r)) = map web_marker [1..<length (wr_Sources r) + 1]"
    by (rule nth_equalityI)
       (simp_all add: prepare_citations prepare_prepared [OF assms] cite_source_def nth_enumerate_eq del: upt_Suc)
  have "map wc_URL (snd (prepareWebSearchResult env r)) = map ws_URL (wr_Sources r)"
    by (rule nth_equalityI)
       (simp_all add: prepare_citations prepare_prepared [OF assms] cite_source_def nth_enumerate_eq)
  then show "distinct (map wc_URL (snd (prepareWebSearchResult env r)))"
    using assms by (simp add: prepared_sources_def)
qed

text \<open>
  C35: Over the searches of a turn a Web marker never changes its meaning: the citations after
  some of the searches are, in identifier, marker, address and text, a prefix of the citations
  after all of them, whatever the searches find and whatever budgets they meet.  The markers are
  [W1], [W2], \<dots> without a gap, no two of them are equal, no address is cited twice, and there are at
  most ten.  The hypothesis is on the URL parser: normalising an address of a search twice is
  normalising it once.
\<close>

theorem web_markers_stable:
  assumes "\<forall>p \<in> set (earlier @ later). urls_settled env (fst p)"
  shows "prefix (map cite_key (snd (prepareWebSearchResult env (web_turn env earlier no_web))))
           (map cite_key (snd (prepareWebSearchResult env (web_turn env (earlier @ later) no_web)))) \<and>
    map wc_Marker (snd (prepareWebSearchResult env (web_turn env earlier no_web))) =
      map web_marker [1..<length (wr_Sources (web_turn env earlier no_web)) + 1] \<and>
    distinct (map wc_Marker (snd (prepareWebSearchResult env (web_turn env earlier no_web)))) \<and>
    distinct (map wc_URL (snd (prepareWebSearchResult env (web_turn env earlier no_web)))) \<and>
    length (wr_Sources (web_turn env earlier no_web)) \<le> MaxResults"
proof -
  let ?a = "web_turn env earlier no_web" and ?b = "web_turn env (earlier @ later) no_web"
  have start: "prepared_sources env (wr_Sources no_web)" by (simp add: prepared_sources_def no_web_def)
  have a: "prepared_sources env (wr_Sources ?a)"
    using web_turn_extends [OF start, of earlier] assms by simp
  have b: "?b = web_turn env later ?a" by (simp add: web_turn_def)
  have ab: "prepared_sources env (wr_Sources ?b)" "extends_sources (wr_Sources ?a) (wr_Sources ?b)"
    using web_turn_extends [OF a, of later] assms unfolding b by simp_all
  have "prefix (map cite_key (snd (prepareWebSearchResult env ?a))) (map cite_key (snd (prepareWebSearchResult env ?b)))"
    unfolding cite_keys [OF a] cite_keys [OF ab(1)]
    by (rule map_mono_prefix, rule prefix_enumerate) (use ab(2) in \<open>simp add: extends_sources_def\<close>)
  moreover have "distinct (map web_marker ns) \<longleftrightarrow> distinct ns" for ns
    by (simp add: distinct_map inj_on_def web_marker_inj)
  ultimately show ?thesis
    using prepared_markers [OF a] a by (simp add: prepared_sources_def)
qed

text \<open>Two searches with an overlapping source, on an environment that takes addresses as they are.\<close>

definition example_web_env :: web_env where
  "example_web_env =
     \<lparr>we_parse_url = (\<lambda>u. Some \<lparr>up_Scheme = ''https'', up_Hostname = ''neo.example'', up_HasUser = False, up_Plain = u\<rparr>),
      we_public_ip = (\<lambda>_. None), we_lower = (\<lambda>s. s), we_sha256 = (\<lambda>s. s), we_encode = (\<lambda>_. ''{}'')\<rparr>"

definition example_source :: "string \<Rightarrow> web_source" where
  "example_source url = \<lparr>ws_Title = ''Title'', ws_URL = url, ws_Content = ''Content''\<rparr>"

definition example_search :: "string list \<Rightarrow> web_result \<times> int" where
  "example_search urls = (\<lparr>wr_Sources = map example_source urls, wr_Images = []\<rparr>, 1000)"

lemma example_urls:
  "normalizeResultURL example_web_env ''https://a'' = ''https://a''"
  "normalizeResultURL example_web_env ''https://b'' = ''https://b''"
  by (simp_all add: normalizeResultURL_def example_web_env_def isLocalHostname_def trim_space_printable printable_def
      trim_suffix_def has_suffix_def has_prefix_def to_lower_def is_ascii_def ascii_lower_def MaxSourceURLBytes_def Let_def)

theorem web_markers_stable_witness:
  "prefix (map cite_key (snd (prepareWebSearchResult example_web_env
              (web_turn example_web_env [example_search [''https://a'']] no_web))))
          (map cite_key (snd (prepareWebSearchResult example_web_env
              (web_turn example_web_env ([example_search [''https://a'']] @ [example_search [''https://a'', ''https://b'']]) no_web))))"
  by (rule web_markers_stable [THEN conjunct1])
     (simp add: urls_settled_def example_search_def example_source_def example_urls)

end
