(* ===== verification/Knowledge_Properties.thy ===== *)
theory Knowledge_Properties
  imports Knowledge_Evidence Web_Properties
begin

text \<open>
  Properties of the Knowledge evidence of a turn: a projection is a prefix of the cited evidence
  within the budget, and the marker under which the model sees a piece of evidence is the one that
  the turn records, for good.
\<close>

section \<open>Projections\<close>

definition block_pair :: "knowledge_block \<Rightarrow> hydrated_evidence \<times> rag_citation" where
  "block_pair b = (kb_Evidence b, kb_Citation b)"

lemma block_pair_simps [simp]:
  "block_pair \<lparr>kb_Evidence = e, kb_Citation = c, kb_ParentSourceText = t, kb_ExpandedParentID = i\<rparr> = (e, c)"
  "block_pair (b\<lparr>kb_ParentSourceText := t\<rparr>) = block_pair b"
  "block_pair (b\<lparr>kb_ExpandedParentID := i\<rparr>) = block_pair b"
  by (simp_all add: block_pair_def)

lemma project_blocks_prefix:
  "project_blocks env maxTokens ps p = Some q \<Longrightarrow>
   \<exists>rs. prefix rs ps \<and> map block_pair (kp_Blocks q) = map block_pair (kp_Blocks p) @ rs"
proof (induction env maxTokens ps p rule: project_blocks.induct)
  case (2 env maxTokens item citation rest projection)
  let ?block = "\<lparr>kb_Evidence = item, kb_Citation = citation, kb_ParentSourceText = [], kb_ExpandedParentID = []\<rparr>"
  show ?case
  proof (cases "incomplete_item item citation \<or> kp_EstimatedTokens projection + block_cost env ?block > maxTokens")
    case True
    with "2.prems" show ?thesis by (auto simp: Let_def split: if_splits intro!: exI [of _ "[]"])
  next
    case False
    then obtain rs where "prefix rs rest"
      "map block_pair (kp_Blocks q) = (map block_pair (kp_Blocks projection) @ [(item, citation)]) @ rs"
      using "2.IH" [OF _ refl refl] "2.prems" by (auto simp: Let_def)
    then show ?thesis by (intro exI [of _ "(item, citation) # rs"]) simp
  qed
qed simp

lemma expand_block_pairs: "map block_pair (kp_Blocks (fst (expand_block env m score i acc))) = map block_pair (kp_Blocks (fst acc))"
proof -
  obtain p parents where acc: "acc = (p, parents)" by (cases acc)
  have "map block_pair ((kp_Blocks p)[i := (kp_Blocks p ! i)\<lparr>kb_ParentSourceText := t, kb_ExpandedParentID := d\<rparr>]) =
      map block_pair (kp_Blocks p)" for t d
    by (cases "i < length (kp_Blocks p)") (simp_all add: map_update list_update_same_conv list_update_beyond)
  then show ?thesis by (simp add: acc expand_block_def Let_def)
qed

lemma expand_blocks_pairs: "map block_pair (kp_Blocks (fst (fold (expand_block env m score) is acc))) = map block_pair (kp_Blocks (fst acc))"
  by (induction "is" arbitrary: acc) (simp_all add: expand_block_pairs)

lemma projection_prefix:
  assumes "projectKnowledgeEvidence env evidence citations n = Some p"
  shows "prefix (zip (kp_Evidence p) (kp_Citations p)) (zip evidence citations)" and "kp_Blocks p \<noteq> []"
proof -
  obtain q where q: "project_blocks env n (zip evidence citations)
      \<lparr>kp_Blocks = [], kp_EstimatedTokens = knowledgeContextEnvelopeTokens\<rparr> = Some q" "kp_Blocks q \<noteq> []"
    and p: "p = fst (fold (expand_block env n (he_RankScore (kb_Evidence (hd (kp_Blocks q))))) [0..<length (kp_Blocks q)] (q, []))"
    using assms by (auto simp: projectKnowledgeEvidence_def split: if_splits option.splits)
  have pairs: "map block_pair (kp_Blocks p) = map block_pair (kp_Blocks q)"
    by (simp add: p expand_blocks_pairs)
  have "zip (kp_Evidence p) (kp_Citations p) = map block_pair (kp_Blocks p)"
    by (simp add: kp_Evidence_def kp_Citations_def zip_map_map block_pair_def zip_same_conv_map)
  with pairs project_blocks_prefix [OF q(1)]
  show "prefix (zip (kp_Evidence p) (kp_Citations p)) (zip evidence citations)" by auto
  show "kp_Blocks p \<noteq> []" using pairs q(2) by (metis map_is_Nil_conv)
qed

section \<open>What a tool result shows\<close>

lemma knowledge_result_projected:
  "knowledge_result_loop env d m n = Some (content, projected, used) \<Longrightarrow>
   (\<exists>blocks. content = knowledge_result_text env blocks \<and> map kb_Citation blocks = kd_Citations projected \<and> blocks \<noteq> []) \<and>
   used = estimateProviderTextTokens content \<and> used \<le> m \<and>
   length (kd_Evidence projected) = length (kd_Citations projected) \<and>
   prefix (zip (kd_Evidence projected) (kd_Citations projected)) (zip (kd_Evidence d) (kd_Citations d)) \<and>
   projected = d\<lparr>kd_Evidence := kd_Evidence projected, kd_Citations := kd_Citations projected\<rparr>"
proof (induction env d m n rule: knowledge_result_loop.induct)
  case (1 env d m n)
  show ?case
  proof (cases "projectKnowledgeEvidence env (kd_Evidence d) (kd_Citations d) n")
    case None
    with "1.prems" show ?thesis by (subst (asm) knowledge_result_loop.simps) (simp split: if_splits)
  next
    case (Some p)
    have n: "\<not> n \<le> 0" using "1.prems" by (subst (asm) knowledge_result_loop.simps) (simp split: if_splits)
    show ?thesis
    proof (cases "estimateProviderTextTokens (knowledge_result_text env (kp_Blocks p)) \<le> m")
      case True
      then show ?thesis using "1.prems" Some n projection_prefix [OF Some]
        by (subst (asm) knowledge_result_loop.simps) (auto simp: Let_def kp_Evidence_def kp_Citations_def)
    next
      case False
      then show ?thesis using "1.IH" [OF n Some refl refl False] "1.prems" Some n
        by (subst (asm) (2) knowledge_result_loop.simps) (simp add: Let_def)
    qed
  qed
qed

section \<open>Recorded markers\<close>

lemma knowledge_marker_inj: "knowledge_marker i = knowledge_marker j \<longleftrightarrow> i = j"
  by (auto simp: knowledge_marker_def itoa_def dest: nat_digits_inj)

lemma knowledge_marker_nonempty [simp]: "knowledge_marker i \<noteq> []"
  by (simp add: knowledge_marker_def)

definition identified :: "rag_decision \<Rightarrow> bool" where
  "identified d \<longleftrightarrow> list_all (\<lambda>c. trim_space (rc_ID c) \<noteq> []) (kd_Citations d)"

definition citations_ok :: "rag_citation list \<Rightarrow> bool" where
  "citations_ok cs \<longleftrightarrow>
     length cs \<le> maxRAGCitations \<and> map rc_Marker cs = map knowledge_marker [1..<length cs + 1] \<and> distinct (map rc_ID cs)"

definition decision_ok :: "rag_decision \<Rightarrow> bool" where
  "decision_ok d \<longleftrightarrow>
     citations_ok (kd_Citations d) \<and> length (kd_Evidence d) = length (kd_Citations d) \<and>
     (\<not> ReadyForAnswer d \<longrightarrow> kd_Citations d = [])"

text \<open>The map of markers says for an identifier what the recorded citations say.\<close>

definition marks :: "(string, string) gomap \<Rightarrow> rag_citation list \<Rightarrow> bool" where
  "marks m cs \<longleftrightarrow>
     (\<forall>c \<in> set cs. lookup_str m (rc_ID c) = rc_Marker c \<and> rc_Marker c \<noteq> []) \<and>
     (\<forall>i. lookup_str m i \<noteq> [] \<longrightarrow> (\<exists>c \<in> set cs. rc_ID c = i \<and> rc_Marker c = lookup_str m i))"

lemma citations_ok_Nil [simp]: "citations_ok []"
  by (simp add: citations_ok_def)

lemma citations_ok_append:
  assumes "citations_ok cs" "length cs < maxRAGCitations" "rc_ID c \<notin> rc_ID ` set cs"
    and "rc_Marker c = knowledge_marker (length cs + 1)"
  shows "citations_ok (cs @ [c])"
  using assms by (auto simp: citations_ok_def)

lemma citations_ok_marker: "citations_ok cs \<Longrightarrow> c \<in> set cs \<Longrightarrow> rc_Marker c \<noteq> []"
proof -
  assume "citations_ok cs" "c \<in> set cs"
  then have "rc_Marker c \<in> set (map knowledge_marker [1..<length cs + 1])"
    by (metis citations_ok_def imageI list.set_map)
  then obtain k where "rc_Marker c = knowledge_marker k" by auto
  then show ?thesis by simp
qed

lemma marker_map_lookup:
  fixes cs :: "rag_citation list"
  shows "lookup_str (fold (\<lambda>c m. AList.update (rc_ID c) (rc_Marker c) m) cs m0) i =
   (case find (\<lambda>c. rc_ID c = i) (rev cs) of None \<Rightarrow> lookup_str m0 i | Some c \<Rightarrow> rc_Marker c)"
proof (induction cs arbitrary: m0)
  case (Cons c cs)
  have find_app: "find P (xs @ ys) = (case find P xs of None \<Rightarrow> find P ys | Some z \<Rightarrow> Some z)" for P :: "rag_citation \<Rightarrow> bool" and xs ys
    by (induction xs) simp_all
  show ?case by (simp add: Cons find_app split: option.split)
qed simp

lemma marks_marker_map: "citations_ok cs \<Longrightarrow> marks (marker_map cs) cs"
proof -
  assume ok: "citations_ok cs"
  have look: "lookup_str (marker_map cs) i = (case find (\<lambda>c. rc_ID c = i) (rev cs) of None \<Rightarrow> [] | Some c \<Rightarrow> rc_Marker c)" for i
    by (simp add: marker_map_def marker_map_lookup split: option.split)
  have "lookup_str (marker_map cs) (rc_ID c) = rc_Marker c" if "c \<in> set cs" for c
  proof -
    have "find (\<lambda>d. rc_ID d = rc_ID c) (rev cs) \<noteq> None" using that unfolding find_None_iff by auto
    then obtain d where "find (\<lambda>d. rc_ID d = rc_ID c) (rev cs) = Some d" by blast
    moreover from this have "d \<in> set cs" "rc_ID d = rc_ID c" by (auto dest: find_SomeD)
    moreover have "inj_on rc_ID (set cs)" using ok by (simp add: citations_ok_def distinct_map)
    ultimately have "d = c" using that by (metis inj_onD)
    with \<open>find _ _ = Some d\<close> show ?thesis by (simp add: look)
  qed
  moreover have "\<exists>c \<in> set cs. rc_ID c = i \<and> rc_Marker c = lookup_str (marker_map cs) i" if marked: "lookup_str (marker_map cs) i \<noteq> []" for i
  proof -
    obtain c where c: "find (\<lambda>c. rc_ID c = i) (rev cs) = Some c" "lookup_str (marker_map cs) i = rc_Marker c"
      using marked look [of i] by (auto split: option.splits)
    from find_SomeD [OF c(1)] c(2) show ?thesis by auto
  qed
  ultimately show ?thesis using citations_ok_marker [OF ok] by (simp add: marks_def)
qed

lemma marks_update:
  "marks m cs \<Longrightarrow> rc_ID c \<notin> rc_ID ` set cs \<Longrightarrow> rc_Marker c \<noteq> [] \<Longrightarrow> marks (AList.update (rc_ID c) (rc_Marker c) m) (cs @ [c])"
  by (auto simp: marks_def image_iff)

text \<open>Merging extends what is recorded, and everything it maps is recorded.\<close>

lemma merge_markers_ok:
  "merge_markers ps m cum mapped = (cum', mapped') \<Longrightarrow>
   citations_ok (snd cum) \<Longrightarrow> marks m (snd cum) \<Longrightarrow> length (fst cum) = length (snd cum) \<Longrightarrow>
   list_all (\<lambda>(e, c). \<exists>c' \<in> set (snd cum). rc_ID c' = rc_ID c \<and> rc_Marker c' = rc_Marker c) mapped \<Longrightarrow>
   citations_ok (snd cum') \<and> length (fst cum') = length (snd cum') \<and>
   prefix (snd cum) (snd cum') \<and> prefix (fst cum) (fst cum') \<and>
   list_all (\<lambda>(e, c). \<exists>c' \<in> set (snd cum'). rc_ID c' = rc_ID c \<and> rc_Marker c' = rc_Marker c) mapped'"
proof (induction ps m cum mapped arbitrary: cum' mapped' rule: merge_markers.induct)
  case (2 e c rest m cum mapped)
  show ?case
  proof (cases "trim_space (rc_ID c) = [] \<or> lookup_str m (rc_ID c) = [] \<and> length (snd cum) \<ge> maxRAGCitations")
    case True
    then show ?thesis using "2.IH"(1,3) "2.prems" by (cases "trim_space (rc_ID c) = []") simp_all
  next
    case False
    show ?thesis
    proof (cases "lookup_str m (rc_ID c) = []")
      case found: False
      then have "\<exists>c' \<in> set (snd cum). rc_ID c' = rc_ID c \<and> rc_Marker c' = lookup_str m (rc_ID c)"
        using "2.prems"(3) by (simp add: marks_def)
      then show ?thesis using "2.IH"(2) False found "2.prems" by simp
    next
      case new: True
      let ?c = "c\<lparr>rc_Marker := knowledge_marker (length (snd cum) + 1)\<rparr>"
      have fresh: "rc_ID ?c \<notin> rc_ID ` set (snd cum)"
        using new "2.prems"(3) by (fastforce simp: marks_def)
      have ok: "citations_ok (snd cum @ [?c])"
        using False new fresh by (intro citations_ok_append [OF "2.prems"(2)]) auto
      have m: "marks (AList.update (rc_ID ?c) (rc_Marker ?c) m) (snd cum @ [?c])"
        by (rule marks_update [OF "2.prems"(3) fresh]) simp
      have l: "list_all (\<lambda>(e, c). \<exists>c' \<in> set (snd cum @ [?c]). rc_ID c' = rc_ID c \<and> rc_Marker c' = rc_Marker c) (mapped @ [(e, ?c)])"
        using "2.prems"(5) by (auto simp: list_all_iff)
      have run: "merge_markers rest (AList.update (rc_ID ?c) (rc_Marker ?c) m) (fst cum @ [e], snd cum @ [?c]) (mapped @ [(e, ?c)]) = (cum', mapped')"
        using "2.prems"(1) False new by (simp add: Let_def)
      have "citations_ok (snd cum') \<and> length (fst cum') = length (snd cum') \<and>
          prefix (snd cum @ [?c]) (snd cum') \<and> prefix (fst cum @ [e]) (fst cum') \<and>
          list_all (\<lambda>(e, c). \<exists>c' \<in> set (snd cum'). rc_ID c' = rc_ID c \<and> rc_Marker c' = rc_Marker c) mapped'"
        using "2.IH"(4) [OF _ _ _ refl refl, of cum' mapped'] False new run ok m l "2.prems"(4) by simp
      then show ?thesis by (auto dest: append_prefixD)
    qed
  qed
qed simp

text \<open>
  The first loop gives the markers that the second one gives, to any prefix of what it keeps.
\<close>

lemma map_then_merge:
  "list_all (\<lambda>(e, c). trim_space (rc_ID c) \<noteq> []) ps \<Longrightarrow>
   prefix qs (map_markers ps m (length (snd cum) + 1)) \<Longrightarrow>
   snd (merge_markers qs m cum mapped) = mapped @ qs"
proof (induction ps arbitrary: qs m cum mapped)
  case (Cons p ps)
  obtain e c where p: "p = (e, c)" by (cases p)
  have named: "trim_space (rc_ID c) \<noteq> []" "list_all (\<lambda>(e, c). trim_space (rc_ID c) \<noteq> []) ps"
    using Cons.prems(1) p by simp_all
  show ?case
  proof (cases qs)
    case (Cons q qs')
    consider (found) "lookup_str m (rc_ID c) \<noteq> []"
      | (full) "lookup_str m (rc_ID c) = []" "length (snd cum) + 1 > maxRAGCitations"
      | (new) "lookup_str m (rc_ID c) = []" "\<not> length (snd cum) + 1 > maxRAGCitations" by blast
    then show ?thesis
    proof cases
      case found
      then have q: "q = (e, c\<lparr>rc_Marker := lookup_str m (rc_ID c)\<rparr>)" "prefix qs' (map_markers ps m (length (snd cum) + 1))"
        using Cons.prems(2) Cons p by simp_all
      then show ?thesis using Cons.IH [OF named(2) q(2)] found named(1) Cons by simp
    next
      case full
      then show ?thesis using Cons.IH [OF named(2), of qs m cum mapped] Cons.prems(2) p by simp
    next
      case new
      let ?mk = "knowledge_marker (length (snd cum) + 1)"
      let ?c = "c\<lparr>rc_Marker := ?mk\<rparr>"
      have q: "q = (e, ?c)" "prefix qs' (map_markers ps (AList.update (rc_ID c) ?mk m) (length (snd (fst cum @ [e], snd cum @ [?c])) + 1))"
        using new Cons.prems(2) Cons p by (simp_all add: Let_def)
      show ?thesis
        using Cons.IH [OF named(2) q(2), of "mapped @ [(e, ?c)]"] new named(1) Cons q(1) by (simp add: Let_def)
    qed
  qed simp
qed simp

section \<open>The calls of a turn\<close>

text \<open>A call that retrieved \<open>fst call\<close> and finds \<open>snd call\<close> tokens left.\<close>

definition knowledge_step :: "knowledge_env \<Rightarrow> rag_decision \<times> int \<Rightarrow> rag_decision \<Rightarrow> rag_decision" where
  "knowledge_step env call cumulative =
     (case knowledgeToolSuccessResult env (mapKnowledgeToolDecisionMarkers cumulative (fst call)) (snd call) of
        None \<Rightarrow> cumulative
      | Some (content, projected, used) \<Rightarrow> snd (mergeKnowledgeToolDecision cumulative projected))"

definition knowledge_turn :: "knowledge_env \<Rightarrow> (rag_decision \<times> int) list \<Rightarrow> rag_decision \<Rightarrow> rag_decision" where
  "knowledge_turn env calls cumulative = fold (knowledge_step env) calls cumulative"

lemma zip_fst_snd: "zip (map fst ps) (map snd ps) = ps"
  by (simp add: zip_map_fst_snd)

lemma identified_pairs: "identified d \<Longrightarrow> list_all (\<lambda>(e, c). trim_space (rc_ID c) \<noteq> []) (zip (kd_Evidence d) (kd_Citations d))"
  by (auto simp: identified_def list_all_iff dest: set_zip_rightD)

text \<open>One call: what the model is shown is what the merge records.\<close>

lemma knowledge_call:
  assumes ok: "decision_ok cumulative" and ids: "identified current"
    and res: "knowledgeToolSuccessResult env (mapKnowledgeToolDecisionMarkers cumulative current) budget = Some (content, projected, used)"
    and ready: "ReadyForAnswer projected"
  shows "kd_Citations (fst (mergeKnowledgeToolDecision cumulative projected)) = kd_Citations projected"
    and "decision_ok (snd (mergeKnowledgeToolDecision cumulative projected))"
    and "prefix (kd_Citations cumulative) (kd_Citations (snd (mergeKnowledgeToolDecision cumulative projected)))"
    and "\<forall>c \<in> set (kd_Citations projected). \<exists>c' \<in> set (kd_Citations (snd (mergeKnowledgeToolDecision cumulative projected))).
      rc_ID c' = rc_ID c \<and> rc_Marker c' = rc_Marker c"
    and "0 \<le> used \<and> used \<le> max 0 budget \<and> used = estimateProviderTextTokens content"
    and "\<exists>blocks. content = knowledge_result_text env blocks \<and> map kb_Citation blocks = kd_Citations projected"
proof -
  let ?ps = "zip (kd_Evidence current) (kd_Citations current)"
  let ?cs = "kd_Citations cumulative"
  let ?mapped = "map_markers ?ps (marker_map ?cs) (length ?cs + 1)"
  have mr: "ReadyForAnswer (mapKnowledgeToolDecisionMarkers cumulative current)"
  proof (rule ccontr)
    assume "\<not> ReadyForAnswer (mapKnowledgeToolDecisionMarkers cumulative current)"
    with res ready show False by (auto simp: knowledgeToolSuccessResult_def)
  qed
  then have cr: "ReadyForAnswer current"
    by (auto simp: mapKnowledgeToolDecisionMarkers_def split: if_splits)
  have mapped: "mapKnowledgeToolDecisionMarkers cumulative current = current\<lparr>kd_Evidence := map fst ?mapped, kd_Citations := map snd ?mapped\<rparr>"
    using mr cr by (auto simp: mapKnowledgeToolDecisionMarkers_def Let_def plain_decision_def ReadyForAnswer_def split: if_splits)
  have loop: "knowledge_result_loop env (mapKnowledgeToolDecisionMarkers cumulative current) budget budget = Some (content, projected, used)"
    using res mr by (simp add: knowledgeToolSuccessResult_def)
  note shown = knowledge_result_projected [OF loop]
  let ?qs = "zip (kd_Evidence projected) (kd_Citations projected)"
  have qs: "prefix ?qs ?mapped" "length (kd_Evidence projected) = length (kd_Citations projected)"
    using shown by (simp_all add: mapped zip_fst_snd del: map_markers.simps)
  show "\<exists>blocks. content = knowledge_result_text env blocks \<and> map kb_Citation blocks = kd_Citations projected"
    using shown by blast
  show "0 \<le> used \<and> used \<le> max 0 budget \<and> used = estimateProviderTextTokens content"
    using shown by auto
  let ?base = "if ReadyForAnswer cumulative then cumulative
     else \<lparr>kd_Outcome = ''evidence_ready'', kd_FailureStage = [], kd_Evidence = [], kd_Citations = [],
           kd_Authority = kd_Authority projected, kd_QueryRewritten = False, kd_RerankStatus = kd_RerankStatus projected\<rparr>"
  have base: "kd_Citations ?base = ?cs" "length (kd_Evidence ?base) = length ?cs"
    using ok by (auto simp: decision_ok_def)
  have cok: "citations_ok ?cs" using ok by (simp add: decision_ok_def)
  obtain ev cs' mapped' where run: "merge_markers ?qs (marker_map ?cs) (kd_Evidence ?base, ?cs) [] = ((ev, cs'), mapped')"
    by (metis surj_pair)
  have "snd (merge_markers ?qs (marker_map ?cs) (kd_Evidence ?base, ?cs) []) = [] @ ?qs"
    by (rule map_then_merge [OF identified_pairs [OF ids]]) (use qs(1) in simp)
  then have m': "mapped' = ?qs" by (simp add: run)
  have merged: "citations_ok cs' \<and> length ev = length cs' \<and> prefix ?cs cs' \<and>
      list_all (\<lambda>(e, c). \<exists>c' \<in> set cs'. rc_ID c' = rc_ID c \<and> rc_Marker c' = rc_Marker c) ?qs"
    using merge_markers_ok [OF run] cok marks_marker_map [OF cok] base(2) by (simp add: m')
  have ne: "?qs \<noteq> []" using ready qs(2) by (auto simp: ReadyForAnswer_def)
  have cur: "kd_Citations (fst (mergeKnowledgeToolDecision cumulative projected)) = map snd ?qs"
    and cum: "kd_Citations (snd (mergeKnowledgeToolDecision cumulative projected)) = cs'"
      "kd_Evidence (snd (mergeKnowledgeToolDecision cumulative projected)) = ev"
      "kd_Outcome (snd (mergeKnowledgeToolDecision cumulative projected)) = ''evidence_ready''"
      "kd_Authority (snd (mergeKnowledgeToolDecision cumulative projected)) = kd_Authority projected"
    using ready base run ne m' unfolding mergeKnowledgeToolDecision_def Let_def
    by (simp_all split: if_split_asm)
  show "kd_Citations (fst (mergeKnowledgeToolDecision cumulative projected)) = kd_Citations projected"
    using cur qs(2) by simp
  show "prefix ?cs (kd_Citations (snd (mergeKnowledgeToolDecision cumulative projected)))"
    using merged cum by simp
  have all: "\<forall>c \<in> set (kd_Citations projected). \<exists>c' \<in> set cs'. rc_ID c' = rc_ID c \<and> rc_Marker c' = rc_Marker c"
  proof
    fix c assume "c \<in> set (kd_Citations projected)"
    then have "c \<in> snd ` set ?qs" using qs(2) by (metis list.set_map map_snd_zip)
    then show "\<exists>c' \<in> set cs'. rc_ID c' = rc_ID c \<and> rc_Marker c' = rc_Marker c"
      using merged by (fastforce simp: list_all_iff)
  qed
  then show "\<forall>c \<in> set (kd_Citations projected). \<exists>c' \<in> set (kd_Citations (snd (mergeKnowledgeToolDecision cumulative projected))).
      rc_ID c' = rc_ID c \<and> rc_Marker c' = rc_Marker c"
    by (simp add: cum)
  have "cs' \<noteq> []" using all ready by (fastforce simp: ReadyForAnswer_def neq_Nil_conv)
  then show "decision_ok (snd (mergeKnowledgeToolDecision cumulative projected))"
    using merged ready by (auto simp: decision_ok_def cum ReadyForAnswer_def)
qed

lemma knowledge_step_ok:
  assumes "decision_ok cumulative" "identified (fst call)"
  shows "decision_ok (knowledge_step env call cumulative) \<and>
    prefix (kd_Citations cumulative) (kd_Citations (knowledge_step env call cumulative))"
proof (cases "knowledgeToolSuccessResult env (mapKnowledgeToolDecisionMarkers cumulative (fst call)) (snd call)")
  case (Some r)
  obtain content projected used where r: "r = (content, projected, used)" by (metis surj_pair)
  show ?thesis
  proof (cases "ReadyForAnswer projected")
    case True
    then show ?thesis using knowledge_call [OF assms Some [unfolded r]] Some r by (simp add: knowledge_step_def)
  next
    case False
    then show ?thesis using Some r assms(1) by (simp add: knowledge_step_def mergeKnowledgeToolDecision_def)
  qed
qed (simp add: knowledge_step_def assms)

lemma knowledge_turn_ok:
  "decision_ok cumulative \<Longrightarrow> \<forall>call \<in> set calls. identified (fst call) \<Longrightarrow>
   decision_ok (knowledge_turn env calls cumulative) \<and> prefix (kd_Citations cumulative) (kd_Citations (knowledge_turn env calls cumulative))"
proof (induction calls arbitrary: cumulative)
  case (Cons call calls)
  let ?next = "knowledge_step env call cumulative"
  have step: "decision_ok ?next" "prefix (kd_Citations cumulative) (kd_Citations ?next)"
    using knowledge_step_ok [of cumulative call env] Cons.prems by simp_all
  have "decision_ok (knowledge_turn env calls ?next) \<and> prefix (kd_Citations ?next) (kd_Citations (knowledge_turn env calls ?next))"
    by (rule Cons.IH [OF step(1)]) (use Cons.prems in simp)
  then show ?case using step(2) by (simp add: knowledge_turn_def) (blast intro: prefix_order.trans)
qed (simp add: knowledge_turn_def)

text \<open>Evidence that was minted is identified, and its own markers count from one.\<close>

lemma mint_identified:
  assumes sha: "\<And>s. list_all printable (we_sha256 (kn_web env) s)"
    and "mintRAGCitations env evidence = Some cs"
  shows "list_all (\<lambda>c. trim_space (rc_ID c) \<noteq> []) cs \<and> length cs = min (length evidence) maxRAGCitations \<and>
    map rc_Marker cs = map knowledge_marker [1..<length cs + 1]"
proof -
  let ?ps = "enumerate 0 (take maxRAGCitations evidence)"
  have those: "those (map f xs) = Some ys \<Longrightarrow> length ys = length xs \<and> (\<forall>i < length xs. f (xs ! i) = Some (ys ! i))"
    for f :: "nat \<times> hydrated_evidence \<Rightarrow> rag_citation option" and xs ys
  proof (induction xs arbitrary: ys)
    case (Cons x xs)
    then obtain y zs where "f x = Some y" "those (map f xs) = Some zs" "ys = y # zs" by (auto split: option.splits)
    with Cons.IH [of zs] show ?case by (auto simp: less_Suc_eq_0_disj)
  qed simp
  have "those (map (\<lambda>(index, item). mint_citation env index item) ?ps) = Some cs"
    using assms(2) by (simp add: mintRAGCitations_def split: if_splits)
  from those [OF this] have len: "length cs = length ?ps"
    and at: "\<And>i. i < length ?ps \<Longrightarrow> mint_citation env i (take maxRAGCitations evidence ! i) = Some (cs ! i)"
    by (simp_all add: nth_enumerate_eq)
  have one: "trim_space (rc_ID c) \<noteq> [] \<and> rc_Marker c = knowledge_marker (i + 1)" if "mint_citation env i item = Some c" for i item c
  proof -
    have "rc_ID c = ragCitationID env item" "rc_ID c \<noteq> []" "rc_Marker c = knowledge_marker (i + 1)"
      using that by (auto simp: mint_citation_def Let_def split: if_splits)
    then obtain h where h: "rc_ID c = ''cit_'' @ take 32 (we_sha256 (kn_web env) h)"
      by (auto simp: ragCitationID_def Let_def split: if_splits)
    have "list_all printable (rc_ID c)"
      using sha [of h] by (auto simp: h list_all_iff printable_def dest: in_set_takeD)
    then have "printable (hd (rc_ID c))" "printable (last (rc_ID c))"
      using \<open>rc_ID c \<noteq> []\<close> by (simp_all add: list_all_iff)
    with trim_space_printable \<open>rc_ID c \<noteq> []\<close> have "trim_space (rc_ID c) \<noteq> []" by simp
    with \<open>rc_Marker c = _\<close> show ?thesis by simp
  qed
  have "list_all (\<lambda>c. trim_space (rc_ID c) \<noteq> []) cs"
    using one [OF at] len by (simp add: list_all_length)
  moreover have "map rc_Marker cs = map knowledge_marker [1..<length cs + 1]"
    by (rule nth_equalityI) (use one [OF at] len in \<open>simp_all del: upt_Suc\<close>)
  ultimately show ?thesis using len by simp
qed

text \<open>
  C36: Over the Knowledge calls of a turn a marker never changes its meaning.  What the turn records
  after some of its calls, with the markers [K1], [K2], \<dots>, at most eight of them and no identifier
  twice, is a prefix of what it records after all of them.  When a further call answers with
  evidence, the markers in the text that the model gets are the markers that the two-phase merge
  records: the first loop, which numbers the candidates before they are cut to the budget, and the
  second one, which numbers what was left, agree; every citation shown is recorded with its marker,
  and the text costs no more than the budget left.
\<close>

theorem knowledge_markers_stable:
  assumes "decision_ok start" and "\<forall>call \<in> set (earlier @ later). identified (fst call)" and "identified current"
  shows "decision_ok (knowledge_turn env earlier start) \<and>
    prefix (kd_Citations (knowledge_turn env earlier start)) (kd_Citations (knowledge_turn env (earlier @ later) start)) \<and>
    (case knowledgeToolSuccessResult env (mapKnowledgeToolDecisionMarkers (knowledge_turn env earlier start) current) budget of
       None \<Rightarrow> True
     | Some (content, projected, used) \<Rightarrow>
         ReadyForAnswer projected \<longrightarrow>
           (\<exists>blocks. content = knowledge_result_text env blocks \<and> map kb_Citation blocks = kd_Citations projected) \<and>
           kd_Citations (fst (mergeKnowledgeToolDecision (knowledge_turn env earlier start) projected)) = kd_Citations projected \<and>
           (\<forall>c \<in> set (kd_Citations projected).
              \<exists>c' \<in> set (kd_Citations (knowledge_turn env (earlier @ [(current, budget)]) start)).
                rc_ID c' = rc_ID c \<and> rc_Marker c' = rc_Marker c) \<and>
           0 \<le> used \<and> used \<le> max 0 budget)"
proof -
  let ?a = "knowledge_turn env earlier start"
  have a: "decision_ok ?a" using knowledge_turn_ok [OF assms(1), of earlier] assms(2) by simp
  have "prefix (kd_Citations ?a) (kd_Citations (knowledge_turn env later ?a))"
    using knowledge_turn_ok [OF a, of later] assms(2) by simp
  then have "prefix (kd_Citations ?a) (kd_Citations (knowledge_turn env (earlier @ later) start))"
    by (simp add: knowledge_turn_def)
  moreover have "case knowledgeToolSuccessResult env (mapKnowledgeToolDecisionMarkers ?a current) budget of
       None \<Rightarrow> True
     | Some (content, projected, used) \<Rightarrow>
         ReadyForAnswer projected \<longrightarrow>
           (\<exists>blocks. content = knowledge_result_text env blocks \<and> map kb_Citation blocks = kd_Citations projected) \<and>
           kd_Citations (fst (mergeKnowledgeToolDecision ?a projected)) = kd_Citations projected \<and>
           (\<forall>c \<in> set (kd_Citations projected).
              \<exists>c' \<in> set (kd_Citations (knowledge_turn env (earlier @ [(current, budget)]) start)).
                rc_ID c' = rc_ID c \<and> rc_Marker c' = rc_Marker c) \<and>
           0 \<le> used \<and> used \<le> max 0 budget"
  proof (cases "knowledgeToolSuccessResult env (mapKnowledgeToolDecisionMarkers ?a current) budget")
    case (Some r)
    obtain content projected used where r: "r = (content, projected, used)" by (metis surj_pair)
    note res = Some [unfolded r]
    have after: "knowledge_turn env (earlier @ [(current, budget)]) start = snd (mergeKnowledgeToolDecision ?a projected)"
      using res by (simp add: knowledge_turn_def knowledge_step_def)
    show ?thesis unfolding res after option.case prod.case
      using knowledge_call [OF a assms(3) res] by blast
  qed simp
  ultimately show ?thesis using a by blast
qed

text \<open>A retrieved item and a turn with two calls for it.\<close>

definition example_knowledge_env :: knowledge_env where
  "example_knowledge_env =
     \<lparr>kn_web = example_web_env, kn_valid_json = (\<lambda>_. True), kn_compact_json = (\<lambda>s. s), kn_raw_json = AnyString,
      kn_decode = (\<lambda>_. None), kn_summary = (\<lambda>_. None), kn_locator = (\<lambda>_. None), kn_upper = (\<lambda>s. s), kn_quote = (\<lambda>s. s),
      kn_equal_fold = (\<lambda>s t. s = t), kn_ratio_high = (\<lambda>_ _. True)\<rparr>"

definition example_evidence :: hydrated_evidence where
  "example_evidence =
     \<lparr>he_CollectionID = ''c'', he_DocumentID = ''d'', he_DocumentVersionID = ''v'', he_IndexGenerationID = ''g'',
      he_MaterializationID = ''m'', he_ParentChunkID = ''p'', he_ChildChunkID = ''k'', he_SourceSpanHash = ''s'',
      he_ContentHash = ''h'', he_SourceName = [], he_SourceText = ''text'', he_ChildTokenCount = 1,
      he_ParentSourceText = ''text'', he_ParentTokenCount = 1, he_Locator = ''{}'', he_RankScore = FloatNum 1 0\<rparr>"

definition example_citation :: rag_citation where
  "example_citation =
     \<lparr>rc_ID = ''cit_1'', rc_Marker = ''[K1]'', rc_CollectionID = ''c'', rc_DocumentID = ''d'', rc_DocumentVersionID = ''v'',
      rc_IndexGenerationID = ''g'', rc_MaterializationID = ''m'', rc_ParentChunkID = ''p'', rc_ChildChunkID = ''k'',
      rc_SourceSpanHash = ''s'', rc_ContentHash = ''h'', rc_SourceName = [], rc_DisplayLocator = None, rc_Locator = ''{}'',
      rc_Snippet = ''text'', rc_RankScore = FloatNum 1 0\<rparr>"

definition example_decision :: rag_decision where
  "example_decision =
     \<lparr>kd_Outcome = ''evidence_ready'', kd_FailureStage = [], kd_Evidence = [example_evidence], kd_Citations = [example_citation],
      kd_Authority = Some \<lparr>aa_Processor = ''p'', aa_EndpointID = [], aa_ModelID = ''m'', aa_ProfileContractHash = [],
                          aa_PolicyVersion = [], aa_CollectionCount = 1\<rparr>,
      kd_QueryRewritten = False, kd_RerankStatus = ''disabled''\<rparr>"

lemma example_identified: "identified example_decision"
  by (simp add: identified_def example_decision_def example_citation_def trim_space_printable printable_def)

theorem knowledge_markers_stable_witness:
  "decision_ok (knowledge_turn example_knowledge_env [(example_decision, 900)] (plain_decision [] [])) \<and>
   prefix (kd_Citations (knowledge_turn example_knowledge_env [(example_decision, 900)] (plain_decision [] [])))
     (kd_Citations (knowledge_turn example_knowledge_env ([(example_decision, 900)] @ [(example_decision, 500)]) (plain_decision [] [])))"
proof -
  have "decision_ok (plain_decision [] [])"
    by (simp add: decision_ok_def plain_decision_def)
  from knowledge_markers_stable [OF this, of "[(example_decision, 900)]" "[(example_decision, 500)]" example_decision]
  show ?thesis using example_identified by simp
qed

end
