(* ===== verification/Resource_Link.thy ===== *)
theory Resource_Link
  imports Go_Paths
begin

text \<open>
  Links to installable resources in the text of a user (internal/resourceorchestrator/resource\_link.go,
  and the parsers of Skill links of internal/skillsupply/sources.go): finding the HTTPS links of a
  text, and the identifier that a link of a supported site stands for.

  The URL parser of the standard library, the Unicode tables and the Unicode normal form are in
  \<open>link_env\<close>.
\<close>

section \<open>The environment\<close>

record link_parts =
  lk_Scheme :: string
  lk_HasUser :: bool
  lk_RawQuery :: string
  lk_Fragment :: string
  lk_Port :: string
  lk_Hostname :: string
  lk_EscapedPath :: string

record link_env =
  ln_parse :: "string \<Rightarrow> link_parts option"
  ln_unescape :: "string \<Rightarrow> string option"
  ln_escape :: "string \<Rightarrow> string"
  ln_lower :: "string \<Rightarrow> string"
  ln_nfc :: "string \<Rightarrow> string"
  ln_equal_fold :: "string \<Rightarrow> string \<Rightarrow> bool"

section \<open>Patterns\<close>

definition lower_alnum :: "char \<Rightarrow> bool" where
  "lower_alnum c = (let n = of_char c :: nat in (0x61 \<le> n \<and> n \<le> 0x7A) \<or> (0x30 \<le> n \<and> n \<le> 0x39))"

definition link_alnum :: "char \<Rightarrow> bool" where
  "link_alnum c = (lower_alnum c \<or> (let n = of_char c :: nat in 0x41 \<le> n \<and> n \<le> 0x5A))"

text \<open>\<open>^[A-Za-z0-9][A-Za-z0-9._-]{0,255}$\<close>: the identifiers of resources, and of LobeHub Skills.\<close>

definition supportedResourceIdentifier :: "string \<Rightarrow> bool" where
  "supportedResourceIdentifier s \<longleftrightarrow>
     s \<noteq> [] \<and> link_alnum (hd s) \<and> length s \<le> 256 \<and>
     list_all (\<lambda>c. link_alnum c \<or> c \<in> set ''._-'') s"

definition lobeIdentifierPattern :: "string \<Rightarrow> bool" where
  "lobeIdentifierPattern s = supportedResourceIdentifier s"

text \<open>\<open>^/skills-([a-z0-9][a-z0-9-]{0,127})/?$\<close>: the group, if the path matches.\<close>

definition supportedAIHeroSkillPath :: "string \<Rightarrow> string option" where
  "supportedAIHeroSkillPath s =
     (let slug = trim_suffix (drop 8 s) ''/''
      in if has_prefix s ''/skills-'' \<and> slug \<noteq> [] \<and> lower_alnum (hd slug) \<and> length slug \<le> 128 \<and>
            list_all (\<lambda>c. lower_alnum c \<or> c = CHR ''-'') slug
         then Some slug else None)"

text \<open>\<open>^[A-Za-z0-9_.-]{1,100}$\<close> and \<open>^[a-z0-9]+(?:-[a-z0-9]+)*$\<close>.\<close>

definition githubCoordinatePart :: "string \<Rightarrow> bool" where
  "githubCoordinatePart s \<longleftrightarrow>
     s \<noteq> [] \<and> length s \<le> 100 \<and> list_all (\<lambda>c. link_alnum c \<or> c \<in> set ''_.-'') s"

definition skillNamePattern :: "string \<Rightarrow> bool" where
  "skillNamePattern s = list_all (\<lambda>w. w \<noteq> [] \<and> list_all lower_alnum w) (split_on (CHR ''-'') s)"

section \<open>Skill links\<close>

definition trim_slashes :: "string \<Rightarrow> string" where
  "trim_slashes s = rev (dropWhile (\<lambda>c. c = CHR ''/'') (rev (dropWhile (\<lambda>c. c = CHR ''/'') s)))"

text \<open>What every parser asks of a link.\<close>

definition plain_https :: "link_parts \<Rightarrow> bool" where
  "plain_https p \<longleftrightarrow>
     lk_Scheme p = ''https'' \<and> \<not> lk_HasUser p \<and> lk_RawQuery p = [] \<and> lk_Fragment p = [] \<and>
     (lk_Port p = [] \<or> lk_Port p = ''443'')"

definition link_host :: "link_env \<Rightarrow> link_parts \<Rightarrow> string" where
  "link_host env p = to_lower (ln_lower env) (trim_suffix (lk_Hostname p) ''.'')"

definition lobe_hosts :: "string list" where
  "lobe_hosts = [''lobehub.com'', ''www.lobehub.com'', ''market.lobehub.com'']"

definition aihero_hosts :: "string list" where
  "aihero_hosts = [''aihero.dev'', ''www.aihero.dev'']"

definition ParseLobeHubSkillURL :: "link_env \<Rightarrow> string \<Rightarrow> string option" where
  "ParseLobeHubSkillURL env raw0 =
     (let raw = trim_space raw0
      in if raw = [] \<or> length raw > 2048 then None
         else
           (case ln_parse env raw of
              None \<Rightarrow> None
            | Some p \<Rightarrow>
                if \<not> plain_https p then None
                else if link_host env p \<notin> set lobe_hosts then None
                else
                  (case split_on (CHR ''/'') (trim_slashes (lk_EscapedPath p)) of
                     [section, escaped] \<Rightarrow>
                       if to_lower (ln_lower env) section \<noteq> ''skills'' then None
                       else
                         (case ln_unescape env escaped of
                            None \<Rightarrow> None
                          | Some identifier \<Rightarrow>
                              if ln_escape env identifier \<noteq> escaped \<or> \<not> lobeIdentifierPattern identifier
                              then None else Some identifier)
                   | _ \<Rightarrow> None)))"

definition validArchivePath :: "link_env \<Rightarrow> string \<Rightarrow> bool" where
  "validArchivePath env value \<longleftrightarrow>
     \<not> (value = [] \<or> length value > 512 \<or> \<not> valid_utf8 value \<or> value \<noteq> ln_nfc env value \<or>
        list_ex (\<lambda>c. c = CHR 0x00 \<or> c = CHR 0x5C) value \<or> has_prefix value ''/'' \<or> path_clean value \<noteq> value \<or>
        value = ''.'' \<or> has_prefix value ''../'' \<or> contains value ''/../'' \<or>
        contains value ''//'' \<or> contains value '':'') \<and>
     list_all (\<lambda>part. part \<noteq> [] \<and> part \<noteq> ''.'' \<and> part \<noteq> ''..'' \<and> length part \<le> 255) (split_on (CHR ''/'') value)"

record github_coordinate =
  gc_Owner :: string
  gc_Repository :: string
  gc_Ref :: string
  gc_Subdirectory :: string
  gc_ExpectedName :: string
  gc_RepositoryURL :: string

definition ParseGitHubSkillURL :: "link_env \<Rightarrow> string \<Rightarrow> github_coordinate option" where
  "ParseGitHubSkillURL env raw0 =
     (let raw = trim_space raw0
      in if raw = [] \<or> length raw > 2048 then None
         else
           (case ln_parse env raw of
              None \<Rightarrow> None
            | Some p \<Rightarrow>
                if \<not> plain_https p \<or> \<not> ln_equal_fold env (trim_suffix (lk_Hostname p) ''.'') ''github.com'' \<or>
                   contains (lk_EscapedPath p) ''%'' then None
                else
                  (case split_on (CHR ''/'') (trim_slashes (lk_EscapedPath p)) of
                     owner # repo # kind # ref # parts \<Rightarrow>
                       let repository = trim_suffix repo ''.git'';
                           directory = (if kind = ''blob'' then butlast parts else parts);
                           subdirectory = join_with ''/'' directory;
                           expectedName = path_base subdirectory
                       in if parts = [] \<or> \<not> githubCoordinatePart owner \<or> \<not> githubCoordinatePart repository \<or>
                             (kind \<noteq> ''tree'' \<and> kind \<noteq> ''blob'') \<or> \<not> githubCoordinatePart ref then None
                          else if kind = ''blob'' \<and> (length parts < 2 \<or> last parts \<noteq> ''SKILL.md'') then None
                          else if \<not> validArchivePath env subdirectory \<or> \<not> skillNamePattern expectedName then None
                          else Some \<lparr>gc_Owner = owner, gc_Repository = repository, gc_Ref = ref,
                                     gc_Subdirectory = subdirectory, gc_ExpectedName = expectedName,
                                     gc_RepositoryURL = ''https://github.com/'' @ owner @ ''/'' @ repository\<rparr>
                   | _ \<Rightarrow> None)))"

section \<open>Supported links\<close>

record resource_link =
  rl_LinkKind :: string
  rl_Identifier :: string
  rl_URL :: string
  rl_DirectInstall :: bool

text \<open>A kind here is any text: the search passes on what the caller asked for.\<close>

definition supportedResourceLinkIdentifier :: "link_env \<Rightarrow> string \<Rightarrow> string \<Rightarrow> string option" where
  "supportedResourceLinkIdentifier env kind raw =
     (case ln_parse env (trim_space raw) of
        None \<Rightarrow> None
      | Some p \<Rightarrow>
          if \<not> plain_https p then None
          else
            let host = link_host env p
            in if kind = ''skill'' \<and> host \<in> set aihero_hosts
               then
                 (case supportedAIHeroSkillPath (lk_EscapedPath p) of
                    None \<Rightarrow> None
                  | Some slug \<Rightarrow> if supportedResourceIdentifier slug then Some slug else None)
               else if kind = ''skill'' \<and> host = ''github.com''
               then
                 (case ParseGitHubSkillURL env raw of
                    None \<Rightarrow> None
                  | Some c \<Rightarrow>
                      if supportedResourceIdentifier (gc_ExpectedName c) then Some (gc_ExpectedName c) else None)
               else if host \<notin> set lobe_hosts then None
               else
                 (case split_on (CHR ''/'') (trim_slashes (lk_EscapedPath p)) of
                    [segment, escaped] \<Rightarrow>
                      let section = to_lower (ln_lower env) segment
                      in if (kind = ''skill'' \<and> section \<noteq> ''skills'') \<or>
                            (kind = ''mcp'' \<and> section \<noteq> ''mcp'' \<and> section \<noteq> ''plugins'') then None
                         else
                           (case ln_unescape env escaped of
                              None \<Rightarrow> None
                            | Some identifier \<Rightarrow> if supportedResourceIdentifier identifier then Some identifier else None)
                  | _ \<Rightarrow> None))"

definition isDirectSkillLink :: "link_env \<Rightarrow> string \<Rightarrow> bool" where
  "isDirectSkillLink env raw \<longleftrightarrow>
     ParseLobeHubSkillURL env raw \<noteq> None \<or> ParseGitHubSkillURL env raw \<noteq> None \<or>
     (case ln_parse env (trim_space raw) of None \<Rightarrow> False | Some p \<Rightarrow> link_host env p \<in> set aihero_hosts)"

section \<open>The links of a text\<close>

fun index_of :: "string \<Rightarrow> string \<Rightarrow> nat option" where
  "index_of [] p = (if p = [] then Some 0 else None)"
| "index_of (c # s) p = (if has_prefix (c # s) p then Some 0 else map_option Suc (index_of s p))"

lemma index_of_le: "index_of s p = Some i \<Longrightarrow> i + length p \<le> length s"
proof (induction s arbitrary: i)
  case (Cons c s)
  have "length p \<le> length (c # s)" if "has_prefix (c # s) p"
    using that by (metis has_prefix_def length_take min.cobounded1 min_def nle_le)
  with Cons show ?case by (auto split: if_splits)
qed (simp split: if_splits)

definition link_char :: "char \<Rightarrow> bool" where
  "link_char c = (let n = of_char c :: nat in
     0x20 < n \<and> n < 0x80 \<and> c \<noteq> CHR 0x22 \<and> c \<noteq> CHR 0x27 \<and> c \<noteq> CHR ''<'' \<and> c \<noteq> CHR ''>'')"

definition https_prefix :: string where "https_prefix = ''https://''"

definition trim_right :: "string \<Rightarrow> string \<Rightarrow> string" where
  "trim_right cutset s = rev (dropWhile (\<lambda>c. c \<in> set cutset) (rev s))"

definition maxSupportedResourceLinkTextBytes :: nat where "maxSupportedResourceLinkTextBytes = 16384"

text \<open>The loop stops when it has found a second candidate.\<close>

function link_candidates :: "string \<Rightarrow> string list \<Rightarrow> string list" where
  "link_candidates s candidates =
     (case index_of s https_prefix of
        None \<Rightarrow> candidates
      | Some i \<Rightarrow>
          let rest = drop (i + length https_prefix) s;
              body = takeWhile link_char rest;
              raw = trim_right ''.,;:!)]}'' (https_prefix @ body);
              found = (if raw \<noteq> https_prefix then candidates @ [raw] else candidates)
          in if raw \<noteq> https_prefix \<and> length found > 1 then found
             else link_candidates (drop (length body) rest) found)"
  by pat_completeness auto
termination
  by (relation "measure (\<lambda>(s, candidates). length s)")
     (auto dest!: index_of_le simp: https_prefix_def)

declare link_candidates.simps [simp del]

definition resourceHTTPSLinkCandidates :: "string \<Rightarrow> string list" where
  "resourceHTTPSLinkCandidates value = link_candidates value []"

definition SingleSupportedResourceLink :: "link_env \<Rightarrow> string \<Rightarrow> resource_link option" where
  "SingleSupportedResourceLink env value =
     (if value = [] \<or> length value > maxSupportedResourceLinkTextBytes then None
      else
        (case resourceHTTPSLinkCandidates value of
           [raw] \<Rightarrow>
             (case supportedResourceLinkIdentifier env ''skill'' raw of
                Some identifier \<Rightarrow>
                  Some \<lparr>rl_LinkKind = ''skill'', rl_Identifier = identifier, rl_URL = raw,
                        rl_DirectInstall = isDirectSkillLink env raw\<rparr>
              | None \<Rightarrow>
                  (case supportedResourceLinkIdentifier env ''mcp'' raw of
                     Some identifier \<Rightarrow>
                       Some \<lparr>rl_LinkKind = ''mcp'', rl_Identifier = identifier, rl_URL = raw, rl_DirectInstall = False\<rparr>
                   | None \<Rightarrow> None))
         | _ \<Rightarrow> None))"

section \<open>All links count\<close>

text \<open>
  The reference: every link of the text, without the early exit.  The links of two words, with a
  character between them that no link contains, are the links of the one and of the other.
\<close>

function all_links :: "string \<Rightarrow> string list" where
  "all_links s =
     (case index_of s https_prefix of
        None \<Rightarrow> []
      | Some i \<Rightarrow>
          let rest = drop (i + length https_prefix) s;
              body = takeWhile link_char rest;
              raw = trim_right ''.,;:!)]}'' (https_prefix @ body)
          in (if raw \<noteq> https_prefix then [raw] else []) @ all_links (drop (length body) rest))"
  by pat_completeness auto
termination
  by (relation "measure length") (auto dest!: index_of_le simp: https_prefix_def)

declare all_links.simps [simp del]

lemma link_candidates_all: "length candidates \<le> 1 \<Longrightarrow> link_candidates s candidates = take 2 (candidates @ all_links s)"
proof (induction s candidates rule: link_candidates.induct)
  case (1 s candidates)
  show ?case
  proof (cases "index_of s https_prefix")
    case None
    with 1 show ?thesis by (simp add: link_candidates.simps [of s] all_links.simps [of s])
  next
    case (Some i)
    define rest where "rest = drop (i + length https_prefix) s"
    define body where "body = takeWhile link_char rest"
    define raw where "raw = trim_right ''.,;:!)]}'' (https_prefix @ body)"
    define found where "found = (if raw \<noteq> https_prefix then candidates @ [raw] else candidates)"
    let ?links = "all_links (drop (length body) rest)"
    have step: "link_candidates s candidates =
        (if raw \<noteq> https_prefix \<and> length found > 1 then found else link_candidates (drop (length body) rest) found)"
      using Some by (simp add: link_candidates.simps [of s] Let_def rest_def body_def raw_def found_def)
    have all: "candidates @ all_links s = found @ ?links"
      using Some by (simp add: all_links.simps [of s] Let_def rest_def body_def raw_def found_def)
    have short: "length found \<le> 2" using "1.prems" by (simp add: found_def)
    show ?thesis
    proof (cases "raw \<noteq> https_prefix \<and> length found > 1")
      case True
      with short show ?thesis unfolding all step by simp
    next
      case False
      then have "length found \<le> 1" using "1.prems" by (auto simp: found_def)
      from "1.IH" [OF Some rest_def body_def raw_def found_def False this]
      show ?thesis unfolding all step if_not_P [OF False] .
    qed
  qed
qed

lemma candidates_all: "resourceHTTPSLinkCandidates s = take 2 (all_links s)"
  by (simp add: resourceHTTPSLinkCandidates_def link_candidates_all)

lemma has_prefix_word: "c \<notin> set p \<Longrightarrow> has_prefix (u @ c # v) p = has_prefix u p"
proof (induction p arbitrary: u)
  case (Cons x p)
  then show ?case by (cases u) (auto simp: has_prefix_def)
qed (simp add: has_prefix_def)

lemma index_of_word:
  assumes "c \<notin> set p" "p \<noteq> []"
  shows "index_of (u @ c # v) p =
    (case index_of u p of Some i \<Rightarrow> Some i | None \<Rightarrow> map_option (\<lambda>j. length u + 1 + j) (index_of v p))"
proof (induction u)
  case Nil
  from assms have "\<not> has_prefix (c # v) p" by (cases p) (auto simp: has_prefix_def)
  with assms show ?case by (simp add: map_option_case split: option.split)
next
  case (Cons x u)
  have "has_prefix ((x # u) @ c # v) p = has_prefix (x # u) p" by (rule has_prefix_word [OF assms(1)])
  with Cons show ?case by (cases "index_of v p") (auto split: option.split)
qed

lemma link_char_prefix: "\<not> link_char c \<Longrightarrow> c \<notin> set https_prefix"
  by (auto simp: https_prefix_def link_char_def)

lemma all_links_words: "\<not> link_char c \<Longrightarrow> all_links (u @ c # v) = all_links u @ all_links v"
proof (induction u rule: all_links.induct)
  case (1 u)
  note word = index_of_word [OF link_char_prefix [OF "1.prems"], of u v]
  have ne: "https_prefix \<noteq> []" by (simp add: https_prefix_def)
  show ?case
  proof (cases "index_of u https_prefix")
    case None
    show ?thesis
    proof (cases "index_of v https_prefix")
      case None
      with \<open>index_of u https_prefix = None\<close> word ne show ?thesis
        by (simp add: all_links.simps [of "u @ c # v"] all_links.simps [of u] all_links.simps [of v])
    next
      case (Some j)
      have "drop (length u + 1 + j + length https_prefix) (u @ c # v) = drop (j + length https_prefix) v" by simp
      with Some \<open>index_of u https_prefix = None\<close> word ne show ?thesis
        by (simp add: all_links.simps [of "u @ c # v"] all_links.simps [of u] all_links.simps [of v] Let_def del: drop_append)
    qed
  next
    case (Some i)
    define rest where "rest = drop (i + length https_prefix) u"
    define body where "body = takeWhile link_char rest"
    have le: "i + length https_prefix \<le> length u" by (rule index_of_le [OF Some])
    have cut: "drop (i + length https_prefix) (u @ c # v) = rest @ c # v" using le by (simp add: rest_def)
    have "takeWhile link_char (rest @ c # v) = body"
    proof (cases "list_all link_char rest")
      case True
      then have "takeWhile link_char (rest @ c # v) = rest" "body = rest"
        using "1.prems" by (simp_all add: list_all_iff body_def takeWhile_append2)
      then show ?thesis by simp
    next
      case False
      then obtain x where "x \<in> set rest" "\<not> link_char x" by (auto simp: list_all_iff)
      then show ?thesis by (simp add: body_def takeWhile_append1)
    qed
    moreover have "length body \<le> length rest" by (simp add: body_def length_takeWhile_le)
    ultimately have step: "all_links (u @ c # v) =
        (if trim_right ''.,;:!)]}'' (https_prefix @ body) \<noteq> https_prefix
         then [trim_right ''.,;:!)]}'' (https_prefix @ body)] else []) @ all_links (drop (length body) rest @ c # v)"
      "all_links u = (if trim_right ''.,;:!)]}'' (https_prefix @ body) \<noteq> https_prefix
         then [trim_right ''.,;:!)]}'' (https_prefix @ body)] else []) @ all_links (drop (length body) rest)"
      using Some word ne cut
      by (simp_all add: all_links.simps [of "u @ c # v"] all_links.simps [of u] Let_def flip: rest_def body_def)
    show ?thesis using "1.IH" [OF Some rest_def body_def refl "1.prems"] by (simp add: step)
  qed
qed

text \<open>A link is a stretch of the text, of link characters, behind \<open>https://\<close>.\<close>

lemma trim_right_prefix: "prefix (trim_right cutset s) s"
  unfolding trim_right_def
  by (metis suffix_dropWhile suffix_to_prefix rev_rev_ident)

lemma trim_right_keeps: "last a \<notin> set cutset \<Longrightarrow> a \<noteq> [] \<Longrightarrow> trim_right cutset (a @ b) = a @ trim_right cutset b"
proof -
  assume a: "last a \<notin> set cutset" "a \<noteq> []"
  then have "dropWhile (\<lambda>c. c \<in> set cutset) (rev a) = rev a"
    by (cases a rule: rev_cases) simp_all
  then show ?thesis
    by (simp add: trim_right_def dropWhile_append)
qed

lemma index_of_at: "index_of s p = Some i \<Longrightarrow> take (length p) (drop i s) = p"
  by (induction s arbitrary: i) (auto simp: has_prefix_def split: if_splits)

lemma all_links_occur:
  "x \<in> set (all_links s) \<Longrightarrow>
   has_prefix x https_prefix \<and> list_all link_char x \<and> (\<exists>pre post. s = pre @ x @ post)"
proof (induction s rule: all_links.induct)
  case (1 s)
  from "1.prems" obtain i where i: "index_of s https_prefix = Some i"
    by (cases "index_of s https_prefix") (simp_all add: all_links.simps [of s])
  define rest where "rest = drop (i + length https_prefix) s"
  define body where "body = takeWhile link_char rest"
  define raw where "raw = trim_right ''.,;:!)]}'' (https_prefix @ body)"
  have "take (length https_prefix) (drop i s) @ drop (length https_prefix) (drop i s) = drop i s"
    by (rule append_take_drop_id)
  then have "drop i s = https_prefix @ rest"
    by (simp add: index_of_at [OF i] rest_def add.commute)
  then have s: "s = take i s @ https_prefix @ rest" by (metis append_take_drop_id)
  show ?case
  proof (cases "x = raw")
    case True
    obtain tail where tail: "https_prefix @ body = raw @ tail"
      using trim_right_prefix [of "''.,;:!)]}''" "https_prefix @ body"] by (auto simp: raw_def prefix_def)
    have "rest = body @ drop (length body) rest"
      by (metis body_def append_take_drop_id takeWhile_eq_take)
    then have "s = take i s @ raw @ tail @ drop (length body) rest"
      using s tail by (metis append.assoc)
    moreover have "raw = https_prefix @ trim_right ''.,;:!)]}'' body"
      unfolding raw_def by (rule trim_right_keeps) (simp_all add: https_prefix_def)
    moreover have "list_all link_char (https_prefix @ body)"
      by (auto simp: list_all_iff body_def https_prefix_def link_char_def dest: set_takeWhileD)
    ultimately show ?thesis
      unfolding True tail list_all_append by (metis has_prefix_append)
  next
    case False
    with "1.prems" i have "x \<in> set (all_links (drop (length body) rest))"
      by (auto simp: all_links.simps [of s] Let_def raw_def body_def rest_def split: if_splits)
    from "1.IH" [OF i rest_def body_def refl this]
    obtain pre post where x: "has_prefix x https_prefix" "list_all link_char x" "drop (length body) rest = pre @ x @ post"
      by blast
    then have "s = (take i s @ https_prefix @ take (length body) rest @ pre) @ x @ post"
      using s by (metis append.assoc append_take_drop_id)
    with x show ?thesis by blast
  qed
qed

lemma supported_plain:
  "supportedResourceLinkIdentifier env kind raw = Some identifier \<Longrightarrow>
   supportedResourceIdentifier identifier \<and>
   (\<exists>p. ln_parse env (trim_space raw) = Some p \<and> plain_https p \<and>
        link_host env p \<in> set (''github.com'' # aihero_hosts @ lobe_hosts))"
  by (auto simp: supportedResourceLinkIdentifier_def Let_def split: option.splits if_splits list.splits)

text \<open>
  C37: A link is taken from the text of a user only if it is the only one: the text has no second
  HTTPS link anywhere, in another word or behind it, supported or not.  The link is a stretch of
  that text, on a supported host, with no user, query, fragment or other port, its identifier is a
  plain name, and only a Skill can be installed directly.
\<close>

theorem single_link_fails_closed:
  assumes "SingleSupportedResourceLink env text = Some link"
  shows "all_links text = [rl_URL link] \<and>
    (\<forall>u c v. text = u @ c # v \<and> \<not> link_char c \<longrightarrow> all_links u = [] \<or> all_links v = []) \<and>
    has_prefix (rl_URL link) https_prefix \<and> (\<exists>pre post. text = pre @ rl_URL link @ post) \<and>
    (\<exists>p. ln_parse env (trim_space (rl_URL link)) = Some p \<and> plain_https p \<and>
         link_host env p \<in> set (''github.com'' # aihero_hosts @ lobe_hosts)) \<and>
    supportedResourceIdentifier (rl_Identifier link) \<and>
    rl_LinkKind link \<in> {''skill'', ''mcp''} \<and> (rl_DirectInstall link \<longrightarrow> rl_LinkKind link = ''skill'')"
proof -
  from assms obtain raw where raw: "resourceHTTPSLinkCandidates text = [raw]"
    by (auto simp: SingleSupportedResourceLink_def split: if_splits list.splits)
  have one: "all_links text = [raw]"
  proof (cases "all_links text")
    case (Cons x xs)
    with raw show ?thesis by (cases xs) (simp_all add: candidates_all)
  qed (use raw in \<open>simp add: candidates_all\<close>)
  from assms raw have url: "rl_URL link = raw" and
    kind: "rl_LinkKind link \<in> {''skill'', ''mcp''}" "rl_DirectInstall link \<longrightarrow> rl_LinkKind link = ''skill''" and
    supported: "supportedResourceLinkIdentifier env (rl_LinkKind link) raw = Some (rl_Identifier link)"
    by (auto simp: SingleSupportedResourceLink_def split: if_splits option.splits)
  have "raw \<in> set (all_links text)" using one by simp
  from all_links_occur [OF this] have occurs: "has_prefix raw https_prefix" "\<exists>pre post. text = pre @ raw @ post"
    by blast+
  have "all_links u = [] \<or> all_links v = []" if "text = u @ c # v" "\<not> link_char c" for u c v
    using one all_links_words [OF that(2), of u v] that(1) by (cases "all_links u") auto
  then show ?thesis
    using one url kind supported_plain [OF supported] occurs by blast
qed

text \<open>A text with one link of the MCP marketplace.\<close>

definition example_link_env :: link_env where
  "example_link_env =
     \<lparr>ln_parse = (\<lambda>s. if s = ''https://lobehub.com/mcp/github''
        then Some \<lparr>lk_Scheme = ''https'', lk_HasUser = False, lk_RawQuery = [], lk_Fragment = [], lk_Port = [],
                   lk_Hostname = ''lobehub.com'', lk_EscapedPath = ''/mcp/github''\<rparr> else None),
      ln_unescape = Some, ln_escape = id, ln_lower = id, ln_nfc = id, ln_equal_fold = (=)\<rparr>"

definition example_text :: string where
  "example_text = ''add https://lobehub.com/mcp/github, ok''"

definition example_link :: resource_link where
  "example_link =
     \<lparr>rl_LinkKind = ''mcp'', rl_Identifier = ''github'', rl_URL = ''https://lobehub.com/mcp/github'', rl_DirectInstall = False\<rparr>"

lemma example_links: "resourceHTTPSLinkCandidates example_text = [''https://lobehub.com/mcp/github'']"
  by (simp add: resourceHTTPSLinkCandidates_def example_text_def link_candidates.simps https_prefix_def has_prefix_def
        link_char_def trim_right_def)

lemma example_single: "SingleSupportedResourceLink example_link_env example_text = Some example_link"
proof -
  have "trim_space ''https://lobehub.com/mcp/github'' = ''https://lobehub.com/mcp/github''"
    by (rule trim_space_printable) (simp_all add: printable_def)
  then show ?thesis
    unfolding SingleSupportedResourceLink_def example_links
    by (simp add: example_text_def maxSupportedResourceLinkTextBytes_def supportedResourceLinkIdentifier_def
          example_link_env_def plain_https_def link_host_def trim_suffix_def has_suffix_def has_prefix_def to_lower_def
          is_ascii_def ascii_lower_def aihero_hosts_def lobe_hosts_def trim_slashes_def supportedResourceIdentifier_def
          link_alnum_def lower_alnum_def example_link_def)
qed

theorem single_link_fails_closed_witness:
  "all_links example_text = [''https://lobehub.com/mcp/github''] \<and>
   (all_links (take 3 example_text) = [] \<or> all_links (drop 4 example_text) = [])"
proof -
  have "all_links example_text = [''https://lobehub.com/mcp/github'']"
    using single_link_fails_closed [OF example_single] by (simp add: example_link_def)
  moreover have "all_links (take 3 example_text) = []"
    by (simp add: example_text_def all_links.simps https_prefix_def has_prefix_def)
  ultimately show ?thesis by simp
qed

end
