(* ===== verification/Resource_Orchestrator.thy ===== *)
theory Resource_Orchestrator
  imports Resource_Link Mcp_Service
begin

text \<open>
  The resource orchestrator (internal/resourceorchestrator: service.go, install.go, mutation.go):
  the catalogue of what a user has, the search for more, and the explicit changes: installing a
  Skill or an MCP server, removing one, and switching a server of a conversation on or off.

  The Skill library, the MCP client and the auditor are interfaces of the service: records of
  operations on a state of their own, \<open>'s\<close>.  The model has no nil service.  Equal names in a
  catalogue keep the order of the library, where the sort of the code may permute them.  The encoding of a
  catalogue and its hash are the field \<open>rn_revision\<close> of the environment.
\<close>

section \<open>Data\<close>

text \<open>An error is the list of the sentinel errors that it wraps.\<close>

datatype resource_sentinel =
    ResInvalidQuery
  | ResRevisionChanged
  | ResConfigurationRequired
  | ResDisabled
  | ResUnavailable
  | ResForbidden
  | ResAuditUnavailable
  | SkillInstallationConflict
  | SkillRevisionConflict
  | SkillInvalidSource
  | SkillSourceUnavailable
  | SkillSourceDrift
  | SkillPackageCollision
  | SkillArchiveInvalid
  | SkillManifestInvalid
  | SkillAdmissionDenied
  | SkillUnavailable
  | ResContextCanceled
  | ResContextDeadline

type_synonym resource_error = "resource_sentinel list"

definition res_is :: "resource_error \<Rightarrow> resource_sentinel \<Rightarrow> bool" where
  "res_is e s = List.member e s"

record skill_installation =
  si_ID :: string
  si_AdmissionID :: string
  si_PackageFingerprint :: string
  si_Name :: string
  si_Version :: string
  si_Description :: string
  si_AllowedTools :: "string list"
  si_Revision :: int

record skill_candidate =
  cd_ID :: string
  cd_SourceType :: string
  cd_Status :: string
  cd_PackageName :: string
  cd_PackageVersion :: string
  cd_PackageFingerprint :: string
  cd_PackageDescription :: string
  cd_AllowedTools :: "string list"

record store_page =
  sp_Items :: "skill_candidate list"
  sp_TotalPages :: int

record marketplace_deployment =
  md_Recommended :: bool
  md_Compatibility :: string
  md_Hash :: string
  md_InstallMode :: string

record marketplace_item =
  mk_Identifier :: string
  mk_Name :: string
  mk_Description :: string

record marketplace_search =
  mh_Items :: "marketplace_item list"
  mh_Source :: string

record marketplace_detail =
  mi_Version :: string
  mi_Tools :: "string list"
  mi_Deployments :: "marketplace_deployment list"

record marketplace_install_input =
  mn_Identifier :: string
  mn_Version :: string
  mn_ConversationID :: string
  mn_EnableForConversation :: bool
  mn_DeploymentHash :: string

record marketplace_install =
  mo_Server :: mcp_server
  mo_ValidationError :: string

record 's skill_source =
  ss_ListLibrary :: "string \<Rightarrow> 's \<Rightarrow> (resource_error + skill_installation list) \<times> 's"
  ss_ListStore :: "int \<Rightarrow> int \<Rightarrow> 's \<Rightarrow> (resource_error + store_page) \<times> 's"
  ss_GetStoreItem :: "string \<Rightarrow> 's \<Rightarrow> (resource_error + skill_candidate) \<times> 's"
  ss_Install :: "string \<Rightarrow> string \<Rightarrow> string \<Rightarrow> 's \<Rightarrow> (resource_error + skill_installation) \<times> 's"
  ss_InstallDirectSkillLink :: "string \<Rightarrow> string \<Rightarrow> string \<Rightarrow> 's \<Rightarrow> (skill_installation \<times> resource_error option) \<times> 's"
  ss_Uninstall :: "string \<Rightarrow> string \<Rightarrow> int \<Rightarrow> 's \<Rightarrow> resource_error option \<times> 's"

record 's mcp_source =
  mz_ListServers :: "string \<Rightarrow> string \<Rightarrow> 's \<Rightarrow> (resource_error + mcp_server list) \<times> 's"
  mz_GetSelection :: "string \<Rightarrow> string \<Rightarrow> 's \<Rightarrow> (resource_error + mcp_selection) \<times> 's"
  mz_SearchMarketplace :: "string \<Rightarrow> int \<Rightarrow> int \<Rightarrow> 's \<Rightarrow> (resource_error + marketplace_search) \<times> 's"
  mz_MarketplaceItem :: "string \<Rightarrow> string \<Rightarrow> string \<Rightarrow> 's \<Rightarrow> (resource_error + marketplace_detail) \<times> 's"
  mz_InstallMarketplaceItem :: "string \<Rightarrow> marketplace_install_input \<Rightarrow> 's \<Rightarrow> (resource_error + marketplace_install) \<times> 's"
  mz_ReplaceSelection :: "string \<Rightarrow> mcp_selection \<Rightarrow> 's \<Rightarrow> (resource_error + mcp_selection) \<times> 's"
  mz_DeletePrivateServer :: "string \<Rightarrow> string \<Rightarrow> 's \<Rightarrow> resource_error option \<times> 's"

record mutation_audit =
  mu_ID :: string
  mu_UserID :: string
  mu_ConversationID :: string
  mu_EntryPoint :: string
  mu_Kind :: string
  mu_Action :: string
  mu_CandidateID :: string
  mu_Version :: string
  mu_ExactRevision :: string
  mu_ResultResourceID :: string
  mu_Outcome :: string
  mu_ErrorCode :: string
  mu_OccurredAt :: int

text \<open>The auditor answers whether it has stored the record.\<close>

record 's resource_service =
  ro_skills :: "'s skill_source option"
  ro_mcp :: "'s mcp_source option"
  ro_mutationEnabled :: bool
  ro_auditor :: "(mutation_audit \<Rightarrow> 's \<Rightarrow> bool \<times> 's) option"
  ro_newAuditID :: "'s \<Rightarrow> string \<times> 's"
  ro_now :: "'s \<Rightarrow> int \<times> 's"

record skill_resource =
  sr_InstallationID :: string
  sr_Name :: string
  sr_Version :: string
  sr_PackageFingerprint :: string
  sr_Description :: string
  sr_AllowedTools :: "string list"
  sr_Revision :: int

record mcp_resource =
  mr_Ref :: server_ref
  mr_Name :: string
  mr_Description :: string
  mr_AuthType :: string
  mr_Status :: string
  mr_CredentialStatus :: string
  mr_ToolCount :: int
  mr_UnsupportedCount :: int
  mr_Selected :: bool
  mr_DisabledTools :: "string list"
  mr_CanManage :: bool

record resource_catalog =
  ct_Revision :: string
  ct_SelectionMode :: string
  ct_Skills :: "skill_resource list"
  ct_MCPServers :: "mcp_resource list"

record search_item =
  it_Kind :: string
  it_ID :: string
  it_Name :: string
  it_Description :: string
  it_Version :: string
  it_ExactRevision :: string
  it_Status :: string
  it_Source :: string
  it_AuthType :: string
  it_PermissionScopes :: "string list"

record search_result =
  sh_Kind :: string
  sh_Query :: string
  sh_Items :: "search_item list"

record install_request =
  iq_Kind :: string
  iq_ID :: string
  iq_Version :: string
  iq_ExactRevision :: string
  iq_UserID :: string
  iq_ConversationID :: string
  iq_EntryPoint :: string

record direct_install_request =
  dq_URL :: string
  dq_Identifier :: string
  dq_UserID :: string
  dq_ConversationID :: string
  dq_EntryPoint :: string

record install_result =
  ir_Kind :: string
  ir_ID :: string
  ir_Name :: string
  ir_Revision :: string
  ir_Status :: string
  ir_RefreshRequired :: bool
  ir_MutationAuditID :: string

record mutation_request =
  mq_Kind :: string
  mq_Action :: string
  mq_ID :: string
  mq_ExpectedRevision :: int
  mq_UserID :: string
  mq_ConversationID :: string
  mq_EntryPoint :: string

record mutation_result =
  mx_Kind :: string
  mx_Action :: string
  mx_ID :: string
  mx_Name :: string
  mx_Revision :: int
  mx_Status :: string
  mx_RefreshRequired :: bool
  mx_MutationAuditID :: string

record resource_env =
  rn_link :: link_env
  rn_revision :: "resource_catalog \<Rightarrow> string"

definition MaxItems :: nat where "MaxItems = 5"
definition maxSkillSearchPages :: int where "maxSkillSearchPages = 5"

definition res_lower :: "resource_env \<Rightarrow> string \<Rightarrow> string" where
  "res_lower env s = to_lower (ln_lower (rn_link env)) s"

definition no_install :: install_result where
  "no_install = \<lparr>ir_Kind = [], ir_ID = [], ir_Name = [], ir_Revision = [], ir_Status = [], ir_RefreshRequired = False,
                ir_MutationAuditID = []\<rparr>"

definition no_mutation :: mutation_result where
  "no_mutation = \<lparr>mx_Kind = [], mx_Action = [], mx_ID = [], mx_Name = [], mx_Revision = 0, mx_Status = [],
                  mx_RefreshRequired = False, mx_MutationAuditID = []\<rparr>"

section \<open>Catalogue and search\<close>

definition skill_entry :: "skill_installation \<Rightarrow> skill_resource" where
  "skill_entry i =
     \<lparr>sr_InstallationID = si_ID i, sr_Name = si_Name i, sr_Version = si_Version i,
      sr_PackageFingerprint = si_PackageFingerprint i, sr_Description = si_Description i,
      sr_AllowedTools = si_AllowedTools i, sr_Revision = si_Revision i\<rparr>"

definition mcp_entry :: "selection_server list \<Rightarrow> mcp_server \<Rightarrow> mcp_resource" where
  "mcp_entry selected server =
     (let entry = find (\<lambda>s. ref_key (sl_Ref s) = ref_key (sv_Ref server)) (rev selected)
      in \<lparr>mr_Ref = sv_Ref server, mr_Name = sv_Name server, mr_Description = sv_Description server,
          mr_AuthType = sv_AuthType server, mr_Status = sv_Status server,
          mr_CredentialStatus =
            (if sv_AuthType server = ''none'' then ''not_required''
             else if sv_HasCredential server then ''configured'' else ''required''),
          mr_ToolCount = sv_ToolCount server, mr_UnsupportedCount = sv_UnsupportedCount server,
          mr_Selected = (entry \<noteq> None),
          mr_DisabledTools = (case entry of None \<Rightarrow> [] | Some s \<Rightarrow> sl_DisabledTools s),
          mr_CanManage = sv_CanManage server\<rparr>)"

definition catalog_skills :: "'s resource_service \<Rightarrow> string \<Rightarrow> 's \<Rightarrow> (resource_error + skill_resource list) \<times> 's" where
  "catalog_skills sv userID s =
     (case ro_skills sv of
        None \<Rightarrow> (Inr [], s)
      | Some skills \<Rightarrow>
          (case ss_ListLibrary skills userID s of
             (Inl e, s1) \<Rightarrow> (Inl e, s1)
           | (Inr installed, s1) \<Rightarrow> (Inr (map skill_entry installed), s1)))"

definition catalog_servers ::
  "'s resource_service \<Rightarrow> string \<Rightarrow> string \<Rightarrow> 's \<Rightarrow> (resource_error + string \<times> mcp_resource list) \<times> 's" where
  "catalog_servers sv userID conversationID s =
     (case ro_mcp sv of
        None \<Rightarrow> (Inr ([], []), s)
      | Some mcp \<Rightarrow>
          (case mz_ListServers mcp userID conversationID s of
             (Inl e, s1) \<Rightarrow> (Inl e, s1)
           | (Inr servers, s1) \<Rightarrow>
               (case mz_GetSelection mcp userID conversationID s1 of
                  (Inl e, s2) \<Rightarrow> (Inl e, s2)
                | (Inr selection, s2) \<Rightarrow>
                    (Inr (se_Mode selection, map (mcp_entry (se_Servers selection)) servers), s2))))"

definition Catalog ::
  "resource_env \<Rightarrow> 's resource_service \<Rightarrow> string \<Rightarrow> string \<Rightarrow> 's \<Rightarrow> (resource_error + resource_catalog) \<times> 's" where
  "Catalog env sv userID conversationID s =
     (case catalog_skills sv userID s of
        (Inl e, s1) \<Rightarrow> (Inl e, s1)
      | (Inr skills, s1) \<Rightarrow>
          (case catalog_servers sv userID conversationID s1 of
             (Inl e, s2) \<Rightarrow> (Inl e, s2)
           | (Inr (mode, servers), s2) \<Rightarrow>
               let catalog = \<lparr>ct_Revision = [], ct_SelectionMode = mode, ct_Skills = sort_key sr_Name skills,
                              ct_MCPServers = sort_key (\<lambda>r. ref_key (mr_Ref r)) servers\<rparr>
               in (Inr (catalog\<lparr>ct_Revision := rn_revision env catalog\<rparr>), s2)))"

definition matches :: "resource_env \<Rightarrow> string \<Rightarrow> string list \<Rightarrow> bool" where
  "matches env query values =
     (if query = [] then True
      else
        let haystack = res_lower env (join_with '' '' values)
        in list_all (\<lambda>term. contains haystack term) (go_fields (res_lower env query)))"

definition skill_item :: "skill_candidate \<Rightarrow> search_item" where
  "skill_item c =
     \<lparr>it_Kind = ''skill'', it_ID = cd_ID c, it_Name = cd_PackageName c, it_Description = cd_PackageDescription c,
      it_Version = cd_PackageVersion c, it_ExactRevision = cd_PackageFingerprint c, it_Status = cd_Status c,
      it_Source = cd_SourceType c, it_AuthType = [], it_PermissionScopes = cd_AllowedTools c\<rparr>"

text \<open>The store is read page by page until there are enough items; \<open>fuel\<close> is the pages left.\<close>

fun search_pages ::
  "resource_env \<Rightarrow> 's skill_source \<Rightarrow> string \<Rightarrow> nat \<Rightarrow> int \<Rightarrow> search_item list \<Rightarrow> 's
   \<Rightarrow> (resource_error + search_item list) \<times> 's" where
  "search_pages env skills query 0 page items s = (Inr items, s)"
| "search_pages env skills query (Suc fuel) page items s =
     (if page > maxSkillSearchPages \<or> length items \<ge> MaxItems then (Inr items, s)
      else
        (case ss_ListStore skills page 20 s of
           (Inl e, s1) \<Rightarrow> (Inl e, s1)
         | (Inr store, s1) \<Rightarrow>
             let hits = filter (\<lambda>c. matches env query [cd_ID c, cd_PackageName c, cd_PackageDescription c]) (sp_Items store);
                 items' = items @ map skill_item (take (MaxItems - length items) hits)
             in if page \<ge> sp_TotalPages store \<or> sp_Items store = [] then (Inr items', s1)
                else search_pages env skills query fuel (page + 1) items' s1))"

definition marketplaceAuthType :: "string \<Rightarrow> string" where
  "marketplaceAuthType installMode =
     (let mode = trim_space installMode
      in if mode = ''direct'' then ''none''
         else if mode = ''header'' then ''header''
         else if mode = ''oauth'' then ''oauth''
         else if mode = ''runner_env'' then ''env''
         else [])"

text \<open>The status, revision and authentication of the recommended deployment, or else of the first.\<close>

fun pick_deployment :: "marketplace_deployment list \<Rightarrow> string \<times> string \<times> string \<Rightarrow> string \<times> string \<times> string" where
  "pick_deployment [] picked = picked"
| "pick_deployment (d # ds) (status, exactRevision, authType) =
     (let picked = (if md_Recommended d \<or> exactRevision = []
                    then (md_Compatibility d, md_Hash d, marketplaceAuthType (md_InstallMode d))
                    else (status, exactRevision, authType))
      in if md_Recommended d then picked else pick_deployment ds picked)"

definition mcp_item :: "string \<Rightarrow> marketplace_item \<Rightarrow> marketplace_detail \<Rightarrow> search_item" where
  "mcp_item source item detail =
     (case pick_deployment (mi_Deployments detail) (''incompatible'', [], []) of
        (status, exactRevision, authType) \<Rightarrow>
          \<lparr>it_Kind = ''mcp'', it_ID = mk_Identifier item, it_Name = mk_Name item, it_Description = mk_Description item,
           it_Version = mi_Version detail, it_ExactRevision = exactRevision, it_Status = status, it_Source = source,
           it_AuthType = authType, it_PermissionScopes = mi_Tools detail\<rparr>)"

fun search_details ::
  "'s mcp_source \<Rightarrow> string \<Rightarrow> string \<Rightarrow> marketplace_item list \<Rightarrow> search_item list \<Rightarrow> 's \<Rightarrow> search_item list \<times> 's" where
  "search_details mcp userID source [] items s = (items, s)"
| "search_details mcp userID source (item # rest) items s =
     (case mz_MarketplaceItem mcp userID (mk_Identifier item) [] s of
        (Inl e, s1) \<Rightarrow> search_details mcp userID source rest items s1
      | (Inr detail, s1) \<Rightarrow> search_details mcp userID source rest (items @ [mcp_item source item detail]) s1)"

definition SearchResources ::
  "resource_env \<Rightarrow> 's resource_service \<Rightarrow> string \<Rightarrow> string \<Rightarrow> string \<Rightarrow> 's \<Rightarrow> (resource_error + search_result) \<times> 's" where
  "SearchResources env sv userID kind0 query0 s =
     (let kind = res_lower env (trim_space kind0);
          joined = join_with '' '' (go_fields query0);
          query = (case supportedResourceLinkIdentifier (rn_link env) kind joined of None \<Rightarrow> joined | Some i \<Rightarrow> i)
      in if kind = ''skill''
         then
           (case ro_skills sv of
              None \<Rightarrow> (Inl [ResUnavailable], s)
            | Some skills \<Rightarrow>
                (case search_pages env skills query (nat maxSkillSearchPages) 1 [] s of
                   (Inl e, s1) \<Rightarrow> (Inl e, s1)
                 | (Inr items, s1) \<Rightarrow> (Inr \<lparr>sh_Kind = kind, sh_Query = query, sh_Items = items\<rparr>, s1)))
         else if kind = ''mcp''
         then
           (case ro_mcp sv of
              None \<Rightarrow> (Inl [ResUnavailable], s)
            | Some mcp \<Rightarrow>
                (case mz_SearchMarketplace mcp query 1 (int MaxItems) s of
                   (Inl e, s1) \<Rightarrow> (Inl e, s1)
                 | (Inr marketplace, s1) \<Rightarrow>
                     (case search_details mcp userID (mh_Source marketplace) (mh_Items marketplace) [] s1 of
                        (items, s2) \<Rightarrow> (Inr \<lparr>sh_Kind = kind, sh_Query = query, sh_Items = items\<rparr>, s2))))
         else (Inl [ResInvalidQuery], s))"

section \<open>The audit of a change\<close>

definition mutationErrorCode :: "resource_error \<Rightarrow> string" where
  "mutationErrorCode e =
     (if res_is e ResInvalidQuery then ''invalid_request''
      else if res_is e ResRevisionChanged then ''revision_changed''
      else if res_is e ResConfigurationRequired then ''configuration_required''
      else if res_is e ResDisabled then ''disabled''
      else if res_is e ResUnavailable then ''unavailable''
      else if res_is e ResForbidden then ''forbidden''
      else ''mutation_failed'')"

text \<open>The identifier of the stored record, and the error that the operation ends with.\<close>

definition recordMutation ::
  "'s resource_service \<Rightarrow> mutation_audit \<Rightarrow> string \<Rightarrow> resource_error option \<Rightarrow> 's
   \<Rightarrow> (string \<times> resource_error option) \<times> 's" where
  "recordMutation sv audit resultID mutationErr s =
     (case ro_auditor sv of
        None \<Rightarrow> (([], mutationErr), s)
      | Some record_audit \<Rightarrow>
          (case ro_newAuditID sv s of
             (auditID, s1) \<Rightarrow>
               (case ro_now sv s1 of
                  (now, s2) \<Rightarrow>
                    let a = audit\<lparr>mu_ID := auditID, mu_OccurredAt := now, mu_ResultResourceID := resultID,
                                  mu_Outcome := (case mutationErr of None \<Rightarrow> ''success'' | Some _ \<Rightarrow> ''failed''),
                                  mu_ErrorCode := (case mutationErr of None \<Rightarrow> [] | Some e \<Rightarrow> mutationErrorCode e)\<rparr>
                    in (case record_audit a s2 of
                          (stored, s3) \<Rightarrow>
                            if stored then ((auditID, mutationErr), s3)
                            else (([], Some (case mutationErr of Some e \<Rightarrow> e | None \<Rightarrow> [ResAuditUnavailable])), s3)))))"

definition new_audit :: "string \<Rightarrow> string \<Rightarrow> string \<Rightarrow> string \<Rightarrow> string \<Rightarrow> string \<Rightarrow> string \<Rightarrow> string \<Rightarrow> mutation_audit" where
  "new_audit userID conversationID entryPoint kind action candidateID version exactRevision =
     \<lparr>mu_ID = [], mu_UserID = userID, mu_ConversationID = conversationID, mu_EntryPoint = entryPoint,
      mu_Kind = kind, mu_Action = action, mu_CandidateID = candidateID, mu_Version = version,
      mu_ExactRevision = exactRevision, mu_ResultResourceID = [], mu_Outcome = [], mu_ErrorCode = [], mu_OccurredAt = 0\<rparr>"

text \<open>
  An installation is recorded after it was tried.  The operation returns its result also with an
  error.
\<close>

definition with_audit ::
  "'s resource_service \<Rightarrow> mutation_audit \<Rightarrow> (install_result \<times> resource_error option) \<times> 's
   \<Rightarrow> (install_result \<times> resource_error option) \<times> 's" where
  "with_audit sv audit outcome =
     (case outcome of
        ((result, err), s) \<Rightarrow>
          (case recordMutation sv audit (ir_ID result) err s of
             ((auditID, auditErr), s1) \<Rightarrow> ((result\<lparr>ir_MutationAuditID := auditID\<rparr>, auditErr), s1)))"

section \<open>Installing\<close>

definition skillInstallResult :: "skill_installation \<Rightarrow> install_result" where
  "skillInstallResult i =
     \<lparr>ir_Kind = ''skill'', ir_ID = si_ID i, ir_Name = si_Name i, ir_Revision = si_PackageFingerprint i,
      ir_Status = ''installed'', ir_RefreshRequired = True, ir_MutationAuditID = []\<rparr>"

definition install_failed :: "resource_error \<Rightarrow> 's \<Rightarrow> (install_result \<times> resource_error option) \<times> 's" where
  "install_failed e s = ((no_install, Some e), s)"

definition trim_install :: "resource_env \<Rightarrow> install_request \<Rightarrow> install_request" where
  "trim_install env rq =
     \<lparr>iq_Kind = res_lower env (trim_space (iq_Kind rq)), iq_ID = trim_space (iq_ID rq),
      iq_Version = trim_space (iq_Version rq), iq_ExactRevision = trim_space (iq_ExactRevision rq),
      iq_UserID = trim_space (iq_UserID rq), iq_ConversationID = trim_space (iq_ConversationID rq),
      iq_EntryPoint = trim_space (iq_EntryPoint rq)\<rparr>"

definition install_audit :: "install_request \<Rightarrow> mutation_audit" where
  "install_audit rq =
     new_audit (iq_UserID rq) (iq_ConversationID rq) (iq_EntryPoint rq) (iq_Kind rq) ''install'' (iq_ID rq)
       (iq_Version rq) (iq_ExactRevision rq)"

definition InstallDirectSkillLink ::
  "'s resource_service \<Rightarrow> direct_install_request \<Rightarrow> 's \<Rightarrow> (install_result \<times> resource_error option) \<times> 's" where
  "InstallDirectSkillLink sv rq s =
     (let url = trim_space (dq_URL rq); identifier = trim_space (dq_Identifier rq);
          userID = trim_space (dq_UserID rq); conversationID = trim_space (dq_ConversationID rq);
          entryPoint = trim_space (dq_EntryPoint rq)
      in if \<not> ro_mutationEnabled sv then install_failed [ResDisabled] s
         else if url = [] \<or> identifier = [] \<or> userID = [] \<or> conversationID = [] then install_failed [ResInvalidQuery] s
         else
           (case ro_skills sv of
              None \<Rightarrow> install_failed [ResInvalidQuery] s
            | Some skills \<Rightarrow>
                (case ss_InstallDirectSkillLink skills userID url identifier s of
                   ((installed, err), s1) \<Rightarrow>
                     with_audit sv
                       (new_audit userID conversationID entryPoint ''skill'' ''install''
                          (if si_AdmissionID installed \<noteq> [] then si_AdmissionID installed else identifier)
                          (si_Version installed) (si_PackageFingerprint installed))
                       ((case err of None \<Rightarrow> skillInstallResult installed | Some _ \<Rightarrow> no_install, err), s1))))"

definition installedSkill ::
  "'s skill_source \<Rightarrow> string \<Rightarrow> string \<Rightarrow> string \<Rightarrow> 's \<Rightarrow> (resource_error + skill_installation option) \<times> 's" where
  "installedSkill skills userID admissionID fingerprint s =
     (case ss_ListLibrary skills userID s of
        (Inl e, s1) \<Rightarrow> (Inl e, s1)
      | (Inr library, s1) \<Rightarrow>
          (Inr (find (\<lambda>i. si_AdmissionID i = admissionID \<and> si_PackageFingerprint i = fingerprint) library), s1))"

definition installSkill ::
  "'s resource_service \<Rightarrow> install_request \<Rightarrow> 's \<Rightarrow> (install_result \<times> resource_error option) \<times> 's" where
  "installSkill sv rq s =
     (case ro_skills sv of
        None \<Rightarrow> install_failed [ResUnavailable] s
      | Some skills \<Rightarrow>
          (case ss_GetStoreItem skills (iq_ID rq) s of
             (Inl e, s1) \<Rightarrow> install_failed e s1
           | (Inr candidate, s1) \<Rightarrow>
               if cd_PackageFingerprint candidate \<noteq> iq_ExactRevision rq \<or>
                  (iq_Version rq \<noteq> [] \<and> cd_PackageVersion candidate \<noteq> iq_Version rq)
               then install_failed [ResRevisionChanged] s1
               else
                 (case installedSkill skills (iq_UserID rq) (cd_ID candidate) (iq_ExactRevision rq) s1 of
                    (Inl e, s2) \<Rightarrow> install_failed e s2
                  | (Inr (Some existing), s2) \<Rightarrow> ((skillInstallResult existing, None), s2)
                  | (Inr None, s2) \<Rightarrow>
                      (case ss_Install skills (iq_UserID rq) (cd_ID candidate) (iq_ExactRevision rq) s2 of
                         (Inr installed, s3) \<Rightarrow> ((skillInstallResult installed, None), s3)
                       | (Inl e, s3) \<Rightarrow>
                           if res_is e SkillInstallationConflict
                           then
                             (case installedSkill skills (iq_UserID rq) (cd_ID candidate) (iq_ExactRevision rq) s3 of
                                (Inr (Some existing), s4) \<Rightarrow> ((skillInstallResult existing, None), s4)
                              | (_, s4) \<Rightarrow> install_failed e s4)
                           else install_failed e s3))))"

definition mcp_install_result :: "server_ref \<Rightarrow> string \<Rightarrow> string \<Rightarrow> bool \<Rightarrow> install_result" where
  "mcp_install_result ref name exactRevision ready =
     \<lparr>ir_Kind = ''mcp'', ir_ID = ref_key ref, ir_Name = name, ir_Revision = exactRevision,
      ir_Status = (if ready then ''installed'' else ''configuration_required''), ir_RefreshRequired = ready,
      ir_MutationAuditID = []\<rparr>"

definition server_usable :: "mcp_server \<Rightarrow> bool" where
  "server_usable server \<longleftrightarrow> sv_Status server = ''ready'' \<and> (sv_AuthType server = ''none'' \<or> sv_HasCredential server)"

definition installMCP ::
  "'s resource_service \<Rightarrow> install_request \<Rightarrow> 's \<Rightarrow> (install_result \<times> resource_error option) \<times> 's" where
  "installMCP sv rq s =
     (case ro_mcp sv of
        None \<Rightarrow> install_failed [ResUnavailable] s
      | Some mcp \<Rightarrow>
          if iq_ConversationID rq = [] \<or> iq_Version rq = [] then install_failed [ResInvalidQuery] s
          else
            (case mz_MarketplaceItem mcp (iq_UserID rq) (iq_ID rq) (iq_Version rq) s of
               (Inl e, s1) \<Rightarrow> install_failed e s1
             | (Inr detail, s1) \<Rightarrow>
                 (case find (\<lambda>d. md_Hash d = iq_ExactRevision rq) (mi_Deployments detail) of
                    None \<Rightarrow> install_failed [ResRevisionChanged] s1
                  | Some deployment \<Rightarrow>
                      if md_Compatibility deployment \<notin> {''installable'', ''needs_configuration''}
                      then install_failed [ResConfigurationRequired] s1
                      else
                        (case mz_InstallMarketplaceItem mcp (iq_UserID rq)
                                \<lparr>mn_Identifier = iq_ID rq, mn_Version = iq_Version rq,
                                 mn_ConversationID = iq_ConversationID rq, mn_EnableForConversation = False,
                                 mn_DeploymentHash = iq_ExactRevision rq\<rparr> s1 of
                           (Inl e, s2) \<Rightarrow> install_failed e s2
                         | (Inr installed, s2) \<Rightarrow>
                             let server = mo_Server installed;
                                 ready = (mo_ValidationError installed = [] \<and> server_usable server)
                             in ((mcp_install_result (sv_Ref server) (sv_Name server) (iq_ExactRevision rq) ready,
                                  if ready then None else Some [ResConfigurationRequired]), s2)))))"

definition installExplicit ::
  "'s resource_service \<Rightarrow> install_request \<Rightarrow> 's \<Rightarrow> (install_result \<times> resource_error option) \<times> 's" where
  "installExplicit sv rq s =
     (if iq_Kind rq = ''skill'' then installSkill sv rq s
      else if iq_Kind rq = ''mcp'' then installMCP sv rq s
      else install_failed [ResInvalidQuery] s)"

definition InstallExplicit ::
  "resource_env \<Rightarrow> 's resource_service \<Rightarrow> install_request \<Rightarrow> 's \<Rightarrow> (install_result \<times> resource_error option) \<times> 's" where
  "InstallExplicit env sv request s =
     (let rq = trim_install env request
      in if \<not> ro_mutationEnabled sv then install_failed [ResDisabled] s
         else if iq_ID rq = [] \<or> iq_ExactRevision rq = [] \<or> iq_UserID rq = [] \<or> iq_ConversationID rq = []
         then install_failed [ResInvalidQuery] s
         else with_audit sv (install_audit rq) (installExplicit sv rq s))"

definition parseMCPServerRef :: "string \<Rightarrow> server_ref option" where
  "parseMCPServerRef value =
     (let v = trim_space value; source = trim_space (takeWhile (\<lambda>c. c \<noteq> CHR '':'') v);
          rest = dropWhile (\<lambda>c. c \<noteq> CHR '':'') v
      in if rest = [] \<or> trim_space (tl rest) = [] then None
         else if source \<notin> {''catalog'', ''manifest'', ''private''} then None
         else Some \<lparr>ref_Source = source, ref_ID = trim_space (tl rest)\<rparr>)"

definition findMCPServer :: "mcp_server list \<Rightarrow> server_ref \<Rightarrow> mcp_server option" where
  "findMCPServer servers ref = find (\<lambda>server. sv_Ref server = ref) servers"

definition hasExactDeployment :: "marketplace_deployment list \<Rightarrow> string \<Rightarrow> bool" where
  "hasExactDeployment deployments exactRevision = list_ex (\<lambda>d. md_Hash d = exactRevision) deployments"

definition marketplaceMetadataMatches :: "metadata \<Rightarrow> string \<Rightarrow> string \<Rightarrow> string \<Rightarrow> bool" where
  "marketplaceMetadataMatches m identifier version deploymentHash =
     (case map_of m ''marketplace'' of
        Some (MetaValue (AnyMap _)) \<Rightarrow>
          trim_space (provenance_string m ''identifier'') = identifier \<and>
          trim_space (provenance_string m ''version'') = version \<and>
          trim_space (provenance_string m ''deploymentHash'') = deploymentHash
      | _ \<Rightarrow> False)"

definition completeConfiguredMCP ::
  "'s resource_service \<Rightarrow> install_request \<Rightarrow> string \<Rightarrow> 's \<Rightarrow> (install_result \<times> resource_error option) \<times> 's" where
  "completeConfiguredMCP sv rq resourceID s =
     (case ro_mcp sv of
        None \<Rightarrow> install_failed [ResUnavailable] s
      | Some mcp \<Rightarrow>
          (case mz_MarketplaceItem mcp (iq_UserID rq) (iq_ID rq) (iq_Version rq) s of
             (Inl e, s1) \<Rightarrow> install_failed e s1
           | (Inr detail, s1) \<Rightarrow>
               if \<not> hasExactDeployment (mi_Deployments detail) (iq_ExactRevision rq)
               then install_failed [ResRevisionChanged] s1
               else
                 (case parseMCPServerRef resourceID of
                    None \<Rightarrow> install_failed [ResForbidden] s1
                  | Some ref \<Rightarrow>
                      if ref_Source ref \<noteq> ''private'' then install_failed [ResForbidden] s1
                      else
                        (case mz_ListServers mcp (iq_UserID rq) (iq_ConversationID rq) s1 of
                           (Inl e, s2) \<Rightarrow> install_failed e s2
                         | (Inr servers, s2) \<Rightarrow>
                             (case findMCPServer servers ref of
                                None \<Rightarrow> install_failed [ResForbidden] s2
                              | Some server \<Rightarrow>
                                  if \<not> sv_CanManage server \<or>
                                     \<not> marketplaceMetadataMatches (sv_Metadata server) (iq_ID rq) (iq_Version rq) (iq_ExactRevision rq)
                                  then install_failed [ResForbidden] s2
                                  else
                                    let ready = server_usable server
                                    in ((mcp_install_result ref (sv_Name server) (iq_ExactRevision rq) ready,
                                         if ready then None else Some [ResConfigurationRequired]), s2))))))"

definition CompleteConfiguredMCP ::
  "resource_env \<Rightarrow> 's resource_service \<Rightarrow> install_request \<Rightarrow> string \<Rightarrow> 's
   \<Rightarrow> (install_result \<times> resource_error option) \<times> 's" where
  "CompleteConfiguredMCP env sv request resourceID0 s =
     (let rq = trim_install env request; resourceID = trim_space resourceID0
      in if \<not> ro_mutationEnabled sv then install_failed [ResDisabled] s
         else if iq_Kind rq \<noteq> ''mcp'' \<or> iq_ID rq = [] \<or> iq_Version rq = [] \<or> iq_ExactRevision rq = [] \<or>
                 iq_UserID rq = [] \<or> iq_ConversationID rq = [] \<or> resourceID = []
         then install_failed [ResInvalidQuery] s
         else with_audit sv (install_audit rq) (completeConfiguredMCP sv rq resourceID s))"

section \<open>Removing and switching\<close>

definition mutation_failed :: "resource_error \<Rightarrow> 's \<Rightarrow> (mutation_result \<times> resource_error option) \<times> 's" where
  "mutation_failed e s = ((no_mutation, Some e), s)"

definition validMutationAction :: "string \<Rightarrow> string \<Rightarrow> bool" where
  "validMutationAction kind action \<longleftrightarrow>
     (kind = ''skill'' \<and> action = ''remove'') \<or> (kind = ''mcp'' \<and> action \<in> {''enable'', ''disable'', ''remove''})"

definition mutationRevision :: "int \<Rightarrow> string" where
  "mutationRevision revision = (if revision < 1 then [] else ''cas:'' @ itoa revision)"

definition installedSkillByID ::
  "'s skill_source \<Rightarrow> string \<Rightarrow> string \<Rightarrow> 's \<Rightarrow> (resource_error + skill_installation option) \<times> 's" where
  "installedSkillByID skills userID installationID s =
     (case ss_ListLibrary skills userID s of
        (Inl e, s1) \<Rightarrow> (Inl e, s1)
      | (Inr library, s1) \<Rightarrow> (Inr (find (\<lambda>i. si_ID i = installationID) library), s1))"

definition removeSkill ::
  "'s resource_service \<Rightarrow> mutation_request \<Rightarrow> 's \<Rightarrow> (mutation_result \<times> resource_error option) \<times> 's" where
  "removeSkill sv rq s =
     (case ro_skills sv of
        None \<Rightarrow> mutation_failed [ResInvalidQuery] s
      | Some skills \<Rightarrow>
          if mq_Action rq \<noteq> ''remove'' \<or> mq_ExpectedRevision rq < 1 then mutation_failed [ResInvalidQuery] s
          else
            (case installedSkillByID skills (mq_UserID rq) (mq_ID rq) s of
               (Inl e, s1) \<Rightarrow> mutation_failed e s1
             | (Inr None, s1) \<Rightarrow> mutation_failed [ResForbidden] s1
             | (Inr (Some installed), s1) \<Rightarrow>
                 if si_Revision installed \<noteq> mq_ExpectedRevision rq then mutation_failed [ResRevisionChanged] s1
                 else
                   (case ss_Uninstall skills (mq_UserID rq) (mq_ID rq) (mq_ExpectedRevision rq) s1 of
                      (Some e, s2) \<Rightarrow>
                        mutation_failed (if res_is e SkillRevisionConflict then [ResRevisionChanged] else e) s2
                    | (None, s2) \<Rightarrow>
                        ((\<lparr>mx_Kind = ''skill'', mx_Action = ''remove'', mx_ID = si_ID installed, mx_Name = si_Name installed,
                           mx_Revision = mq_ExpectedRevision rq, mx_Status = ''removed'', mx_RefreshRequired = True,
                           mx_MutationAuditID = []\<rparr>, None), s2))))"

definition removeMCP ::
  "'s mcp_source \<Rightarrow> mutation_request \<Rightarrow> mcp_server \<Rightarrow> 's \<Rightarrow> (mutation_result \<times> resource_error option) \<times> 's" where
  "removeMCP mcp rq server s =
     (if ref_Source (sv_Ref server) \<noteq> ''private'' \<or> \<not> sv_CanManage server then mutation_failed [ResForbidden] s
      else
        (case mz_DeletePrivateServer mcp (mq_UserID rq) (ref_ID (sv_Ref server)) s of
           (Some e, s1) \<Rightarrow> mutation_failed e s1
         | (None, s1) \<Rightarrow>
             ((\<lparr>mx_Kind = ''mcp'', mx_Action = ''remove'', mx_ID = ref_key (sv_Ref server), mx_Name = sv_Name server,
                mx_Revision = 0, mx_Status = ''removed'', mx_RefreshRequired = True, mx_MutationAuditID = []\<rparr>, None), s1)))"

definition selectionContains :: "selection_server list \<Rightarrow> server_ref \<Rightarrow> bool" where
  "selectionContains items ref = list_ex (\<lambda>item. sl_Ref item = ref) items"

definition removeSelection :: "selection_server list \<Rightarrow> server_ref \<Rightarrow> selection_server list" where
  "removeSelection items ref = filter (\<lambda>item. sl_Ref item \<noteq> ref) items"

definition toggled :: "mutation_request \<Rightarrow> mcp_server \<Rightarrow> mcp_selection \<Rightarrow> selection_server list" where
  "toggled rq server selection =
     (let selected = (if se_Mode selection \<noteq> ''custom'' then [] else se_Servers selection)
      in if mq_Action rq = ''enable''
         then (if selectionContains selected (sv_Ref server) then selected
               else selected @ [\<lparr>sl_Ref = sv_Ref server, sl_DisabledTools = []\<rparr>])
         else removeSelection selected (sv_Ref server))"

definition toggleMCP ::
  "'s mcp_source \<Rightarrow> mutation_request \<Rightarrow> mcp_server \<Rightarrow> 's \<Rightarrow> (mutation_result \<times> resource_error option) \<times> 's" where
  "toggleMCP mcp rq server s =
     (case mz_GetSelection mcp (mq_UserID rq) (mq_ConversationID rq) s of
        (Inl e, s1) \<Rightarrow> mutation_failed e s1
      | (Inr selection, s1) \<Rightarrow>
          if se_Revision selection \<noteq> mq_ExpectedRevision rq then mutation_failed [ResRevisionChanged] s1
          else if mq_Action rq = ''enable'' \<and> sv_Status server \<noteq> ''ready''
          then mutation_failed [ResConfigurationRequired] s1
          else
            (case mz_ReplaceSelection mcp (mq_UserID rq)
                    \<lparr>se_ConversationID = mq_ConversationID rq, se_Mode = ''custom'',
                     se_Revision = mq_ExpectedRevision rq, se_Servers = toggled rq server selection\<rparr> s1 of
               (Inl e, s2) \<Rightarrow> mutation_failed e s2
             | (Inr updated, s2) \<Rightarrow>
                 ((\<lparr>mx_Kind = ''mcp'', mx_Action = mq_Action rq, mx_ID = ref_key (sv_Ref server), mx_Name = sv_Name server,
                    mx_Revision = se_Revision updated,
                    mx_Status = (if mq_Action rq = ''enable'' then ''enabled'' else ''disabled''),
                    mx_RefreshRequired = True, mx_MutationAuditID = []\<rparr>, None), s2)))"

definition mutateMCP ::
  "'s resource_service \<Rightarrow> mutation_request \<Rightarrow> 's \<Rightarrow> (mutation_result \<times> resource_error option) \<times> 's" where
  "mutateMCP sv rq s =
     (case ro_mcp sv of
        None \<Rightarrow> mutation_failed [ResUnavailable] s
      | Some mcp \<Rightarrow>
          (case parseMCPServerRef (mq_ID rq) of
             None \<Rightarrow> mutation_failed [ResInvalidQuery] s
           | Some ref \<Rightarrow>
               (case mz_ListServers mcp (mq_UserID rq) (mq_ConversationID rq) s of
                  (Inl e, s1) \<Rightarrow> mutation_failed e s1
                | (Inr servers, s1) \<Rightarrow>
                    (case findMCPServer servers ref of
                       None \<Rightarrow> mutation_failed [ResForbidden] s1
                     | Some server \<Rightarrow>
                         if mq_Action rq = ''remove'' then removeMCP mcp rq server s1
                         else toggleMCP mcp rq server s1))))"

definition mutateExplicit ::
  "'s resource_service \<Rightarrow> mutation_request \<Rightarrow> 's \<Rightarrow> (mutation_result \<times> resource_error option) \<times> 's" where
  "mutateExplicit sv rq s =
     (if mq_Kind rq = ''skill'' then removeSkill sv rq s
      else if mq_Kind rq = ''mcp'' then mutateMCP sv rq s
      else mutation_failed [ResInvalidQuery] s)"

definition trim_mutation :: "resource_env \<Rightarrow> mutation_request \<Rightarrow> mutation_request" where
  "trim_mutation env rq =
     \<lparr>mq_Kind = res_lower env (trim_space (mq_Kind rq)), mq_Action = res_lower env (trim_space (mq_Action rq)),
      mq_ID = trim_space (mq_ID rq), mq_ExpectedRevision = mq_ExpectedRevision rq,
      mq_UserID = trim_space (mq_UserID rq), mq_ConversationID = trim_space (mq_ConversationID rq),
      mq_EntryPoint = trim_space (mq_EntryPoint rq)\<rparr>"

definition MutateExplicit ::
  "resource_env \<Rightarrow> 's resource_service \<Rightarrow> mutation_request \<Rightarrow> 's \<Rightarrow> (mutation_result \<times> resource_error option) \<times> 's" where
  "MutateExplicit env sv request s =
     (let rq = trim_mutation env request
      in if \<not> ro_mutationEnabled sv then mutation_failed [ResDisabled] s
         else if mq_ID rq = [] \<or> mq_UserID rq = [] \<or> mq_ConversationID rq = [] \<or>
                 \<not> validMutationAction (mq_Kind rq) (mq_Action rq)
         then mutation_failed [ResInvalidQuery] s
         else
           (case mutateExplicit sv rq s of
              ((result, err), s1) \<Rightarrow>
                (case recordMutation sv
                        (new_audit (mq_UserID rq) (mq_ConversationID rq) (mq_EntryPoint rq) (mq_Kind rq) (mq_Action rq)
                           (mq_ID rq) [] (mutationRevision (mq_ExpectedRevision rq))) (mx_ID result) err s1 of
                   ((auditID, auditErr), s2) \<Rightarrow> ((result\<lparr>mx_MutationAuditID := auditID\<rparr>, auditErr), s2))))"

end
