(* ===== verification/Resource_Audit.thy ===== *)
theory Resource_Audit
  imports Resource_Orchestrator
begin

text \<open>
  What a change of resources does to the outside: the calls that it makes to the Skill library,
  the MCP client and the auditor, in their order, are observed, and every change among them is
  justified by the answers before it.
\<close>

section \<open>Observing a service\<close>

text \<open>The calls with what matters of their answers; searches are not observed.\<close>

datatype resource_call =
    ReadLibrary string "resource_error + skill_installation list"
  | ReadStoreItem string "resource_error + skill_candidate"
  | ReadServers string string "resource_error + mcp_server list"
  | ReadSelection string string "resource_error + mcp_selection"
  | ReadMarketplaceItem string string string "resource_error + marketplace_detail"
  | DoInstallSkill string string string
  | DoInstallLink string string string
  | DoUninstall string string int
  | DoInstallServer string marketplace_install_input
  | DoReplaceSelection string mcp_selection
  | DoDeleteServer string string
  | DoAudit mutation_audit bool






section \<open>Justified changes\<close>

text \<open>
  A change is justified by the answers before it: a Skill is installed at the fingerprint that the
  store has just shown, a server with the hash of a compatible deployment that the marketplace has
  just shown and without switching it on, a Skill is removed at the revision in the library, a server
  only if it is private and the user manages it, and a selection is replaced at its revision, by one
  that differs at most in one server that the user can see.
\<close>

definition others_kept :: "server_ref \<Rightarrow> selection_server list \<Rightarrow> selection_server list \<Rightarrow> bool" where
  "others_kept ref old new \<longleftrightarrow> filter (\<lambda>x. sl_Ref x \<noteq> ref) new = filter (\<lambda>x. sl_Ref x \<noteq> ref) old"

fun justified :: "resource_call list \<Rightarrow> resource_call \<Rightarrow> bool" where
  "justified before (DoInstallSkill u i r) =
     (\<exists>j c. ReadStoreItem j (Inr c) \<in> set before \<and> cd_ID c = i \<and> cd_PackageFingerprint c = r)"
| "justified before (DoInstallServer u inp) =
     (\<exists>detail d. ReadMarketplaceItem u (mn_Identifier inp) (mn_Version inp) (Inr detail) \<in> set before \<and>
        d \<in> set (mi_Deployments detail) \<and> md_Hash d = mn_DeploymentHash inp \<and>
        md_Compatibility d \<in> {''installable'', ''needs_configuration''} \<and> \<not> mn_EnableForConversation inp)"
| "justified before (DoUninstall u i r) =
     (\<exists>library inst. ReadLibrary u (Inr library) \<in> set before \<and> inst \<in> set library \<and> si_ID inst = i \<and> si_Revision inst = r)"
| "justified before (DoDeleteServer u i) =
     (\<exists>c servers server. ReadServers u c (Inr servers) \<in> set before \<and> server \<in> set servers \<and>
        sv_Ref server = \<lparr>ref_Source = ''private'', ref_ID = i\<rparr> \<and> sv_CanManage server)"
| "justified before (DoReplaceSelection u sel) =
     (\<exists>current servers server.
        ReadSelection u (se_ConversationID sel) (Inr current) \<in> set before \<and> se_Revision sel = se_Revision current \<and>
        ReadServers u (se_ConversationID sel) (Inr servers) \<in> set before \<and> server \<in> set servers \<and>
        (se_Mode current = ''custom'' \<longrightarrow>
           others_kept (sv_Ref server) (se_Servers current) (se_Servers sel)))"
| "justified before _ = True"

definition log_ok :: "resource_call list \<Rightarrow> bool" where
  "log_ok log \<longleftrightarrow> (\<forall>i < length log. justified (take i log) (log ! i))"

lemma log_ok_Nil [simp]: "log_ok []"
  by (simp add: log_ok_def)



fun is_change :: "resource_call \<Rightarrow> bool" where
  "is_change (ReadLibrary _ _) = False"
| "is_change (ReadStoreItem _ _) = False"
| "is_change (ReadServers _ _ _) = False"
| "is_change (ReadSelection _ _ _) = False"
| "is_change (ReadMarketplaceItem _ _ _ _) = False"
| "is_change (DoAudit _ _) = False"
| "is_change _ = True"

fun is_audit :: "resource_call \<Rightarrow> bool" where
  "is_audit (DoAudit _ _) = True"
| "is_audit _ = False"

text \<open>The four operations that change something, on requests that are already trimmed.\<close>

datatype resource_op =
    OpInstall install_request
  | OpInstallLink direct_install_request
  | OpComplete install_request string
  | OpMutate mutation_request

text \<open>A change is what was asked for.\<close>

fun asked :: "resource_op \<Rightarrow> resource_call \<Rightarrow> bool" where
  "asked (OpInstall rq) (DoInstallSkill u i r) = (u = iq_UserID rq \<and> r = iq_ExactRevision rq)"
| "asked (OpInstall rq) (DoInstallServer u inp) =
     (u = iq_UserID rq \<and> mn_Identifier inp = iq_ID rq \<and> mn_Version inp = iq_Version rq \<and>
      mn_DeploymentHash inp = iq_ExactRevision rq \<and> mn_ConversationID inp = iq_ConversationID rq)"
| "asked (OpInstallLink rq) (DoInstallLink u l i) = (u = dq_UserID rq \<and> l = dq_URL rq \<and> i = dq_Identifier rq)"
| "asked (OpMutate rq) (DoUninstall u i r) = (u = mq_UserID rq \<and> i = mq_ID rq \<and> r = mq_ExpectedRevision rq)"
| "asked (OpMutate rq) (DoDeleteServer u i) =
     (u = mq_UserID rq \<and> parseMCPServerRef (mq_ID rq) = Some \<lparr>ref_Source = ''private'', ref_ID = i\<rparr>)"
| "asked (OpMutate rq) (DoReplaceSelection u sel) =
     (u = mq_UserID rq \<and> se_ConversationID sel = mq_ConversationID rq \<and> se_Revision sel = mq_ExpectedRevision rq)"
| "asked op c = (\<not> is_change c)"

definition tried :: "resource_op \<Rightarrow> resource_call list \<Rightarrow> bool" where
  "tried op log \<longleftrightarrow>
     log_ok log \<and> length (filter is_change log) \<le> 1 \<and> filter is_audit log = [] \<and> list_all (asked op) log"

lemma tried_Nil [simp]: "tried op []"
  by (simp add: tried_def)

section \<open>The operations\<close>







section \<open>The record of a change\<close>



















text \<open>
  A server that a conversation inherits from its workspace cannot be switched off alone: the change
  leaves the conversation without any server.
\<close>

lemma disable_inherited_clears:
  "se_Mode selection = ''inherit'' \<Longrightarrow> mq_Action rq = ''disable'' \<Longrightarrow> toggled rq server selection = []"
  by (simp add: toggled_def removeSelection_def)

end
