(* ===== verification/Resource_Tool.thy ===== *)
theory Resource_Tool
  imports Resource_Audit Local_Tools Tool_Registry
begin

text \<open>
  The resource tools of a run (internal/chat/resource\_tool.go): searching for Skills and MCP
  servers, and asking for the installation of one that a search of the run has found.

  The service behind them is a record of operations on a state \<open>'s\<close>; \<open>orchestrated\<close> is the
  orchestrator in this role.  What happens outside during a call (events delivered, approvals decided,
  the context of the turn) is its \<open>resource_tick\<close>.  The cards that are shown are not modelled.
\<close>

section \<open>The service\<close>

record 's resource_tools =
  rts_Search :: "string \<Rightarrow> string \<Rightarrow> string \<Rightarrow> 's \<Rightarrow> (resource_error + search_result) \<times> 's"
  rts_InstallExplicit :: "install_request \<Rightarrow> 's \<Rightarrow> (install_result \<times> resource_error option) \<times> 's"
  rts_InstallDirectSkillLink :: "direct_install_request \<Rightarrow> 's \<Rightarrow> (install_result \<times> resource_error option) \<times> 's"
  rts_CompleteConfiguredMCP :: "install_request \<Rightarrow> string \<Rightarrow> 's \<Rightarrow> (install_result \<times> resource_error option) \<times> 's"

definition orchestrated :: "resource_env \<Rightarrow> 's resource_service \<Rightarrow> 's resource_tools" where
  "orchestrated env sv =
     \<lparr>rts_Search = SearchResources env sv, rts_InstallExplicit = InstallExplicit env sv,
      rts_InstallDirectSkillLink = InstallDirectSkillLink sv,
      rts_CompleteConfiguredMCP = CompleteConfiguredMCP env sv\<rparr>"

section \<open>The runtime\<close>

text \<open>The decoders stand for the strict decoding of the arguments into the structure of the tool.\<close>

record resource_tool_env =
  rq_links :: link_env
  rq_encode :: "any_value \<Rightarrow> string"
  rq_letter :: "string \<Rightarrow> bool"
  rq_decode_search :: "string \<Rightarrow> (string \<times> string \<times> string option) option"
  rq_decode_install :: "string \<Rightarrow> (string \<times> string \<times> string option \<times> string \<times> string) option"
  rq_decode_link :: "string \<Rightarrow> (string \<times> string) option"

record resource_tool_event =
  rw_ExecutionID :: string
  rw_CallID :: string
  rw_Tool :: string
  rw_Status :: string
  rw_CallStatus :: string
  rw_FailureCategory :: string
  rw_Classification :: string

record resource_runtime =
  ru_userID :: string
  ru_conversationID :: string
  ru_explicitInstall :: bool
  ru_directLink :: "resource_link option"
  ru_hasDirectLink :: bool
  ru_searches :: nat
  ru_installRequests :: nat
  ru_found :: "(string, search_item) gomap"
  ru_searchResults :: "(string, search_result) gomap"
  ru_approvals :: bool
  ru_refreshRequired :: bool
  ru_refreshExecution :: "resource_tool_event option"
  ru_skillAvailable :: bool
  ru_mcpAvailable :: bool

definition maxResourceDiscoveryRounds :: nat where "maxResourceDiscoveryRounds = 2"

text \<open>Words and phrases, in English and Chinese, that deny or ask for an installation.\<close>

definition denied_phrases :: "string list" where
  "denied_phrases =
     [map char_of [0xE4::nat, 0xB8, 0x8D, 0xE8, 0xA6, 0x81, 0xE5, 0xAE, 0x89, 0xE8, 0xA3, 0x85],
      map char_of [0xE4::nat, 0xB8, 0x8D, 0xE5, 0xAE, 0x89, 0xE8, 0xA3, 0x85],
      map char_of [0xE5::nat, 0x88, 0xAB, 0xE5, 0xAE, 0x89, 0xE8, 0xA3, 0x85],
      map char_of [0xE6::nat, 0x97, 0xA0, 0xE9, 0x9C, 0x80, 0xE5, 0xAE, 0x89, 0xE8, 0xA3, 0x85],
      ''do not install'',
      ''don'' @ CHR 0x27 # ''t install'',
      ''dont install'',
      ''without installing'',
      ''should i install'',
      map char_of [0xE6::nat, 0x80, 0x8E, 0xE4, 0xB9, 0x88, 0xE5, 0xAE, 0x89, 0xE8, 0xA3, 0x85],
      map char_of [0xE5::nat, 0xA6, 0x82, 0xE4, 0xBD, 0x95, 0xE5, 0xAE, 0x89, 0xE8, 0xA3, 0x85],
      map char_of [0xE8::nat, 0x83, 0xBD, 0xE5, 0x90, 0xA6, 0xE5, 0xAE, 0x89, 0xE8, 0xA3, 0x85],
      map char_of [0xE6::nat, 0x98, 0xAF, 0xE5, 0x90, 0xA6, 0xE5, 0xAE, 0x89, 0xE8, 0xA3, 0x85],
      map char_of [0xE5::nat, 0x8F, 0xAF, 0xE4, 0xBB, 0xA5, 0xE5, 0xAE, 0x89, 0xE8, 0xA3, 0x85, 0xE5, 0x90, 0x97],
      ''how to install'',
      ''can i install'']"

definition install_phrases :: "string list" where
  "install_phrases =
     [map char_of [0xE5::nat, 0xB8, 0xAE, 0xE6, 0x88, 0x91, 0xE5, 0xAE, 0x89, 0xE8, 0xA3, 0x85],
      map char_of [0xE8::nat, 0xAF, 0xB7, 0xE5, 0xAE, 0x89, 0xE8, 0xA3, 0x85],
      map char_of [0xE7::nat, 0xBB, 0x99, 0xE6, 0x88, 0x91, 0xE5, 0xAE, 0x89, 0xE8, 0xA3, 0x85],
      map char_of [0xE6::nat, 0x88, 0x91, 0xE8, 0xA6, 0x81, 0xE5, 0xAE, 0x89, 0xE8, 0xA3, 0x85],
      map char_of [0xE8::nat, 0xA3, 0x85, 0xE4, 0xB8, 0x80, 0xE4, 0xB8, 0x8B],
      map char_of [0xE8::nat, 0xA3, 0x85, 0xE4, 0xB8, 0x8A],
      ''please install'',
      ''can you install'',
      ''could you install'',
      ''help me install'']"

definition install_word :: string where "install_word = map char_of [0xE5::nat, 0xAE, 0x89, 0xE8, 0xA3, 0x85]"

definition hasExplicitResourceInstallIntent :: "resource_tool_env \<Rightarrow> string \<Rightarrow> bool" where
  "hasExplicitResourceInstallIntent env text =
     (let normalized = to_lower (ln_lower (rq_links env)) (trim_space text)
      in if has_prefix normalized ''/skill install '' \<or> has_prefix normalized ''/mcp install '' then True
         else if list_ex (contains normalized) denied_phrases then False
         else if has_prefix normalized install_word then True
         else if list_ex (contains normalized) install_phrases then True
         else
           (case fields_func (\<lambda>r. \<not> rq_letter env r \<and> r \<noteq> ''-'') normalized of
              [] \<Rightarrow> False
            | word # _ \<Rightarrow> word = ''install''))"

definition newResourceToolRuntime :: "resource_tool_env \<Rightarrow> bool \<Rightarrow> string \<Rightarrow> string \<Rightarrow> string \<Rightarrow> resource_runtime option" where
  "newResourceToolRuntime env hasService userID conversationID userText =
     (if \<not> hasService \<or> trim_space userID = [] \<or> trim_space conversationID = [] then None
      else
        let explicitInstall = hasExplicitResourceInstallIntent env userText;
            link = SingleSupportedResourceLink (rq_links env) userText
        in Some \<lparr>ru_userID = trim_space userID, ru_conversationID = trim_space conversationID,
                 ru_explicitInstall = explicitInstall, ru_directLink = link,
                 ru_hasDirectLink = (explicitInstall \<and> link \<noteq> None), ru_searches = 0, ru_installRequests = 0,
                 ru_found = [], ru_searchResults = [], ru_approvals = False, ru_refreshRequired = False,
                 ru_refreshExecution = None, ru_skillAvailable = True, ru_mcpAvailable = True\<rparr>)"

text \<open>A runtime always has a service.\<close>

definition resource_enabled :: "resource_runtime option \<Rightarrow> bool" where
  "resource_enabled runtime =
     (case runtime of None \<Rightarrow> False
      | Some rt \<Rightarrow> ru_userID rt \<noteq> [] \<and> ru_conversationID rt \<noteq> [] \<and> (ru_skillAvailable rt \<or> ru_mcpAvailable rt))"

definition deterministicExplicitLink :: "resource_runtime \<Rightarrow> resource_link option" where
  "deterministicExplicitLink rt =
     (if \<not> resource_enabled (Some rt) \<or> \<not> ru_explicitInstall rt \<or> \<not> ru_hasDirectLink rt then None
      else
        (case ru_directLink rt of
           None \<Rightarrow> None
         | Some link \<Rightarrow>
             if (rl_LinkKind link = ''skill'' \<and> \<not> ru_skillAvailable rt) \<or>
                (rl_LinkKind link = ''mcp'' \<and> \<not> ru_mcpAvailable rt) then None
             else Some link))"

definition bindRuntimeAvailability :: "bool \<Rightarrow> bool \<Rightarrow> resource_runtime \<Rightarrow> resource_runtime" where
  "bindRuntimeAvailability skillAvailable mcpAvailable rt =
     rt\<lparr>ru_skillAvailable := skillAvailable, ru_mcpAvailable := mcpAvailable\<rparr>"

definition availableKinds :: "resource_runtime option \<Rightarrow> string list" where
  "availableKinds runtime =
     (case runtime of None \<Rightarrow> []
      | Some rt \<Rightarrow> (if ru_skillAvailable rt then [''skill''] else []) @ (if ru_mcpAvailable rt then [''mcp''] else []))"

definition bindResourceApprovals :: "bool \<Rightarrow> resource_runtime \<Rightarrow> resource_runtime" where
  "bindResourceApprovals bound rt = rt\<lparr>ru_approvals := bound\<rparr>"

text \<open>
  \<open>refresh\<close> is what the bound function answers: \<open>None\<close> when none is bound.  The result says
  whether a refresh was due, and what it gave.
\<close>

definition refreshSnapshotIfRequired ::
  "('e + 'snapshot option) option \<Rightarrow> 'e \<Rightarrow> resource_runtime \<Rightarrow> ('e + 'snapshot option) \<times> bool \<times> resource_runtime" where
  "refreshSnapshotIfRequired refresh unavailable rt =
     (if \<not> ru_refreshRequired rt then (Inr None, False, rt)
      else
        (case refresh of
           None \<Rightarrow> (Inl unavailable, True, rt)
         | Some (Inl e) \<Rightarrow> (Inl e, True, rt)
         | Some (Inr None) \<Rightarrow> (Inl unavailable, True, rt)
         | Some (Inr (Some snapshot)) \<Rightarrow> (Inr (Some snapshot), True, rt\<lparr>ru_refreshRequired := False\<rparr>)))"

definition consumeRefreshExecution :: "resource_runtime \<Rightarrow> resource_tool_event option \<times> resource_runtime" where
  "consumeRefreshExecution rt =
     (case ru_refreshExecution rt of
        None \<Rightarrow> (None, rt)
      | Some e \<Rightarrow> (Some (e\<lparr>rw_Status := ''completed'', rw_CallStatus := ''succeeded''\<rparr>), rt\<lparr>ru_refreshExecution := None\<rparr>))"

section \<open>Results\<close>

definition resourceToolPayloadResult :: "resource_tool_env \<Rightarrow> tool_call \<Rightarrow> (string \<times> any_value) list \<Rightarrow> tool_result" where
  "resourceToolPayloadResult env call payload =
     \<lparr>tr_CallID = tc_ID call, tr_Name = tc_Name call,
      tr_Content = rq_encode env (AnyMap (payload @ [(''untrustedResourceOrchestratorResult'', AnyBool True)])),
      tr_IsError = False\<rparr>"

definition resourceToolFailureResult :: "resource_tool_env \<Rightarrow> tool_call \<Rightarrow> string \<Rightarrow> tool_result" where
  "resourceToolFailureResult env call category =
     (resourceToolPayloadResult env call
        [(''isError'', AnyBool True), (''error'', AnyString (trim_space category))])\<lparr>tr_IsError := True\<rparr>"

definition present :: "string \<Rightarrow> string \<Rightarrow> (string \<times> any_value) list" where
  "present key v = (if v = [] then [] else [(key, AnyString v)])"

definition item_value :: "search_item \<Rightarrow> any_value" where
  "item_value item = AnyMap
     ([(''kind'', AnyString (it_Kind item)), (''id'', AnyString (it_ID item)), (''name'', AnyString (it_Name item)),
       (''description'', AnyString (it_Description item))] @ present ''version'' (it_Version item) @
      [(''exactRevision'', AnyString (it_ExactRevision item)), (''status'', AnyString (it_Status item)),
       (''source'', AnyString (it_Source item))] @ present ''authType'' (it_AuthType item) @
      [(''permissionScopes'', AnyList (map AnyString (it_PermissionScopes item)))])"

definition installed_value :: "install_result \<Rightarrow> any_value" where
  "installed_value r = AnyMap
     ([(''kind'', AnyString (ir_Kind r)), (''id'', AnyString (ir_ID r)), (''name'', AnyString (ir_Name r)),
       (''revision'', AnyString (ir_Revision r)), (''status'', AnyString (ir_Status r)),
       (''refreshRequired'', AnyBool (ir_RefreshRequired r))] @ present ''mutationAuditId'' (ir_MutationAuditID r))"

text \<open>What an operation ends with: the result of the call and its failure category.\<close>

type_synonym resource_end = "tool_result \<times> string"

definition resource_failed :: "resource_tool_env \<Rightarrow> tool_call \<Rightarrow> string \<Rightarrow> resource_end" where
  "resource_failed env call category = (resourceToolFailureResult env call category, category)"

section \<open>Searching\<close>

definition search_key :: "resource_tool_env \<Rightarrow> string \<Rightarrow> string \<Rightarrow> string" where
  "search_key env kind query =
     kind @ [CHR 0x00] @ to_lower (ln_lower (rq_links env)) (join_with '' '' (go_fields query))"

definition found_key :: "string \<Rightarrow> string \<Rightarrow> string" where
  "found_key kind ident = kind @ '':'' @ ident"

definition record_found :: "search_item list \<Rightarrow> resource_runtime \<Rightarrow> resource_runtime" where
  "record_found items rt =
     rt\<lparr>ru_found := fold (\<lambda>item. AList.update (found_key (it_Kind item) (it_ID item)) item) items (ru_found rt)\<rparr>"

definition search_done :: "resource_tool_env \<Rightarrow> tool_call \<Rightarrow> search_result \<Rightarrow> bool \<Rightarrow> resource_end" where
  "search_done env call result cached =
     (resourceToolPayloadResult env call
        [(''query'', AnyString (sh_Query result)), (''kind'', AnyString (sh_Kind result)),
         (''items'', AnyList (map item_value (sh_Items result))), (''shown'', AnyInt (int (length (sh_Items result)))),
         (''limit'', AnyInt (int MaxItems)), (''cached'', AnyBool cached)], [])"

definition resource_search ::
  "resource_tool_env \<Rightarrow> 's resource_tools \<Rightarrow> tool_call \<Rightarrow> resource_runtime \<Rightarrow> 's \<Rightarrow> resource_end \<times> resource_runtime \<times> 's" where
  "resource_search env sv call rt s =
     (case decodeStrictToolArguments (rq_decode_search env) (tc_Arguments call) of
        None \<Rightarrow> (resource_failed env call ''arguments_invalid'', rt, s)
      | Some (kind, query, capability) \<Rightarrow>
          if query = [] \<or> length query > 200 \<or> kind \<notin> {''skill'', ''mcp''}
          then (resource_failed env call ''arguments_invalid'', rt, s)
          else if (kind = ''skill'' \<and> \<not> ru_skillAvailable rt) \<or> (kind = ''mcp'' \<and> \<not> ru_mcpAvailable rt)
          then (resource_failed env call ''resource_kind_unavailable'', rt, s)
          else
            (case map_of (ru_searchResults rt) (search_key env kind query) of
               Some result \<Rightarrow> (search_done env call result True, record_found (sh_Items result) rt, s)
             | None \<Rightarrow>
                 if ru_searches rt \<ge> maxResourceDiscoveryRounds
                 then (resource_failed env call ''discovery_budget_exhausted'', rt, s)
                 else
                   let rt1 = rt\<lparr>ru_searches := ru_searches rt + 1\<rparr>
                   in (case rts_Search sv (ru_userID rt) kind query s of
                         (Inl e, s1) \<Rightarrow> (resource_failed env call ''resource_search_unavailable'', rt1, s1)
                       | (Inr result, s1) \<Rightarrow>
                           (search_done env call result False,
                            record_found (sh_Items result)
                              (rt1\<lparr>ru_searchResults := AList.update (search_key env kind query) result (ru_searchResults rt1)\<rparr>),
                            s1))))"

definition searchedResult :: "resource_tool_env \<Rightarrow> string \<Rightarrow> string \<Rightarrow> resource_runtime \<Rightarrow> search_result option" where
  "searchedResult env kind query rt = map_of (ru_searchResults rt) (search_key env kind query)"

section \<open>Installing\<close>

text \<open>
  \<open>qt_request\<close> and \<open>qt_wait\<close> are the approval as it is created and as it is decided
  (\<open>None\<close> is an error), \<open>qt_shown\<close> whether the pending approval could be shown; the three others
  are those of the approval that ends a configuration.  \<open>qt_context\<close> is the error of the context
  after the operation, \<open>qt_begin\<close> and \<open>qt_end\<close> whether the first and the last event were delivered.
\<close>

record resource_tick =
  qt_begin :: bool
  qt_request :: "agent_approval option"
  qt_shown :: bool
  qt_wait :: "agent_approval option"
  qt_configRequest :: "agent_approval option"
  qt_configShown :: bool
  qt_configWait :: "agent_approval option"
  qt_context :: "tool_error option"
  qt_end :: bool

text \<open>
  The steps to a decision: \<open>Inl\<close> is the failure category.  The list has the status of the event that
  shows a pending approval.
\<close>

definition await_approval ::
  "agent_approval option \<Rightarrow> bool \<Rightarrow> agent_approval option \<Rightarrow> string \<Rightarrow> string \<Rightarrow> string
   \<Rightarrow> (string + agent_approval) \<times> (string \<times> string) list" where
  "await_approval request shown decided unavailable waiting failed =
     (case request of
        None \<Rightarrow> (Inl unavailable, [])
      | Some approval \<Rightarrow>
          let settle = (\<lambda>a. if chatAgentApprovalAllowsExecution a then Inr a else Inl (approvalFailureCategory a))
          in if aa_Status approval \<noteq> ''pending'' then (settle approval, [])
             else if \<not> shown then (Inl ''cancelled'', [])
             else
               (case decided of
                  None \<Rightarrow> (Inl failed, [(''awaiting_approval'', waiting)])
                | Some a \<Rightarrow> (settle a, [(''awaiting_approval'', waiting)])))"

fun directSkillInstallFailure :: "resource_error \<Rightarrow> string" where
  "directSkillInstallFailure e =
     (if res_is e ResContextCanceled then ''direct_install_cancelled''
      else if res_is e ResContextDeadline then ''direct_install_timeout''
      else if res_is e SkillInvalidSource then ''direct_source_invalid''
      else if res_is e SkillSourceUnavailable then ''direct_source_unavailable''
      else if res_is e SkillSourceDrift \<or> res_is e SkillPackageCollision then ''direct_source_changed''
      else if res_is e SkillArchiveInvalid \<or> res_is e SkillManifestInvalid then ''direct_package_invalid''
      else if res_is e SkillAdmissionDenied then ''direct_owner_denied''
      else if res_is e SkillUnavailable \<or> res_is e ResUnavailable then ''direct_install_unavailable''
      else if res_is e ResDisabled then ''direct_install_disabled''
      else if res_is e ResAuditUnavailable then ''direct_install_audit_unavailable''
      else ''direct_install_internal'')"

definition installDirectSkillLinkCall ::
  "resource_tool_env \<Rightarrow> 's resource_tools \<Rightarrow> tool_call \<Rightarrow> resource_runtime \<Rightarrow> 's \<Rightarrow> resource_end \<times> resource_runtime \<times> 's" where
  "installDirectSkillLinkCall env sv call rt s =
     (case decodeStrictToolArguments (rq_decode_link env) (tc_Arguments call) of
        None \<Rightarrow> (resource_failed env call ''arguments_invalid'', rt, s)
      | Some (url, identifier) \<Rightarrow>
          if url = [] \<or> identifier = [] \<or> ru_installRequests rt \<ge> 1
          then (resource_failed env call ''arguments_invalid'', rt, s)
          else
            let rt1 = rt\<lparr>ru_installRequests := ru_installRequests rt + 1\<rparr>
            in (case SingleSupportedResourceLink (rq_links env) url of
                  None \<Rightarrow> (resource_failed env call ''direct_source_invalid'', rt1, s)
                | Some link \<Rightarrow>
                    if \<not> rl_DirectInstall link \<or> rl_LinkKind link \<noteq> ''skill'' \<or> rl_Identifier link \<noteq> identifier \<or>
                       rl_URL link \<noteq> url
                    then (resource_failed env call ''direct_source_invalid'', rt1, s)
                    else
                      (case rts_InstallDirectSkillLink sv
                              \<lparr>dq_URL = rl_URL link, dq_Identifier = rl_Identifier link, dq_UserID = ru_userID rt,
                               dq_ConversationID = ru_conversationID rt, dq_EntryPoint = ''explicit_skill_link''\<rparr> s of
                         ((installed, Some e), s1) \<Rightarrow> (resource_failed env call (directSkillInstallFailure e), rt1, s1)
                       | ((installed, None), s1) \<Rightarrow>
                           ((resourceToolPayloadResult env call [(''result'', installed_value installed)], []), rt1, s1))))"

text \<open>The request that resumes after a configuration: \<open>Inl\<close> is the failure category.\<close>

definition awaitResourceConfiguration ::
  "'s resource_tools \<Rightarrow> resource_tick \<Rightarrow> install_request \<Rightarrow> install_result \<Rightarrow> resource_runtime \<Rightarrow> 's
   \<Rightarrow> (string + install_result) \<times> (string \<times> string) list \<times> 's" where
  "awaitResourceConfiguration sv tick request pending rt s =
     (if \<not> ru_approvals rt then (Inl ''configuration_handoff_unavailable'', [], s)
      else
        (case await_approval (qt_configRequest tick) (qt_configShown tick) (qt_configWait tick)
                ''configuration_handoff_unavailable'' ''waiting_configuration'' ''configuration_wait_failed'' of
           (Inl category, events) \<Rightarrow> (Inl category, events, s)
         | (Inr _, events) \<Rightarrow>
             (case rts_CompleteConfiguredMCP sv (request\<lparr>iq_EntryPoint := ''agent_configuration_resume''\<rparr>) (ir_ID pending) s of
                ((configured, None), s1) \<Rightarrow> (Inr configured, events, s1)
              | ((configured, Some e), s1) \<Rightarrow>
                  (Inl (if res_is e ResConfigurationRequired then ''configuration_incomplete''
                        else if res_is e ResRevisionChanged then ''candidate_changed''
                        else ''configuration_resume_failed''), events, s1))))"

text \<open>The installation itself, when it is admitted.\<close>

definition perform_install ::
  "'s resource_tools \<Rightarrow> resource_tick \<Rightarrow> install_request \<Rightarrow> resource_runtime \<Rightarrow> 's
   \<Rightarrow> (string + install_result) \<times> (string \<times> string) list \<times> 's" where
  "perform_install sv tick request rt s =
     (case rts_InstallExplicit sv request s of
        ((installed, None), s1) \<Rightarrow> (Inr installed, [], s1)
      | ((installed, Some e), s1) \<Rightarrow>
          if res_is e ResRevisionChanged then (Inl ''candidate_changed'', [], s1)
          else if res_is e ResConfigurationRequired \<and> ir_ID installed \<noteq> []
          then awaitResourceConfiguration sv tick request installed rt s1
          else if res_is e ResConfigurationRequired then (Inl ''configuration_required'', [], s1)
          else (Inl ''install_denied_or_failed'', [], s1))"

definition install_version :: "string option \<Rightarrow> string" where
  "install_version version = (case version of None \<Rightarrow> [] | Some v \<Rightarrow> trim_space v)"

text \<open>The approval that an installation needs when the user did not ask for it: \<open>Inl\<close> is the failure category.\<close>

definition install_decision :: "resource_tick \<Rightarrow> resource_runtime \<Rightarrow> (string + agent_approval option) \<times> (string \<times> string) list" where
  "install_decision tick rt =
     (if ru_explicitInstall rt then (Inr None, [])
      else if \<not> ru_approvals rt then (Inl ''approval_unavailable'', [])
      else
        (case await_approval (qt_request tick) (qt_shown tick) (qt_wait tick)
                ''approval_unavailable'' ''waiting_approval'' ''approval_failed'' of
           (outcome, events) \<Rightarrow> (map_sum id Some outcome, events)))"

text \<open>Why a candidate cannot be installed; empty if it can.\<close>

definition candidate_refusal :: "resource_runtime \<Rightarrow> string \<Rightarrow> string \<Rightarrow> string option \<Rightarrow> string \<Rightarrow> string" where
  "candidate_refusal rt kind ident version exactRevision =
     (case map_of (ru_found rt) (found_key kind ident) of
        None \<Rightarrow> ''candidate_not_searched_or_changed''
      | Some found \<Rightarrow>
          if it_ExactRevision found \<noteq> exactRevision \<or> (version \<noteq> None \<and> it_Version found \<noteq> install_version version)
          then ''candidate_not_searched_or_changed''
          else if kind = ''mcp'' \<and> it_Status found \<noteq> ''installable'' \<and> it_Status found \<noteq> ''needs_configuration''
          then ''resource_not_installable''
          else [])"

text \<open>
  The rest of the request.  A decision that does not come leaves no result at all; a decision
  against the installation is a result.
\<close>

definition admitted_install ::
  "resource_tool_env \<Rightarrow> 's resource_tools \<Rightarrow> resource_tick \<Rightarrow> resource_tool_event \<Rightarrow> tool_call \<Rightarrow> install_request \<Rightarrow> resource_runtime \<Rightarrow> 's
   \<Rightarrow> resource_end \<times> (string \<times> string) list \<times> resource_runtime \<times> 's" where
  "admitted_install env sv tick execution call request rt s =
     (case install_decision tick rt of
        (Inl category, events) \<Rightarrow>
          ((if category \<in> {''cancelled'', ''approval_failed''} then (no_result, category)
            else resource_failed env call category), events, rt, s)
      | (Inr _, events) \<Rightarrow>
          (case perform_install sv tick request rt s of
             (Inl category, events', s1) \<Rightarrow> (resource_failed env call category, events @ events', rt, s1)
           | (Inr installed, events', s1) \<Rightarrow>
               ((resourceToolPayloadResult env call
                   [(''result'', installed_value installed),
                    (''nextAction'', AnyString ''server_refreshes_snapshot_before_next_provider_round'')], []),
                events @ events',
                rt\<lparr>ru_refreshRequired := ir_RefreshRequired installed, ru_refreshExecution := Some execution\<rparr>, s1)))"

definition requestInstall ::
  "resource_tool_env \<Rightarrow> 's resource_tools \<Rightarrow> resource_tick \<Rightarrow> resource_tool_event \<Rightarrow> tool_call \<Rightarrow> resource_runtime \<Rightarrow> 's
   \<Rightarrow> resource_end \<times> (string \<times> string) list \<times> resource_runtime \<times> 's" where
  "requestInstall env sv tick execution call rt s =
     (case decodeStrictToolArguments (rq_decode_install env) (tc_Arguments call) of
        None \<Rightarrow> (resource_failed env call ''arguments_invalid'', [], rt, s)
      | Some (kind, ident, version, exactRevision, reason) \<Rightarrow>
          if ident = [] \<or> exactRevision = [] \<or> reason = [] then (resource_failed env call ''arguments_invalid'', [], rt, s)
          else if ru_installRequests rt \<ge> 1 then (resource_failed env call ''proposal_budget_exhausted'', [], rt, s)
          else
            let rt1 = rt\<lparr>ru_installRequests := ru_installRequests rt + 1\<rparr>;
                refusal = candidate_refusal rt kind ident version exactRevision
            in if refusal \<noteq> [] then (resource_failed env call refusal, [], rt1, s)
               else admitted_install env sv tick execution call
                      \<lparr>iq_Kind = kind, iq_ID = ident, iq_Version = install_version version,
                       iq_ExactRevision = exactRevision, iq_UserID = ru_userID rt,
                       iq_ConversationID = ru_conversationID rt, iq_EntryPoint = ''agent_tool''\<rparr> rt1 s)"

section \<open>A call\<close>

text \<open>The result, the error that ends the batch, and the events that were delivered.\<close>

definition execute_resource ::
  "resource_tool_env \<Rightarrow> 's resource_tools \<Rightarrow> resource_tick \<Rightarrow> tool_call \<Rightarrow> int \<Rightarrow> nat \<Rightarrow> resource_runtime \<Rightarrow> 's
   \<Rightarrow> (tool_result \<times> tool_error option) \<times> resource_tool_event list \<times> resource_runtime \<times> 's" where
  "execute_resource env sv tick call round callNumber rt s =
     (let started = \<lparr>rw_ExecutionID = ''resource-'' @ itoa round @ ''-'' @ itoa (int callNumber), rw_CallID = tc_ID call,
                     rw_Tool = tc_Name call, rw_Status = ''running'', rw_CallStatus = ''running'', rw_FailureCategory = [],
                     rw_Classification = ''read''\<rparr>;
          execution = (if tc_Name call \<in> {''resource_request_install'', ''resource_install_skill_link''}
                       then started\<lparr>rw_Classification := ''write''\<rparr> else started)
      in if \<not> qt_begin tick then ((no_result, Some Canceled), [], rt, s)
         else
           (case (if tc_Name call = ''resource_search''
                  then (case resource_search env sv call rt s of (ended, rt1, s1) \<Rightarrow> (ended, [], rt1, s1))
                  else if tc_Name call = ''resource_request_install'' then requestInstall env sv tick execution call rt s
                  else if tc_Name call = ''resource_install_skill_link''
                  then (case installDirectSkillLinkCall env sv call rt s of (ended, rt1, s1) \<Rightarrow> (ended, [], rt1, s1))
                  else (resource_failed env call ''tool_not_available'', [], rt, s)) of
              ((result, failure), waits, rt1, s1) \<Rightarrow>
                let shown = started # map (\<lambda>(status, callStatus). execution\<lparr>rw_Status := status, rw_CallStatus := callStatus\<rparr>) waits;
                    ended = (if failure \<noteq> []
                             then execution\<lparr>rw_Status := ''failed'', rw_CallStatus := ''failed'', rw_FailureCategory := failure\<rparr>
                             else execution\<lparr>rw_Status := ''completed'', rw_CallStatus := ''succeeded''\<rparr>)
                in (case qt_context tick of
                      Some e \<Rightarrow> ((no_result, Some e), shown, rt1, s1)
                    | None \<Rightarrow>
                        if \<not> qt_end tick then ((no_result, Some Canceled), shown, rt1, s1)
                        else ((result, None), shown @ [ended], rt1, s1))))"

text \<open>The batch: the calls one by one, until one ends with an error.  \<open>number\<close> counts the calls.\<close>

fun resource_batch_from ::
  "resource_tool_env \<Rightarrow> 's resource_tools \<Rightarrow> (nat \<Rightarrow> resource_tick) \<Rightarrow> int \<Rightarrow> nat \<Rightarrow> tool_call list
   \<Rightarrow> (nat, tool_result) gomap \<times> resource_tool_event list \<times> resource_runtime \<times> 's
   \<Rightarrow> ((nat, tool_result) gomap \<times> tool_error option) \<times> resource_tool_event list \<times> resource_runtime \<times> 's" where
  "resource_batch_from env sv ticks round number [] (results, events, rt, s) = ((results, None), events, rt, s)"
| "resource_batch_from env sv ticks round number (call # rest) (results, events, rt, s) =
     (case execute_resource env sv (ticks number) call round (number + 1) rt s of
        ((result, Some e), events', rt1, s1) \<Rightarrow> ((results @ [(number, result)], Some e), events @ events', rt1, s1)
      | ((result, None), events', rt1, s1) \<Rightarrow>
          resource_batch_from env sv ticks round (number + 1) rest (results @ [(number, result)], events @ events', rt1, s1))"

definition executeResourceToolBatch ::
  "resource_tool_env \<Rightarrow> 's resource_tools \<Rightarrow> (nat \<Rightarrow> resource_tick) \<Rightarrow> tool_call list \<Rightarrow> int \<Rightarrow> resource_runtime option \<Rightarrow> 's
   \<Rightarrow> ((nat, tool_result) gomap \<times> tool_error option) \<times> resource_tool_event list \<times> resource_runtime option \<times> 's" where
  "executeResourceToolBatch env sv ticks calls round runtime s =
     (if \<not> resource_enabled runtime then (([], None), [], runtime, s)
      else
        (case resource_batch_from env sv ticks round 0 calls ([], [], the runtime, s) of
           (ended, events, rt, s1) \<Rightarrow> (ended, events, Some rt, s1)))"

section \<open>Installing from a link\<close>

text \<open>The messages of the code, as constructors.\<close>

datatype resource_answer =
    StreamFailed tool_error
  | DirectInstallFailed
  | DirectInstalled string
  | StoreUnavailable
  | NoCandidate
  | NotAdmitted string
  | SeveralCandidates
  | InstallRefused
  | Installed string string

text \<open>\<open>None\<close> leaves the turn to the model; \<open>ticks\<close> are those of the two calls.\<close>

definition runDeterministicExplicitResourceInstall ::
  "resource_tool_env \<Rightarrow> 's resource_tools \<Rightarrow> resource_tick \<Rightarrow> resource_tick \<Rightarrow> resource_runtime \<Rightarrow> 's
   \<Rightarrow> resource_answer option \<times> resource_tool_event list \<times> resource_runtime \<times> 's" where
  "runDeterministicExplicitResourceInstall env sv tick1 tick2 rt s =
     (case deterministicExplicitLink rt of
        None \<Rightarrow> (None, [], rt, s)
      | Some link \<Rightarrow>
          let call = (\<lambda>ident name arguments. no_call\<lparr>tc_ID := ident, tc_Name := name, tc_Arguments := rq_encode env (AnyMap arguments)\<rparr>)
          in if rl_DirectInstall link \<and> rl_LinkKind link = ''skill''
             then
               (case execute_resource env sv tick1
                       (call ''server-resource-direct-skill-install'' ''resource_install_skill_link''
                          [(''url'', AnyString (rl_URL link)), (''identifier'', AnyString (rl_Identifier link))]) 1 1 rt s of
                  ((result, Some e), events, rt1, s1) \<Rightarrow> (Some (StreamFailed e), events, rt1, s1)
                | ((result, None), events, rt1, s1) \<Rightarrow>
                    (Some (if tr_IsError result then DirectInstallFailed else DirectInstalled (rl_Identifier link)), events, rt1, s1))
             else
               (case execute_resource env sv tick1
                       (call ''server-resource-search'' ''resource_search''
                          [(''kind'', AnyString (rl_LinkKind link)), (''query'', AnyString (rl_URL link)), (''capability'', AnyNil)])
                       1 1 rt s of
                  ((result, Some e), events, rt1, s1) \<Rightarrow> (Some (StreamFailed e), events, rt1, s1)
                | ((result, None), events, rt1, s1) \<Rightarrow>
                    if tr_IsError result then (Some StoreUnavailable, events, rt1, s1)
                    else
                      (case searchedResult env (rl_LinkKind link) (rl_URL link) rt1 of
                         None \<Rightarrow> (Some NoCandidate, events, rt1, s1)
                       | Some discovery \<Rightarrow>
                           (case filter (\<lambda>item. it_Kind item = rl_LinkKind link \<and>
                                     (ln_equal_fold (rq_links env) (trim_space (it_ID item)) (rl_Identifier link) \<or>
                                      ln_equal_fold (rq_links env) (trim_space (it_Name item)) (rl_Identifier link)))
                                   (sh_Items discovery) of
                              [] \<Rightarrow> (Some (NotAdmitted (rl_LinkKind link)), events, rt1, s1)
                            | [candidate] \<Rightarrow>
                                (case execute_resource env sv tick2
                                        (call ''server-resource-install'' ''resource_request_install''
                                           [(''kind'', AnyString (it_Kind candidate)), (''id'', AnyString (it_ID candidate)),
                                            (''version'', if trim_space (it_Version candidate) = [] then AnyNil
                                                          else AnyString (trim_space (it_Version candidate))),
                                            (''exactRevision'', AnyString (it_ExactRevision candidate)),
                                            (''reason'', AnyString
                                               ''The user explicitly requested installation from one supported discovery link.'')])
                                        1 2 rt1 s1 of
                                   ((result, Some e), events', rt2, s2) \<Rightarrow> (Some (StreamFailed e), events @ events', rt2, s2)
                                 | ((result, None), events', rt2, s2) \<Rightarrow>
                                     (Some (if tr_IsError result then InstallRefused
                                            else Installed (rl_LinkKind link) (rl_Identifier link)), events @ events', rt2, s2))
                            | _ \<Rightarrow> (Some SeveralCandidates, events, rt1, s1)))))"

end
