(* ===== verification/Tool_Scheduler.thy ===== *)
theory Tool_Scheduler
  imports Resource_Tool Retrieval_Calls Mcp_Tools Local_Batch Agent_Goal Turn_Guard
begin

text \<open>
  The scheduler of a round of tool calls (internal/chat/chat\_tool\_scheduler.go and the part of
  web\_tool\_loop.go that calls it): which runtime a call goes to, which calls run at the same time,
  and the results that go back to the provider.

  The runtimes are those of the goals, resources, MCP servers, local tools and retrieval.  Their
  states are the components of \<open>scheduler_state\<close>; a runtime that the code has as nil is one that is
  not enabled.  The events of the calls are modelled with each runtime and left out here.
\<close>

section \<open>State\<close>

datatype scheduler_error =
    GoalFailed run_error
  | ResourceFailed tool_error
  | McpFailed mcp_failure
  | LocalFailed local_run_error

record ('g, 'r, 'l) scheduler_env =
  sx_encode :: "any_value \<Rightarrow> string"
  sx_goalEnv :: goal_env
  sx_goals :: "'g goal_repository"
  sx_resourceEnv :: resource_tool_env
  sx_resources :: "'r resource_tools"
  sx_mcp :: mcp_context
  sx_localEnv :: local_env
  sx_executor :: "'l tool_executor"
  sx_retrieval :: retrieval_context
  sx_CompletionDriven :: bool
  sx_KnowledgeEnabled :: bool

record ('g, 'r, 'l) scheduler_state =
  sb_Goals :: "goal_runtime \<times> 'g"
  sb_Resource :: "resource_runtime option \<times> 'r"
  sb_MCP :: mcp_state
  sb_Local :: "local_runtime \<times> 'l"
  sb_Retrieval :: retrieval_state

text \<open>What a call meets outside, whatever runtime it goes to.\<close>

record scheduler_tick =
  su_Goal :: goal_tick
  su_Resource :: resource_tick
  su_MCP :: mcp_tick
  su_Local :: local_tick
  su_Retrieval :: retrieval_tick

section \<open>A parallel group\<close>

definition hasToolCalls :: "tool_call list \<Rightarrow> bool" where
  "hasToolCalls calls = list_ex (\<lambda>call. trim_space (tc_Name call) \<noteq> []) calls"

record parallel_run =
  pl_results :: "(nat, tool_result) gomap"
  pl_budget :: bool
  pl_err :: "scheduler_error option"

definition no_parallel :: parallel_run where
  "no_parallel = \<lparr>pl_results = [], pl_budget = False, pl_err = None\<rparr>"

text \<open>What has completed is added to the results; the first error is kept.\<close>

definition merge_run :: "parallel_run \<Rightarrow> parallel_run \<Rightarrow> parallel_run" where
  "merge_run current execution =
     \<lparr>pl_results = fold (\<lambda>(index, result). AList.update index result) (pl_results current) (pl_results execution),
      pl_budget = (pl_budget execution \<or> pl_budget current),
      pl_err = (case pl_err execution of None \<Rightarrow> pl_err current | Some e \<Rightarrow> Some e)\<rparr>"

definition fill_missing :: "(any_value \<Rightarrow> string) \<Rightarrow> tool_call list \<Rightarrow> (nat, tool_result) gomap \<Rightarrow> (nat, tool_result) gomap" where
  "fill_missing encode calls results =
     fold (\<lambda>(index, call) m.
             if map_of m index = None
             then AList.update index (chatToolFailureResult encode call ''tool_not_available'') m else m)
       (List.enumerate 0 calls) results"

definition run_parallel_mcp ::
  "('g, 'r, 'l) scheduler_env \<Rightarrow> (nat \<Rightarrow> scheduler_tick) \<Rightarrow> (nat \<Rightarrow> nat) \<Rightarrow> int \<Rightarrow> tool_call list \<Rightarrow> mcp_state
   \<Rightarrow> parallel_run \<times> mcp_state" where
  "run_parallel_mcp sx ticks rank round calls st =
     (case executeMCPBatch (sx_mcp sx) (su_MCP \<circ> ticks) rank round (sx_CompletionDriven sx) calls st of
        ((run, err), st1) \<Rightarrow>
          (\<lparr>pl_results = br_results run, pl_budget = br_budget run, pl_err = map_option McpFailed err\<rparr>, st1))"

definition run_parallel_local ::
  "('g, 'r, 'l) scheduler_env \<Rightarrow> (nat \<Rightarrow> scheduler_tick) \<Rightarrow> (nat \<Rightarrow> nat) \<Rightarrow> tool_call list \<Rightarrow> local_runtime \<times> 'l
   \<Rightarrow> parallel_run \<times> local_runtime \<times> 'l" where
  "run_parallel_local sx ticks rank calls st =
     (case executeLocalSkillBatch (sx_localEnv sx) (sx_executor sx) (su_Local \<circ> ticks) rank (sx_CompletionDriven sx) calls st of
        ((run, err), st1) \<Rightarrow>
          (\<lparr>pl_results = br_results run, pl_budget = br_budget run, pl_err = map_option LocalFailed err\<rparr>, st1))"

text \<open>
  The MCP calls and the local calls of a group are two batches that run at the same time, on states
  of their own.  \<open>mcpFirst\<close> says which of them completes first, \<open>rank\<close> in which order the members of a
  batch complete.
\<close>

definition executeParallelReadGroup ::
  "tool_registry \<Rightarrow> ('g, 'r, 'l) scheduler_env \<Rightarrow> (nat \<Rightarrow> scheduler_tick) \<Rightarrow> (nat \<Rightarrow> nat) \<Rightarrow> bool \<Rightarrow> int \<Rightarrow> tool_call list
   \<Rightarrow> ('g, 'r, 'l) scheduler_state \<Rightarrow> parallel_run \<times> ('g, 'r, 'l) scheduler_state" where
  "executeParallelReadGroup g sx ticks rank mcpFirst round calls st =
     (let mcpCalls = callsForBackend g BackendMCP calls;
          localCalls = callsForBackend g BackendLocalSkill calls;
          mcpStarted = hasToolCalls mcpCalls; localStarted = hasToolCalls localCalls
      in if \<not> mcpStarted \<and> \<not> localStarted
         then (\<lparr>pl_results = List.enumerate 0 (map (\<lambda>call. chatToolFailureResult (sx_encode sx) call ''tool_not_available'') calls),
                pl_budget = False, pl_err = None\<rparr>, st)
         else
           let (mcp, mcpState) = (if mcpStarted then run_parallel_mcp sx ticks rank round mcpCalls (sb_MCP st)
                                  else (no_parallel, sb_MCP st));
               (lcl, localState) = (if localStarted then run_parallel_local sx ticks rank localCalls (sb_Local st)
                                    else (no_parallel, sb_Local st));
               merged = (if mcpFirst then merge_run lcl (merge_run mcp no_parallel)
                         else merge_run mcp (merge_run lcl no_parallel))
           in (merged\<lparr>pl_results := fill_missing (sx_encode sx) calls (pl_results merged)\<rparr>,
               st\<lparr>sb_MCP := mcpState, sb_Local := localState\<rparr>))"

section \<open>A serial call\<close>

definition resultAt :: "(any_value \<Rightarrow> string) \<Rightarrow> (nat, tool_result) gomap \<Rightarrow> tool_call \<Rightarrow> nat \<Rightarrow> tool_result" where
  "resultAt encode results call index =
     (case map_of results index of
        Some result \<Rightarrow> result
      | None \<Rightarrow> chatToolFailureResult encode call ''tool_not_available'')"

record serial_end =
  sd_result :: tool_result
  sd_budget :: bool
  sd_concludes :: bool
  sd_stop :: bool
  sd_err :: "scheduler_error option"

definition serial_result :: "tool_result \<Rightarrow> serial_end" where
  "serial_result result = \<lparr>sd_result = result, sd_budget = False, sd_concludes = False, sd_stop = False, sd_err = None\<rparr>"

text \<open>A retrieval call that stops the turn has the zero result.\<close>

definition serial_retrieval ::
  "tool_registry \<Rightarrow> ('g, 'r, 'l) scheduler_env \<Rightarrow> scheduler_tick \<Rightarrow> int \<Rightarrow> tool_call \<Rightarrow> nat \<Rightarrow> ('g, 'r, 'l) scheduler_state
   \<Rightarrow> serial_end \<times> ('g, 'r, 'l) scheduler_state" where
  "serial_retrieval g sx tick round call callIndex st =
     (case executeRetrievalCall g (sx_retrieval sx) (su_Retrieval tick) call callIndex (sb_Retrieval st) of
        ((result, stop), _, retrieval) \<Rightarrow>
          ((serial_result (case result of None \<Rightarrow> Agent_Goal.no_result | Some r \<Rightarrow> r))\<lparr>sd_stop := stop\<rparr>,
           st\<lparr>sb_Retrieval := retrieval\<rparr>))"

definition serial_goal ::
  "('g, 'r, 'l) scheduler_env \<Rightarrow> scheduler_tick \<Rightarrow> int \<Rightarrow> tool_call \<Rightarrow> ('g, 'r, 'l) scheduler_state
   \<Rightarrow> serial_end \<times> ('g, 'r, 'l) scheduler_state" where
  "serial_goal sx tick round call st =
     (case executeChatAgentGoalBatch (sx_goalEnv sx) (sx_goals sx) (\<lambda>_. su_Goal tick) [call] round
             (fst (sb_Goals st)) (snd (sb_Goals st)) of
        ((run, err), goals) \<Rightarrow>
          ((serial_result (case map_of (gb_Results run) 0 of None \<Rightarrow> Agent_Goal.no_result | Some r \<Rightarrow> r))
             \<lparr>sd_concludes := gb_ConcludesTurn run, sd_err := map_option GoalFailed err\<rparr>,
           st\<lparr>sb_Goals := goals\<rparr>))"

definition serial_resource ::
  "('g, 'r, 'l) scheduler_env \<Rightarrow> scheduler_tick \<Rightarrow> int \<Rightarrow> tool_call \<Rightarrow> ('g, 'r, 'l) scheduler_state
   \<Rightarrow> serial_end \<times> ('g, 'r, 'l) scheduler_state" where
  "serial_resource sx tick round call st =
     (case executeResourceToolBatch (sx_resourceEnv sx) (sx_resources sx) (\<lambda>_. su_Resource tick) [call] round
             (fst (sb_Resource st)) (snd (sb_Resource st)) of
        ((results, err), _, resource) \<Rightarrow>
          ((serial_result (resultAt (sx_encode sx) results call 0))\<lparr>sd_err := map_option ResourceFailed err\<rparr>,
           st\<lparr>sb_Resource := resource\<rparr>))"

definition serial_batch :: "('g, 'r, 'l) scheduler_env \<Rightarrow> tool_call \<Rightarrow> parallel_run \<Rightarrow> serial_end" where
  "serial_batch sx call run =
     (serial_result (resultAt (sx_encode sx) (pl_results run) call 0))\<lparr>sd_budget := pl_budget run, sd_err := pl_err run\<rparr>"

definition executeSerialToolCall ::
  "tool_registry \<Rightarrow> ('g, 'r, 'l) scheduler_env \<Rightarrow> scheduler_tick \<Rightarrow> int \<Rightarrow> tool_call \<Rightarrow> nat \<Rightarrow> ('g, 'r, 'l) scheduler_state
   \<Rightarrow> serial_end \<times> ('g, 'r, 'l) scheduler_state" where
  "executeSerialToolCall g sx tick round call callIndex st =
     (case lookup_tool g (tc_Name call) of
        None \<Rightarrow> serial_retrieval g sx tick round call callIndex st
      | Some registration \<Rightarrow>
          (case tg_Backend registration of
             BackendGoal \<Rightarrow> serial_goal sx tick round call st
           | BackendResource \<Rightarrow> serial_resource sx tick round call st
           | BackendMCP \<Rightarrow>
               (case run_parallel_mcp sx (\<lambda>_. tick) (\<lambda>_. 0) round [call] (sb_MCP st) of
                  (run, mcp) \<Rightarrow> (serial_batch sx call run, st\<lparr>sb_MCP := mcp\<rparr>))
           | BackendLocalSkill \<Rightarrow>
               (case run_parallel_local sx (\<lambda>_. tick) (\<lambda>_. 0) [call] (sb_Local st) of
                  (run, lcl) \<Rightarrow> (serial_batch sx call run, st\<lparr>sb_Local := lcl\<rparr>))
           | BackendWeb \<Rightarrow> serial_retrieval g sx tick round call callIndex st
           | BackendKnowledge \<Rightarrow> serial_retrieval g sx tick round call callIndex st
           | BackendMemory \<Rightarrow> serial_retrieval g sx tick round call callIndex st
           | BackendOther _ \<Rightarrow>
               (serial_result (chatToolFailureResult (sx_encode sx) call ''tool_not_available''), st)))"

section \<open>A batch\<close>

record ('g, 'r, 'l) batch_progress =
  sg_Results :: "(nat, tool_result) gomap"
  sg_Budget :: bool
  sg_Stop :: bool
  sg_Err :: "scheduler_error option"
  sg_State :: "('g, 'r, 'l) scheduler_state"

definition allows_parallel :: "tool_registry \<Rightarrow> tool_call \<Rightarrow> bool" where
  "allows_parallel g call = (case lookup_tool g (tc_Name call) of None \<Rightarrow> False | Some r \<Rightarrow> tg_AllowParallel r)"

definition stored :: "tool_result \<Rightarrow> bool" where
  "stored result \<longleftrightarrow> tr_Name result \<noteq> [] \<or> tr_CallID result \<noteq> [] \<or> tr_Content result \<noteq> []"

text \<open>After a call that concludes the goal the remaining calls are refused.\<close>

definition conclude_rest ::
  "(any_value \<Rightarrow> string) \<Rightarrow> tool_call list \<Rightarrow> nat \<Rightarrow> (nat, tool_result) gomap \<Rightarrow> (nat, tool_result) gomap" where
  "conclude_rest encode calls offset results =
     fold (\<lambda>(index, call) m.
             if trim_space (tc_Name call) \<noteq> []
             then AList.update index (chatToolFailureResult encode call ''goal_concluded'') m else m)
       (List.enumerate (offset + 1) (drop (offset + 1) calls)) results"

definition parallel_step ::
  "tool_registry \<Rightarrow> ('g, 'r, 'l) scheduler_env \<Rightarrow> (nat \<Rightarrow> scheduler_tick) \<Rightarrow> (nat \<Rightarrow> nat) \<Rightarrow> bool \<Rightarrow> int \<Rightarrow> nat \<Rightarrow> tool_call list
   \<Rightarrow> ('g, 'r, 'l) batch_progress \<Rightarrow> ('g, 'r, 'l) batch_progress \<times> bool" where
  "parallel_step g sx ticks rank mcpFirst round offset members acc =
     (case executeParallelReadGroup g sx (\<lambda>i. ticks (offset + i)) (\<lambda>i. rank (offset + i)) mcpFirst round members (sg_State acc) of
        (run, st) \<Rightarrow>
          (acc\<lparr>sg_Results := fold (\<lambda>(index, result). AList.update (offset + index) (projectResult g result))
                               (pl_results run) (sg_Results acc),
               sg_Budget := sg_Budget acc \<or> pl_budget run, sg_Err := pl_err run, sg_State := st\<rparr>,
           pl_err run = None))"

definition serial_step ::
  "tool_registry \<Rightarrow> ('g, 'r, 'l) scheduler_env \<Rightarrow> (nat \<Rightarrow> scheduler_tick) \<Rightarrow> int \<Rightarrow> tool_call list \<Rightarrow> nat \<Rightarrow> tool_call
   \<Rightarrow> ('g, 'r, 'l) batch_progress \<Rightarrow> ('g, 'r, 'l) batch_progress \<times> bool" where
  "serial_step g sx ticks round calls offset call acc =
     (case executeSerialToolCall g sx (ticks offset) round call offset (sg_State acc) of
        (ended, st) \<Rightarrow>
          let results = (if stored (sd_result ended)
                         then AList.update offset (projectResult g (sd_result ended)) (sg_Results acc)
                         else sg_Results acc);
              acc1 = acc\<lparr>sg_Results := results, sg_Budget := sg_Budget acc \<or> sd_budget ended,
                         sg_Err := sd_err ended, sg_State := st\<rparr>
          in if sd_err ended \<noteq> None then (acc1, False)
             else if sd_stop ended then (acc1\<lparr>sg_Stop := True\<rparr>, False)
             else if sd_concludes ended
             then (acc1\<lparr>sg_Results := conclude_rest (sx_encode sx) calls offset results\<rparr>, False)
             else (acc1, True))"

text \<open>
  A group is given with the positions of its calls in the batch; \<open>mcpFirst\<close> depends on the position of
  the group.
\<close>

definition batch_step ::
  "tool_registry \<Rightarrow> ('g, 'r, 'l) scheduler_env \<Rightarrow> (nat \<Rightarrow> scheduler_tick) \<Rightarrow> (nat \<Rightarrow> nat) \<Rightarrow> (nat \<Rightarrow> bool) \<Rightarrow> int \<Rightarrow> tool_call list
   \<Rightarrow> (nat \<times> tool_call) list \<Rightarrow> ('g, 'r, 'l) batch_progress \<Rightarrow> ('g, 'r, 'l) batch_progress \<times> bool" where
  "batch_step g sx ticks rank mcpFirst round calls members acc =
     (case members of
        [] \<Rightarrow> (acc, True)
      | (offset, call) # _ \<Rightarrow>
          if allows_parallel g call
          then parallel_step g sx ticks rank (mcpFirst offset) round offset (map snd members) acc
          else serial_step g sx ticks round calls offset call acc)"

definition executeToolBatch ::
  "tool_registry \<Rightarrow> ('g, 'r, 'l) scheduler_env \<Rightarrow> (nat \<Rightarrow> scheduler_tick) \<Rightarrow> (nat \<Rightarrow> nat) \<Rightarrow> (nat \<Rightarrow> bool) \<Rightarrow> int \<Rightarrow> tool_call list
   \<Rightarrow> ('g, 'r, 'l) scheduler_state \<Rightarrow> ('g, 'r, 'l) batch_progress" where
  "executeToolBatch g sx ticks rank mcpFirst round calls st =
     (let start = \<lparr>sg_Results = [], sg_Budget = False, sg_Stop = False, sg_Err = None, sg_State = st\<rparr>
      in if rg_requiredLocalSkill g
         then
           (case executeRequiredLocalSkillBatch (sx_localEnv sx) (sx_executor sx) (su_Local \<circ> ticks)
                   (sx_CompletionDriven sx) calls (sb_Local st) of
              ((run, err), lcl) \<Rightarrow>
                start\<lparr>sg_Results := projectResults g (br_results run), sg_Budget := br_budget run,
                      sg_Err := map_option LocalFailed err, sg_State := st\<lparr>sb_Local := lcl\<rparr>\<rparr>)
         else run_groups (\<lambda>p. allows_parallel g (snd p)) (batch_step g sx ticks rank mcpFirst round calls)
                (List.enumerate 0 calls) start)"

section \<open>A round\<close>

datatype round_end =
    RoundDone "tool_result list"
  | RoundFailed scheduler_error
  | RoundStopped

text \<open>
  The calls of a round: refused in the closing round of a goal, else as many of them executed as the
  budget of the turn admits.
\<close>

definition round_result ::
  "(any_value \<Rightarrow> string) \<Rightarrow> nat \<Rightarrow> (nat, tool_result) gomap \<Rightarrow> nat \<times> tool_call \<Rightarrow> tool_result" where
  "round_result encode admitted results indexed =
     (case indexed of (index, call) \<Rightarrow>
        if index \<ge> admitted then chatToolFailureResult encode call ''turn_call_budget_exhausted''
        else resultAt encode results call index)"

definition run_tool_round ::
  "tool_registry \<Rightarrow> ('g, 'r, 'l) scheduler_env \<Rightarrow> (nat \<Rightarrow> scheduler_tick) \<Rightarrow> (nat \<Rightarrow> nat) \<Rightarrow> (nat \<Rightarrow> bool) \<Rightarrow> int \<Rightarrow> int \<Rightarrow> bool
   \<Rightarrow> tool_call list \<Rightarrow> turn_driver \<times> ('g, 'r, 'l) scheduler_state \<Rightarrow> round_end \<times> turn_driver \<times> ('g, 'r, 'l) scheduler_state" where
  "run_tool_round g sx ticks rank mcpFirst round taskRound wrapup calls dst =
     (case dst of (d, st) \<Rightarrow>
        if wrapup
        then (RoundDone (map (\<lambda>call. chatToolFailureResult (sx_encode sx) call ''goal_concluded'') calls), d, st)
        else
          (case admitToolCalls (int (length calls)) d of
             (admitted, d1) \<Rightarrow>
               let executionCalls = take (nat admitted) calls;
                   x = sx_retrieval sx;
                   valid = memoryToolBatchValid taskRound executionCalls (memory_enabled (rx_Memory x))
                             (rx_WebProvider x \<noteq> None) (sx_KnowledgeEnabled sx);
                   sx1 = sx\<lparr>sx_retrieval := x\<lparr>rx_round := round, rx_taskStep := taskRound, rx_memoryBatchValid := valid\<rparr>\<rparr>;
                   run = executeToolBatch g sx1 ticks rank mcpFirst round executionCalls st
               in (case sg_Err run of
                     Some e \<Rightarrow> (RoundFailed e, d1, sg_State run)
                   | None \<Rightarrow>
                       if sg_Stop run then (RoundStopped, d1, sg_State run)
                       else (RoundDone (map (round_result (sx_encode sx) (nat admitted) (sg_Results run))
                                          (List.enumerate 0 calls)), d1, sg_State run))))"

end
