(* ===== verification/Resource_Safety.thy ===== *)
theory Resource_Safety
  imports Resource_Tool
begin

text \<open>
  What the resource tools of a run may ask of the service: how often, for what, and with whose
  consent.  The service is watched: its calls are recorded in their order, searches with their
  answers.
\<close>

section \<open>Watching the service\<close>

datatype tools_call =
    SawSearch string string string "resource_error + search_result"
  | SawInstall install_request
  | SawLink direct_install_request
  | SawComplete install_request string

definition watch :: "('r \<Rightarrow> tools_call) \<Rightarrow> ('s \<Rightarrow> 'r \<times> 's) \<Rightarrow> 's \<times> tools_call list \<Rightarrow> 'r \<times> 's \<times> tools_call list" where
  "watch call f st = (case st of (s, log) \<Rightarrow> (case f s of (r, s') \<Rightarrow> (r, s', log @ [call r])))"

definition watched :: "'s resource_tools \<Rightarrow> ('s \<times> tools_call list) resource_tools" where
  "watched sv =
     \<lparr>rts_Search = (\<lambda>u k q. watch (SawSearch u k q) (rts_Search sv u k q)),
      rts_InstallExplicit = (\<lambda>rq. watch (\<lambda>_. SawInstall rq) (rts_InstallExplicit sv rq)),
      rts_InstallDirectSkillLink = (\<lambda>rq. watch (\<lambda>_. SawLink rq) (rts_InstallDirectSkillLink sv rq)),
      rts_CompleteConfiguredMCP = (\<lambda>rq i. watch (\<lambda>_. SawComplete rq i) (rts_CompleteConfiguredMCP sv rq i))\<rparr>"

lemmas watched_defs = watched_def watch_def

fun is_search :: "tools_call \<Rightarrow> bool" where
  "is_search (SawSearch _ _ _ _) = True"
| "is_search _ = False"

fun is_install :: "tools_call \<Rightarrow> bool" where
  "is_install (SawInstall _) = True"
| "is_install (SawLink _) = True"
| "is_install _ = False"

text \<open>An item that a search has shown.\<close>

definition searched :: "tools_call list \<Rightarrow> search_item \<Rightarrow> bool" where
  "searched log item \<longleftrightarrow> (\<exists>u k q r. SawSearch u k q (Inr r) \<in> set log \<and> item \<in> set (sh_Items r))"

lemma searched_append: "searched log item \<Longrightarrow> searched (log @ more_calls) item"
  by (auto simp: searched_def)

text \<open>The approval that the user gave in the call, before the installation or after its configuration.\<close>

definition consent :: "agent_approval option \<Rightarrow> bool \<Rightarrow> agent_approval option \<Rightarrow> bool" where
  "consent request shown decided \<longleftrightarrow>
     (\<exists>a. request = Some a \<and>
        (if aa_Status a = ''pending'' then shown \<and> (\<exists>d. decided = Some d \<and> chatAgentApprovalAllowsExecution d)
         else chatAgentApprovalAllowsExecution a))"

definition install_vetted :: "resource_runtime \<Rightarrow> resource_tick \<Rightarrow> tools_call list \<Rightarrow> install_request \<Rightarrow> bool" where
  "install_vetted rt tick log rq \<longleftrightarrow>
     iq_UserID rq = ru_userID rt \<and> iq_ConversationID rq = ru_conversationID rt \<and>
     (\<exists>item. searched log item \<and> found_key (it_Kind item) (it_ID item) = found_key (iq_Kind rq) (iq_ID rq) \<and>
        it_ExactRevision item = iq_ExactRevision rq \<and> (iq_Version rq = [] \<or> it_Version item = iq_Version rq)) \<and>
     (ru_explicitInstall rt \<or> ru_approvals rt \<and> consent (qt_request tick) (qt_shown tick) (qt_wait tick))"

definition link_vetted :: "resource_tool_env \<Rightarrow> resource_runtime \<Rightarrow> direct_install_request \<Rightarrow> bool" where
  "link_vetted env rt rq \<longleftrightarrow>
     dq_UserID rq = ru_userID rt \<and> dq_ConversationID rq = ru_conversationID rt \<and>
     (\<exists>link. SingleSupportedResourceLink (rq_links env) (dq_URL rq) = Some link \<and> rl_DirectInstall link \<and>
        rl_LinkKind link = ''skill'' \<and> rl_Identifier link = dq_Identifier rq \<and> rl_URL link = dq_URL rq)"

definition complete_vetted :: "resource_runtime \<Rightarrow> resource_tick \<Rightarrow> tools_call list \<Rightarrow> install_request \<Rightarrow> bool" where
  "complete_vetted rt tick new rq \<longleftrightarrow>
     (\<exists>rq'. SawInstall rq' \<in> set new \<and> rq = rq'\<lparr>iq_EntryPoint := ''agent_configuration_resume''\<rparr>) \<and>
     ru_approvals rt \<and> consent (qt_configRequest tick) (qt_configShown tick) (qt_configWait tick)"

text \<open>What a call adds to the record.\<close>

definition calls_vetted :: "resource_tool_env \<Rightarrow> resource_runtime \<Rightarrow> resource_tick \<Rightarrow> tools_call list \<Rightarrow> tools_call list \<Rightarrow> bool" where
  "calls_vetted env rt tick log new \<longleftrightarrow>
     (\<forall>c \<in> set new. case c of
        SawSearch u k q r \<Rightarrow> u = ru_userID rt \<and> q \<noteq> [] \<and> length q \<le> 200 \<and>
          (k = ''skill'' \<and> ru_skillAvailable rt \<or> k = ''mcp'' \<and> ru_mcpAvailable rt)
      | SawInstall rq \<Rightarrow> install_vetted rt tick log rq
      | SawLink rq \<Rightarrow> link_vetted env rt rq
      | SawComplete rq i \<Rightarrow> complete_vetted rt tick new rq)"

definition runtime_ok :: "tools_call list \<Rightarrow> resource_runtime \<Rightarrow> bool" where
  "runtime_ok log rt \<longleftrightarrow>
     length (filter is_search log) \<le> ru_searches rt \<and> ru_searches rt \<le> maxResourceDiscoveryRounds \<and>
     length (filter is_install log) \<le> ru_installRequests rt \<and> ru_installRequests rt \<le> 1 \<and>
     (\<forall>k item. map_of (ru_found rt) k = Some item \<longrightarrow> k = found_key (it_Kind item) (it_ID item) \<and> searched log item) \<and>
     (\<forall>k r. map_of (ru_searchResults rt) k = Some r \<longrightarrow> (\<forall>item \<in> set (sh_Items r). searched log item))"

text \<open>The settings of a runtime that its calls do not change.\<close>

definition same_settings :: "resource_runtime \<Rightarrow> resource_runtime \<Rightarrow> bool" where
  "same_settings rt rt' \<longleftrightarrow>
     ru_userID rt' = ru_userID rt \<and> ru_conversationID rt' = ru_conversationID rt \<and>
     ru_explicitInstall rt' = ru_explicitInstall rt \<and> ru_approvals rt' = ru_approvals rt \<and>
     ru_skillAvailable rt' = ru_skillAvailable rt \<and> ru_mcpAvailable rt' = ru_mcpAvailable rt"

definition step_ok ::
  "resource_tool_env \<Rightarrow> resource_tick \<Rightarrow> tools_call list \<Rightarrow> resource_runtime \<Rightarrow> tools_call list \<Rightarrow> resource_runtime \<Rightarrow> bool" where
  "step_ok env tick log rt log' rt' \<longleftrightarrow>
     same_settings rt rt' \<and> runtime_ok log' rt' \<and> (\<exists>new. log' = log @ new \<and> calls_vetted env rt tick log new)"

lemma step_ok_refl: "runtime_ok log rt \<Longrightarrow> step_ok env tick log rt log rt"
  by (auto simp: step_ok_def same_settings_def calls_vetted_def intro!: exI [of _ "[]"])

lemma record_found_ok:
  assumes "runtime_ok log rt" "\<forall>item \<in> set items. searched log item"
  shows "runtime_ok log (record_found items rt)"
  using assms
proof (induction items arbitrary: rt)
  case Nil
  then show ?case by (simp add: record_found_def)
next
  case (Cons item items)
  have "runtime_ok log (rt\<lparr>ru_found := AList.update (found_key (it_Kind item) (it_ID item)) item (ru_found rt)\<rparr>)"
    using Cons.prems by (auto simp: runtime_ok_def update_conv')
  from Cons.IH [OF this] Cons.prems(2) show ?case by (simp add: record_found_def)
qed

lemma record_found_settings: "same_settings rt (record_found items rt)"
  by (simp add: record_found_def same_settings_def)

lemma search_step:
  assumes "runtime_ok log rt" and "resource_search env (watched sv) call rt (s, log) = (ended, rt', s', log')"
  shows "step_ok env tick log rt log' rt'"
proof (cases "rt' = rt \<and> log' = log")
  case True
  with step_ok_refl [OF assms(1)] show ?thesis by simp
next
  case False
  with assms(2) obtain kind query capability where
    args: "decodeStrictToolArguments (rq_decode_search env) (tc_Arguments call) = Some (kind, query, capability)"
    by (auto simp: resource_search_def split: option.splits)
  have fine: "query \<noteq> []" "length query \<le> 200" "kind = ''skill'' \<and> ru_skillAvailable rt \<or> kind = ''mcp'' \<and> ru_mcpAvailable rt"
    using assms(2) False args by (auto simp: resource_search_def split: if_splits)
  show ?thesis
  proof (cases "map_of (ru_searchResults rt) (search_key env kind query)")
    case (Some r)
    then have "rt' = record_found (sh_Items r) rt" "log' = log"
      using assms(2) False args by (auto simp: resource_search_def split: if_splits)
    moreover have "\<forall>item \<in> set (sh_Items r). searched log item"
      using assms(1) Some by (auto simp: runtime_ok_def)
    ultimately show ?thesis
      using record_found_ok [OF assms(1)] record_found_settings
      by (auto simp: step_ok_def calls_vetted_def intro!: exI [of _ "[]"])
  next
    case None
    let ?rt1 = "rt\<lparr>ru_searches := ru_searches rt + 1\<rparr>"
    obtain r s1 where call: "rts_Search sv (ru_userID rt) kind query s = (r, s1)" by fastforce
    let ?new = "[SawSearch (ru_userID rt) kind query r]"
    have more: "ru_searches rt < maxResourceDiscoveryRounds" and log': "log' = log @ ?new"
      using assms(2) False args None call
      by (auto simp: resource_search_def watched_defs Let_def split: if_splits sum.splits)
    have vetted: "calls_vetted env rt tick log ?new" using fine by (simp add: calls_vetted_def)
    have ok1: "runtime_ok log' ?rt1"
      using assms(1) more searched_append [of log _ ?new] by (auto simp: runtime_ok_def log')
    show ?thesis
    proof (cases r)
      case (Inl e)
      then have "rt' = ?rt1"
        using assms(2) False args None call by (auto simp: resource_search_def watched_defs Let_def split: if_splits)
      with ok1 vetted log' show ?thesis by (auto simp: step_ok_def same_settings_def)
    next
      case (Inr result)
      let ?rt2 = "?rt1\<lparr>ru_searchResults := AList.update (search_key env kind query) result (ru_searchResults ?rt1)\<rparr>"
      have "rt' = record_found (sh_Items result) ?rt2"
        using assms(2) False args None call Inr by (auto simp: resource_search_def watched_defs Let_def split: if_splits)
      moreover have shown: "\<forall>item \<in> set (sh_Items result). searched log' item"
        by (auto simp: searched_def log' Inr)
      moreover have "runtime_ok log' ?rt2"
        using ok1 shown by (auto simp: runtime_ok_def update_conv' split: if_splits)
      ultimately show ?thesis
        using record_found_ok [of log' ?rt2] record_found_settings [of ?rt2] vetted log'
        by (auto simp: step_ok_def same_settings_def)
    qed
  qed
qed

lemma await_consent:
  "await_approval request shown decided unavailable waiting failed = (Inr a, events) \<Longrightarrow> consent request shown decided"
  by (auto simp: await_approval_def consent_def Let_def split: option.splits if_splits)

lemma decision_consent:
  "install_decision tick rt = (Inr a, events) \<Longrightarrow>
   ru_explicitInstall rt \<or> ru_approvals rt \<and> consent (qt_request tick) (qt_shown tick) (qt_wait tick)"
proof -
  obtain outcome evs where o: "await_approval (qt_request tick) (qt_shown tick) (qt_wait tick)
      ''approval_unavailable'' ''waiting_approval'' ''approval_failed'' = (outcome, evs)" by fastforce
  show "install_decision tick rt = (Inr a, events) \<Longrightarrow> ?thesis"
    using o by (cases outcome) (auto simp: install_decision_def split: if_splits dest: await_consent)
qed

definition installs_once :: "resource_tick \<Rightarrow> install_request \<Rightarrow> resource_runtime \<Rightarrow> tools_call list \<Rightarrow> bool" where
  "installs_once tick rq rt new \<longleftrightarrow>
     new = [SawInstall rq] \<or>
     (\<exists>i. new = [SawInstall rq, SawComplete (rq\<lparr>iq_EntryPoint := ''agent_configuration_resume''\<rparr>) i] \<and>
          ru_approvals rt \<and> consent (qt_configRequest tick) (qt_configShown tick) (qt_configWait tick))"

lemma configuration_calls:
  assumes "awaitResourceConfiguration (watched sv) tick rq pending rt (s, log) = (out, events, s', log')"
  shows "log' = log \<or>
    log' = log @ [SawComplete (rq\<lparr>iq_EntryPoint := ''agent_configuration_resume''\<rparr>) (ir_ID pending)] \<and>
    ru_approvals rt \<and> consent (qt_configRequest tick) (qt_configShown tick) (qt_configWait tick)"
proof -
  obtain outcome waits where a: "await_approval (qt_configRequest tick) (qt_configShown tick) (qt_configWait tick)
      ''configuration_handoff_unavailable'' ''waiting_configuration'' ''configuration_wait_failed'' = (outcome, waits)"
    by fastforce
  obtain r s1 where call: "rts_CompleteConfiguredMCP sv (rq\<lparr>iq_EntryPoint := ''agent_configuration_resume''\<rparr>) (ir_ID pending) s = (r, s1)"
    by fastforce
  show ?thesis
  proof (cases "ru_approvals rt")
    case False
    with assms show ?thesis by (simp add: awaitResourceConfiguration_def)
  next
    case True
    show ?thesis
    proof (cases outcome)
      case (Inl category)
      with True assms a show ?thesis by (simp add: awaitResourceConfiguration_def)
    next
      case (Inr approval)
      with a have "consent (qt_configRequest tick) (qt_configShown tick) (qt_configWait tick)" by (blast dest: await_consent)
      with True assms a Inr call show ?thesis
        by (cases r; cases "snd r") (simp_all add: awaitResourceConfiguration_def watched_defs)
    qed
  qed
qed

lemma perform_calls:
  assumes "perform_install (watched sv) tick rq rt (s, log) = (out, events, s', log')"
  shows "\<exists>new. log' = log @ new \<and> installs_once tick rq rt new"
proof -
  obtain installed err s1 where call: "rts_InstallExplicit sv rq s = ((installed, err), s1)" by (metis surj_pair)
  have saw: "rts_InstallExplicit (watched sv) rq (s, log) = ((installed, err), s1, log @ [SawInstall rq])"
    by (simp add: watched_defs call)
  show ?thesis
  proof (cases "\<exists>e. err = Some e \<and> \<not> res_is e ResRevisionChanged \<and> res_is e ResConfigurationRequired \<and> ir_ID installed \<noteq> []")
    case True
    with assms saw have "awaitResourceConfiguration (watched sv) tick rq installed rt (s1, log @ [SawInstall rq]) = (out, events, s', log')"
      by (auto simp: perform_install_def)
    from configuration_calls [OF this] show ?thesis by (auto simp: installs_once_def)
  next
    case False
    with assms saw have "log' = log @ [SawInstall rq]"
      by (cases err) (auto simp: perform_install_def split: if_splits)
    then show ?thesis by (simp add: installs_once_def)
  qed
qed

lemma runtime_ok_counts:
  assumes "runtime_ok log rt" "ru_installRequests rt = 0"
    and "ru_searches rt' = ru_searches rt" "ru_found rt' = ru_found rt" "ru_searchResults rt' = ru_searchResults rt"
    and "ru_installRequests rt' = 1" "filter is_search new = []" "length (filter is_install new) \<le> 1"
  shows "runtime_ok (log @ new) rt'"
  using assms searched_append [of log] by (auto simp: runtime_ok_def)

lemma link_step:
  assumes "runtime_ok log rt" and "installDirectSkillLinkCall env (watched sv) call rt (s, log) = (ended, rt', s', log')"
  shows "step_ok env tick log rt log' rt'"
proof (cases "rt' = rt \<and> log' = log")
  case True
  with step_ok_refl [OF assms(1)] show ?thesis by simp
next
  case False
  let ?rt1 = "rt\<lparr>ru_installRequests := ru_installRequests rt + 1\<rparr>"
  from assms(2) False obtain u ident where
    args: "decodeStrictToolArguments (rq_decode_link env) (tc_Arguments call) = Some (u, ident)"
    and fine: "\<not> (u = [] \<or> ident = [] \<or> ru_installRequests rt \<ge> 1)"
    by (auto simp: installDirectSkillLinkCall_def split: option.splits if_splits)
  note run = assms(2) [unfolded installDirectSkillLinkCall_def args option.case prod.case if_not_P [OF fine] Let_def]
  have "rt' = ?rt1 \<and> (log' = log \<or> (\<exists>rq. log' = log @ [SawLink rq] \<and> link_vetted env rt rq))"
  proof (cases "SingleSupportedResourceLink (rq_links env) u")
    case None
    with run show ?thesis by simp
  next
    case (Some link)
    let ?rq = "\<lparr>dq_URL = rl_URL link, dq_Identifier = rl_Identifier link, dq_UserID = ru_userID rt,
                dq_ConversationID = ru_conversationID rt, dq_EntryPoint = ''explicit_skill_link''\<rparr>"
    obtain installed err s1 where call: "rts_InstallDirectSkillLink sv ?rq s = ((installed, err), s1)" by (metis surj_pair)
    show ?thesis
    proof (cases "rl_DirectInstall link \<and> rl_LinkKind link = ''skill'' \<and> rl_Identifier link = ident \<and> rl_URL link = u")
      case True
      with run Some call have "rt' = ?rt1" "log' = log @ [SawLink ?rq]"
        by (cases err; simp add: watched_defs)+
      moreover have "link_vetted env rt ?rq" using True Some by (auto simp: link_vetted_def)
      ultimately show ?thesis by blast
    next
      case False
      with run Some show ?thesis by (auto split: if_splits)
    qed
  qed
  then show ?thesis
    using runtime_ok_counts [OF assms(1), of ?rt1 "[]"] runtime_ok_counts [OF assms(1), of ?rt1 "[SawLink rq]" for rq] fine
    by (fastforce simp: step_ok_def same_settings_def calls_vetted_def)
qed

lemma found_item:
  "runtime_ok log rt \<Longrightarrow> map_of (ru_found rt) k = Some item \<Longrightarrow> searched log item \<and> k = found_key (it_Kind item) (it_ID item)"
  by (simp add: runtime_ok_def)

lemma admitted_step:
  assumes "admitted_install env (watched sv) tick execution call rq rt (s, log) = (ended, waits, rt', s', log')"
  shows "same_settings rt rt' \<and> ru_searches rt' = ru_searches rt \<and> ru_installRequests rt' = ru_installRequests rt \<and>
    ru_found rt' = ru_found rt \<and> ru_searchResults rt' = ru_searchResults rt \<and>
    (log' = log \<or>
     (\<exists>new. log' = log @ new \<and> installs_once tick rq rt new) \<and>
     (ru_explicitInstall rt \<or> ru_approvals rt \<and> consent (qt_request tick) (qt_shown tick) (qt_wait tick)))"
proof -
  obtain decision events where decision: "install_decision tick rt = (decision, events)" by fastforce
  show ?thesis
  proof (cases decision)
    case (Inl category)
    with assms decision show ?thesis by (simp add: admitted_install_def same_settings_def)
  next
    case (Inr a)
    obtain out events' s1 log1 where perform: "perform_install (watched sv) tick rq rt (s, log) = (out, events', s1, log1)"
      by (metis surj_pair)
    have "log' = log1 \<and> same_settings rt rt' \<and> ru_searches rt' = ru_searches rt \<and>
      ru_installRequests rt' = ru_installRequests rt \<and> ru_found rt' = ru_found rt \<and> ru_searchResults rt' = ru_searchResults rt"
      using assms decision Inr perform by (cases out) (auto simp: admitted_install_def same_settings_def)
    with perform_calls [OF perform] decision_consent decision Inr show ?thesis by blast
  qed
qed

lemma install_step:
  assumes "runtime_ok log rt" and "requestInstall env (watched sv) tick execution call rt (s, log) = (ended, waits, rt', s', log')"
  shows "step_ok env tick log rt log' rt'"
proof (cases "rt' = rt \<and> log' = log")
  case True
  with step_ok_refl [OF assms(1)] show ?thesis by simp
next
  case False
  let ?rt1 = "rt\<lparr>ru_installRequests := ru_installRequests rt + 1\<rparr>"
  from assms(2) False obtain kind ident version exactRevision reason where
    args: "decodeStrictToolArguments (rq_decode_install env) (tc_Arguments call) = Some (kind, ident, version, exactRevision, reason)"
    and first: "\<not> ru_installRequests rt \<ge> 1" and fine: "\<not> (ident = [] \<or> exactRevision = [] \<or> reason = [])"
    by (auto simp: requestInstall_def split: option.splits if_splits)
  note run = assms(2) [unfolded requestInstall_def args option.case prod.case if_not_P [OF fine] if_not_P [OF first] Let_def]
  let ?rq = "\<lparr>iq_Kind = kind, iq_ID = ident, iq_Version = install_version version, iq_ExactRevision = exactRevision,
              iq_UserID = ru_userID rt, iq_ConversationID = ru_conversationID rt, iq_EntryPoint = ''agent_tool''\<rparr>"
  show ?thesis
  proof (cases "candidate_refusal rt kind ident version exactRevision = []")
    case False
    with run have "rt' = ?rt1" "log' = log" by simp_all
    then show ?thesis
      using runtime_ok_counts [OF assms(1), of ?rt1 "[]"] first
      by (auto simp: step_ok_def same_settings_def calls_vetted_def)
  next
    case True
    then obtain found where found: "map_of (ru_found rt) (found_key kind ident) = Some found"
      "it_ExactRevision found = exactRevision" "version \<noteq> None \<longrightarrow> it_Version found = install_version version"
      by (auto simp: candidate_refusal_def split: option.splits if_splits)
    have version: "install_version version = [] \<or> it_Version found = install_version version"
      using found(3) by (cases version) (simp_all add: install_version_def)
    from True run have "admitted_install env (watched sv) tick execution call ?rq ?rt1 (s, log) = (ended, waits, rt', s', log')"
      by simp
    note admitted = admitted_step [OF this]
    show ?thesis
    proof (cases "log' = log")
      case True
      with admitted show ?thesis
        using runtime_ok_counts [OF assms(1), of rt' "[]"] first
        by (auto simp: step_ok_def same_settings_def calls_vetted_def)
    next
      case False
      with admitted obtain new where new: "log' = log @ new" "installs_once tick ?rq ?rt1 new"
        and consent: "ru_explicitInstall rt \<or> ru_approvals rt \<and> consent (qt_request tick) (qt_shown tick) (qt_wait tick)"
        by auto
      have vetted: "install_vetted rt tick log ?rq"
        using found_item [OF assms(1) found(1)] found(2) version consent by (auto simp: install_vetted_def)
      have "calls_vetted env rt tick log new"
        using new(2) vetted by (auto simp: installs_once_def calls_vetted_def complete_vetted_def)
      moreover have "filter is_search new = []" "length (filter is_install new) \<le> 1"
        using new(2) by (auto simp: installs_once_def)
      then have "runtime_ok log' rt'"
        unfolding new(1) using admitted first by (intro runtime_ok_counts [OF assms(1)]) simp_all
      ultimately show ?thesis
        using admitted new(1) by (auto simp: step_ok_def same_settings_def)
    qed
  qed
qed

section \<open>The calls of a run\<close>

lemma execute_step:
  assumes "runtime_ok log rt"
    and "execute_resource env (watched sv) tick call round number rt (s, log) = (out, events, rt', s', log')"
  shows "step_ok env tick log rt log' rt'"
proof (cases "rt' = rt \<and> log' = log")
  case True
  with step_ok_refl [OF assms(1)] show ?thesis by simp
next
  case False
  obtain e1 rt1 s1 log1 where one: "resource_search env (watched sv) call rt (s, log) = (e1, rt1, s1, log1)" by (metis surj_pair)
  obtain e2 rt2 s2 log2 where two: "installDirectSkillLinkCall env (watched sv) call rt (s, log) = (e2, rt2, s2, log2)"
    by (metis surj_pair)
  let ?x = "\<lparr>rw_ExecutionID = ''resource-'' @ itoa round @ ''-'' @ itoa (int number), rw_CallID = tc_ID call,
             rw_Tool = tc_Name call, rw_Status = ''running'', rw_CallStatus = ''running'', rw_FailureCategory = [],
             rw_Classification = ''write''\<rparr>"
  obtain e3 w3 rt3 s3 log3 where three: "requestInstall env (watched sv) tick ?x call rt (s, log) = (e3, w3, rt3, s3, log3)"
    by (metis surj_pair)
  have "(rt', log') \<in> {(rt1, log1), (rt2, log2), (rt3, log3)}"
    using assms(2) False one two three
    by (auto simp: execute_resource_def resource_failed_def Let_def split: if_splits option.splits prod.splits)
  then show ?thesis
    using search_step [OF assms(1) one] link_step [OF assms(1) two] install_step [OF assms(1) three] by auto
qed

text \<open>Calls one after the other, in one batch or in several.\<close>

fun resource_calls ::
  "resource_tool_env \<Rightarrow> 's resource_tools \<Rightarrow> (resource_tick \<times> tool_call \<times> int \<times> nat) list \<Rightarrow> resource_runtime \<times> 's \<Rightarrow> resource_runtime \<times> 's" where
  "resource_calls env sv [] st = st"
| "resource_calls env sv ((tick, call, round, number) # rest) (rt, s) =
     (case execute_resource env sv tick call round number rt s of
        (out, events, rt', s') \<Rightarrow> resource_calls env sv rest (rt', s'))"

lemma same_settings_trans: "same_settings a b \<Longrightarrow> same_settings b c \<Longrightarrow> same_settings a c"
  by (simp add: same_settings_def)

lemma calls_ok:
  "runtime_ok log rt \<Longrightarrow> resource_calls env (watched sv) cs (rt, s, log) = (rt', s', log') \<Longrightarrow>
   runtime_ok log' rt' \<and> same_settings rt rt'"
proof (induction cs arbitrary: rt s log)
  case Nil
  then show ?case by (simp add: same_settings_def)
next
  case (Cons c cs)
  obtain tick call round number where c: "c = (tick, call, round, number)" by (metis prod_cases4)
  obtain out events rt1 s1 log1 where run:
    "execute_resource env (watched sv) tick call round number rt (s, log) = (out, events, rt1, s1, log1)" by (metis surj_pair)
  from execute_step [OF Cons.prems(1) run] have one: "runtime_ok log1 rt1" "same_settings rt rt1" by (simp_all add: step_ok_def)
  from Cons.prems(2) run c have "resource_calls env (watched sv) cs (rt1, s1, log1) = (rt', s', log')" by simp
  from Cons.IH [OF one(1) this] one(2) same_settings_trans show ?case by blast
qed

lemma calls_vetted_settings: "same_settings rt rt' \<Longrightarrow> calls_vetted env rt' tick log new = calls_vetted env rt tick log new"
  by (simp add: calls_vetted_def install_vetted_def link_vetted_def complete_vetted_def same_settings_def cong: tools_call.case_cong)

text \<open>
  C39: Whatever tools a model calls in a run, the service is asked for at most two searches and at
  most one installation.  It is asked to install only a resource that a search of this run has shown
  before, with the exact revision shown and the version if one is named, for the user and
  conversation of the run, and only if the user's message asked for an installation or the user
  allowed this very call.  An installation from a link is of the only link of its argument, a Skill
  that may be installed directly.  What completes a configuration is the request of the same call,
  and has an approval of its own.
\<close>

theorem resource_installs_vetted:
  assumes "newResourceToolRuntime env True userID conversationID userText = Some new_rt"
    and "rt = bindResourceApprovals bound (bindRuntimeAvailability skills mcp new_rt)"
    and "resource_calls env (watched sv) earlier (rt, s, []) = (rt1, s1, log)"
    and "execute_resource env (watched sv) tick call round number rt1 (s1, log) = (out, events, rt2, s2, log')"
  shows "length (filter is_search log') \<le> 2 \<and> length (filter is_install log') \<le> 1 \<and>
    (\<exists>new. log' = log @ new \<and> calls_vetted env rt tick log new) \<and>
    ru_explicitInstall rt = hasExplicitResourceInstallIntent env userText \<and>
    ru_userID rt = trim_space userID \<and> ru_conversationID rt = trim_space conversationID"
proof -
  have fresh: "runtime_ok [] rt" and
    settings: "ru_explicitInstall rt = hasExplicitResourceInstallIntent env userText"
      "ru_userID rt = trim_space userID" "ru_conversationID rt = trim_space conversationID"
    using assms(1,2)
    by (auto simp: newResourceToolRuntime_def bindResourceApprovals_def bindRuntimeAvailability_def runtime_ok_def
             Let_def split: if_splits)
  from calls_ok [OF fresh assms(3)] have "runtime_ok log rt1" "same_settings rt rt1" by simp_all
  from execute_step [OF this(1) assms(4)] this(2)
  have "runtime_ok log' rt2" "\<exists>new. log' = log @ new \<and> calls_vetted env rt tick log new"
    by (auto simp: step_ok_def calls_vetted_settings)
  with settings show ?thesis by (auto simp: runtime_ok_def maxResourceDiscoveryRounds_def)
qed

text \<open>A run that searches for a Skill and then installs it, as the user has asked.\<close>

definition example_item :: search_item where
  "example_item =
     \<lparr>it_Kind = ''skill'', it_ID = ''c1'', it_Name = ''pdf'', it_Description = [], it_Version = ''1.0'',
      it_ExactRevision = ''fp'', it_Status = ''admitted'', it_Source = ''git'', it_AuthType = [], it_PermissionScopes = []\<rparr>"

definition example_tools :: "unit resource_tools" where
  "example_tools =
     \<lparr>rts_Search = (\<lambda>u k q s. (Inr \<lparr>sh_Kind = k, sh_Query = q, sh_Items = [example_item]\<rparr>, s)),
      rts_InstallExplicit = (\<lambda>rq s. ((mcp_install_result \<lparr>ref_Source = [], ref_ID = []\<rparr> [] [] True, None), s)),
      rts_InstallDirectSkillLink = (\<lambda>rq s. ((no_install, None), s)),
      rts_CompleteConfiguredMCP = (\<lambda>rq i s. ((no_install, None), s))\<rparr>"

definition example_tool_env :: resource_tool_env where
  "example_tool_env =
     \<lparr>rq_links = example_link_env, rq_encode = (\<lambda>_. []), rq_letter = (\<lambda>_. True),
      rq_decode_search = (\<lambda>_. Some (''skill'', ''pdf'', None)),
      rq_decode_install = (\<lambda>_. Some (''skill'', ''c1'', None, ''fp'', ''wanted'')), rq_decode_link = (\<lambda>_. None)\<rparr>"

definition example_tick :: resource_tick where
  "example_tick =
     \<lparr>qt_begin = True, qt_request = None, qt_shown = True, qt_wait = None, qt_configRequest = None, qt_configShown = True,
      qt_configWait = None, qt_context = None, qt_end = True\<rparr>"

definition example_call :: "string \<Rightarrow> tool_call" where
  "example_call name = no_call\<lparr>tc_ID := ''call'', tc_Name := name, tc_Arguments := ''{}''\<rparr>"

definition example_new :: resource_runtime where
  "example_new = the (newResourceToolRuntime example_tool_env True ''u'' ''c'' ''/skill install x'')"

lemma example_resource_trims: "trim_space ''u'' = ''u''" "trim_space ''c'' = ''c''" "trim_space ''{}'' = ''{}''"
  "trim_space ''/skill install x'' = ''/skill install x''"
  by (simp_all add: trim_space_printable printable_def)

lemma example_runtime:
  "newResourceToolRuntime example_tool_env True ''u'' ''c'' ''/skill install x'' = Some example_new"
  by (simp add: example_new_def newResourceToolRuntime_def example_resource_trims Let_def)

lemma example_intent: "hasExplicitResourceInstallIntent example_tool_env ''/skill install x''"
  by (simp add: hasExplicitResourceInstallIntent_def example_resource_trims to_lower_def is_ascii_def ascii_lower_def has_prefix_def)

theorem resource_installs_vetted_witness:
  "\<exists>log rq. install_vetted example_new example_tick log rq \<and> iq_ID rq = ''c1'' \<and> iq_ExactRevision rq = ''fp''"
proof -
  let ?rt = "bindResourceApprovals False (bindRuntimeAvailability True True example_new)"
  have fields: "ru_searchResults example_new = []" "ru_searches example_new = 0" "ru_installRequests example_new = 0"
    "ru_found example_new = []" "ru_explicitInstall example_new" "ru_userID example_new = ''u''"
    "ru_conversationID example_new = ''c''" "ru_approvals example_new = False"
    "ru_skillAvailable example_new" "ru_mcpAvailable example_new"
    by (simp_all add: example_new_def newResourceToolRuntime_def example_resource_trims example_intent Let_def)
  have args: "decodeStrictToolArguments f (tc_Arguments (example_call name)) = f ''{}''" for f :: "string \<Rightarrow> 'a option" and name
    by (simp add: decodeStrictToolArguments_def example_call_def example_resource_trims maxToolParamsBytes_def no_call_def)
  have name: "tc_Name (example_call n) = n" for n by (simp add: example_call_def)
  let ?result = "\<lparr>sh_Kind = ''skill'', sh_Query = ''pdf'', sh_Items = [example_item]\<rparr>"
  let ?found = "record_found [example_item] (?rt\<lparr>ru_searches := 1, ru_searchResults := [(search_key example_tool_env ''skill'' ''pdf'', ?result)]\<rparr>)"
  have search: "\<exists>e. resource_search example_tool_env (watched example_tools) (example_call ''resource_search'') ?rt ((), []) =
      (e, ?found, (), [SawSearch ''u'' ''skill'' ''pdf'' (Inr ?result)])"
    unfolding resource_search_def args
    by (simp add: example_tool_env_def example_tools_def watched_defs fields bindResourceApprovals_def
          bindRuntimeAvailability_def maxResourceDiscoveryRounds_def Let_def)
  define fnd where "fnd = ?found"
  have found: "ru_found fnd = [(''skill:c1'', example_item)]" "ru_installRequests fnd = 0"
    "ru_userID fnd = ''u''" "ru_conversationID fnd = ''c''" "ru_explicitInstall fnd"
    by (simp_all add: fnd_def record_found_def found_key_def example_item_def fields bindResourceApprovals_def bindRuntimeAvailability_def)
  let ?log = "[SawSearch ''u'' ''skill'' ''pdf'' (Inr ?result)]"
  let ?search = "[(example_tick, example_call ''resource_search'', 1, 1)]"
  have first: "resource_calls example_tool_env (watched example_tools) ?search (?rt, (), []) = (fnd, (), ?log)"
    using search unfolding fnd_def by (auto simp: execute_resource_def name example_tick_def Let_def)
  let ?rq = "\<lparr>iq_Kind = ''skill'', iq_ID = ''c1'', iq_Version = [], iq_ExactRevision = ''fp'', iq_UserID = ''u'',
              iq_ConversationID = ''c'', iq_EntryPoint = ''agent_tool''\<rparr>"
  have refusal: "candidate_refusal fnd ''skill'' ''c1'' None ''fp'' = []"
    unfolding candidate_refusal_def found found_key_def by (simp add: example_item_def)
  have decode: "rq_decode_install example_tool_env x = Some (''skill'', ''c1'', None, ''fp'', ''wanted'')" for x
    by (simp add: example_tool_env_def)
  have service: "rts_InstallExplicit (watched example_tools) rq ((), log) =
      ((mcp_install_result \<lparr>ref_Source = [], ref_ID = []\<rparr> [] [] True, None), (), log @ [SawInstall rq])" for rq log
    by (simp add: example_tools_def watched_defs)
  have install: "snd (snd (snd (requestInstall example_tool_env (watched example_tools) example_tick x
      (example_call ''resource_request_install'') fnd ((), ?log)))) = ((), ?log @ [SawInstall ?rq])" for x
    unfolding requestInstall_def args decode
    by (simp add: refusal admitted_install_def install_decision_def perform_install_def found service install_version_def Let_def)
  let ?x = "execute_resource example_tool_env (watched example_tools) example_tick (example_call ''resource_request_install'') 1 2 fnd ((), ?log)"
  obtain out events rt2 s2 log' where second: "?x = (out, events, rt2, s2, log')" by (metis surj_pair)
  let ?event = "\<lparr>rw_ExecutionID = ''resource-'' @ itoa 1 @ ''-'' @ itoa (int 2), rw_CallID = tc_ID (example_call ''resource_request_install''),
      rw_Tool = tc_Name (example_call ''resource_request_install''), rw_Status = ''running'', rw_CallStatus = ''running'',
      rw_FailureCategory = [], rw_Classification = ''read''\<rparr>\<lparr>rw_Classification := ''write''\<rparr>"
  obtain result failure waits r where "requestInstall example_tool_env (watched example_tools) example_tick ?event
      (example_call ''resource_request_install'') fnd ((), ?log) = ((result, failure), waits, r, (), ?log @ [SawInstall ?rq])"
    using install [of ?event] by (metis prod.collapse)
  then have "log' = ?log @ [SawInstall ?rq]"
    using second unfolding execute_resource_def by (simp add: name example_tick_def Let_def)
  moreover from resource_installs_vetted [OF example_runtime refl first second]
  obtain new where "log' = ?log @ new" "calls_vetted example_tool_env ?rt example_tick ?log new" by blast
  ultimately have "install_vetted ?rt example_tick ?log ?rq" by (simp add: calls_vetted_def)
  moreover have "install_vetted ?rt = install_vetted example_new"
    by (intro ext) (simp add: install_vetted_def bindResourceApprovals_def bindRuntimeAvailability_def fields)
  ultimately show ?thesis by (metis install_request.select_convs(2,4))
qed

section \<open>A version that is left out\<close>

text \<open>
  The schema of \<open>resource_request_install\<close> admits a null version.  For an MCP server the
  orchestrator then refuses the installation, after the user's approval and the only request of the
  run have been spent.
\<close>

lemma null_version_never_installs:
  assumes "iq_Kind rq = ''mcp''" "trim_space (iq_Version rq) = []"
  shows "snd (fst (rts_InstallExplicit (orchestrated env sv) rq s)) \<noteq> None"
  using assms
  by (auto simp: orchestrated_def InstallExplicit_def installExplicit_def installMCP_def install_failed_def with_audit_def
        recordMutation_def trim_install_def res_lower_def Let_def trim_space_printable printable_def to_lower_def is_ascii_def
        ascii_lower_def split: option.splits prod.splits)

section \<open>A configuration that nobody waits for\<close>

text \<open>
  The wait for a configuration asks for an approval under the execution identifier of the call.  When
  the call has had an approval already, the table answers with that one, which is decided: nothing
  is shown, nobody is waited for, and the installation is completed at once.
\<close>

lemma approval_replayed:
  assumes "find (\<lambda>(_, r). ap_turn r = trim_space (ca_TurnID i) \<and> ap_execution r = btrim (trim_space (ca_ExecutionID i)))
      (ad_approvals db) = Some (key, row)"
    and "CreateChatAgentApproval user i db = (Inr a, db')"
  shows "a = scanChatAgentApproval (key, row) \<and> db' = db"
  using assms
  by (auto simp: CreateChatAgentApproval_def chat_agent_create_approval_def approval_result_def Let_def
      split: if_split_asm option.splits)

lemma configuration_not_awaited:
  assumes "ru_approvals rt" "qt_configRequest tick = Some a" "chatAgentApprovalAllowsExecution a"
  shows "\<exists>result. awaitResourceConfiguration sv tick request pending rt s =
    (result, [], snd (rts_CompleteConfiguredMCP sv (request\<lparr>iq_EntryPoint := ''agent_configuration_resume''\<rparr>) (ir_ID pending) s))"
proof -
  have "await_approval (qt_configRequest tick) (qt_configShown tick) (qt_configWait tick)
      ''configuration_handoff_unavailable'' ''waiting_configuration'' ''configuration_wait_failed'' = (Inr a, [])"
    using assms(2,3) by (simp add: await_approval_def chatAgentApprovalAllowsExecution_def Let_def)
  then show ?thesis
    using assms(1) by (simp add: awaitResourceConfiguration_def split: prod.split option.split)
qed

end
