(* ===== verification/Tool_Rounds.thy ===== *)
theory Tool_Rounds
  imports Tool_Scheduler Resource_Safety Local_Properties Agent_Goal_Properties Knowledge_Properties
begin

text \<open>
  The rounds of the scheduler: every call gets one result, its own, in the order of the calls, and
  the order in which the batches of a parallel group complete does not show.
\<close>

section \<open>Loops side by side\<close>

text \<open>
  Two runs of a loop over the same list: a relation that the groups keep while both go on, and a
  weaker one for the last group.  The groups are stretches of the list.
\<close>

lemma run_groups_related:
  assumes "R a b"
    and "\<And>g a b. R a b \<Longrightarrow> sublist g xs \<Longrightarrow> g \<noteq> [] \<Longrightarrow> (\<exists>x. g = [x]) \<or> list_all par g \<Longrightarrow>
      snd (step g a) = snd (step' g b) \<and>
      (if snd (step g a) then R (fst (step g a)) (fst (step' g b)) else S (fst (step g a)) (fst (step' g b)))"
    and "\<And>a b. R a b \<Longrightarrow> S a b"
  shows "S (run_groups par step xs a) (run_groups par step' xs b)"
  using assms
proof (induction par step xs a arbitrary: b rule: run_groups.induct)
  case (1 par step xs a)
  let ?g = "next_group par xs"
  let ?rest = "drop (length ?g) xs"
  show ?case
  proof (cases "xs = []")
    case True
    then show ?thesis using "1.prems" by simp
  next
    case False
    obtain a' continue where st: "step ?g a = (a', continue)" by fastforce
    obtain b' continue' where st': "step' ?g b = (b', continue')" by fastforce
    have "sublist ?g xs" by (metis next_group_prefix prefix_imp_sublist take_is_prefix)
    moreover have "?g \<noteq> []" using length_next_group [OF False, of par] by auto
    ultimately have now: "snd (step ?g a) = snd (step' ?g b)"
      "if snd (step ?g a) then R (fst (step ?g a)) (fst (step' ?g b)) else S (fst (step ?g a)) (fst (step' ?g b))"
      using "1.prems"(2) [OF "1.prems"(1) _ _ next_group_kind] by blast+
    have sub: "sublist g ?rest \<Longrightarrow> sublist g xs" for g
      by (metis sublist_drop sublist_order.order_trans)
    show ?thesis
    proof (cases continue)
      case True
      with now st st' have "R a' b'" continue' by simp_all
      from "1.IH" [OF False st [symmetric] True this(1) "1.prems"(2,3)]
      have "S (run_groups par step ?rest a') (run_groups par step' ?rest b')" using sub by simp
      then show ?thesis using False True st st' \<open>continue'\<close>
        by (simp add: run_groups.simps [of par _ xs])
    next
      case c: False
      with now st st' False show ?thesis by (simp add: run_groups.simps [of par _ xs])
    qed
  qed
qed

lemma sublist_enumerate:
  assumes "sublist g (List.enumerate 0 calls)" "g \<noteq> []"
  obtains k n where "g = List.enumerate k (take n (drop k calls))" "k + n \<le> length calls" "0 < n"
proof -
  from assms(1) obtain u v where uv: "List.enumerate 0 calls = u @ g @ v" by (auto simp: sublist_def)
  let ?k = "length u" let ?n = "length g"
  have len: "length calls = ?k + ?n + length v"
    using arg_cong [OF uv, of length] by simp
  have "g = take ?n (drop ?k (List.enumerate 0 calls))" by (simp add: uv)
  also have "\<dots> = List.enumerate ?k (take ?n (drop ?k calls))"
    by (simp add: enumerate_eq_zip take_zip drop_zip len)
  finally show ?thesis using that [of ?k ?n] len assms(2) by simp
qed

section \<open>Results\<close>

definition answers :: "tool_call list \<Rightarrow> (nat, tool_result) gomap \<Rightarrow> bool" where
  "answers calls results \<longleftrightarrow>
     (\<forall>i r. map_of results i = Some r \<longrightarrow> i < length calls \<and> tr_CallID r = tc_ID (calls ! i))"

lemma answers_Nil [simp]: "answers calls []"
  by (simp add: answers_def)

lemma answers_update:
  "answers calls results \<Longrightarrow> i < length calls \<Longrightarrow> tr_CallID r = tc_ID (calls ! i) \<Longrightarrow>
   answers calls (AList.update i r results)"
  by (auto simp: answers_def update_conv')

lemma failure_id [simp]: "tr_CallID (chatToolFailureResult encode call category) = tc_ID call"
  by (simp add: chatToolFailureResult_def)

lemma map_of_fold_update:
  fixes rs :: "(nat, 'v) gomap"
  assumes "keys_distinct rs"
  shows "map_of (fold (\<lambda>(i, r). AList.update (k + i) (f r)) rs m) j =
    (case (if k \<le> j then map_of rs (j - k) else None) of None \<Rightarrow> map_of m j | Some r \<Rightarrow> Some (f r))"
  using assms
proof (induction rs arbitrary: m)
  case (Cons e rs)
  obtain i r where e: "e = (i, r)" by (cases e)
  with Cons.prems have "map_of rs i = None" "keys_distinct rs"
    by (auto simp: keys_distinct_def map_of_eq_None_iff)
  with e show ?case
    by (auto simp: Cons.IH update_conv' split: option.splits)
qed simp

lemma merged_lookup:
  "keys_distinct rs \<Longrightarrow>
   map_of (fold (\<lambda>(i, r). AList.update i r) rs m) j = (case map_of rs j of None \<Rightarrow> map_of m j | Some r \<Rightarrow> Some r)"
  for rs :: "(nat, 'v) gomap"
  using map_of_fold_update [where k = 0 and f = "\<lambda>r. r"] by simp

lemma keys_distinct_fold:
  "(\<And>x m. keys_distinct m \<Longrightarrow> keys_distinct (f x m)) \<Longrightarrow> keys_distinct m \<Longrightarrow> keys_distinct (fold f xs m)"
  by (induction xs arbitrary: m) simp_all

lemma fold_enumerate_answers:
  assumes "answers calls m" "\<And>i call m. i < length calls \<Longrightarrow> call = calls ! i \<Longrightarrow> answers calls m \<Longrightarrow> answers calls (f (i, call) m)"
  shows "answers calls (fold f (List.enumerate k (drop k calls)) m)"
proof (rule fold_invariant_in)
  fix p m
  assume p: "p \<in> set (List.enumerate k (drop k calls))" and m: "answers calls m"
  obtain i call where ic: "p = (i, call)" by (cases p)
  with p have "k \<le> i \<and> i < k + length (drop k calls) \<and> drop k calls ! (i - k) = call"
    by (simp add: in_set_enumerate_eq)
  then have "i < length calls" "call = calls ! i" by auto
  with assms(2) m ic show "answers calls (f p m)" by blast
qed (rule assms(1))

lemma fill_missing_answers: "answers calls results \<Longrightarrow> answers calls (fill_missing encode calls results)"
  unfolding fill_missing_def
  using fold_enumerate_answers [of calls results _ 0] by (auto simp: answers_update)

lemma conclude_rest_answers: "answers calls results \<Longrightarrow> answers calls (conclude_rest encode calls offset results)"
  unfolding conclude_rest_def
  using fold_enumerate_answers [of calls results _ "offset + 1"] by (auto simp: answers_update)

lemma fill_missing_lookup:
  "map_of (fill_missing encode calls m) i =
     (case map_of m i of Some r \<Rightarrow> Some r
      | None \<Rightarrow> if i < length calls then Some (chatToolFailureResult encode (calls ! i) ''tool_not_available'') else None)"
proof -
  let ?f = "\<lambda>(index, call) m. if map_of m index = None
     then AList.update index (chatToolFailureResult encode call ''tool_not_available'') m else m"
  have lookup: "map_of (fold ?f (List.enumerate k cs) m) i =
     (case map_of m i of Some r \<Rightarrow> Some r
      | None \<Rightarrow> if k \<le> i \<and> i < k + length cs
                then Some (chatToolFailureResult encode (cs ! (i - k)) ''tool_not_available'') else None)"
    for k cs i and m :: "(nat, tool_result) gomap"
  proof (induction cs arbitrary: k m i)
    case (Cons c cs)
    show ?case
    proof (cases "i = k")
      case True
      then show ?thesis by (auto simp: Cons.IH update_conv' split: option.splits)
    next
      case False
      then have "Suc k \<le> i \<Longrightarrow> (c # cs) ! (i - k) = cs ! (i - Suc k)" by (auto simp: nth_Cons' Suc_diff_le)
      with False show ?thesis by (auto simp: Cons.IH update_conv' split: option.splits)
    qed
  qed (auto split: option.split)
  show ?thesis by (simp add: fill_missing_def lookup split: option.split)
qed

section \<open>What the runtimes answer\<close>

text \<open>Projections of results keep the call that a result belongs to, as all of the code do.\<close>

definition keeps_calls :: "tool_registry \<Rightarrow> bool" where
  "keeps_calls g \<longleftrightarrow>
     (\<forall>name r project x. lookup_tool g name = Some r \<longrightarrow> tg_ProjectForModel r = Some project \<longrightarrow> tr_CallID (project x) = tr_CallID x)"

lemma projected_id: "keeps_calls g \<Longrightarrow> tr_CallID (projectResult g r) = tr_CallID r"
  by (auto simp: projectResult_def keeps_calls_def split: option.split)

lemma answers_shift:
  assumes "answers (take n (drop k calls)) rs" "keys_distinct rs" "keeps_calls g" "answers calls m" "k + n \<le> length calls"
  shows "answers calls (fold (\<lambda>(i, r). AList.update (k + i) (projectResult g r)) rs m)"
  unfolding answers_def map_of_fold_update [OF assms(2), of k "projectResult g"]
proof (intro allI impI)
  fix j r
  assume r: "(case (if k \<le> j then map_of rs (j - k) else None) of None \<Rightarrow> map_of m j | Some r \<Rightarrow> Some (projectResult g r)) = Some r"
  show "j < length calls \<and> tr_CallID r = tc_ID (calls ! j)"
  proof (cases "if k \<le> j then map_of rs (j - k) else None")
    case None
    with r assms(4) show ?thesis by (simp add: answers_def)
  next
    case (Some x)
    with r have "k \<le> j" "map_of rs (j - k) = Some x" "r = projectResult g x" by (simp_all split: if_splits)
    with assms(1,3,5) show ?thesis by (fastforce simp: answers_def projected_id)
  qed
qed

definition of_backend :: "tool_registry \<Rightarrow> tool_backend \<Rightarrow> tool_call list \<Rightarrow> nat \<Rightarrow> bool" where
  "of_backend g b calls i \<longleftrightarrow>
     i < length calls \<and> (\<exists>r. lookup_tool g (tc_Name (calls ! i)) = Some r \<and> tg_Backend r = b)"

lemma callsForBackend_nth:
  "i < length calls \<Longrightarrow> trim_space (tc_Name (callsForBackend g b calls ! i)) \<noteq> [] \<Longrightarrow>
   of_backend g b calls i \<and> callsForBackend g b calls ! i = calls ! i"
  by (auto simp: callsForBackend_def of_backend_def no_call_def split: option.splits if_splits)

lemma callsForBackend_length [simp]: "length (callsForBackend g b calls) = length calls"
  by (simp add: callsForBackend_def)

definition run_ok :: "tool_registry \<Rightarrow> tool_backend \<Rightarrow> tool_call list \<Rightarrow> parallel_run \<Rightarrow> bool" where
  "run_ok g b calls run \<longleftrightarrow> keys_distinct (pl_results run) \<and>
     (\<forall>i r. map_of (pl_results run) i = Some r \<longrightarrow>
        of_backend g b calls i \<and> (pl_err run = None \<longrightarrow> tr_CallID r = tc_ID (calls ! i)))"

lemma run_ok_none [simp]: "run_ok g b calls no_parallel"
  by (simp add: run_ok_def no_parallel_def)

abbreviation mcp_ready :: "mcp_context \<Rightarrow> mcp_state \<Rightarrow> bool" where
  "mcp_ready x st \<equiv> 2 \<le> mc_MaxExposedTools (mx_config x) \<and> window_ok x (fst st)"

context tool_backend
begin

text \<open>A backend on the calls of a group that are its own; \<open>err\<close> embeds its errors.\<close>

lemma run_own_calls:
  assumes "inv st" "run (callsForBackend g b calls) st = ((res, e), st')"
  shows "inv st' \<and> run_ok g b calls \<lparr>pl_results = br_results res, pl_budget = br_budget res, pl_err = map_option err e\<rparr>"
proof -
  have "of_backend g b calls i \<and> (e = None \<longrightarrow> tr_CallID r = tc_ID (calls ! i))"
    if "map_of (br_results res) i = Some r" for i r
  proof -
    from results_named [OF assms(1), of "callsForBackend g b calls" i r] assms(2) that
    have "i < length calls" "trim_space (tc_Name (callsForBackend g b calls ! i)) \<noteq> []" by simp_all
    from callsForBackend_nth [OF this] have "of_backend g b calls i" and own: "callsForBackend g b calls ! i = calls ! i"
      by simp_all
    moreover have "tr_CallID r = tc_ID (calls ! i)" if "e = None"
      using results_owned [OF assms(1), of "callsForBackend g b calls" i r] assms(2) that own
        \<open>map_of (br_results res) i = Some r\<close> by simp
    ultimately show ?thesis by simp
  qed
  with results_distinct [OF assms(1), of "callsForBackend g b calls"] inv_kept [OF assms(1), of "callsForBackend g b calls"]
    assms(2) show ?thesis by (simp add: run_ok_def)
qed

lemma run_single:
  assumes "inv st" "run [call] st = ((res, None), st')"
  shows "tr_CallID (resultAt encode (br_results res) call 0) = tc_ID call"
  using results_owned [OF assms(1), of "[call]" 0] assms(2)
  by (auto simp: resultAt_def split: option.split)

end

lemma mcp_group_runs:
  assumes "mcp_ready (sx_mcp sx) st"
    and run: "run_parallel_mcp sx ticks rank round (callsForBackend g BackendMCP calls) st = (run, st')"
  shows "mcp_ready (sx_mcp sx) st' \<and> run_ok g BackendMCP calls run"
proof -
  obtain res e st1 where b: "executeMCPBatch (sx_mcp sx) (su_MCP \<circ> ticks) rank round (sx_CompletionDriven sx)
      (callsForBackend g BackendMCP calls) st = ((res, e), st1)" by (metis surj_pair)
  from mcp_backend.run_own_calls [OF assms(1) b, of McpFailed] run b
  show ?thesis by (auto simp: run_parallel_mcp_def)
qed

lemma local_group_runs:
  assumes run: "run_parallel_local sx ticks rank (callsForBackend g BackendLocalSkill calls) st = (run, st')"
  shows "run_ok g BackendLocalSkill calls run"
proof -
  obtain res e st1 where b: "executeLocalSkillBatch (sx_localEnv sx) (sx_executor sx) (su_Local \<circ> ticks) rank
      (sx_CompletionDriven sx) (callsForBackend g BackendLocalSkill calls) st = ((res, e), st1)" by (metis surj_pair)
  from local_backend.run_own_calls [OF TrueI b, of LocalFailed] run b
  show ?thesis by (auto simp: run_parallel_local_def)
qed

section \<open>A parallel group\<close>

definition ready :: "('g, 'r, 'l) scheduler_env \<Rightarrow> ('g, 'r, 'l) scheduler_state \<Rightarrow> bool" where
  "ready sx st \<longleftrightarrow> mcp_ready (sx_mcp sx) (sb_MCP st)"

lemma merge_lookup:
  assumes "keys_distinct (pl_results a)"
  shows "map_of (pl_results (merge_run a b)) i =
    (case map_of (pl_results a) i of None \<Rightarrow> map_of (pl_results b) i | Some r \<Rightarrow> Some r)"
  by (simp add: merge_run_def merged_lookup [OF assms])

lemma merge_distinct:
  "keys_distinct (pl_results b) \<Longrightarrow> keys_distinct (pl_results (merge_run a b))"
  by (auto simp: merge_run_def intro!: keys_distinct_fold)

lemma run_ok_own:
  assumes "run_ok g b calls x" "pl_err x = None" "map_of (pl_results x) i = Some r"
  shows "i < length calls \<and> tr_CallID r = tc_ID (calls ! i)"
proof -
  from assms(1,3) have "of_backend g b calls i \<and> (pl_err x = None \<longrightarrow> tr_CallID r = tc_ID (calls ! i))"
    unfolding run_ok_def by blast
  with assms(2) show ?thesis by (simp add: of_backend_def)
qed

lemma run_ok_backend: "run_ok g b calls x \<Longrightarrow> map_of (pl_results x) i = Some r \<Longrightarrow> of_backend g b calls i"
  unfolding run_ok_def by blast

lemma of_backend_unique: "of_backend g b calls i \<Longrightarrow> of_backend g b' calls i \<Longrightarrow> b = b'"
  by (auto simp: of_backend_def)

text \<open>The two batches of a group: their results are disjoint, so they merge in either order.\<close>

lemma merged_runs:
  assumes "run_ok g b calls m" "run_ok g b' calls l" "b \<noteq> b'"
  defines "ml \<equiv> merge_run l (merge_run m no_parallel)" and "lm \<equiv> merge_run m (merge_run l no_parallel)"
  shows "map_of (pl_results ml) = map_of (pl_results lm)" "pl_budget ml = pl_budget lm"
    "pl_err ml = None \<longleftrightarrow> pl_err lm = None" "keys_distinct (pl_results ml)" "keys_distinct (pl_results lm)"
    "pl_err ml = None \<Longrightarrow> answers calls (pl_results ml)"
proof -
  note dist = assms(1,2) [unfolded run_ok_def, THEN conjunct1]
  have none: "map_of (pl_results l) i = None \<or> map_of (pl_results m) i = None" for i
  proof (rule ccontr)
    assume "\<not> ?thesis"
    then obtain r r' where "map_of (pl_results l) i = Some r" "map_of (pl_results m) i = Some r'" by auto
    from run_ok_backend [OF assms(2) this(1)] run_ok_backend [OF assms(1) this(2)] show False
      using of_backend_unique assms(3) by metis
  qed
  show lookup: "map_of (pl_results ml) = map_of (pl_results lm)"
  proof
    fix i show "map_of (pl_results ml) i = map_of (pl_results lm) i"
      using none [of i] by (auto simp: ml_def lm_def merge_lookup dist no_parallel_def split: option.split)
  qed
  show "pl_budget ml = pl_budget lm" "pl_err ml = None \<longleftrightarrow> pl_err lm = None"
    by (auto simp: ml_def lm_def merge_run_def no_parallel_def split: option.split)
  show "keys_distinct (pl_results ml)" "keys_distinct (pl_results lm)"
    by (auto simp: ml_def lm_def no_parallel_def intro!: merge_distinct)
  show "answers calls (pl_results ml)" if "pl_err ml = None"
  proof -
    have "pl_err m = None" "pl_err l = None"
      using that by (auto simp: ml_def merge_run_def no_parallel_def split: option.splits)
    note own = run_ok_own [OF assms(1) this(1)] run_ok_own [OF assms(2) this(2)]
    show ?thesis
      unfolding answers_def
    proof (intro allI impI)
      fix i r
      assume "map_of (pl_results ml) i = Some r"
      then have "map_of (pl_results l) i = Some r \<or> map_of (pl_results m) i = Some r"
        by (simp add: ml_def merge_lookup dist no_parallel_def split: option.splits)
      then show "i < length calls \<and> tr_CallID r = tc_ID (calls ! i)" using own by (elim disjE) simp_all
    qed
  qed
qed

lemma fill_missing_distinct: "keys_distinct m \<Longrightarrow> keys_distinct (fill_missing encode calls m)"
  by (auto simp: fill_missing_def intro!: keys_distinct_fold)

lemma refused_group:
  "keys_distinct (List.enumerate 0 (map f calls))"
  "answers calls (List.enumerate 0 (map (\<lambda>call. chatToolFailureResult encode call category) calls))"
proof -
  show dist: "keys_distinct (List.enumerate 0 (map f calls))" for f :: "tool_call \<Rightarrow> 'v"
    by (simp add: keys_distinct_def enumerate_eq_zip)
  show "answers calls (List.enumerate 0 (map (\<lambda>call. chatToolFailureResult encode call category) calls))"
    unfolding answers_def
  proof (intro allI impI)
    fix i r
    assume "map_of (List.enumerate 0 (map (\<lambda>call. chatToolFailureResult encode call category) calls)) i = Some r"
    then have "(i, r) \<in> set (List.enumerate 0 (map (\<lambda>call. chatToolFailureResult encode call category) calls))"
      by (rule map_of_SomeD)
    then show "i < length calls \<and> tr_CallID r = tc_ID (calls ! i)" by (auto simp: in_set_enumerate_eq)
  qed
qed

text \<open>Two runs of a group that differ only in which batch completes first.\<close>

lemma parallel_group:
  assumes "ready sx st"
    and one: "executeParallelReadGroup g sx ticks rank first round calls st = (run, st1)"
    and two: "executeParallelReadGroup g sx ticks rank first' round calls st = (run', st1')"
  shows "ready sx st1 \<and> st1' = st1 \<and> keys_distinct (pl_results run) \<and> keys_distinct (pl_results run') \<and>
    map_of (pl_results run) = map_of (pl_results run') \<and> pl_budget run = pl_budget run' \<and>
    (pl_err run = None \<longleftrightarrow> pl_err run' = None) \<and> (pl_err run = None \<longrightarrow> answers calls (pl_results run))"
proof -
  let ?mc = "callsForBackend g BackendMCP calls" and ?lc = "callsForBackend g BackendLocalSkill calls"
  obtain m ms where m: "(if hasToolCalls ?mc then run_parallel_mcp sx ticks rank round ?mc (sb_MCP st)
      else (no_parallel, sb_MCP st)) = (m, ms)" by (metis surj_pair)
  obtain l ls where l: "(if hasToolCalls ?lc then run_parallel_local sx ticks rank ?lc (sb_Local st)
      else (no_parallel, sb_Local st)) = (l, ls)" by (metis surj_pair)
  have mok: "mcp_ready (sx_mcp sx) ms" "run_ok g BackendMCP calls m"
    using m assms(1) mcp_group_runs [of sx "sb_MCP st" ticks rank round g calls m ms]
    by (auto simp: ready_def split: if_splits)
  have lok: "run_ok g BackendLocalSkill calls l"
    using l local_group_runs [of sx ticks rank g calls "sb_Local st" l ls] by (auto split: if_splits)
  show ?thesis
  proof (cases "\<not> hasToolCalls ?mc \<and> \<not> hasToolCalls ?lc")
    case True
    with one two assms(1) show ?thesis
      by (auto simp: executeParallelReadGroup_def Let_def refused_group)
  next
    case False
    define ml where "ml = merge_run l (merge_run m no_parallel)"
    define lm where "lm = merge_run m (merge_run l no_parallel)"
    note both = merged_runs [OF mok(2) lok, folded ml_def lm_def, simplified]
    let ?fill = "\<lambda>x. x\<lparr>pl_results := fill_missing (sx_encode sx) calls (pl_results x)\<rparr>"
    have runs: "run = ?fill (if first then ml else lm)" "run' = ?fill (if first' then ml else lm)"
      "st1 = st\<lparr>sb_MCP := ms, sb_Local := ls\<rparr>" "st1' = st1"
      using one two m l False by (auto simp: executeParallelReadGroup_def Let_def ml_def lm_def)
    have fill: "map_of (fill_missing (sx_encode sx) calls (pl_results ml)) =
        map_of (fill_missing (sx_encode sx) calls (pl_results lm))"
      by (rule ext) (simp only: fill_missing_lookup both(1))
    have "answers calls (pl_results x)" if "pl_err x = None" "x \<in> {ml, lm}" for x
      using both(1,3,6) that by (auto simp: answers_def)
    then show ?thesis
      using runs both fill mok(1) by (auto simp: ready_def fill_missing_distinct fill_missing_answers)
  qed
qed

section \<open>A serial call\<close>

definition own_or_none :: "tool_call \<Rightarrow> tool_result \<Rightarrow> bool" where
  "own_or_none call r \<longleftrightarrow> (stored r \<longrightarrow> tr_CallID r = tc_ID call)"

lemma own_basic [simp]: "own_or_none call Agent_Goal.no_result" "tr_CallID r = tc_ID call \<Longrightarrow> own_or_none call r"
  by (simp_all add: own_or_none_def stored_def Agent_Goal.no_result_def)

lemma goal_results_id [simp]:
  "tr_CallID (chatAgentGoalPayloadResult env call payload) = tc_ID call"
  "tr_CallID (chatAgentGoalSuccessResult env call goal armed) = tc_ID call"
  "tr_CallID (chatAgentGoalFailureResult env call category) = tc_ID call"
  by (simp_all add: chatAgentGoalPayloadResult_def chatAgentGoalSuccessResult_def chatAgentGoalFailureResult_def)

lemma goal_error_own: "goalErrorResult env call e = (result, concludes, failure, fatal) \<Longrightarrow> own_or_none call result"
  by (auto simp: goalErrorResult_def goal_failure_def Let_def split: if_splits)

lemma goal_update_own:
  "executeGoalUpdate env repo tick call args rt s = ((result, concludes, failure, fatal), x) \<Longrightarrow> own_or_none call result"
  unfolding executeGoalUpdate_def Let_def
  by (elim goal_error_own | auto simp: goal_failure_def dest: goal_error_own split: if_split_asm option.splits sum.splits prod.splits)+

lemma goal_call_own:
  "executeCall env repo tick call rt s = ((result, concludes, failure, fatal), x) \<Longrightarrow> own_or_none call result"
  unfolding executeCall_def Let_def
  by (auto simp: goal_failure_def dest: goal_error_own goal_update_own split: if_split_asm option.splits sum.splits prod.splits)

lemma goal_own:
  "execute env repo tick call round n rt s = ((result, concludes, err), events, x) \<Longrightarrow> own_or_none call result"
  by (auto simp: execute_def Let_def dest: goal_call_own split: if_split_asm option.splits prod.splits)

lemma serial_goal_own:
  "serial_goal sx tick round call st = (ended, st') \<Longrightarrow> own_or_none call (sd_result ended) \<and> sb_MCP st' = sb_MCP st"
  by (auto simp: serial_goal_def serial_result_def executeChatAgentGoalBatch_def Let_def dest: goal_own
      split: prod.splits if_splits)

lemma resource_result_id [simp]:
  "tr_CallID (resourceToolPayloadResult env call payload) = tc_ID call"
  "tr_CallID (resourceToolFailureResult env call category) = tc_ID call"
  by (simp_all add: resourceToolPayloadResult_def resourceToolFailureResult_def)

lemma resource_search_own: "resource_search env sv call rt s = ((result, failure), x) \<Longrightarrow> own_or_none call result"
  by (auto simp: resource_search_def resource_failed_def search_done_def Let_def split: if_split_asm option.splits sum.splits prod.splits)

lemma admitted_install_own:
  "admitted_install env sv tick execution call request rt s = ((result, failure), x) \<Longrightarrow> own_or_none call result"
  by (auto simp: admitted_install_def resource_failed_def split: if_split_asm sum.splits prod.splits)

lemma request_install_own:
  "requestInstall env sv tick execution call rt s = ((result, failure), x) \<Longrightarrow> own_or_none call result"
  by (auto simp: requestInstall_def resource_failed_def Let_def dest: admitted_install_own split: if_split_asm option.splits prod.splits)

lemma install_link_own: "installDirectSkillLinkCall env sv call rt s = ((result, failure), x) \<Longrightarrow> own_or_none call result"
  by (auto simp: installDirectSkillLinkCall_def resource_failed_def Let_def split: if_split_asm option.splits prod.splits)

lemma resource_own:
  "execute_resource env sv tick call round n rt s = ((result, err), x) \<Longrightarrow> own_or_none call result"
  by (auto simp: execute_resource_def resource_failed_def Let_def
      dest: resource_search_own request_install_own install_link_own split: if_split_asm option.splits prod.splits)

lemma serial_resource_own:
  "serial_resource sx tick round call st = (ended, st') \<Longrightarrow> own_or_none call (sd_result ended) \<and> sb_MCP st' = sb_MCP st"
  by (auto simp: serial_resource_def serial_result_def executeResourceToolBatch_def resultAt_def dest: resource_own
      split: prod.splits if_splits option.splits)

lemma retrieval_done_own:
  "keeps_calls g \<Longrightarrow> retrieval_done g call content isError events st = ((Some r, stop), x) \<Longrightarrow> tr_CallID r = tc_ID call"
  by (auto simp: retrieval_done_def projected_id)

lemma retrieval_stop_none [simp]: "retrieval_stop events st \<noteq> ((Some r, stop), x)"
  by (simp add: retrieval_stop_def)

lemma retrieval_ends_own:
  assumes "keeps_calls g"
  shows "retrieval_failed g call tick running failure content st = ((Some r, stop), x) \<Longrightarrow> tr_CallID r = tc_ID call"
    and "retrieval_completed g call tick running markers content st = ((Some r, stop), x) \<Longrightarrow> tr_CallID r = tc_ID call"
    and "retrieval_cancelled tick running st = ((Some r, stop), x) \<Longrightarrow> tr_CallID r = tc_ID call"
  by (auto simp: retrieval_failed_def retrieval_completed_def retrieval_cancelled_def
      dest: retrieval_done_own [OF assms] split: if_split_asm)

lemma retrieval_backends_own:
  assumes "keeps_calls g"
  shows "executeMemoryCall g x tick call executionID st = ((Some r, stop), y) \<Longrightarrow> tr_CallID r = tc_ID call"
    and "executeKnowledgeCall g x tick call executionID query st = ((Some r, stop), y) \<Longrightarrow> tr_CallID r = tc_ID call"
    and "executeWebCall g x tick call executionID st = ((Some r, stop), y) \<Longrightarrow> tr_CallID r = tc_ID call"
  by (auto simp: executeMemoryCall_def executeKnowledgeCall_def executeWebCall_def Let_def
      dest: retrieval_ends_own [OF assms] split: if_split_asm option.splits prod.splits sum.splits)

lemma retrieval_own:
  assumes "keeps_calls g" "executeRetrievalCall g x tick call i st = ((Some r, stop), y)"
  shows "tr_CallID r = tc_ID call"
  using assms(2)
  by (auto simp: executeRetrievalCall_def Let_def dest: retrieval_backends_own [OF assms(1)] retrieval_done_own [OF assms(1)]
      split: if_split_asm option.splits prod.splits tool_backend.splits)

lemma serial_retrieval_own:
  "keeps_calls g \<Longrightarrow> serial_retrieval g sx tick round call i st = (ended, st') \<Longrightarrow>
   own_or_none call (sd_result ended) \<and> sb_MCP st' = sb_MCP st"
  by (auto simp: serial_retrieval_def serial_result_def dest: retrieval_own split: prod.splits option.splits)

lemma serial_mcp_own:
  assumes "mcp_ready (sx_mcp sx) st" "run_parallel_mcp sx ticks rank round [call] st = (run, st')"
  shows "(pl_err run = None \<longrightarrow> own_or_none call (sd_result (serial_batch sx call run))) \<and> mcp_ready (sx_mcp sx) st'"
proof -
  obtain res e st1 where b: "executeMCPBatch (sx_mcp sx) (su_MCP \<circ> ticks) rank round (sx_CompletionDriven sx) [call] st =
      ((res, e), st1)" by (metis surj_pair)
  have "mcp_ready (sx_mcp sx) st1" using mcp_backend.inv_kept [OF assms(1)] b by (metis snd_conv)
  moreover have "e = None \<Longrightarrow> tr_CallID (resultAt (sx_encode sx) (br_results res) call 0) = tc_ID call"
    using mcp_backend.run_single [OF assms(1)] b by blast
  ultimately show ?thesis using assms(2) b
    by (auto simp: run_parallel_mcp_def serial_batch_def serial_result_def)
qed

lemma serial_local_own:
  assumes "run_parallel_local sx ticks rank [call] st = (run, st')" "pl_err run = None"
  shows "own_or_none call (sd_result (serial_batch sx call run))"
proof -
  obtain res e st1 where b: "executeLocalSkillBatch (sx_localEnv sx) (sx_executor sx) (su_Local \<circ> ticks) rank
      (sx_CompletionDriven sx) [call] st = ((res, e), st1)" by (metis surj_pair)
  with assms have "e = None" by (auto simp: run_parallel_local_def)
  with local_backend.run_single [OF TrueI] b
  have "tr_CallID (resultAt (sx_encode sx) (br_results res) call 0) = tc_ID call" by blast
  with assms(1) b show ?thesis by (auto simp: run_parallel_local_def serial_batch_def serial_result_def)
qed

lemma serial_batch_err [simp]: "sd_err (serial_batch sx call run) = pl_err run"
  by (simp add: serial_batch_def)

lemma serial_call:
  assumes "keeps_calls g" "ready sx st" "executeSerialToolCall g sx tick round call i st = (ended, st')"
  shows "(sd_err ended = None \<longrightarrow> own_or_none call (sd_result ended)) \<and> ready sx st'"
proof (cases "\<exists>r. lookup_tool g (tc_Name call) = Some r \<and> tg_Backend r \<in> {BackendMCP, BackendLocalSkill}")
  case True
  then consider r where "lookup_tool g (tc_Name call) = Some r" "tg_Backend r = BackendMCP"
    | r where "lookup_tool g (tc_Name call) = Some r" "tg_Backend r = BackendLocalSkill" by auto
  then show ?thesis
  proof cases
    case 1
    obtain run mcp where m: "run_parallel_mcp sx (\<lambda>_. tick) (\<lambda>_. 0) round [call] (sb_MCP st) = (run, mcp)"
      by (metis surj_pair)
    with 1 assms(3) have "ended = serial_batch sx call run" "st' = st\<lparr>sb_MCP := mcp\<rparr>"
      by (simp_all add: executeSerialToolCall_def)
    with serial_mcp_own [OF _ m] assms(2) show ?thesis by (simp add: ready_def)
  next
    case 2
    obtain run lcl where l: "run_parallel_local sx (\<lambda>_. tick) (\<lambda>_. 0) [call] (sb_Local st) = (run, lcl)"
      by (metis surj_pair)
    with 2 assms(3) have "ended = serial_batch sx call run" "st' = st\<lparr>sb_Local := lcl\<rparr>"
      by (simp_all add: executeSerialToolCall_def)
    with serial_local_own [OF l] assms(2) show ?thesis by (simp add: ready_def)
  qed
next
  case False
  have "serial_retrieval g sx tick round call i st = (ended, st') \<or> serial_goal sx tick round call st = (ended, st') \<or>
    serial_resource sx tick round call st = (ended, st') \<or>
    (serial_result (chatToolFailureResult (sx_encode sx) call ''tool_not_available''), st) = (ended, st')"
  proof (cases "lookup_tool g (tc_Name call)")
    case None
    with assms(3) show ?thesis by (simp add: executeSerialToolCall_def)
  next
    case (Some r)
    with assms(3) False show ?thesis
      unfolding executeSerialToolCall_def by (cases "tg_Backend r") (simp_all del: Pair_inject)
  qed
  then show ?thesis
  proof (elim disjE)
    assume "serial_retrieval g sx tick round call i st = (ended, st')"
    from serial_retrieval_own [OF assms(1) this] assms(2) show ?thesis by (simp add: ready_def)
  next
    assume "serial_goal sx tick round call st = (ended, st')"
    from serial_goal_own [OF this] assms(2) show ?thesis by (simp add: ready_def)
  next
    assume "serial_resource sx tick round call st = (ended, st')"
    from serial_resource_own [OF this] assms(2) show ?thesis by (simp add: ready_def)
  next
    assume "(serial_result (chatToolFailureResult (sx_encode sx) call ''tool_not_available''), st) = (ended, st')"
    with assms(2) show ?thesis by (auto simp: serial_result_def)
  qed
qed

section \<open>A batch\<close>

definition alike ::
  "('g, 'r, 'l) scheduler_env \<Rightarrow> tool_call list \<Rightarrow> ('g, 'r, 'l) batch_progress \<Rightarrow> ('g, 'r, 'l) batch_progress \<Rightarrow> bool" where
  "alike sx calls a b \<longleftrightarrow>
     sg_Err a = None \<and> sg_Err b = None \<and> sg_Stop a = sg_Stop b \<and> sg_Budget a = sg_Budget b \<and> sg_State a = sg_State b \<and>
     map_of (sg_Results a) = map_of (sg_Results b) \<and> answers calls (sg_Results a) \<and> ready sx (sg_State a)"

definition alike_or_failed ::
  "('g, 'r, 'l) scheduler_env \<Rightarrow> tool_call list \<Rightarrow> ('g, 'r, 'l) batch_progress \<Rightarrow> ('g, 'r, 'l) batch_progress \<Rightarrow> bool" where
  "alike_or_failed sx calls a b \<longleftrightarrow> alike sx calls a b \<or> (sg_Err a \<noteq> None \<and> sg_Err b \<noteq> None)"

lemma conclude_rest_cong:
  assumes "map_of m = map_of m'"
  shows "map_of (conclude_rest encode calls offset m) = map_of (conclude_rest encode calls offset m')"
proof -
  let ?f = "\<lambda>(index, call) m. if trim_space (tc_Name call) \<noteq> []
     then AList.update index (chatToolFailureResult encode call ''goal_concluded'') m else m"
  have "map_of (fold ?f xs m) = map_of (fold ?f xs m')" if "map_of m = map_of m'" for xs m m'
    using that
  proof (induction xs arbitrary: m m')
    case (Cons x xs)
    have "map_of (?f x m) = map_of (?f x m')" using Cons.prems by (simp add: update_conv' split: prod.split)
    from Cons.IH [OF this] show ?case by (simp only: fold.simps comp_apply)
  qed simp
  from this [OF assms] show ?thesis by (simp only: conclude_rest_def)
qed

lemma parallel_step_alike:
  assumes "keeps_calls g" "alike sx calls a b" "k + n \<le> length calls"
    and s: "s = parallel_step g sx ticks rank first round k (take n (drop k calls)) a"
    and s': "s' = parallel_step g sx ticks rank first' round k (take n (drop k calls)) b"
  shows "snd s = snd s' \<and> (if snd s then alike sx calls (fst s) (fst s') else alike_or_failed sx calls (fst s) (fst s'))"
proof -
  note ab = assms(2) [unfolded alike_def]
  obtain run st1 where one: "executeParallelReadGroup g sx (\<lambda>i. ticks (k + i)) (\<lambda>i. rank (k + i)) first round
      (take n (drop k calls)) (sg_State a) = (run, st1)" by (metis surj_pair)
  obtain run' st1' where two: "executeParallelReadGroup g sx (\<lambda>i. ticks (k + i)) (\<lambda>i. rank (k + i)) first' round
      (take n (drop k calls)) (sg_State a) = (run', st1')" by (metis surj_pair)
  note group = parallel_group [OF _ one two]
  have "ready sx (sg_State a)" "sg_State b = sg_State a" using ab by auto
  note group = group [OF this(1)] and b = this(2)
  let ?put = "\<lambda>rs m. fold (\<lambda>(index, result). AList.update (k + index) (projectResult g result)) rs m"
  have "map_of (?put (pl_results run) (sg_Results a)) = map_of (?put (pl_results run') (sg_Results b))"
    using group ab by (intro ext) (auto simp: map_of_fold_update [where f = "projectResult g"] split: option.split)
  moreover have "pl_err run = None \<longrightarrow> answers calls (?put (pl_results run) (sg_Results a))"
    using group ab answers_shift [OF _ _ assms(1) _ assms(3)] by blast
  ultimately show ?thesis
    using group ab one two
    by (auto simp: s s' parallel_step_def b alike_or_failed_def alike_def)
qed

lemma serial_step_alike:
  assumes "keeps_calls g" "alike sx calls a b" "k < length calls"
    and s: "s = serial_step g sx ticks round calls k (calls ! k) a"
    and s': "s' = serial_step g sx ticks round calls k (calls ! k) b"
  shows "snd s = snd s' \<and> (if snd s then alike sx calls (fst s) (fst s') else alike_or_failed sx calls (fst s) (fst s'))"
proof -
  note ab = assms(2) [unfolded alike_def]
  then have b: "sg_State b = sg_State a" "sg_Stop b = sg_Stop a" "sg_Budget b = sg_Budget a" and "ready sx (sg_State a)"
    by auto
  obtain ended st1 where run: "executeSerialToolCall g sx (ticks k) round (calls ! k) k (sg_State a) = (ended, st1)"
    by (metis surj_pair)
  from serial_call [OF assms(1) \<open>ready sx (sg_State a)\<close> run]
  have own: "sd_err ended = None \<Longrightarrow> own_or_none (calls ! k) (sd_result ended)" and r: "ready sx st1" by simp_all
  let ?put = "\<lambda>m. if stored (sd_result ended) then AList.update k (projectResult g (sd_result ended)) m else m"
  have put: "map_of (?put (sg_Results a)) = map_of (?put (sg_Results b))" using ab by (simp add: update_conv')
  have ans: "answers calls (?put (sg_Results a))" if "sd_err ended = None"
    using own [OF that] ab assms(1,3) by (simp add: own_or_none_def answers_update projected_id)
  show ?thesis
    using put ans r conclude_rest_cong [OF put, of "sx_encode sx" calls k]
      conclude_rest_answers [OF ans, of "sx_encode sx" k]
    by (simp add: s s' serial_step_def run b Let_def alike_or_failed_def alike_def)
qed

lemma batch_step_alike:
  assumes "keeps_calls g" "alike sx calls a b" "sublist members (List.enumerate 0 calls)" "members \<noteq> []"
    and s: "s = batch_step g sx ticks rank first round calls members a"
    and s': "s' = batch_step g sx ticks rank first' round calls members b"
  shows "snd s = snd s' \<and> (if snd s then alike sx calls (fst s) (fst s') else alike_or_failed sx calls (fst s) (fst s'))"
proof -
  from sublist_enumerate [OF assms(3,4)] obtain k n where
    kn: "members = List.enumerate k (take n (drop k calls))" "k + n \<le> length calls" "0 < n" by metis
  have "take n (drop k calls) = calls ! k # take (n - 1) (drop (k + 1) calls)"
    using kn(2,3) by (cases n) (simp_all add: Cons_nth_drop_Suc [symmetric])
  then have members: "members = (k, calls ! k) # List.enumerate (Suc k) (take (n - 1) (drop (k + 1) calls))"
    and calls: "map snd members = take n (drop k calls)" by (simp_all add: kn(1))
  have "k < length calls" using kn by simp
  show ?thesis
  proof (cases "allows_parallel g (calls ! k)")
    case True
    then have "batch_step g sx ticks rank f round calls members x =
        parallel_step g sx ticks rank (f k) round k (take n (drop k calls)) x" for f x
      by (simp add: batch_step_def members flip: calls)
    then show ?thesis
      using parallel_step_alike [OF assms(1,2) kn(2) refl refl] by (simp add: s s')
  next
    case False
    then have "batch_step g sx ticks rank f round calls members x = serial_step g sx ticks round calls k (calls ! k) x" for f x
      by (simp add: batch_step_def members)
    then show ?thesis
      using serial_step_alike [OF assms(1,2) \<open>k < length calls\<close> refl refl] by (simp add: s s')
  qed
qed

text \<open>The prelude, in which nothing but a required skill runs.\<close>

lemma required_answers:
  assumes "required_from env ex ticks cd name i calls results budget rt s = ((run, None), x)"
    and "drop i calls0 = calls" "answers calls0 results"
  shows "answers calls0 (br_results run)"
  using assms
proof (induction calls arbitrary: i results budget rt s)
  case (Cons call calls)
  note i = drop_Cons_step [OF Cons.prems(2)]
  have put: "answers calls0 (AList.update i r results)" if "tr_CallID r = tc_ID call" for r
    using answers_update [OF Cons.prems(3) i(1)] that i(2) by simp
  have refused: "answers calls0 (AList.update i (localSkillFailureResult env call category) results)" for category
    by (rule put) (simp add: localSkillFailureResult_def)
  obtain result err events rt2 s2 where run: "execute_local env ex (ticks i) call (rt\<lparr>lr_calls := lr_calls rt + 1\<rparr>) s =
      ((result, err), events, rt2, s2)" by (metis surj_pair)
  have own: "answers calls0 (AList.update i result results)" if "err = None"
    using put execute_local_owned run that by metis
  show ?case
    using Cons.prems(1) Cons.IH [OF _ i(3) refused] Cons.IH [OF _ i(3) own] run
    by (auto simp: Let_def split: if_splits option.splits)
qed auto

lemma projected_answers: "keeps_calls g \<Longrightarrow> answers calls results \<Longrightarrow> answers calls (projectResults g results)"
  by (auto simp: answers_def projectResults_def map_of_map projected_id)

lemma batch_related:
  fixes st :: "('a, 'b, 'c) scheduler_state"
  assumes "keeps_calls g" "ready sx st"
  shows "alike_or_failed sx calls (executeToolBatch g sx ticks rank first round calls st)
           (executeToolBatch g sx ticks rank first' round calls st)"
proof (cases "rg_requiredLocalSkill g")
  case True
  obtain run err lcl where r: "executeRequiredLocalSkillBatch (sx_localEnv sx) (sx_executor sx) (su_Local \<circ> ticks)
      (sx_CompletionDriven sx) calls (sb_Local st) = ((run, err), lcl)" by (metis surj_pair)
  have "answers calls (br_results run)" if "err = None"
    using r that
    by (auto simp: executeRequiredLocalSkillBatch_def split: prod.splits if_splits dest: required_answers)
  with True r assms show ?thesis
    by (auto simp: executeToolBatch_def alike_or_failed_def alike_def ready_def projected_answers)
next
  case False
  define start where "start = \<lparr>sg_Results = [], sg_Budget = False, sg_Stop = False, sg_Err = None, sg_State = st\<rparr>"
  have "alike sx calls start start" using assms(2) by (simp add: alike_def start_def)
  then have "alike_or_failed sx calls
      (run_groups (\<lambda>p. allows_parallel g (snd p)) (batch_step g sx ticks rank first round calls) (List.enumerate 0 calls) start)
      (run_groups (\<lambda>p. allows_parallel g (snd p)) (batch_step g sx ticks rank first' round calls) (List.enumerate 0 calls) start)"
  proof (rule run_groups_related [where R = "alike sx calls"])
    fix members and a b :: "('a, 'b, 'c) batch_progress"
    assume "alike sx calls a b" "sublist members (List.enumerate 0 calls)" "members \<noteq> []"
    from batch_step_alike [OF assms(1) this refl refl]
    show "snd (batch_step g sx ticks rank first round calls members a) =
        snd (batch_step g sx ticks rank first' round calls members b) \<and>
      (if snd (batch_step g sx ticks rank first round calls members a)
       then alike sx calls (fst (batch_step g sx ticks rank first round calls members a))
              (fst (batch_step g sx ticks rank first' round calls members b))
       else alike_or_failed sx calls (fst (batch_step g sx ticks rank first round calls members a))
              (fst (batch_step g sx ticks rank first' round calls members b)))" .
  qed (simp add: alike_or_failed_def)
  with False show ?thesis by (simp add: executeToolBatch_def start_def)
qed

section \<open>A round\<close>

lemma identity_keeps_calls:
  assumes "\<forall>r \<in> set rs. tg_ProjectForModel r = Some identityChatToolResult"
  shows "keeps_calls (register_all rs (empty_registry q))"
proof -
  have "tg_ProjectForModel r = Some identityChatToolResult" if "r \<in> set (accepted_tools rs)" for r
    using that assms by (auto simp: accepted_tools_def)
  moreover have "r \<in> set rs'" if "denoted name rs' = Some r" for name rs' r
    using that by (cases rule: denoted_cases [of name rs']) (auto simp: named_def filter_eq_Cons_iff)
  ultimately show ?thesis
    by (auto simp: keeps_calls_def lookup_denoted [OF register_all_correct] identityChatToolResult_def)
qed

lemma step_keeps_calls:
  assumes "\<forall>r \<in> set rs. tg_ProjectForModel r = Some identityChatToolResult"
  shows "keeps_calls (forTaskStep n (register_all rs (empty_registry q)))"
proof -
  have "rg_ordered (register_all rs (empty_registry q)) = accepted_tools rs"
    using register_all_correct [of rs q] by (simp add: registry_of_def)
  then have "\<forall>r \<in> set (rg_ordered (register_all rs (empty_registry q))). tg_ProjectForModel r = Some identityChatToolResult"
    using assms by (auto simp: accepted_tools_def)
  then show ?thesis
    using identity_keeps_calls assms by (auto simp: forTaskStep_def)
qed

lemma round_result_id:
  assumes "answers (take admitted calls) results" "(i, call) \<in> set (List.enumerate 0 calls)"
  shows "tr_CallID (round_result encode admitted results (i, call)) = tc_ID call"
  using assms by (auto simp: round_result_def resultAt_def answers_def in_set_enumerate_eq split: option.split)

lemma round_results_ids:
  assumes "answers (take admitted calls) results"
  shows "map tr_CallID (map (round_result encode admitted results) (List.enumerate 0 calls)) = map tc_ID calls"
proof -
  have "map (tr_CallID \<circ> round_result encode admitted results) (List.enumerate 0 calls) =
      map (tc_ID \<circ> snd) (List.enumerate 0 calls)"
    by (auto simp: round_result_id [OF assms])
  also have "\<dots> = map tc_ID calls" by (simp flip: map_map)
  finally show ?thesis by simp
qed

text \<open>
  C40: When a round of tool calls goes on, whatever tools the calls name and whatever happens outside,
  the provider gets exactly one result for each call, in the order of the calls and under the
  identifiers of the calls: those that no runtime answered, that the budget of the turn did not admit
  or that came after the conclusion of a goal included.  Nothing of the round, neither the results nor
  the state it leaves, depends on which of the batches of a parallel group completes first.  The
  registrations are those that the code makes, with the identity as their projection; the MCP runtime
  shows no more tools than its configuration allows, before and after the round.
\<close>

theorem tool_round_answers:
  assumes "\<forall>r \<in> set rs. tg_ProjectForModel r = Some identityChatToolResult"
    and "g = forTaskStep taskRound (register_all rs (empty_registry required))"
    and "mcp_ready (sx_mcp sx) (sb_MCP st)"
    and "run_tool_round g sx ticks rank first round taskRound wrapup calls (d, st) = (RoundDone results, d', st')"
  shows "map tr_CallID results = map tc_ID calls \<and> mcp_ready (sx_mcp sx) (sb_MCP st') \<and>
    run_tool_round g sx ticks rank first' round taskRound wrapup calls (d, st) = (RoundDone results, d', st')"
proof (cases wrapup)
  case True
  with assms(3,4) show ?thesis by (auto simp: run_tool_round_def)
next
  case False
  have keep: "keeps_calls g" using step_keeps_calls [OF assms(1)] assms(2) by simp
  obtain admitted d1 where adm: "admitToolCalls (int (length calls)) d = (admitted, d1)" by fastforce
  let ?calls = "take (nat admitted) calls"
  define sx1 where "sx1 = sx\<lparr>sx_retrieval := (sx_retrieval sx)\<lparr>rx_round := round, rx_taskStep := taskRound,
    rx_memoryBatchValid := memoryToolBatchValid taskRound ?calls (memory_enabled (rx_Memory (sx_retrieval sx)))
      (rx_WebProvider (sx_retrieval sx) \<noteq> None) (sx_KnowledgeEnabled sx)\<rparr>\<rparr>"
  have mcp: "sx_mcp sx1 = sx_mcp sx" by (simp add: sx1_def)
  define run where "run f = executeToolBatch g sx1 ticks rank f round ?calls st" for f
  have round: "run_tool_round g sx ticks rank f round taskRound wrapup calls (d, st) =
      (case sg_Err (run f) of
         Some e \<Rightarrow> (RoundFailed e, d1, sg_State (run f))
       | None \<Rightarrow>
           if sg_Stop (run f) then (RoundStopped, d1, sg_State (run f))
           else (RoundDone (map (round_result (sx_encode sx) (nat admitted) (sg_Results (run f))) (List.enumerate 0 calls)),
                 d1, sg_State (run f)))" for f
    by (simp only: run_tool_round_def run_def sx1_def adm Let_def prod.case False if_False)
  have "ready sx1 st" using assms(3) mcp by (simp add: ready_def)
  from batch_related [OF keep this] have "alike_or_failed sx1 ?calls (run first) (run first')" by (simp add: run_def)
  moreover have over: "sg_Err (run first) = None" "\<not> sg_Stop (run first)"
    "results = map (round_result (sx_encode sx) (nat admitted) (sg_Results (run first))) (List.enumerate 0 calls)"
    "d' = d1" "st' = sg_State (run first)"
    using assms(4) by (auto simp: round split: option.splits if_splits)
  ultimately have alike: "alike sx1 ?calls (run first) (run first')" by (simp add: alike_or_failed_def)
  then have same: "map_of (sg_Results (run first)) = map_of (sg_Results (run first'))" by (simp add: alike_def)
  have "round_result (sx_encode sx) (nat admitted) (sg_Results (run first)) =
      round_result (sx_encode sx) (nat admitted) (sg_Results (run first'))"
    by (simp add: round_result_def resultAt_def same fun_eq_iff)
  with over alike have "run_tool_round g sx ticks rank first' round taskRound wrapup calls (d, st) = (RoundDone results, d', st')"
    by (auto simp: round alike_def)
  moreover have "map tr_CallID results = map tc_ID calls"
    unfolding over(3) by (rule round_results_ids) (use alike in \<open>simp add: alike_def\<close>)
  ultimately show ?thesis using alike mcp over(5) by (auto simp: alike_def ready_def)
qed

text \<open>A round with two Web searches, of which the turn admits one, and for which no provider is configured.\<close>

definition example_scheduler :: "(goal_db, unit, nat) scheduler_env" where
  "example_scheduler =
     \<lparr>sx_encode = (\<lambda>_. ''{}''), sx_goalEnv = example_env, sx_goals = pg_goal_repository length ''u'',
      sx_resourceEnv = example_tool_env, sx_resources = Resource_Safety.example_tools,
      sx_mcp = \<lparr>mx_env = example_mcp_env, mx_config = example_mcp_config, mx_world = example_world,
                mx_decode = (\<lambda>_. None), mx_encode = (\<lambda>_. None)\<rparr>,
      sx_localEnv = example_local_env, sx_executor = example_executor,
      sx_retrieval = \<lparr>rx_env = example_knowledge_env, rx_Memory = None, rx_MemoryContract = None, rx_WebProvider = None,
                      rx_KnowledgeReady = False, rx_round = 0, rx_taskStep = 0, rx_memoryBatchValid = False\<rparr>,
      sx_CompletionDriven = False, sx_KnowledgeEnabled = False\<rparr>"

definition example_scheduler_state :: "(goal_db, unit, nat) scheduler_state" where
  "example_scheduler_state =
     \<lparr>sb_Goals = (example_runtime, example_db), sb_Resource = (Some example_new, ()),
      sb_MCP = (\<lparr>mr_Enabled = False, mr_Run = no_run, mr_userID = ''u'', mr_query = [], mr_visible = [],
                 mr_searchRequired = False, mr_calls = 0\<rparr>, []),
      sb_Local = (example_local_runtime, 0),
      sb_Retrieval = \<lparr>rs_Budget = None, rs_UsedMemories = [], rs_Cumulative = fst (example_search []),
                      rs_Knowledge = example_decision, rs_SystemPrompt = []\<rparr>\<rparr>"

definition example_scheduler_tick :: scheduler_tick where
  "example_scheduler_tick =
     \<lparr>su_Goal = Agent_Goal_Properties.example_tick, su_Resource = Resource_Safety.example_tick,
      su_MCP = \<lparr>mk_Exec = example_exec_tick, mk_Begin = True, mk_End = True, mk_CtxDone = False\<rparr>,
      su_Local = example_local_tick,
      su_Retrieval = \<lparr>rk_Begin = True, rk_Cancelled = False, rk_Search = True, rk_End = True,
                      rk_Memory = \<lparr>mz_Memories = [], mz_FailureCategory = []\<rparr>, rk_Knowledge = None,
                      rk_Web = Inl WebNotConfigured\<rparr>\<rparr>"

definition example_web_tools :: "tool_registration list" where
  "example_web_tools = [example_tool ''search_web'' BackendWeb False]"

definition web_call :: "string \<Rightarrow> tool_call" where
  "web_call ident = no_call\<lparr>tc_ID := ident, tc_Name := ''search_web''\<rparr>"

lemma example_web_registry:
  "lookup_tool (register_all example_web_tools (empty_registry False)) ''search_web'' =
     Some (example_tool ''search_web'' BackendWeb False)"
  "rg_requiredLocalSkill (register_all example_web_tools (empty_registry False)) = False"
proof -
  have "denoted ''search_web'' (accepted_tools example_web_tools) = Some (example_tool ''search_web'' BackendWeb False)"
    by (simp add: example_web_tools_def accepted_tools_def accepted_def example_tool_def example_tool_names denoted_def named_def)
  then show "lookup_tool (register_all example_web_tools (empty_registry False)) ''search_web'' =
     Some (example_tool ''search_web'' BackendWeb False)"
    by (simp add: lookup_denoted [OF register_all_correct] example_tool_names)
  show "rg_requiredLocalSkill (register_all example_web_tools (empty_registry False)) = False"
    by (simp add: register_all_required empty_registry_def)
qed

lemma example_web_round:
  "\<exists>results d' st'.
     run_tool_round (register_all example_web_tools (empty_registry False)) example_scheduler (\<lambda>_. example_scheduler_tick)
       (\<lambda>i. i) (\<lambda>_. True) 1 1 False [web_call ''a'', web_call ''b'']
       ((newChatAgentTurnDriver [])\<lparr>td_toolCalls := 127\<rparr>, example_scheduler_state) = (RoundDone results, d', st') \<and>
     map tr_IsError results = [True, True]"
proof -
  let ?g = "register_all example_web_tools (empty_registry False)"
  have name: "tc_Name (web_call i) = ''search_web''" for i by (simp add: web_call_def)
  have result: "projectResult ?g r = r" if "tr_Name r = ''search_web''" for r
    using that by (simp add: projectResult_def example_web_registry example_tool_def identityChatToolResult_def)
  have call: "\<exists>events. executeRetrievalCall ?g x (su_Retrieval example_scheduler_tick) (web_call i) n st =
      ((Some \<lparr>tr_CallID = tc_ID (web_call i), tr_Name = ''search_web'', tr_Content = ''{}'', tr_IsError = True\<rparr>, False), events, st)"
    if "rx_WebProvider x = None" "rx_env x = example_knowledge_env" for x i n st
    using that
    by (simp add: executeRetrievalCall_def name example_tool_names example_web_registry validateRegisteredRetrievalToolCall_def
        example_tool_def example_scheduler_tick_def retrieval_done_def result retrievalToolFailureResult_def
        webSearchFailureToolResult_def example_knowledge_env_def example_web_env_def Let_def)
  show ?thesis
    using call [of "(sx_retrieval example_scheduler)\<lparr>rx_round := 1, rx_taskStep := 1, rx_memoryBatchValid := False\<rparr>"
        "''a''" 0 "sb_Retrieval example_scheduler_state"]
    by (auto simp: run_tool_round_def admitToolCalls_def newChatAgentTurnDriver_def maxChatAgentToolCalls_def Let_def
        executeToolBatch_def example_web_registry run_groups.simps next_group_def batch_step_def allows_parallel_def name
        example_tool_def serial_step_def executeSerialToolCall_def serial_retrieval_def serial_result_def stored_def
        memoryToolBatchValid_def memory_enabled_def example_scheduler_def result round_result_def resultAt_def chatToolFailureResult_def
        example_knowledge_env_def)
qed

theorem tool_round_answers_witness:
  "\<exists>results d' st'.
     run_tool_round (register_all example_web_tools (empty_registry False)) example_scheduler (\<lambda>_. example_scheduler_tick)
       (\<lambda>i. i) (\<lambda>_. False) 1 1 False [web_call ''a'', web_call ''b'']
       ((newChatAgentTurnDriver [])\<lparr>td_toolCalls := 127\<rparr>, example_scheduler_state) = (RoundDone results, d', st') \<and>
     map tr_CallID results = [''a'', ''b'']"
proof -
  let ?g = "register_all example_web_tools (empty_registry False)"
  let ?calls = "[web_call ''a'', web_call ''b'']"
  obtain results d' st' where run: "run_tool_round ?g example_scheduler (\<lambda>_. example_scheduler_tick) (\<lambda>i. i) (\<lambda>_. True)
      1 1 False ?calls ((newChatAgentTurnDriver [])\<lparr>td_toolCalls := 127\<rparr>, example_scheduler_state) = (RoundDone results, d', st')"
    using example_web_round by blast
  have "\<forall>r \<in> set example_web_tools. tg_ProjectForModel r = Some identityChatToolResult"
    by (simp add: example_web_tools_def example_tool_def)
  moreover have "?g = forTaskStep 1 ?g" by (simp add: forTaskStep_def)
  moreover have "mcp_ready (sx_mcp example_scheduler) (sb_MCP example_scheduler_state)"
    by (simp add: example_scheduler_def example_scheduler_state_def window_ok_def aliased_def no_run_def
        example_mcp_config_def normalizeConfig_def DefaultConfig_def)
  ultimately have "map tr_CallID results = map tc_ID ?calls \<and>
      run_tool_round ?g example_scheduler (\<lambda>_. example_scheduler_tick) (\<lambda>i. i) (\<lambda>_. False)
        1 1 False ?calls ((newChatAgentTurnDriver [])\<lparr>td_toolCalls := 127\<rparr>, example_scheduler_state) = (RoundDone results, d', st')"
    using tool_round_answers [OF _ _ _ run, of example_web_tools False "\<lambda>_. False"] by blast
  then show ?thesis by (simp add: web_call_def no_call_def)
qed

section \<open>One number for every resource call\<close>

text \<open>
  The batch of a resource call has only this call, so that every resource call of a round is
  announced under the same execution identifier.
\<close>

lemma resource_execution_id:
  assumes "executeResourceToolBatch env sv ticks [call] round runtime s = (ended, events, x)" "e \<in> set events"
  shows "rw_ExecutionID e = ''resource-'' @ itoa round @ ''-'' @ itoa 1"
  using assms
  by (auto simp: executeResourceToolBatch_def execute_resource_def Let_def split: prod.splits option.splits if_split_asm)

end
