(* ===== verification/Spec2Isabelle.thy ===== *)
theory Spec2Isabelle
  imports Run_Registry Rate_Limit Conversation_Tree Retrieval_Budget Turn_Compaction Turn_Guard Agent_Goal_Properties Agent_Approval Local_Limits Mcp_Tools Web_Properties Knowledge_Properties Tool_Rounds
begin

text \<open>Verification of the mm-chat backend.\<close>

end
